(* ===== verification/Prelude.thy ===== *)
theory Prelude imports Complex_Main "HOL-Library.AList" "HOL-Library.Log_Nat" "HOL-Library.List_Lexorder" "HOL-Library.Char_ord" "HOL-Library.Multiset" "HOL-Library.Sublist" begin

text \<open>
  Generic facts the component theories share: the collections their proofs pass to the
  simplifier, a sum type for Go's \<open>(value, error)\<close> results, and lemmas on lists and
  association lists (Go maps with an explicit iteration order).
\<close>

named_theorems go_defs \<open>small definitions of the models that proofs unfold on sight\<close>
named_theorems go_split \<open>case splits used by the component proofs\<close>

section \<open>Results\<close>

text \<open>
  A Go function returning \<open>(T, error)\<close> is modelled by \<open>go_error + 'a\<close>: \<open>Inl\<close> is a
  non-nil error (its message, or one of the sentinel errors the code compares against),
  \<open>Inr\<close> a nil error with the value.
\<close>

datatype go_error = Err string | ErrConflict | ErrNoRows | ErrNotFound

type_synonym 'a res = "go_error + 'a"

definition bind_res :: "'a res \<Rightarrow> ('a \<Rightarrow> 'b res) \<Rightarrow> 'b res" where
  "bind_res r f = (case r of Inl e \<Rightarrow> Inl e | Inr x \<Rightarrow> f x)"

lemma bind_res_simps [simp]:
  "bind_res (Inl e) f = Inl e" "bind_res (Inr x) f = f x"
  by (simp_all add: bind_res_def)

lemma bind_res_Inr [simp]:
  "bind_res r f = Inr y \<longleftrightarrow> (\<exists>x. r = Inr x \<and> f x = Inr y)"
  by (cases r) auto

definition is_ok :: "'a res \<Rightarrow> bool" where
  "is_ok r \<longleftrightarrow> (case r of Inl _ \<Rightarrow> False | Inr _ \<Rightarrow> True)"

lemma is_ok_simps [simp]: "\<not> is_ok (Inl e)" "is_ok (Inr x)"
  by (simp_all add: is_ok_def)

section \<open>Lists\<close>

text \<open>\<open>first_match P xs\<close> is the element a Go \<open>for range\<close> with an early return finds.\<close>

fun first_match :: "('a \<Rightarrow> bool) \<Rightarrow> 'a list \<Rightarrow> 'a option" where
  "first_match P [] = None"
| "first_match P (x # xs) = (if P x then Some x else first_match P xs)"

lemma first_match_Some: "first_match P xs = Some x \<Longrightarrow> P x \<and> x \<in> set xs"
  by (induction xs) (auto split: if_splits)

lemma first_match_None: "first_match P xs = None \<longleftrightarrow> (\<forall>x \<in> set xs. \<not> P x)"
  by (induction xs) auto

text \<open>Index of the first element with a property, as Go's linear scans compute it.\<close>

fun index_of :: "('a \<Rightarrow> bool) \<Rightarrow> 'a list \<Rightarrow> nat option" where
  "index_of P [] = None"
| "index_of P (x # xs) = (if P x then Some 0 else map_option Suc (index_of P xs))"

lemma index_of_Some: "index_of P xs = Some i \<Longrightarrow> i < length xs \<and> P (xs ! i) \<and> (\<forall>j < i. \<not> P (xs ! j))"
proof (induction xs arbitrary: i)
  case Nil
  then show ?case by simp
next
  case (Cons x xs)
  then show ?case
    by (auto split: if_splits simp: nth_Cons' less_Suc_eq_0_disj)
qed

lemma index_of_None: "index_of P xs = None \<longleftrightarrow> (\<forall>x \<in> set xs. \<not> P x)"
  by (induction xs) auto

text \<open>
  A stable insertion sort for \<open>sort.Slice\<close> with a strict comparison \<open>lt\<close>. Go's algorithm
  is not stable, so a model that sorts with it is faithful where \<open>lt\<close> decides every pair.
\<close>

fun ins_by :: "('a \<Rightarrow> 'a \<Rightarrow> bool) \<Rightarrow> 'a \<Rightarrow> 'a list \<Rightarrow> 'a list" where
  "ins_by lt x [] = [x]"
| "ins_by lt x (y # ys) = (if lt y x then y # ins_by lt x ys else x # y # ys)"

fun sort_by :: "('a \<Rightarrow> 'a \<Rightarrow> bool) \<Rightarrow> 'a list \<Rightarrow> 'a list" where
  "sort_by lt [] = []"
| "sort_by lt (x # xs) = ins_by lt x (sort_by lt xs)"

lemma mset_ins_by [simp]: "mset (ins_by lt x ys) = add_mset x (mset ys)"
  by (induction ys) auto

lemma mset_sort_by [simp]: "mset (sort_by lt xs) = mset xs"
  by (induction xs) auto

lemma set_sort_by [simp]: "set (sort_by lt xs) = set xs"
  by (metis mset_sort_by set_mset_mset)

lemma length_sort_by [simp]: "length (sort_by lt xs) = length xs"
  by (metis mset_sort_by size_mset)

lemma set_ins_by [simp]: "set (ins_by lt x ys) = insert x (set ys)"
  by (induction ys) auto

lemma sorted_wrt_ins_by:
  assumes "\<And>a b. lt a b \<Longrightarrow> \<not> lt b a" "\<And>a b c. \<not> lt b a \<Longrightarrow> \<not> lt c b \<Longrightarrow> \<not> lt c a"
    and "sorted_wrt (\<lambda>a b. \<not> lt b a) ys"
  shows "sorted_wrt (\<lambda>a b. \<not> lt b a) (ins_by lt x ys)"
  using assms(3)
proof (induction ys)
  case Nil
  then show ?case by simp
next
  case (Cons y ys)
  show ?case
  proof (cases "lt y x")
    case True
    then show ?thesis using Cons assms(1) by auto
  next
    case False
    have "\<not> lt z x" if "z \<in> set ys" for z
      using that Cons.prems False assms(2) [of y x z] by auto
    then show ?thesis using Cons.prems False by auto
  qed
qed

lemma sorted_wrt_sort_by:
  assumes "\<And>a b. lt a b \<Longrightarrow> \<not> lt b a" "\<And>a b c. \<not> lt b a \<Longrightarrow> \<not> lt c b \<Longrightarrow> \<not> lt c a"
  shows "sorted_wrt (\<lambda>a b. \<not> lt b a) (sort_by lt xs)"
  by (induction xs) (auto intro: sorted_wrt_ins_by [OF assms])

lemma sorted_sort_by_key:
  fixes k :: "'a \<Rightarrow> 'b::linorder"
  shows "sorted (map k (sort_by (\<lambda>a b. k a < k b) xs))"
proof -
  have "sorted_wrt (\<lambda>a b. \<not> k b < k a) (sort_by (\<lambda>a b. k a < k b) xs)"
    by (rule sorted_wrt_sort_by) auto
  then show ?thesis by (simp add: sorted_wrt_map not_less)
qed

text \<open>The loops that drop empty and repeated values and keep the first of each.\<close>

fun keep_new :: "string list \<Rightarrow> string list \<Rightarrow> string list" where
  "keep_new seen [] = []"
| "keep_new seen (v # vs) = (if v \<noteq> [] \<and> v \<notin> set seen then v # keep_new (v # seen) vs else keep_new seen vs)"

lemma keep_new_distinct: "distinct (keep_new seen vs) \<and> set (keep_new seen vs) \<inter> set seen = {} \<and> [] \<notin> set (keep_new seen vs)"
proof (induction vs arbitrary: seen)
  case Nil
  then show ?case by simp
next
  case (Cons v vs)
  show ?case using Cons [of seen] Cons [of "v # seen"] by auto
qed

lemma set_keep_new: "set (keep_new seen vs) = {v \<in> set vs. v \<noteq> [] \<and> v \<notin> set seen}"
  by (induction vs arbitrary: seen) auto

section \<open>Integers\<close>

text \<open>Go's integer division and remainder truncate towards zero.\<close>

definition quot :: "int \<Rightarrow> int \<Rightarrow> int" where
  "quot a b = sgn a * sgn b * (\<bar>a\<bar> div \<bar>b\<bar>)"

definition rem :: "int \<Rightarrow> int \<Rightarrow> int" where
  "rem a b = a - quot a b * b"

lemma quot_nonneg: "0 \<le> a \<Longrightarrow> 0 < b \<Longrightarrow> quot a b = a div b"
  by (cases "a = 0") (simp_all add: quot_def)

lemma rem_nonneg: "0 \<le> a \<Longrightarrow> 0 < b \<Longrightarrow> rem a b = a mod b"
  by (simp add: rem_def quot_nonneg minus_div_mult_eq_mod)

text \<open>Go's \<open>int\<close> is 64 bits wide and wraps around.\<close>

definition wrap64 :: "int \<Rightarrow> int" where
  "wrap64 i = (i + 2 ^ 63) mod 2 ^ 64 - 2 ^ 63"

lemma wrap64_id: "- (2 ^ 63) \<le> i \<Longrightarrow> i < 2 ^ 63 \<Longrightarrow> wrap64 i = i"
  by (simp add: wrap64_def)

lemma wrap64_over:
  assumes "2 ^ 63 \<le> i" "i < 2 ^ 64"
  shows "wrap64 i < 0"
proof -
  have "(i + 2 ^ 63) mod 2 ^ 64 = (i - 2 ^ 63) mod 2 ^ 64"
    using mod_add_self2 [of "i - 2 ^ 63" "2 ^ 64 :: int"] by (simp add: add.commute)
  also have "\<dots> = i - 2 ^ 63" using assms by (simp add: mod_pos_pos_trivial)
  finally show ?thesis using assms by (simp add: wrap64_def)
qed

text \<open>Decimal text of an integer, as \<open>strconv.Itoa\<close> and \<open>%d\<close> print it.\<close>

function int_digits :: "int \<Rightarrow> string" where
  "int_digits n = (if n < 10 then [char_of (48 + n)] else int_digits (n div 10) @ [char_of (48 + n mod 10)])"
  by pat_completeness auto
termination
  by (relation "measure nat") auto

declare int_digits.simps [simp del]

definition itoa :: "int \<Rightarrow> string" where
  "itoa i = (if i < 0 then ''-'' @ int_digits (- i) else int_digits i)"

text \<open>Zero-padded decimal text of a given width, as \<open>%04d\<close> prints a non-negative number.\<close>

fun pad_digits :: "nat \<Rightarrow> int \<Rightarrow> string" where
  "pad_digits 0 n = []"
| "pad_digits (Suc w) n = pad_digits w (n div 10) @ [char_of (48 + n mod 10)]"

lemma length_pad_digits [simp]: "length (pad_digits w n) = w"
  by (induction w arbitrary: n) auto

section \<open>Transition systems\<close>

text \<open>
  A component whose operations are steps on a state: what every step keeps holds in every
  reachable state, and what every step leaves alone stays.
\<close>

locale transition_system =
  fixes step :: "'s \<Rightarrow> 's \<Rightarrow> bool" and inv :: "'s \<Rightarrow> bool"
  assumes step_inv: "inv s \<Longrightarrow> step s t \<Longrightarrow> inv t"
begin

lemma reach_inv: "step\<^sup>*\<^sup>* s t \<Longrightarrow> inv s \<Longrightarrow> inv t"
  by (induction rule: rtranclp_induct) (auto intro: step_inv)

lemma reach_stable:
  assumes "\<And>s t. inv s \<Longrightarrow> P s \<Longrightarrow> step s t \<Longrightarrow> P t"
  shows "step\<^sup>*\<^sup>* s t \<Longrightarrow> inv s \<Longrightarrow> P s \<Longrightarrow> P t"
  by (induction rule: rtranclp_induct) (auto intro: assms reach_inv)

end

end
