(* ===== verification/GoText.thy ===== *)
theory GoText imports Prelude begin

text \<open>
  Go strings as byte lists (\<open>string\<close>) and the functions of package \<open>strings\<close> and
  \<open>strconv\<close> the code calls. \<open>strings.TrimSpace\<close> removes every Unicode white space in its
  UTF-8 form; the case conversions act on ASCII letters and leave other bytes alone, so
  the models are exact on ASCII text, which is what the code's identifiers are.
\<close>

definition code_of :: "char \<Rightarrow> int" where
  "code_of c = of_char c"

section \<open>White space\<close>

definition spaces :: "string list" where
  "spaces = [[CHR 0x20], [CHR 0x09], [CHR 0x0A], [CHR 0x0B], [CHR 0x0C], [CHR 0x0D],
     [CHR 0xC2, CHR 0x85], [CHR 0xC2, CHR 0xA0], [CHR 0xE1, CHR 0x9A, CHR 0x80],
     [CHR 0xE2, CHR 0x80, CHR 0x80], [CHR 0xE2, CHR 0x80, CHR 0x81], [CHR 0xE2, CHR 0x80, CHR 0x82],
     [CHR 0xE2, CHR 0x80, CHR 0x83], [CHR 0xE2, CHR 0x80, CHR 0x84], [CHR 0xE2, CHR 0x80, CHR 0x85],
     [CHR 0xE2, CHR 0x80, CHR 0x86], [CHR 0xE2, CHR 0x80, CHR 0x87], [CHR 0xE2, CHR 0x80, CHR 0x88],
     [CHR 0xE2, CHR 0x80, CHR 0x89], [CHR 0xE2, CHR 0x80, CHR 0x8A], [CHR 0xE2, CHR 0x80, CHR 0xA8],
     [CHR 0xE2, CHR 0x80, CHR 0xA9], [CHR 0xE2, CHR 0x80, CHR 0xAF], [CHR 0xE2, CHR 0x81, CHR 0x9F],
     [CHR 0xE3, CHR 0x80, CHR 0x80]]"

function drop_spaces :: "string list \<Rightarrow> string \<Rightarrow> string" where
  "drop_spaces sps s =
     (case first_match (\<lambda>sp. sp \<noteq> [] \<and> prefix sp s) sps of
        None \<Rightarrow> s
      | Some sp \<Rightarrow> drop_spaces sps (drop (length sp) s))"
  by pat_completeness auto
termination
proof (relation "measure (\<lambda>(sps, s). length s)", goal_cases)
  case (2 sps s sp)
  then have "sp \<noteq> [] \<and> prefix sp s" using first_match_Some by fastforce
  then show ?case by (auto simp: prefix_def)
qed simp

declare drop_spaces.simps [simp del]

definition trim_left :: "string \<Rightarrow> string" where
  "trim_left s = drop_spaces spaces s"

definition trim_right :: "string \<Rightarrow> string" where
  "trim_right s = rev (drop_spaces (map rev spaces) (rev s))"

definition trim_space :: "string \<Rightarrow> string" where
  "trim_space s = trim_right (trim_left s)"

definition no_space_prefix :: "string list \<Rightarrow> string \<Rightarrow> bool" where
  "no_space_prefix sps s \<longleftrightarrow> first_match (\<lambda>sp. sp \<noteq> [] \<and> prefix sp s) sps = None"

lemma drop_spaces_id: "no_space_prefix sps s \<Longrightarrow> drop_spaces sps s = s"
  by (subst drop_spaces.simps) (simp add: no_space_prefix_def)

lemma drop_spaces_clean: "no_space_prefix sps (drop_spaces sps s)"
proof (induction sps s rule: drop_spaces.induct)
  case (1 sps s)
  show ?case
  proof (cases "first_match (\<lambda>sp. sp \<noteq> [] \<and> prefix sp s) sps")
    case None
    then show ?thesis by (subst drop_spaces.simps) (auto simp: no_space_prefix_def)
  next
    case (Some sp)
    then show ?thesis using 1 [OF Some] by (subst drop_spaces.simps) simp
  qed
qed

lemma drop_spaces_suffix: "suffix (drop_spaces sps s) s"
proof (induction sps s rule: drop_spaces.induct)
  case (1 sps s)
  show ?case
  proof (cases "first_match (\<lambda>sp. sp \<noteq> [] \<and> prefix sp s) sps")
    case None
    then show ?thesis by (subst drop_spaces.simps) simp
  next
    case (Some sp)
    then show ?thesis using 1 [OF Some] suffix_drop [of "length sp" s] suffix_order.trans
      by (subst drop_spaces.simps) auto
  qed
qed

lemma no_space_prefix_mono: "no_space_prefix sps s \<Longrightarrow> prefix t s \<Longrightarrow> no_space_prefix sps t"
  unfolding no_space_prefix_def first_match_None using prefix_order.trans by blast

lemma trim_right_prefix: "prefix (trim_right s) s"
  using drop_spaces_suffix [of "map rev spaces" "rev s"]
  by (simp add: trim_right_def suffix_to_prefix)

lemma trim_space_idem [simp]: "trim_space (trim_space s) = trim_space s"
proof -
  let ?t = "trim_left s"
  have l: "no_space_prefix spaces (trim_right ?t)"
    using drop_spaces_clean trim_right_prefix no_space_prefix_mono unfolding trim_left_def by blast
  have r: "trim_right (trim_right ?t) = trim_right ?t"
    unfolding trim_right_def by (simp add: drop_spaces_id drop_spaces_clean)
  show ?thesis unfolding trim_space_def by (simp add: trim_left_def [of "trim_right _"] drop_spaces_id l r)
qed

lemma trim_space_Nil [simp]: "trim_space [] = []"
proof -
  have "drop_spaces sps [] = []" for sps
    using drop_spaces_suffix [of sps "[]"] by simp
  then show ?thesis by (simp add: trim_space_def trim_left_def trim_right_def)
qed

abbreviation blank :: "string \<Rightarrow> bool" where
  "blank s \<equiv> trim_space s = []"

section \<open>Case\<close>

definition upper_char :: "char \<Rightarrow> char" where
  "upper_char c = (if 97 \<le> code_of c \<and> code_of c \<le> 122 then char_of (code_of c - 32) else c)"

definition lower_char :: "char \<Rightarrow> char" where
  "lower_char c = (if 65 \<le> code_of c \<and> code_of c \<le> 90 then char_of (code_of c + 32) else c)"

definition to_upper :: "string \<Rightarrow> string" where
  "to_upper = map upper_char"

definition to_lower :: "string \<Rightarrow> string" where
  "to_lower = map lower_char"

lemma code_of_char_of: "0 \<le> n \<Longrightarrow> n < 256 \<Longrightarrow> code_of (char_of n) = n"
  by (simp add: code_of_def)

lemma upper_char_idem [simp]: "upper_char (upper_char c) = upper_char c"
  by (auto simp: upper_char_def code_of_char_of)

lemma lower_char_idem [simp]: "lower_char (lower_char c) = lower_char c"
  by (auto simp: lower_char_def code_of_char_of)

lemma to_upper_idem [simp]: "to_upper (to_upper s) = to_upper s"
  by (simp add: to_upper_def)

lemma to_lower_idem [simp]: "to_lower (to_lower s) = to_lower s"
  by (simp add: to_lower_def)

lemma to_upper_Nil [simp]: "to_upper s = [] \<longleftrightarrow> s = []"
  and to_lower_Nil [simp]: "to_lower s = [] \<longleftrightarrow> s = []"
  by (simp_all add: to_upper_def to_lower_def)

text \<open>
  A case conversion neither makes nor removes white space, so it commutes with trimming.
\<close>

definition keeps_chars :: "(char \<Rightarrow> char) \<Rightarrow> string \<Rightarrow> bool" where
  "keeps_chars f s \<longleftrightarrow> (\<forall>c \<in> set s. \<forall>x. f x = c \<longleftrightarrow> x = c)"

lemma prefix_map_keeps: "keeps_chars f sp \<Longrightarrow> prefix sp (map f s) \<longleftrightarrow> prefix sp s"
proof (induction sp arbitrary: s)
  case Nil
  then show ?case by simp
next
  case (Cons c sp)
  have c: "(c = f x) = (c = x)" for x using Cons.prems unfolding keeps_chars_def by simp metis
  have "keeps_chars f sp" using Cons.prems by (simp add: keeps_chars_def)
  then show ?case using Cons.IH c by (cases s) simp_all
qed

lemma drop_spaces_map:
  assumes "\<forall>sp \<in> set sps. keeps_chars f sp"
  shows "drop_spaces sps (map f s) = map f (drop_spaces sps s)"
  using assms
proof (induction sps s rule: drop_spaces.induct)
  case (1 sps s)
  have e: "first_match (\<lambda>sp. sp \<noteq> [] \<and> prefix sp (map f s)) sps = first_match (\<lambda>sp. sp \<noteq> [] \<and> prefix sp s) sps"
    using 1(2) by (induction sps) (simp_all add: prefix_map_keeps)
  show ?case
  proof (cases "first_match (\<lambda>sp. sp \<noteq> [] \<and> prefix sp s) sps")
    case None
    then show ?thesis by (simp add: drop_spaces.simps [of sps s] drop_spaces.simps [of sps "map f s"] e)
  next
    case (Some sp)
    then show ?thesis using 1
      by (simp add: drop_spaces.simps [of sps s] drop_spaces.simps [of sps "map f s"] e drop_map)
  qed
qed

lemma keeps_upper_iff: "code_of c < 65 \<or> 122 < code_of c \<Longrightarrow> upper_char x = c \<longleftrightarrow> x = c"
  and keeps_lower_iff: "code_of c < 65 \<or> 122 < code_of c \<Longrightarrow> lower_char x = c \<longleftrightarrow> x = c"
  by (auto simp: upper_char_def lower_char_def code_of_char_of)

lemma spaces_codes: "\<forall>sp \<in> set spaces. \<forall>c \<in> set sp. code_of c < 65 \<or> 122 < code_of c"
  by (simp add: spaces_def code_of_def)

lemma keeps_upper: "sp \<in> set spaces \<Longrightarrow> keeps_chars upper_char sp"
  unfolding keeps_chars_def by (metis spaces_codes keeps_upper_iff)

lemma keeps_lower: "sp \<in> set spaces \<Longrightarrow> keeps_chars lower_char sp"
  unfolding keeps_chars_def by (metis spaces_codes keeps_lower_iff)

lemma trim_space_map:
  assumes "\<forall>sp \<in> set spaces. keeps_chars f sp"
  shows "trim_space (map f s) = map f (trim_space s)"
proof -
  have "\<forall>sp \<in> set (map rev spaces). keeps_chars f sp" using assms by (auto simp: keeps_chars_def)
  then show ?thesis
    using drop_spaces_map [OF assms] drop_spaces_map [of "map rev spaces" f]
    by (simp add: trim_space_def trim_left_def trim_right_def rev_map)
qed

lemma trim_to_upper [simp]: "trim_space (to_upper s) = to_upper (trim_space s)"
  and trim_to_lower [simp]: "trim_space (to_lower s) = to_lower (trim_space s)"
  by (simp_all add: to_upper_def to_lower_def trim_space_map keeps_upper keeps_lower)

text \<open>Text whose first and last bytes are visible ASCII characters is its own trimming.\<close>

definition visible :: "char \<Rightarrow> bool" where
  "visible c \<longleftrightarrow> 33 \<le> code_of c \<and> code_of c \<le> 126"

lemma spaces_not_visible: "\<forall>sp \<in> set spaces. \<forall>c \<in> set sp. \<not> visible c"
  by (simp add: spaces_def code_of_def visible_def)

lemma drop_spaces_visible:
  assumes "s \<noteq> []" "visible (hd s)" "\<forall>sp \<in> set sps. \<forall>c \<in> set sp. \<not> visible c"
  shows "drop_spaces sps s = s"
proof (rule drop_spaces_id)
  have "\<not> prefix sp s" if "sp \<in> set sps" "sp \<noteq> []" for sp
  proof
    assume p: "prefix sp s"
    then have "hd sp = hd s" "hd sp \<in> set sp" using \<open>sp \<noteq> []\<close> by (cases sp; cases s; simp)+
    then show False using that(1) assms(2,3) by metis
  qed
  then show "no_space_prefix sps s" unfolding no_space_prefix_def first_match_None by blast
qed

lemma trim_visible: "s \<noteq> [] \<Longrightarrow> visible (hd s) \<Longrightarrow> visible (last s) \<Longrightarrow> trim_space s = s"
  using spaces_not_visible
  by (simp add: trim_space_def trim_left_def trim_right_def drop_spaces_visible hd_rev)

lemma drop_spaces_keeps_visible:
  assumes "\<forall>sp \<in> set sps. \<forall>c \<in> set sp. \<not> visible c" "visible c" "c \<in> set s"
  shows "c \<in> set (drop_spaces sps s)"
  using assms
proof (induction sps s rule: drop_spaces.induct)
  case (1 sps s)
  show ?case
  proof (cases "first_match (\<lambda>sp. sp \<noteq> [] \<and> prefix sp s) sps")
    case None
    then show ?thesis using 1 by (subst drop_spaces.simps) simp
  next
    case (Some sp)
    then obtain t where "s = sp @ t" "sp \<in> set sps" using first_match_Some [OF Some] by (auto elim: prefixE)
    then show ?thesis using 1(1) [OF Some] 1(2-) Some by (subst drop_spaces.simps) auto
  qed
qed

lemma visible_not_blank: "c \<in> set s \<Longrightarrow> visible c \<Longrightarrow> \<not> blank s"
  using drop_spaces_keeps_visible [OF spaces_not_visible, of c s]
    drop_spaces_keeps_visible [of "map rev spaces" c "rev (drop_spaces spaces s)"] spaces_not_visible
  by (auto simp: trim_space_def trim_left_def trim_right_def)

section \<open>Joining and splitting\<close>

fun join :: "string \<Rightarrow> string list \<Rightarrow> string" where
  "join sep [] = []"
| "join sep [s] = s"
| "join sep (s # t # ss) = s @ sep @ join sep (t # ss)"

fun split_on :: "char \<Rightarrow> string \<Rightarrow> string list" where
  "split_on c [] = [[]]"
| "split_on c (x # xs) =
     (case split_on c xs of
        [] \<Rightarrow> []
      | p # ps \<Rightarrow> if x = c then [] # p # ps else (x # p) # ps)"

lemma split_on_ne [simp]: "split_on c s \<noteq> []"
  by (induction s) (auto split: list.splits)

lemma join_split_on: "join [c] (split_on c s) = s"
proof (induction s)
  case Nil
  then show ?case by simp
next
  case (Cons x xs)
  obtain p ps where "split_on c xs = p # ps" by (cases "split_on c xs") auto
  then show ?case using Cons by (cases ps) auto
qed

text \<open>The first candidate that is not blank, or the empty string.\<close>

fun first_non_blank :: "string list \<Rightarrow> string" where
  "first_non_blank [] = []"
| "first_non_blank (s # ss) = (if blank s then first_non_blank ss else trim_space s)"

lemma first_non_blank_trimmed: "trim_space (first_non_blank ss) = first_non_blank ss"
  by (induction ss) auto

section \<open>Decimal integers\<close>

definition is_digit :: "char \<Rightarrow> bool" where
  "is_digit c \<longleftrightarrow> 48 \<le> code_of c \<and> code_of c \<le> 57"

definition dig :: "char \<Rightarrow> int" where
  "dig c = code_of c - 48"

definition digits_val :: "string \<Rightarrow> int" where
  "digits_val s = foldl (\<lambda>n c. 10 * n + dig c) 0 s"

text \<open>\<open>strconv.Atoi\<close>: an optional sign, at least one digit, in the range of \<open>int64\<close>.\<close>

definition atoi :: "string \<Rightarrow> int option" where
  "atoi s =
     (let (neg, ds) = (case s of [] \<Rightarrow> (False, []) | c # cs \<Rightarrow>
            if c = CHR ''-'' then (True, cs) else if c = CHR ''+'' then (False, cs) else (False, s));
          v = (if neg then - digits_val ds else digits_val ds)
      in if ds \<noteq> [] \<and> list_all is_digit ds \<and> - (2 ^ 63) \<le> v \<and> v < 2 ^ 63 then Some v else None)"

lemma digits_val_acc:
  "foldl (\<lambda>n c. 10 * n + dig c) a t = a * 10 ^ length t + foldl (\<lambda>n c. 10 * n + dig c) 0 t"
proof (induction t arbitrary: a)
  case Nil
  then show ?case by simp
next
  case (Cons c t)
  show ?case using Cons [of "10 * a + dig c"] Cons [of "dig c"] by (simp add: algebra_simps)
qed

lemma digits_val_append: "digits_val (s @ t) = digits_val s * 10 ^ length t + digits_val t"
  by (simp only: digits_val_def foldl_append digits_val_acc [of "foldl _ 0 s" t])

lemma digits_val_pad: "digits_val (pad_digits w n) = n mod 10 ^ w"
proof (induction w arbitrary: n)
  case 0
  then show ?case by (simp add: digits_val_def)
next
  case (Suc w)
  have "n mod 10 ^ Suc w = n div 10 mod 10 ^ w * 10 + n mod 10"
    using zmod_zmult2_eq [of "10 ^ w" n 10] by simp
  then show ?case using Suc by (simp add: digits_val_append) (simp add: digits_val_def dig_def code_of_char_of)
qed

lemma pad_digits_inj:
  "pad_digits w m = pad_digits w n \<Longrightarrow> 0 \<le> m \<Longrightarrow> m < 10 ^ w \<Longrightarrow> 0 \<le> n \<Longrightarrow> n < 10 ^ w \<Longrightarrow> m = n"
  by (metis digits_val_pad mod_pos_pos_trivial)

lemma digits_val_int_digits: "0 \<le> n \<Longrightarrow> digits_val (int_digits n) = n"
proof (induction n rule: int_digits.induct)
  case (1 n)
  show ?case
  proof (cases "n < 10")
    case True
    then show ?thesis using 1(2) by (subst int_digits.simps) (simp add: digits_val_def dig_def code_of_char_of)
  next
    case False
    then show ?thesis using 1
      by (subst int_digits.simps) (simp add: digits_val_append, simp add: digits_val_def dig_def code_of_char_of)
  qed
qed

lemma int_digits_inj: "int_digits m = int_digits n \<Longrightarrow> 0 \<le> m \<Longrightarrow> 0 \<le> n \<Longrightarrow> m = n"
  by (metis digits_val_int_digits)

end
