(* ===== verification/GoFloat.thy ===== *)
theory GoFloat imports Prelude begin

text \<open>
  Go's \<open>float64\<close>: IEEE binary64 with round-to-nearest-even. A value is an exact rational,
  a negative zero, an infinity or NaN; an operation computes the exact rational result and
  rounds it once with \<open>rnd\<close>. Everything is executable over \<open>rat\<close>.
\<close>

section \<open>Powers of two and binary exponents\<close>

definition pow2 :: "int \<Rightarrow> rat" where
  "pow2 e = (if 0 \<le> e then 2 ^ nat e else 1 / 2 ^ nat (- e))"

lemma pow2_powi: "pow2 e = 2 powi e"
  by (simp add: pow2_def power_int_def field_simps)

lemma pow2_pos [simp]: "0 < pow2 e"
  by (simp add: pow2_def)

lemma pow2_ge [simp]: "0 \<le> pow2 e"
  by (simp add: less_imp_le)

lemma pow2_nz [simp]: "pow2 e \<noteq> 0"
  using pow2_pos [of e] by linarith

lemma pow2_add: "pow2 (a + b) = pow2 a * pow2 b"
  by (simp add: pow2_powi power_int_add)

lemma pow2_diff: "pow2 (a - b) = pow2 a / pow2 b"
  by (simp add: pow2_powi power_int_diff)

lemma pow2_strict: "a < b \<Longrightarrow> pow2 a < pow2 b"
  unfolding pow2_powi by (rule power_int_strict_increasing) simp_all

lemma pow2_less: "pow2 a < pow2 b \<longleftrightarrow> a < b"
  using pow2_strict [of a b] pow2_strict [of b a] by (cases a b rule: linorder_cases) auto

lemma pow2_le: "pow2 a \<le> pow2 b \<longleftrightarrow> a \<le> b"
  by (simp add: pow2_less not_less [symmetric])

lemma pow2_nat: "pow2 (int n) = 2 ^ n"
  by (simp add: pow2_def)

lemma pow2_int: "0 \<le> e \<Longrightarrow> pow2 e = of_int (2 ^ nat e)"
  by (simp add: pow2_def)

lemma nat_between:
  assumes "2 ^ (a - 1) \<le> m \<and> m < 2 ^ a" "1 \<le> a"
  shows "pow2 (int a - 1) \<le> of_nat m \<and> of_nat m < pow2 (int a)"
proof -
  have e: "int a - 1 = int (a - 1)" using assms(2) by simp
  have "(of_nat (2 ^ (a - 1)) :: rat) \<le> of_nat m" "(of_nat m :: rat) < of_nat (2 ^ a)"
    using assms(1) by (simp_all only: of_nat_le_iff of_nat_less_iff)
  then show ?thesis unfolding e pow2_nat by simp
qed

definition expo :: "rat \<Rightarrow> int" where
  "expo q = (let (n, d) = quotient_of q;
                 e = bitlen n - bitlen d
             in if pow2 e \<le> q then e else e - 1)"

lemma expo_bounds:
  assumes "0 < q"
  shows "pow2 (expo q) \<le> q" and "q < pow2 (expo q + 1)"
proof -
  obtain n d where nd: "quotient_of q = (n, d)" by (cases "quotient_of q")
  have d: "0 < d" using quotient_of_denom_pos [OF nd] .
  have q: "q = of_int n / of_int d" using quotient_of_div [OF nd] .
  have n: "0 < n" using assms d unfolding q by (simp add: zero_less_divide_iff)
  define a where "a = floorlog 2 (nat n)"
  define b where "b = floorlog 2 (nat d)"
  have na: "2 ^ (a - 1) \<le> nat n \<and> nat n < 2 ^ a"
    unfolding a_def using floorlog_bounds [of "nat n" 2] n by simp
  have db: "2 ^ (b - 1) \<le> nat d \<and> nat d < 2 ^ b"
    unfolding b_def using floorlog_bounds [of "nat d" 2] d by simp
  have a1: "1 \<le> a" using na n by (cases a) auto
  have b1: "1 \<le> b" using db d by (cases b) auto
  have nr: "pow2 (int a - 1) \<le> of_int n \<and> of_int n < pow2 (int a)"
    using nat_between [OF na a1] n by simp
  have dr: "pow2 (int b - 1) \<le> of_int d \<and> of_int d < pow2 (int b)"
    using nat_between [OF db b1] d by simp
  let ?e = "int a - int b"
  have dpos: "(0::rat) < of_int d" using d by simp
  have up: "q < pow2 (?e + 1)"
  proof -
    have "of_int n < pow2 (int a)" using nr by simp
    also have "\<dots> = pow2 (?e + 1) * pow2 (int b - 1)" by (simp add: pow2_add [symmetric])
    also have "\<dots> \<le> pow2 (?e + 1) * of_int d" using dr by (simp add: mult_left_mono)
    finally show ?thesis unfolding q using dpos by (simp add: pos_divide_less_eq)
  qed
  have lo: "pow2 (?e - 1) \<le> q"
  proof -
    have "pow2 (?e - 1) * of_int d \<le> pow2 (?e - 1) * pow2 (int b)" using dr by (simp add: mult_left_mono)
    also have "\<dots> = pow2 (int a - 1)" by (simp add: pow2_add [symmetric])
    also have "\<dots> \<le> of_int n" using nr by simp
    finally show ?thesis unfolding q using dpos by (simp add: pos_le_divide_eq)
  qed
  have ex: "expo q = (if pow2 ?e \<le> q then ?e else ?e - 1)"
    by (simp add: expo_def nd a_def b_def bitlen_def)
  show "pow2 (expo q) \<le> q" using lo by (simp add: ex)
  show "q < pow2 (expo q + 1)" using up by (simp add: ex)
qed

lemma expo_mono:
  assumes "0 < p" "p \<le> q"
  shows "expo p \<le> expo q"
proof (rule ccontr)
  assume "\<not> expo p \<le> expo q"
  then have "pow2 (expo q + 1) \<le> pow2 (expo p)" by (simp add: pow2_le)
  then show False using expo_bounds [of p] expo_bounds [of q] assms by linarith
qed

lemma expo_unique:
  assumes "pow2 k \<le> q" "q < pow2 (k + 1)"
  shows "expo q = k"
proof -
  have q: "0 < q" using assms(1) pow2_pos [of k] by linarith
  have "pow2 k < pow2 (expo q + 1)" "pow2 (expo q) < pow2 (k + 1)"
    using expo_bounds [OF q] assms by linarith+
  then show ?thesis by (simp add: pow2_less)
qed

section \<open>Rounding\<close>

text \<open>Round a rational to the nearest integer, ties to the even one.\<close>

definition rne :: "rat \<Rightarrow> int" where
  "rne q = (let f = \<lfloor>q\<rfloor>; r = q - of_int f in
     if r < 1 / 2 then f else if r > 1 / 2 then f + 1 else if even f then f else f + 1)"

lemma rne_floor: "\<lfloor>q\<rfloor> \<le> rne q" "rne q \<le> \<lfloor>q\<rfloor> + 1"
  by (simp_all add: rne_def Let_def)

lemma rne_of_int [simp]: "rne (of_int k) = k"
  by (simp add: rne_def)

lemma rne_mono:
  assumes "p \<le> q" shows "rne p \<le> rne q"
proof (cases "\<lfloor>p\<rfloor> = \<lfloor>q\<rfloor>")
  case True
  then show ?thesis using assms by (auto simp: rne_def Let_def)
next
  case False
  then have "\<lfloor>p\<rfloor> + 1 \<le> \<lfloor>q\<rfloor>" using floor_mono [OF assms] by linarith
  then show ?thesis using rne_floor(2) [of p] rne_floor(1) [of q] by linarith
qed

lemma rne_nonneg: "0 \<le> q \<Longrightarrow> 0 \<le> rne q"
  using rne_mono [of 0 q] rne_of_int [of 0] by simp

text \<open>
  \<open>rmag q\<close> rounds a non-negative rational to the binary64 grid: 53 significant bits,
  never finer than \<open>2 ^ -1074\<close> (the subnormals).
\<close>

definition ulp_exp :: "rat \<Rightarrow> int" where
  "ulp_exp q = max (expo q - 52) (- 1074)"

definition rmag :: "rat \<Rightarrow> rat" where
  "rmag q = (if q = 0 then 0 else of_int (rne (q / pow2 (ulp_exp q))) * pow2 (ulp_exp q))"

lemma rmag_nonneg: "0 \<le> q \<Longrightarrow> 0 \<le> rmag q"
  by (simp add: rmag_def rne_nonneg divide_nonneg_nonneg)

lemma rmag_mono:
  assumes "0 \<le> p" "p \<le> q"
  shows "rmag p \<le> rmag q"
proof (cases "p = 0")
  case True
  then show ?thesis using assms rmag_nonneg [of q] by (simp add: rmag_def)
next
  case False
  then have p: "0 < p" and q: "0 < q" using assms by auto
  have ee: "expo p \<le> expo q" using expo_mono p assms(2) by blast
  show ?thesis
  proof (cases "ulp_exp p = ulp_exp q")
    case True
    have "rne (p / pow2 (ulp_exp q)) \<le> rne (q / pow2 (ulp_exp q))"
      using assms(2) by (intro rne_mono divide_right_mono) (simp_all add: less_imp_le)
    then show ?thesis using p q True by (simp add: rmag_def)
  next
    case False
    then have uq: "ulp_exp q = expo q - 52" and pq: "expo p + 1 \<le> expo q" and up: "ulp_exp p \<le> expo q - 53"
      using ee by (auto simp: ulp_exp_def max_def split: if_splits)
    have "p \<le> pow2 (expo q)"
      using expo_bounds(2) [OF p] pq pow2_le [of "expo p + 1" "expo q"] by linarith
    then have "p / pow2 (ulp_exp p) \<le> pow2 (expo q - ulp_exp p)"
      by (simp add: pow2_diff divide_right_mono less_imp_le)
    also have "\<dots> = of_int (2 ^ nat (expo q - ulp_exp p))"
      using up by (intro pow2_int) simp
    finally have "rne (p / pow2 (ulp_exp p)) \<le> 2 ^ nat (expo q - ulp_exp p)"
      using rne_mono rne_of_int by metis
    then have "of_int (rne (p / pow2 (ulp_exp p))) \<le> (of_int (2 ^ nat (expo q - ulp_exp p)) :: rat)"
      by (simp only: of_int_le_iff)
    then have "of_int (rne (p / pow2 (ulp_exp p))) \<le> pow2 (expo q - ulp_exp p)"
      using up by (simp add: pow2_int)
    then have "rmag p \<le> pow2 (expo q - ulp_exp p) * pow2 (ulp_exp p)"
      using p by (simp add: rmag_def mult_right_mono)
    then have a: "rmag p \<le> pow2 (expo q)" by (simp add: pow2_add [symmetric])
    have "pow2 52 \<le> q / pow2 (ulp_exp q)"
      using expo_bounds(1) [OF q] by (simp add: uq pow2_diff pos_le_divide_eq)
    then have "of_int (2 ^ 52) \<le> q / pow2 (ulp_exp q)" by (simp add: pow2_def)
    then have "2 ^ 52 \<le> rne (q / pow2 (ulp_exp q))"
      using rne_mono rne_of_int by metis
    then have "(of_int (2 ^ 52) :: rat) \<le> of_int (rne (q / pow2 (ulp_exp q)))"
      by (simp only: of_int_le_iff)
    then have "pow2 52 \<le> of_int (rne (q / pow2 (ulp_exp q)))"
      by (simp add: pow2_def)
    then have "pow2 52 * pow2 (ulp_exp q) \<le> rmag q"
      using q by (simp add: rmag_def mult_right_mono)
    then have "pow2 (expo q) \<le> rmag q" by (simp add: pow2_add [symmetric] uq)
    with a show ?thesis by linarith
  qed
qed


lemma rmag_grid_lt:
  assumes "q = of_int m * pow2 e" "0 \<le> m" "m < 2 ^ 53" "- 1074 \<le> e"
  shows "rmag q = q"
proof (cases "m = 0")
  case True
  then show ?thesis using assms(1) by (simp add: rmag_def)
next
  case False
  then have m: "0 < m" using assms(2) by simp
  then have q: "0 < q" using assms(1) by simp
  have "(of_int m :: rat) < of_int (2 ^ 53)" using assms(3) by (simp only: of_int_less_iff)
  then have "of_int m < pow2 53" by (simp add: pow2_def)
  then have "q < pow2 53 * pow2 e" using assms(1) by simp
  then have "q < pow2 (e + 53)" by (simp add: pow2_add mult.commute)
  then have "pow2 (expo q) < pow2 (e + 53)" using expo_bounds(1) [OF q] by linarith
  then have u: "ulp_exp q \<le> e" using assms(4) by (simp add: pow2_less ulp_exp_def)
  have "q / pow2 (ulp_exp q) = of_int m * pow2 (e - ulp_exp q)"
    using assms(1) by (simp add: pow2_diff)
  also have "\<dots> = of_int (m * 2 ^ nat (e - ulp_exp q))" using u by (simp add: pow2_int)
  finally have i: "q / pow2 (ulp_exp q) = of_int (m * 2 ^ nat (e - ulp_exp q))" .
  have "rne (q / pow2 (ulp_exp q)) = m * 2 ^ nat (e - ulp_exp q)"
    unfolding i by (rule rne_of_int)
  then have "rmag q = of_int (m * 2 ^ nat (e - ulp_exp q)) * pow2 (ulp_exp q)"
    using q by (simp only: rmag_def) simp
  also have "\<dots> = q" unfolding i [symmetric] by simp
  finally show ?thesis .
qed

lemma rmag_grid:
  assumes "q = of_int m * pow2 e" "0 \<le> m" "m \<le> 2 ^ 53" "- 1074 \<le> e"
  shows "rmag q = q"
proof (cases "m = 2 ^ 53")
  case True
  have "q = of_int (2 ^ 52) * pow2 (e + 1)"
    using assms(1) True by (simp add: pow2_add) (simp add: pow2_def)
  then show ?thesis using assms(4) by (intro rmag_grid_lt [of q "2 ^ 52" "e + 1"]) simp_all
next
  case False
  then show ?thesis using assms by (intro rmag_grid_lt [of q m e]) simp_all
qed

lemma rmag_idem:
  assumes "0 \<le> q"
  shows "rmag (rmag q) = rmag q"
proof (cases "q = 0")
  case True
  then show ?thesis by (simp add: rmag_def)
next
  case False
  then have q: "0 < q" using assms by simp
  have "pow2 (expo q + 1) \<le> pow2 (53 + ulp_exp q)" by (simp add: pow2_le ulp_exp_def)
  then have "q \<le> pow2 53 * pow2 (ulp_exp q)" using expo_bounds(2) [OF q] by (simp add: pow2_add [symmetric])
  then have "q / pow2 (ulp_exp q) \<le> pow2 53" by (simp add: pos_divide_le_eq)
  then have "q / pow2 (ulp_exp q) \<le> of_int (2 ^ 53)" by (simp add: pow2_def)
  then have "rne (q / pow2 (ulp_exp q)) \<le> 2 ^ 53" using rne_mono rne_of_int by metis
  moreover have "0 \<le> rne (q / pow2 (ulp_exp q))" using q by (simp add: rne_nonneg divide_nonneg_nonneg)
  ultimately show ?thesis
    by (intro rmag_grid [of _ "rne (q / pow2 (ulp_exp q))" "ulp_exp q"])
      (use q in \<open>simp_all add: rmag_def [of q] ulp_exp_def\<close>)
qed

section \<open>Values and operations\<close>

datatype f64 = Fin rat | NegZero | PInf | NInf | NaN

definition rnd :: "rat \<Rightarrow> f64" where
  "rnd q = (if q = 0 then Fin 0 else
     let v = rmag \<bar>q\<bar> in
     if 2 ^ 1024 \<le> v then (if q < 0 then NInf else PInf)
     else if q < 0 then (if v = 0 then NegZero else Fin (- v)) else Fin v)"

definition fval :: "f64 \<Rightarrow> rat" where
  "fval x = (case x of Fin q \<Rightarrow> q | _ \<Rightarrow> 0)"

lemma fval_simps [simp]: "fval (Fin q) = q" "fval NegZero = 0"
  by (simp_all add: fval_def)

definition is_fin :: "f64 \<Rightarrow> bool" where
  "is_fin x \<longleftrightarrow> (case x of Fin _ \<Rightarrow> True | NegZero \<Rightarrow> True | _ \<Rightarrow> False)"

lemma is_fin_simps [simp]: "is_fin (Fin q)" "is_fin NegZero" "\<not> is_fin PInf" "\<not> is_fin NInf" "\<not> is_fin NaN"
  by (simp_all add: is_fin_def)

text \<open>Go's \<open><\<close>, \<open>==\<close> and \<open><=\<close> on \<open>float64\<close>: false as soon as an operand is NaN.\<close>

definition flt :: "f64 \<Rightarrow> f64 \<Rightarrow> bool" where
  "flt x y \<longleftrightarrow> x \<noteq> NaN \<and> y \<noteq> NaN \<and>
     (if x = PInf \<or> y = NInf then False else if x = NInf \<or> y = PInf then True else fval x < fval y)"

definition feq :: "f64 \<Rightarrow> f64 \<Rightarrow> bool" where
  "feq x y \<longleftrightarrow> x \<noteq> NaN \<and> y \<noteq> NaN \<and>
     (if is_fin x \<and> is_fin y then fval x = fval y else x = y)"

definition fle :: "f64 \<Rightarrow> f64 \<Rightarrow> bool" where
  "fle x y \<longleftrightarrow> flt x y \<or> feq x y"

definition is_neg :: "f64 \<Rightarrow> bool" where
  "is_neg x \<longleftrightarrow> (case x of Fin q \<Rightarrow> q < 0 | NegZero \<Rightarrow> True | NInf \<Rightarrow> True | _ \<Rightarrow> False)"

definition fneg :: "f64 \<Rightarrow> f64" where
  "fneg x = (case x of Fin q \<Rightarrow> if q = 0 then NegZero else Fin (- q) | NegZero \<Rightarrow> Fin 0 | PInf \<Rightarrow> NInf | NInf \<Rightarrow> PInf | NaN \<Rightarrow> NaN)"

definition fabs :: "f64 \<Rightarrow> f64" where
  "fabs x = (if is_neg x then fneg x else x)"

definition fadd :: "f64 \<Rightarrow> f64 \<Rightarrow> f64" where
  "fadd x y =
     (if x = NaN \<or> y = NaN \<or> (x = PInf \<and> y = NInf) \<or> (x = NInf \<and> y = PInf) then NaN
      else if x = PInf \<or> y = PInf then PInf
      else if x = NInf \<or> y = NInf then NInf
      else if x = NegZero \<and> y = NegZero then NegZero
      else rnd (fval x + fval y))"

definition fsub :: "f64 \<Rightarrow> f64 \<Rightarrow> f64" where
  "fsub x y = fadd x (fneg y)"

definition szero :: "bool \<Rightarrow> f64" where
  "szero neg = (if neg then NegZero else Fin 0)"

definition sinf :: "bool \<Rightarrow> f64" where
  "sinf neg = (if neg then NInf else PInf)"

definition is_zero :: "f64 \<Rightarrow> bool" where
  "is_zero x \<longleftrightarrow> is_fin x \<and> fval x = 0"

definition fmul :: "f64 \<Rightarrow> f64 \<Rightarrow> f64" where
  "fmul x y =
     (let neg = (is_neg x \<noteq> is_neg y) in
      if x = NaN \<or> y = NaN then NaN
      else if \<not> is_fin x \<or> \<not> is_fin y then (if is_zero x \<or> is_zero y then NaN else sinf neg)
      else if is_zero x \<or> is_zero y then szero neg
      else rnd (fval x * fval y))"

definition fdiv :: "f64 \<Rightarrow> f64 \<Rightarrow> f64" where
  "fdiv x y =
     (let neg = (is_neg x \<noteq> is_neg y) in
      if x = NaN \<or> y = NaN then NaN
      else if \<not> is_fin x then (if is_fin y then sinf neg else NaN)
      else if \<not> is_fin y then szero neg
      else if is_zero y then (if is_zero x then NaN else sinf neg)
      else if is_zero x then szero neg
      else rnd (fval x / fval y))"

text \<open>The sum a loop \<open>total += value\<close> accumulates from zero.\<close>

definition fsum :: "f64 list \<Rightarrow> f64" where
  "fsum xs = foldl fadd (Fin 0) xs"

text \<open>\<open>math.Max\<close> and \<open>math.Min\<close>, with their special cases in the library's order.\<close>

definition fmax :: "f64 \<Rightarrow> f64 \<Rightarrow> f64" where
  "fmax x y =
     (if x = PInf \<or> y = PInf then PInf else if x = NaN \<or> y = NaN then NaN
      else if is_zero x \<and> is_zero y then (if x = NegZero then y else x)
      else if flt y x then x else y)"

definition fmin :: "f64 \<Rightarrow> f64 \<Rightarrow> f64" where
  "fmin x y =
     (if x = NInf \<or> y = NInf then NInf else if x = NaN \<or> y = NaN then NaN
      else if is_zero x \<and> is_zero y then (if x = NegZero then x else y)
      else if flt x y then x else y)"

text \<open>\<open>math.Round\<close>: to the nearest integer, halves away from zero; the result is exact.\<close>

definition fround :: "f64 \<Rightarrow> f64" where
  "fround x = (case x of
     Fin q \<Rightarrow> (let v = of_int \<lfloor>\<bar>q\<bar> + 1 / 2\<rfloor> in if q < 0 then (if v = 0 then NegZero else Fin (- v)) else Fin v)
   | _ \<Rightarrow> x)"

text \<open>
  Conversions: \<open>float64(i)\<close> rounds; \<open>int(f)\<close> truncates. Out of the range of a 64-bit integer
  Go leaves the result to the implementation; the model takes amd64's.
\<close>

definition f_of_int :: "int \<Rightarrow> f64" where
  "f_of_int i = rnd (of_int i)"

definition f_to_int :: "f64 \<Rightarrow> int" where
  "f_to_int x =
     (let t = (if fval x < 0 then - \<lfloor>- fval x\<rfloor> else \<lfloor>fval x\<rfloor>) in
      if is_fin x \<and> - (2 ^ 63) \<le> t \<and> t < 2 ^ 63 then t else - (2 ^ 63))"

text \<open>
  \<open>math.Sqrt\<close>, correctly rounded: the integer square root of the scaled radicand has at
  least 60 bits, and half a unit is added when it is inexact, so one rounding of the
  scaled value is the rounding of the real root.
\<close>

function isqrt :: "int \<Rightarrow> int" where
  "isqrt n = (if n \<le> 0 then 0 else
     let r = 2 * isqrt (n div 4) in if (r + 1) * (r + 1) \<le> n then r + 1 else r)"
  by pat_completeness auto
termination
  by (relation "measure nat") auto

declare isqrt.simps [simp del]

definition fsqrt :: "f64 \<Rightarrow> f64" where
  "fsqrt x = (case x of
     NaN \<Rightarrow> NaN | PInf \<Rightarrow> PInf | NInf \<Rightarrow> NaN | NegZero \<Rightarrow> NegZero
   | Fin q \<Rightarrow>
       if q < 0 then NaN else if q = 0 then Fin 0 else
       (let k = max 0 (64 - expo q div 2);
            s = q * pow2 (2 * k);
            m = isqrt \<lfloor>s\<rfloor>;
            r = (if of_int (m * m) = s then of_int m else of_int m + 1 / 2)
        in rnd (r / pow2 k)))"

section \<open>Order\<close>

lemma flt_irrefl [simp]: "\<not> flt x x"
  by (auto simp: flt_def)

lemma feq_refl [simp]: "x \<noteq> NaN \<Longrightarrow> feq x x"
  by (auto simp: feq_def)

lemma fle_refl [simp]: "x \<noteq> NaN \<Longrightarrow> fle x x"
  by (auto simp: fle_def)

lemma fle_nan [simp]: "\<not> fle NaN x" "\<not> fle x NaN" "\<not> flt NaN x" "\<not> flt x NaN" "\<not> feq NaN x" "\<not> feq x NaN"
  by (auto simp: fle_def flt_def feq_def)

lemma flt_fin [simp]: "flt (Fin a) (Fin b) \<longleftrightarrow> a < b" "fle (Fin a) (Fin b) \<longleftrightarrow> a \<le> b"
  "feq (Fin a) (Fin b) \<longleftrightarrow> a = b"
  by (auto simp: flt_def fle_def feq_def)

lemma fle_iff_fin: "is_fin x \<Longrightarrow> is_fin y \<Longrightarrow> fle x y \<longleftrightarrow> fval x \<le> fval y"
  "is_fin x \<Longrightarrow> is_fin y \<Longrightarrow> flt x y \<longleftrightarrow> fval x < fval y"
  by (cases x; cases y; auto simp: fle_def flt_def feq_def)+

lemma fle_trans: "fle x y \<Longrightarrow> fle y z \<Longrightarrow> fle x z"
  by (cases x; cases y; cases z) (auto simp: fle_def flt_def feq_def)

lemma flt_fle_trans: "flt x y \<Longrightarrow> fle y z \<Longrightarrow> flt x z"
  by (cases x; cases y; cases z) (auto simp: fle_def flt_def feq_def)

lemma fle_flt_trans: "fle x y \<Longrightarrow> flt y z \<Longrightarrow> flt x z"
  by (cases x; cases y; cases z) (auto simp: fle_def flt_def feq_def)

lemma not_flt: "x \<noteq> NaN \<Longrightarrow> y \<noteq> NaN \<Longrightarrow> \<not> flt x y \<longleftrightarrow> fle y x"
  by (cases x; cases y) (auto simp: fle_def flt_def feq_def)

lemma flt_imp_fle: "flt x y \<Longrightarrow> fle x y"
  by (simp add: fle_def)

lemma fmax_ge: "x \<noteq> NaN \<Longrightarrow> y \<noteq> NaN \<Longrightarrow> fle x (fmax x y) \<and> fle y (fmax x y)"
  by (cases x; cases y) (auto simp: fmax_def fle_def flt_def feq_def is_zero_def)

lemma fmin_le: "x \<noteq> NaN \<Longrightarrow> y \<noteq> NaN \<Longrightarrow> fle (fmin x y) x \<and> fle (fmin x y) y"
  by (cases x; cases y) (auto simp: fmin_def fle_def flt_def feq_def is_zero_def)

lemma fmax_cases: "fmax x y \<in> {x, y, NaN}" and fmin_cases: "fmin x y \<in> {x, y, NaN}"
  by (auto simp: fmax_def fmin_def)

lemma fneg_fval: "is_fin x \<Longrightarrow> fval (fneg x) = - fval x"
  by (cases x) (auto simp: fneg_def)

lemma fneg_fin [simp]: "is_fin (fneg x) = is_fin x" "fneg x = NaN \<longleftrightarrow> x = NaN"
  by (cases x; auto simp: fneg_def)+

lemma fneg_flt: "flt (fneg x) (fneg y) \<longleftrightarrow> flt y x"
  by (cases x; cases y) (auto simp: flt_def fneg_def)

lemma fneg_fle: "fle (fneg x) (fneg y) \<longleftrightarrow> fle y x"
  by (cases x; cases y) (auto simp: fle_def flt_def feq_def fneg_def)

end
