(* ===== verification/GoTime.thy ===== *)
theory GoTime imports GoText GoFloat begin

text \<open>
  \<open>time.Time\<close> as nanoseconds since the Unix epoch in UTC, without a bound; the zero time is
  midnight of January 1 of year 1. Durations are \<open>int64\<close> nanoseconds, and \<open>Sub\<close>
  saturates as Go's does. The calendar follows the proleptic Gregorian rules of package
  \<open>time\<close>; \<open>fmt_date\<close> and \<open>fmt_rfc3339\<close> are \<open>Format\<close> with the layouts the code uses.
\<close>

type_synonym time = int

definition second :: int where "second = 1000000000"
definition hour_ns :: int where "hour_ns = 3600000000000"
definition day_ns :: int where "day_ns = 86400000000000"

lemma day_ns_pos [simp]: "0 < day_ns" "0 \<le> day_ns"
  by (simp_all add: day_ns_def)

definition zero_time :: time where
  "zero_time = - 62135596800000000000"

definition sub_dur :: "time \<Rightarrow> time \<Rightarrow> int" where
  "sub_dur a b = max (- (2 ^ 63)) (min (2 ^ 63 - 1) (a - b))"

text \<open>\<open>Duration.Hours\<close>: whole hours plus the rest over \<open>60 * 60 * 1e9\<close>, in \<open>float64\<close>.\<close>

definition hours :: "int \<Rightarrow> f64" where
  "hours d = fadd (f_of_int (quot d hour_ns)) (fdiv (f_of_int (rem d hour_ns)) (rnd (of_int hour_ns)))"

section \<open>Days\<close>

text \<open>Midnight UTC of the time's date: \<open>time.Date(y, m, d, 0, 0, 0, 0, time.UTC)\<close>.\<close>

definition midnight :: "time \<Rightarrow> time" where
  "midnight t = t div day_ns * day_ns"

text \<open>The helper \<open>day\<close> several packages define: the zero time stays the zero time.\<close>

definition day :: "time \<Rightarrow> time" where
  "day t = (if t = zero_time then t else midnight t)"

lemma midnight_zero: "midnight zero_time = zero_time"
  by (simp add: midnight_def zero_time_def day_ns_def)

lemma day_midnight: "day t = midnight t"
  by (simp add: day_def midnight_zero)

lemma midnight_idem [simp]: "midnight (midnight t) = midnight t"
  by (simp add: midnight_def)

lemma day_idem [simp]: "day (day t) = day t"
  by (simp add: day_midnight)

lemma midnight_le: "midnight t \<le> t"
proof -
  have "t div day_ns * day_ns + t mod day_ns = t" by (rule div_mult_mod_eq)
  moreover have "0 \<le> t mod day_ns" by simp
  ultimately show ?thesis unfolding midnight_def by linarith
qed

lemma midnight_mono: "s \<le> t \<Longrightarrow> midnight s \<le> midnight t"
  unfolding midnight_def by (intro mult_right_mono zdiv_mono1) simp_all

lemma midnight_after: "t < midnight t + day_ns"
proof -
  have "t div day_ns * day_ns + t mod day_ns = t" by (rule div_mult_mod_eq)
  moreover have "t mod day_ns < day_ns" by simp
  ultimately show ?thesis unfolding midnight_def by linarith
qed

lemma midnight_less_iff: "midnight s < midnight t \<longleftrightarrow> s < midnight t"
proof
  assume "midnight s < midnight t"
  then have "s div day_ns < t div day_ns" by (simp add: midnight_def)
  then have "midnight s + day_ns \<le> midnight t"
    unfolding midnight_def by (metis add1_zle_eq day_ns_pos distrib_right less_le mult_1 mult_right_mono)
  then show "s < midnight t" using midnight_after [of s] by linarith
next
  assume "s < midnight t"
  then show "midnight s < midnight t" using midnight_le [of s] by linarith
qed

section \<open>Calendar\<close>

text \<open>
  The year and the day of the year, by the 400-, 100-, 4- and 1-year cycles counted from
  January 1 of year 1; month and day of month from the table of month starts.
\<close>

definition leap :: "int \<Rightarrow> bool" where
  "leap y \<longleftrightarrow> y mod 4 = 0 \<and> (y mod 100 \<noteq> 0 \<or> y mod 400 = 0)"

definition year_yday :: "int \<Rightarrow> int \<times> int" where
  "year_yday n =
     (let d = n + 719162;
          n400 = d div 146097; d1 = d mod 146097;
          n100 = min 3 (d1 div 36524); d2 = d1 - 36524 * n100;
          n4 = d2 div 1461; d3 = d2 mod 1461;
          n1 = min 3 (d3 div 365); d4 = d3 - 365 * n1
      in (400 * n400 + 100 * n100 + 4 * n4 + n1 + 1, d4))"

definition month_starts :: "bool \<Rightarrow> (int \<times> int) list" where
  "month_starts lp = (let b = (if lp then 1 else 0) in
     [(12, 334 + b), (11, 304 + b), (10, 273 + b), (9, 243 + b), (8, 212 + b), (7, 181 + b),
      (6, 151 + b), (5, 120 + b), (4, 90 + b), (3, 59 + b), (2, 31), (1, 0)])"

definition month_day :: "bool \<Rightarrow> int \<Rightarrow> int \<times> int" where
  "month_day lp yd = (case first_match (\<lambda>(m, s). s \<le> yd) (month_starts lp) of
     None \<Rightarrow> (1, yd + 1) | Some (m, s) \<Rightarrow> (m, yd - s + 1))"

definition civil :: "int \<Rightarrow> int \<times> int \<times> int" where
  "civil n = (let (y, yd) = year_yday n; (m, d) = month_day (leap y) yd in (y, m, d))"

definition year_of :: "time \<Rightarrow> int" where
  "year_of t = fst (civil (t div day_ns))"

definition days_of_civil :: "int \<Rightarrow> int \<Rightarrow> int \<Rightarrow> int" where
  "days_of_civil y m d =
     (let y0 = y - 1 in
      365 * y0 + y0 div 4 - y0 div 100 + y0 div 400
        + (case map_of (month_starts (leap y)) m of None \<Rightarrow> 0 | Some s \<Rightarrow> s) + d - 1 - 719162)"

definition month_len :: "int \<Rightarrow> int \<Rightarrow> int" where
  "month_len y m = (if m = 2 then (if leap y then 29 else 28) else if m \<in> {4, 6, 9, 11} then 30 else 31)"

text \<open>\<open>Weekday\<close>: 0 is Sunday; the Unix epoch was a Thursday.\<close>

definition weekday :: "time \<Rightarrow> int" where
  "weekday t = (t div day_ns + 4) mod 7"

definition add_days :: "time \<Rightarrow> int \<Rightarrow> time" where
  "add_days t k = t + k * day_ns"

lemma year_yday_days:
  assumes "year_yday n = (y, yd)"
  shows "n = 365 * (y - 1) + (y - 1) div 4 - (y - 1) div 100 + (y - 1) div 400 + yd - 719162"
    and "0 \<le> yd" and "yd < 366"
proof -
  define d where "d = n + 719162"
  define n400 where "n400 = d div 146097"
  define d1 where "d1 = d mod 146097"
  define n100 where "n100 = min 3 (d1 div 36524)"
  define d2 where "d2 = d1 - 36524 * n100"
  define n4 where "n4 = d2 div 1461"
  define d3 where "d3 = d2 mod 1461"
  define n1 where "n1 = min 3 (d3 div 365)"
  note defs = d_def n400_def d1_def n100_def d2_def n4_def d3_def n1_def
  have d1: "0 \<le> d1" "d1 < 146097" by (simp_all add: d1_def)
  have n100: "0 \<le> n100" "n100 \<le> 3" using d1 by (auto simp: n100_def)
  have d2: "0 \<le> d2" "d2 \<le> 36524"
    using d1 minus_div_mult_eq_mod [of d1 36524] pos_mod_bound [of 36524 d1] pos_mod_sign [of 36524 d1]
    unfolding d2_def n100_def by (auto simp: min_def not_le)
  have n4: "0 \<le> n4" "n4 \<le> 24" using d2 by (auto simp: n4_def)
  have d3: "0 \<le> d3" "d3 < 1461" by (simp_all add: d3_def)
  have n1: "0 \<le> n1" "n1 \<le> 3" using d3 by (auto simp: n1_def)
  have "year_yday n = (400 * n400 + 100 * n100 + 4 * n4 + n1 + 1, d3 - 365 * n1)"
    by (simp only: defs year_yday_def Let_def)
  then have y: "y = 400 * n400 + 100 * n100 + 4 * n4 + n1 + 1" and yd: "yd = d3 - 365 * n1"
    using assms by simp_all
  show "0 \<le> yd" "yd < 366"
    using d3 minus_div_mult_eq_mod [of d3 365] pos_mod_bound [of 365 d3] pos_mod_sign [of 365 d3]
    unfolding yd n1_def by (auto simp: min_def not_le)
  have r: "d = 146097 * n400 + d1" "d2 = 1461 * n4 + d3"
    by (simp_all add: n400_def d1_def n4_def d3_def)
  have q: "(y - 1) div 4 = 100 * n400 + 25 * n100 + n4" "(y - 1) div 100 = 4 * n400 + n100" "(y - 1) div 400 = n400"
    unfolding y
    by (rule int_div_pos_eq [of _ _ _ n1], use n1 in simp_all)
      (rule int_div_pos_eq [of _ _ _ "4 * n4 + n1"], use n4 n1 in simp_all,
       rule int_div_pos_eq [of _ _ _ "100 * n100 + 4 * n4 + n1"], use n100 n4 n1 in simp_all)
  show "n = 365 * (y - 1) + (y - 1) div 4 - (y - 1) div 100 + (y - 1) div 400 + yd - 719162"
    unfolding q unfolding y yd using r by (simp add: d_def d2_def)
qed

lemma month_day_start:
  assumes "month_day lp yd = (m, d)" "0 \<le> yd"
  shows "\<exists>s. map_of (month_starts lp) m = Some s \<and> yd = s + d - 1"
  using assms by (auto simp: month_day_def month_starts_def Let_def split: if_splits)

lemma civil_days:
  assumes "civil n = (y, m, d)"
  shows "days_of_civil y m d = n"
proof -
  obtain yd where 1: "year_yday n = (y, yd)" and 2: "month_day (leap y) yd = (m, d)"
    using assms by (auto simp: civil_def Let_def split: prod.splits)
  obtain s where "map_of (month_starts (leap y)) m = Some s \<and> yd = s + d - 1"
    using month_day_start [OF 2] year_yday_days(2) [OF 1] by blast
  then show ?thesis using year_yday_days(1) [OF 1] by (simp add: days_of_civil_def Let_def)
qed

lemma civil_inj: "civil a = civil b \<Longrightarrow> a = b"
  using civil_days by (metis prod_cases3)

section \<open>Text forms\<close>

definition fmt_date :: "time \<Rightarrow> string" where
  "fmt_date t = (let (y, m, d) = civil (t div day_ns) in
     pad_digits 4 y @ ''-'' @ pad_digits 2 m @ ''-'' @ pad_digits 2 d)"

fun strip_zeros :: "string \<Rightarrow> string" where
  "strip_zeros s = rev (dropWhile (\<lambda>c. c = CHR ''0'') (rev s))"

definition fmt_clock :: "time \<Rightarrow> string" where
  "fmt_clock t = (let s = t mod day_ns div second; ns = t mod second; f = strip_zeros (pad_digits 9 ns) in
     pad_digits 2 (s div 3600) @ '':'' @ pad_digits 2 (s div 60 mod 60) @ '':'' @ pad_digits 2 (s mod 60)
       @ (if f = [] then [] else ''.'' @ f))"

text \<open>\<open>Format(time.RFC3339Nano)\<close> of a UTC time, and \<open>Format(time.RFC3339)\<close>, which has no fraction.\<close>

definition fmt_rfc3339nano :: "time \<Rightarrow> string" where
  "fmt_rfc3339nano t = fmt_date t @ ''T'' @ fmt_clock t @ ''Z''"

definition fmt_rfc3339 :: "time \<Rightarrow> string" where
  "fmt_rfc3339 t = fmt_date t @ ''T'' @ fmt_clock (t div second * second) @ ''Z''"

definition common_year :: "time \<Rightarrow> bool" where
  "common_year t \<longleftrightarrow> 0 \<le> year_of t \<and> year_of t \<le> 9999"

lemma month_day_bounds:
  assumes "month_day lp yd = (m, d)" "0 \<le> yd" "yd < 366"
  shows "1 \<le> m \<and> m \<le> 12 \<and> 1 \<le> d \<and> d \<le> 32"
  using assms by (auto simp: month_day_def month_starts_def Let_def split: if_splits)

lemma civil_bounds:
  assumes "civil n = (y, m, d)"
  shows "1 \<le> m \<and> m \<le> 12 \<and> 1 \<le> d \<and> d \<le> 32"
proof -
  obtain yd where 1: "year_yday n = (y, yd)" and 2: "month_day (leap y) yd = (m, d)"
    using assms by (auto simp: civil_def Let_def split: prod.splits)
  show ?thesis
    using month_day_bounds [OF 2 year_yday_days(2) [OF 1] year_yday_days(3) [OF 1]] .
qed

lemma fmt_date_inj:
  assumes "fmt_date s = fmt_date t" "common_year s" "common_year t"
  shows "midnight s = midnight t"
proof -
  obtain y m d where s: "civil (s div day_ns) = (y, m, d)" by (metis prod_cases3)
  obtain y' m' d' where t: "civil (t div day_ns) = (y', m', d')" by (metis prod_cases3)
  have y: "0 \<le> y" "y \<le> 9999" "0 \<le> y'" "y' \<le> 9999"
    using assms(2,3) by (simp_all add: common_year_def year_of_def s t)
  have b: "1 \<le> m \<and> m \<le> 12 \<and> 1 \<le> d \<and> d \<le> 32" "1 \<le> m' \<and> m' \<le> 12 \<and> 1 \<le> d' \<and> d' \<le> 32"
    using civil_bounds s t by blast+
  have e: "pad_digits 4 y = pad_digits 4 y'" "pad_digits 2 m = pad_digits 2 m'"
    "pad_digits 2 d = pad_digits 2 d'"
    using assms(1) by (simp_all add: fmt_date_def s t del: pad_digits.simps)
  have "y = y'" using e(1) y by (intro pad_digits_inj [of 4]) auto
  moreover have "m = m'" using e(2) b by (intro pad_digits_inj [of 2]) auto
  moreover have "d = d'" using e(3) b by (intro pad_digits_inj [of 2]) auto
  ultimately have "civil (s div day_ns) = civil (t div day_ns)" using y b s t by auto
  then show ?thesis using civil_inj unfolding midnight_def by metis
qed

lemma fmt_date_midnight: "fmt_date (midnight t) = fmt_date t"
  by (simp add: fmt_date_def midnight_def)

section \<open>Parsing\<close>

text \<open>
  Timestamps of the form \<open>2006-01-02T15:04:05[.fraction](Z|+hh:mm|-hh:mm)\<close>. The strict form
  is what decoding a \<open>time.Time\<close> from JSON takes; \<open>time.Parse\<close> with \<open>time.RFC3339Nano\<close> also
  takes a one-digit hour, a comma before the fraction, and zone offsets up to \<open>24:60\<close>.
  The fraction keeps nine digits. \<open>parse_date\<close> is \<open>time.Parse("2006-01-02", \<dots>)\<close>.
\<close>

definition num_at :: "string \<Rightarrow> nat \<Rightarrow> nat \<Rightarrow> int option" where
  "num_at s i n = (let ds = take n (drop i s) in
     if length ds = n \<and> list_all is_digit ds then Some (digits_val ds) else None)"

definition char_at :: "string \<Rightarrow> nat \<Rightarrow> char \<Rightarrow> bool" where
  "char_at s i c \<longleftrightarrow> i < length s \<and> s ! i = c"

definition parse_ymd :: "string \<Rightarrow> int option" where
  "parse_ymd s =
     (case (num_at s 0 4, num_at s 5 2, num_at s 8 2) of
        (Some y, Some m, Some d) \<Rightarrow>
          if char_at s 4 CHR ''-'' \<and> char_at s 7 CHR ''-'' \<and> 1 \<le> m \<and> m \<le> 12 \<and> 1 \<le> d \<and> d \<le> month_len y m
          then Some (days_of_civil y m d) else None
      | _ \<Rightarrow> None)"

definition parse_date :: "string \<Rightarrow> time option" where
  "parse_date s = (if length s = 10 then map_option (\<lambda>n. n * day_ns) (parse_ymd s) else None)"

definition parse_zone :: "bool \<Rightarrow> string \<Rightarrow> int option" where
  "parse_zone lenient z =
     (if z = ''Z'' then Some 0
      else case (num_at z 1 2, num_at z 4 2) of
        (Some h, Some m) \<Rightarrow>
          if length z = 6 \<and> char_at z 3 CHR '':'' \<and> (char_at z 0 CHR ''+'' \<or> char_at z 0 CHR ''-'')
             \<and> (if lenient then h \<le> 24 \<and> m \<le> 60 else h \<le> 23 \<and> m \<le> 59)
          then Some ((if char_at z 0 CHR ''-'' then -1 else 1) * (3600 * h + 60 * m) * second)
          else None
      | _ \<Rightarrow> None)"

definition parse_frac :: "bool \<Rightarrow> string \<Rightarrow> int \<times> string" where
  "parse_frac lenient r =
     (case r of
        c # ds \<Rightarrow>
          (let f = takeWhile is_digit ds in
           if (c = CHR ''.'' \<or> lenient \<and> c = CHR '','') \<and> f \<noteq> []
           then (digits_val (take 9 (f @ replicate 9 (CHR ''0''))), dropWhile is_digit ds)
           else (0, r))
      | [] \<Rightarrow> (0, r))"

definition parse_ts :: "bool \<Rightarrow> string \<Rightarrow> time option" where
  "parse_ts lenient s0 =
     (let s = (if lenient \<and> char_at s0 12 CHR '':'' then take 11 s0 @ ''0'' @ drop 11 s0 else s0) in
      case (parse_ymd s, num_at s 11 2, num_at s 14 2, num_at s 17 2) of
        (Some days, Some h, Some mi, Some se) \<Rightarrow>
          (let (ns, z) = parse_frac lenient (drop 19 s) in
           if char_at s 10 CHR ''T'' \<and> char_at s 13 CHR '':'' \<and> char_at s 16 CHR '':''
              \<and> h \<le> 23 \<and> mi \<le> 59 \<and> se \<le> 59
           then map_option (\<lambda>off. days * day_ns + (3600 * h + 60 * mi + se) * second + ns - off) (parse_zone lenient z)
           else None)
      | _ \<Rightarrow> None)"

end
