(* ===== verification/GoFloatBounds.thy ===== *)
theory GoFloatBounds imports GoFloat begin

text \<open>
  Bounds that survive rounding: \<open>rnd\<close> is monotone and fixes the representable numbers, so
  an exact result between two representable bounds stays between them once rounded. The
  lemmas on single operations carry the range properties of the scores in the components.
\<close>

section \<open>Monotone rounding\<close>

lemma rnd_zero [simp]: "rnd 0 = Fin 0"
  by (simp add: rnd_def)

lemma rnd_not_nan [simp]: "rnd q \<noteq> NaN"
  by (simp add: rnd_def Let_def)

lemma rnd_pos_cases:
  "0 < q \<Longrightarrow> rnd q = (if 2 ^ 1024 \<le> rmag q then PInf else Fin (rmag q))"
  by (simp add: rnd_def Let_def)

lemma rnd_neg: "0 < q \<Longrightarrow> rnd (- q) = fneg (rnd q)"
  by (simp add: rnd_def Let_def fneg_def)

lemma fle_rnd_nonneg: "0 \<le> q \<Longrightarrow> fle (Fin 0) (rnd q)"
  using rmag_nonneg [of q] by (auto simp: rnd_def Let_def fle_def flt_def feq_def)

lemma rnd_mono_pos: "0 < p \<Longrightarrow> p \<le> q \<Longrightarrow> fle (rnd p) (rnd q)"
  using rmag_mono [of p q] by (auto simp: rnd_pos_cases fle_def flt_def feq_def)

lemma fle_rnd_neg: "q < 0 \<Longrightarrow> fle (rnd q) (Fin 0)"
  using rmag_nonneg [of "- q"] by (auto simp: rnd_def Let_def fle_def flt_def feq_def)

lemma rnd_mono:
  assumes "p \<le> q" shows "fle (rnd p) (rnd q)"
proof (cases "0 < p")
  case True
  then show ?thesis using assms rnd_mono_pos by blast
next
  case False
  show ?thesis
  proof (cases "q < 0")
    case True
    then have "fle (rnd (- q)) (rnd (- p))" using assms by (intro rnd_mono_pos) auto
    then have "fle (fneg (rnd (- p))) (fneg (rnd (- q)))" by (simp add: fneg_fle)
    then show ?thesis using rnd_neg [of "- p"] rnd_neg [of "- q"] True assms by simp
  next
    case q: False
    have "fle (rnd p) (Fin 0)" using \<open>\<not> 0 < p\<close> fle_rnd_neg [of p] by (cases "p = 0") auto
    then show ?thesis using fle_rnd_nonneg [of q] q fle_trans by (meson not_less)
  qed
qed

text \<open>Representable rationals: the binary64 grid.\<close>

definition rep :: "rat \<Rightarrow> bool" where
  "rep q \<longleftrightarrow> rmag \<bar>q\<bar> = \<bar>q\<bar> \<and> \<bar>q\<bar> < 2 ^ 1024"

lemma rep_zero [simp]: "rep 0"
  by (simp add: rep_def rmag_def)

lemma rnd_rep: "rep q \<Longrightarrow> rnd q = Fin q"
  by (auto simp: rnd_def rep_def Let_def)

lemma two_53_less: "(2 ^ 53 :: rat) < 2 ^ 1024"
  by (rule power_strict_increasing) simp_all

lemma rep_int: "\<bar>k\<bar> \<le> 2 ^ 53 \<Longrightarrow> rep (of_int k)"
proof -
  assume a: "\<bar>k\<bar> \<le> 2 ^ 53"
  have "rmag (of_int \<bar>k\<bar>) = of_int \<bar>k\<bar>"
    by (rule rmag_grid [of _ "\<bar>k\<bar>" 0]) (use a in \<open>simp_all add: pow2_def\<close>)
  moreover have "(of_int \<bar>k\<bar> :: rat) \<le> of_int (2 ^ 53)" using a by (simp only: of_int_le_iff)
  then have "(of_int \<bar>k\<bar> :: rat) < 2 ^ 1024" using two_53_less by simp
  ultimately show ?thesis by (simp add: rep_def)
qed

lemma rep_one [simp]: "rep 1"
  using rep_int [of 1] by simp

lemma rep_numeral: "(numeral n :: int) \<le> 2 ^ 53 \<Longrightarrow> rep (numeral n)"
  using rep_int [of "numeral n"] by simp

lemma rep_neg [simp]: "rep (- q) \<longleftrightarrow> rep q"
  by (simp add: rep_def)

lemma rep_dyadic:
  assumes "\<bar>m\<bar> \<le> 2 ^ 53" "k \<le> 1074"
  shows "rep (of_int m / 2 ^ k)"
proof -
  have "\<bar>of_int m / 2 ^ k :: rat\<bar> = of_int \<bar>m\<bar> * pow2 (- int k)"
    by (cases "k = 0") (simp_all add: pow2_def)
  then have "rmag \<bar>of_int m / 2 ^ k\<bar> = \<bar>of_int m / 2 ^ k\<bar>"
    by (rule rmag_grid) (use assms in simp_all)
  moreover have "\<bar>of_int m / 2 ^ k :: rat\<bar> \<le> of_int \<bar>m\<bar>"
    by (simp add: divide_le_eq mult_left_le_one_le pos_divide_le_eq mult_le_cancel_left1)
  moreover have "(of_int \<bar>m\<bar> :: rat) \<le> of_int (2 ^ 53)" using assms by (simp only: of_int_le_iff)
  then have "(of_int \<bar>m\<bar> :: rat) < 2 ^ 1024" using two_53_less by simp
  ultimately show ?thesis by (simp add: rep_def)
qed

text \<open>Concrete dyadic results round to themselves; the witnesses compute with these.\<close>

lemma rnd_dyadic:
  assumes "\<bar>m\<bar> \<le> 2 ^ 53" "k \<le> 1074" "q = of_int m / 2 ^ k"
  shows "rnd q = Fin q"
  using rep_dyadic [OF assms(1,2)] assms(3) by (simp add: rnd_rep)

lemma rep_rmag: "0 \<le> q \<Longrightarrow> rmag q < 2 ^ 1024 \<Longrightarrow> rep (rmag q)"
  by (simp add: rep_def rmag_idem rmag_nonneg)

section \<open>Well-formed values\<close>

text \<open>A value Go can hold: a finite one is on the grid and not a second spelling of zero.\<close>

definition wf64 :: "f64 \<Rightarrow> bool" where
  "wf64 x \<longleftrightarrow> (case x of Fin q \<Rightarrow> rep q | _ \<Rightarrow> True)"

lemma wf64_simps [simp]: "wf64 (Fin q) = rep q" "wf64 NegZero" "wf64 PInf" "wf64 NInf" "wf64 NaN"
  by (simp_all add: wf64_def)

lemma wf64_rnd [simp]: "wf64 (rnd q)"
  by (auto simp: rnd_def Let_def rep_rmag not_le)

lemma wf64_fneg [simp]: "wf64 (fneg x) = wf64 x"
  by (cases x) (auto simp: fneg_def)

lemma wf64_fadd [simp]: "wf64 (fadd x y)"
  by (simp add: fadd_def)

lemma wf64_fsub [simp]: "wf64 (fsub x y)"
  by (simp add: fsub_def)

lemma wf64_szero [simp]: "wf64 (szero b)" "wf64 (sinf b)"
  by (simp_all add: szero_def sinf_def)

lemma wf64_fmul [simp]: "wf64 (fmul x y)"
  by (simp add: fmul_def Let_def)

lemma wf64_fdiv [simp]: "wf64 (fdiv x y)"
  by (simp add: fdiv_def Let_def)

lemma wf64_f_of_int [simp]: "wf64 (f_of_int i)"
  by (simp add: f_of_int_def)

lemma wf64_fmax: "wf64 x \<Longrightarrow> wf64 y \<Longrightarrow> wf64 (fmax x y)"
  and wf64_fmin: "wf64 x \<Longrightarrow> wf64 y \<Longrightarrow> wf64 (fmin x y)"
  by (simp_all add: fmax_def fmin_def)

section \<open>Intervals\<close>

definition between :: "rat \<Rightarrow> rat \<Rightarrow> f64 \<Rightarrow> bool" where
  "between a b x \<longleftrightarrow> fle (Fin a) x \<and> fle x (Fin b)"

lemma between_iff: "between a b x \<longleftrightarrow> is_fin x \<and> a \<le> fval x \<and> fval x \<le> b"
  by (cases x) (auto simp: between_def fle_def flt_def feq_def)

lemma between_fin [simp]: "between a b (Fin q) \<longleftrightarrow> a \<le> q \<and> q \<le> b"
  by (simp add: between_def)

lemma between_not_nan [simp]: "\<not> between a b NaN"
  by (simp add: between_def)

lemma between_weaken: "between a b x \<Longrightarrow> c \<le> a \<Longrightarrow> b \<le> d \<Longrightarrow> between c d x"
  by (auto simp: between_iff)

lemma rnd_between:
  assumes "rep a" "rep b" "a \<le> q" "q \<le> b"
  shows "between a b (rnd q)"
  unfolding between_def
  using rnd_mono [OF assms(3)] rnd_mono [OF assms(4)] by (simp add: rnd_rep assms(1,2))

lemma fadd_between:
  assumes "between a b x" "between c d y" "rep (a + c)" "rep (b + d)"
  shows "between (a + c) (b + d) (fadd x y)"
proof (cases "x = NegZero \<and> y = NegZero")
  case True
  then show ?thesis using assms by (auto simp: fadd_def between_iff)
next
  case False
  then have "fadd x y = rnd (fval x + fval y)"
    using assms by (cases x; cases y) (auto simp: fadd_def between_iff)
  then show ?thesis using assms by (auto simp: between_iff [of _ _ x] between_iff [of _ _ y] intro!: rnd_between)
qed

lemma fneg_between: "between (- b) (- a) (fneg x) \<longleftrightarrow> between a b x"
  by (auto simp: between_iff fneg_fval)

lemma fsub_between:
  assumes "between a b x" "between c d y" "rep (a - d)" "rep (b - c)"
  shows "between (a - d) (b - c) (fsub x y)"
  using fadd_between [of a b x "- d" "- c" "fneg y"] assms by (simp add: fsub_def fneg_between)

lemma fmul_between:
  assumes "between 0 b x" "between 0 d y" "rep (b * d)"
  shows "between 0 (b * d) (fmul x y)"
proof -
  have b: "0 \<le> b" "0 \<le> d" "0 \<le> fval x" "fval x \<le> b" "0 \<le> fval y" "fval y \<le> d" "is_fin x" "is_fin y"
    using assms by (auto simp: between_iff)
  then have p: "0 \<le> b * d" "0 \<le> fval x * fval y" "fval x * fval y \<le> b * d"
    by (auto intro: mult_mono)
  have "x \<noteq> NaN" "y \<noteq> NaN" using b by auto
  then show ?thesis using b p assms(3)
    by (auto simp: fmul_def Let_def szero_def between_iff [of _ _ NegZero] intro: rnd_between)
qed

lemma fdiv_between:
  assumes "between 0 b x" "is_fin y" "0 < fval y" "rep c" "b \<le> c * fval y"
  shows "between 0 c (fdiv x y)"
proof -
  have b: "0 \<le> fval x" "fval x \<le> b" "is_fin x" "x \<noteq> NaN" "y \<noteq> NaN"
    using assms by (auto simp: between_iff)
  have "0 \<le> c * fval y" using b assms(5) by linarith
  then have c: "0 \<le> c" using assms(3) by (simp add: zero_le_mult_iff)
  have "fval x / fval y \<le> c" using b assms(3,5) by (simp add: pos_divide_le_eq)
  then show ?thesis using b c assms(2-4)
    by (auto simp: fdiv_def Let_def szero_def is_zero_def between_iff [of _ _ NegZero] intro: rnd_between)
qed

text \<open>Clamping, as the code writes it: two comparisons, the value itself in between.\<close>

definition clamp_to :: "f64 \<Rightarrow> f64 \<Rightarrow> f64 \<Rightarrow> f64" where
  "clamp_to lo hi v = (if flt v lo then lo else if flt hi v then hi else v)"

lemma clamp_to_between:
  assumes "v \<noteq> NaN" "a \<le> b"
  shows "between a b (clamp_to (Fin a) (Fin b) v)"
  using assms by (cases v) (auto simp: clamp_to_def between_def flt_def fle_def feq_def)

lemma clamp_to_id: "between a b v \<Longrightarrow> clamp_to (Fin a) (Fin b) v = v"
  by (cases v) (auto simp: clamp_to_def between_iff flt_def)

lemma clamp_to_nan: "clamp_to lo hi NaN = NaN"
  by (simp add: clamp_to_def)

lemma clamp_to_wf: "wf64 lo \<Longrightarrow> wf64 hi \<Longrightarrow> wf64 v \<Longrightarrow> wf64 (clamp_to lo hi v)"
  by (simp add: clamp_to_def)

lemma f_of_int_small: "\<bar>i\<bar> \<le> 2 ^ 53 \<Longrightarrow> f_of_int i = Fin (of_int i)"
  by (simp add: f_of_int_def rnd_rep rep_int)

end
