(* ===== verification/GoJson.thy ===== *)
theory GoJson imports GoTime GoFloatBounds "HOL-Library.Monad_Syntax" begin

text \<open>
  JSON documents at the level of \<open>encoding/json\<close>'s decoded values. A Go \<open>map[string]any\<close>
  is an association list with distinct keys; \<open>JInt\<close> is a Go integer stored in an \<open>any\<close>
  (decoding never produces one). A \<open>[]byte\<close> that the code treats as JSON is a \<open>doc\<close>:
  no bytes, bytes that are not one JSON text, or a JSON text. Encoding is taken up to the
  value it denotes, which decoding gives back.
\<close>

datatype json = JNull | JBool bool | JInt int | JNum f64 | JStr string | JArr "json list" | JObj "(string \<times> json) list"

type_synonym obj = "(string \<times> json) list"

datatype doc = NoBytes | BadBytes | Doc json

section \<open>Maps\<close>

definition oget :: "obj \<Rightarrow> string \<Rightarrow> json option" where
  "oget m k = map_of m k"

definition oput :: "string \<Rightarrow> json \<Rightarrow> obj \<Rightarrow> obj" where
  "oput k v m = (k, v) # filter (\<lambda>p. fst p \<noteq> k) m"

lemma oget_oput [simp]: "oget (oput k v m) k' = (if k' = k then Some v else oget m k')"
  by (induction m) (auto simp: oget_def oput_def)

lemma keys_oput: "fst ` set (oput k v m) = insert k (fst ` set m)"
  by (auto simp: oput_def)

lemma distinct_oput: "distinct (map fst m) \<Longrightarrow> distinct (map fst (oput k v m))"
  by (induction m) (auto simp: oput_def)

text \<open>\<open>text, _ := value.(string)\<close>: the zero value when the type assertion fails.\<close>

definition str_of :: "json option \<Rightarrow> string" where
  "str_of j = (case j of Some (JStr s) \<Rightarrow> s | _ \<Rightarrow> [])"

definition obj_of :: "json option \<Rightarrow> obj option" where
  "obj_of j = (case j of Some (JObj m) \<Rightarrow> Some m | _ \<Rightarrow> None)"

definition num_of :: "json option \<Rightarrow> f64 option" where
  "num_of j = (case j of Some (JNum x) \<Rightarrow> Some x | _ \<Rightarrow> None)"

lemma str_of_simps [simp]: "str_of (Some (JStr s)) = s" "str_of None = []"
  by (simp_all add: str_of_def)

section \<open>Encoding and decoding\<close>

text \<open>\<open>json.Marshal\<close> fails on a NaN or an infinity; the callers that ignore the error keep nil bytes.\<close>

fun marshalable :: "json \<Rightarrow> bool" where
  "marshalable (JNum x) = is_fin x"
| "marshalable (JArr xs) = list_all marshalable xs"
| "marshalable (JObj m) = list_all (\<lambda>(k, v). marshalable v) m"
| "marshalable _ = True"

text \<open>Decoding sees numbers only as \<open>float64\<close>, so a Go integer comes back rounded.\<close>

fun wire :: "json \<Rightarrow> json" where
  "wire (JInt i) = JNum (f_of_int i)"
| "wire (JArr xs) = JArr (map wire xs)"
| "wire (JObj m) = JObj (map (\<lambda>(k, v). (k, wire v)) m)"
| "wire j = j"

definition marshal :: "json \<Rightarrow> doc" where
  "marshal j = (if marshalable j then Doc (wire j) else NoBytes)"

definition valid_doc :: "doc \<Rightarrow> bool" where
  "valid_doc d \<longleftrightarrow> (case d of Doc _ \<Rightarrow> True | _ \<Rightarrow> False)"

text \<open>
  \<open>json.Unmarshal\<close> into a \<open>map[string]any\<close> and into an \<open>[]any\<close>: \<open>None\<close> is an error. JSON
  \<open>null\<close> decodes into either without an error and leaves it nil.
\<close>

definition decode_obj :: "doc \<Rightarrow> obj option" where
  "decode_obj d = (case d of Doc (JObj m) \<Rightarrow> Some m | Doc JNull \<Rightarrow> Some [] | _ \<Rightarrow> None)"

definition decode_arr :: "doc \<Rightarrow> json list option" where
  "decode_arr d = (case d of Doc (JArr xs) \<Rightarrow> Some xs | Doc JNull \<Rightarrow> Some [] | _ \<Rightarrow> None)"

lemma decode_obj_Doc [simp]: "decode_obj (Doc (JObj m)) = Some m" "decode_obj NoBytes = None" "decode_obj BadBytes = None"
  by (simp_all add: decode_obj_def)

lemma str_of_wire [simp]: "str_of (map_option wire j) = str_of j"
  by (cases j) (auto simp: str_of_def split: json.splits elim: wire.elims)

lemma oget_wire: "oget (map (\<lambda>(k, v). (k, wire v)) m) k = map_option wire (oget m k)"
  by (simp add: oget_def map_of_map)

lemma decode_marshal: "list_all (\<lambda>(k, v). marshalable v) m \<Longrightarrow>
  decode_obj (marshal (JObj m)) = Some (map (\<lambda>(k, v). (k, wire v)) m)"
  by (simp add: marshal_def)

section \<open>Decoding into structs\<close>

text \<open>
  A struct field takes the value of the key that matches its name up to letter case;
  \<open>null\<close> and a missing key leave the zero value, a value of another JSON type is an error.
\<close>

definition ofield :: "obj \<Rightarrow> string \<Rightarrow> json option" where
  "ofield m name = map_option snd (first_match (\<lambda>(k, v). to_lower k = to_lower name) (rev m))"

fun fold_eq :: "string \<Rightarrow> string \<Rightarrow> bool" where
  "fold_eq [] [] = True"
| "fold_eq (a # as) (b # bs) = (if lower_char a = lower_char b then fold_eq as bs else False)"
| "fold_eq _ _ = False"

lemma fold_eq_iff: "fold_eq k n \<longleftrightarrow> to_lower k = to_lower n"
  by (induction k n rule: fold_eq.induct) (auto simp: to_lower_def)

lemma ofield_code [code]: "ofield m name = map_option snd (first_match (\<lambda>(k, v). fold_eq k name) (rev m))"
  by (simp add: ofield_def fold_eq_iff)

definition dec_str :: "json option \<Rightarrow> string option" where
  "dec_str j = (case j of None \<Rightarrow> Some [] | Some JNull \<Rightarrow> Some [] | Some (JStr s) \<Rightarrow> Some s | _ \<Rightarrow> None)"

definition dec_num :: "json option \<Rightarrow> f64 option" where
  "dec_num j = (case j of None \<Rightarrow> Some (Fin 0) | Some JNull \<Rightarrow> Some (Fin 0) | Some (JNum x) \<Rightarrow> Some x | _ \<Rightarrow> None)"

definition dec_num_ptr :: "json option \<Rightarrow> f64 option option" where
  "dec_num_ptr j = (case j of None \<Rightarrow> Some None | Some JNull \<Rightarrow> Some None | Some (JNum x) \<Rightarrow> Some (Some x) | _ \<Rightarrow> None)"

definition dec_time :: "json option \<Rightarrow> time option" where
  "dec_time j = (case j of None \<Rightarrow> Some zero_time | Some JNull \<Rightarrow> Some zero_time | Some (JStr s) \<Rightarrow> parse_ts False s | _ \<Rightarrow> None)"

text \<open>A \<open>json.RawMessage\<close> field keeps the text of its value, \<open>null\<close> included.\<close>

definition dec_raw :: "json option \<Rightarrow> doc" where
  "dec_raw j = (case j of None \<Rightarrow> NoBytes | Some v \<Rightarrow> Doc v)"

lemma dec_simps [simp]:
  "dec_str None = Some []" "dec_str (Some (JStr s)) = Some s"
  "dec_num None = Some (Fin 0)" "dec_num (Some (JNum x)) = Some x"
  "dec_num_ptr None = Some None" "dec_num_ptr (Some (JNum x)) = Some (Some x)"
  by (simp_all add: dec_str_def dec_num_def dec_num_ptr_def)

section \<open>Streams\<close>

text \<open>
  A message is the first JSON value of its bytes and the bytes after it. \<open>decoder.More\<close>
  looks at the next byte that is not white space: a closing bracket or brace does not count.
\<close>

record stream =
  sm_first :: doc
  sm_rest :: string

definition json_space :: "char \<Rightarrow> bool" where
  "json_space c \<longleftrightarrow> c = CHR 0x20 \<or> c = CHR 0x09 \<or> c = CHR 0x0A \<or> c = CHR 0x0D"

definition decoder_more :: "stream \<Rightarrow> bool" where
  "decoder_more s = (case dropWhile json_space (sm_rest s) of [] \<Rightarrow> False | c # _ \<Rightarrow> c \<noteq> CHR '']'' \<and> c \<noteq> CHR 0x7D)"

text \<open>A second \<open>Decode\<close> returns \<open>io.EOF\<close> when only white space is left.\<close>

definition at_eof :: "stream \<Rightarrow> bool" where
  "at_eof s \<longleftrightarrow> dropWhile json_space (sm_rest s) = []"

end
