(* ===== verification/StorageRecords.thy ===== *)
theory StorageRecords imports GoJson begin

text \<open>
  Structs of \<open>internal/storage\<close> that several components exchange, field by field. Pointers
  are options, \<open>[]byte\<close> fields holding JSON are \<open>doc\<close>s, times are \<open>time\<close>.
\<close>

text \<open>\<open>NormalizedEventLedgerRecord\<close> (\<open>storage.go\<close>).\<close>

record ledger_event =
  n_event_id :: string
  n_tenant_id :: string
  n_source_id :: string
  n_app_id :: string
  n_domain :: string
  n_use_case :: string
  n_source_adapter :: string
  n_dataset :: string
  n_idempotency_key :: string
  n_schema_id :: string
  n_schema_version :: string
  n_observation_time :: time
  n_processing_time :: time
  n_confidence :: f64
  n_raw_topic :: string
  n_raw_partition :: int
  n_raw_offset :: int
  n_normalized_topic :: string
  n_normalized_partition :: int
  n_normalized_offset :: int
  n_normalized_payload :: doc
  n_entities :: doc
  n_evidence :: doc
  n_metadata :: doc
  n_event_json :: doc
  n_created_at :: time
  n_updated_at :: time

text \<open>\<open>MarketOpsSignalOutcomeRecord\<close> (\<open>marketops_outcomes.go\<close>).\<close>

record outcome =
  o_outcome_id :: string
  o_tenant_id :: string
  o_app_id :: string
  o_source_type :: string
  o_source_id :: string
  o_hypothesis_key :: string
  o_hypothesis_version :: string
  o_asset_id :: string
  o_symbol :: string
  o_direction :: string
  o_origin_session_date :: time
  o_horizon_sessions :: int
  o_matured_session_date :: "time option"
  o_outcome_status :: string
  o_forward_return :: "f64 option"
  o_max_favorable :: "f64 option"
  o_max_adverse :: "f64 option"
  o_maximum_drawdown :: "f64 option"
  o_realized_vol_change :: "f64 option"
  o_directional_hit :: "bool option"
  o_threshold_hit :: "bool option"
  o_days_to_threshold :: "int option"
  o_origin_event_id :: string
  o_outcome_event_ids :: "string list"
  o_payload :: doc
  o_calculation_version :: string
  o_calculation_run_id :: string
  o_deterministic_key :: string
  o_created_at :: time
  o_updated_at :: time

text \<open>\<open>MarketOpsHypothesisEvaluationRecord\<close> (\<open>marketops_hypotheses.go\<close>).\<close>

record hyp_evaluation =
  he_evaluation_id :: string
  he_tenant_id :: string
  he_app_id :: string
  he_hypothesis_key :: string
  he_hypothesis_version :: string
  he_market_state_id :: string
  he_asset_id :: string
  he_symbol :: string
  he_session_date :: time
  he_as_of_time :: time
  he_eligible :: bool
  he_triggered :: bool
  he_trigger_score :: "f64 option"
  he_confidence_score :: "f64 option"
  he_magnitude_score :: "f64 option"
  he_rarity_score :: "f64 option"
  he_persistence_score :: "f64 option"
  he_corroboration_score :: "f64 option"
  he_quality_score :: "f64 option"
  he_invalidated :: bool
  he_evidence_ids :: "string list"
  he_reason_codes :: "string list"
  he_payload :: doc
  he_run_id :: string
  he_deterministic_key :: string
  he_created_at :: time

text \<open>\<open>MarketOpsOpportunityRecord\<close> (\<open>marketops_opportunities.go\<close>).\<close>

record opportunity =
  op_opportunity_id :: string
  op_tenant_id :: string
  op_app_id :: string
  op_asset_id :: string
  op_symbol :: string
  op_opened_session_date :: time
  op_last_evaluated_date :: time
  op_direction :: string
  op_horizon :: string
  op_lifecycle_status :: string
  op_opportunity_score :: f64
  op_confidence_score :: f64
  op_domain_diversity_score :: f64
  op_conflict_score :: f64
  op_hypothesis_evaluation_ids :: "string list"
  op_conflicting_evaluation_ids :: "string list"
  op_signal_ids :: "string list"
  op_supporting_evidence_ids :: "string list"
  op_invalidating_evidence_ids :: "string list"
  op_summary :: string
  op_payload :: doc
  op_version :: int
  op_research_only :: bool
  op_build_run_id :: string
  op_deterministic_key :: string
  op_created_at :: time
  op_updated_at :: time

text \<open>\<open>SignalLedgerRecord\<close> (\<open>storage.go\<close>).\<close>

record signal_ledger =
  sl_signal_id :: string
  sl_tenant_id :: string
  sl_source_id :: string
  sl_app_id :: string
  sl_domain :: string
  sl_use_case :: string
  sl_source_domain :: string
  sl_source_adapter :: string
  sl_ingestion_mode :: string
  sl_dataset :: string
  sl_event_ids :: "string list"
  sl_artifact_ids :: "string list"
  sl_signal_type :: string
  sl_detector_id :: string
  sl_detector_version :: string
  sl_model_version :: string
  sl_signal_time :: time
  sl_observation_time :: time
  sl_effective_time :: time
  sl_processing_time :: time
  sl_window_start :: time
  sl_window_end :: time
  sl_confidence :: f64
  sl_severity :: string
  sl_entities :: doc
  sl_supporting_metrics :: doc
  sl_graph_targets :: doc
  sl_semantic_evidence :: doc
  sl_evidence :: doc
  sl_recommendation :: doc
  sl_correlation_id :: string
  sl_trace_id :: string
  sl_causation_id :: string
  sl_replay_job_id :: string
  sl_broker_topic :: string
  sl_broker_partition :: int
  sl_broker_offset :: int
  sl_event :: doc
  sl_created_at :: time
  sl_updated_at :: time

text \<open>\<open>AlgorithmResultRecord\<close> (\<open>storage.go\<close>).\<close>

record algorithm_result =
  ar_algorithm_result_id :: string
  ar_tenant_id :: string
  ar_algorithm_id :: string
  ar_algorithm_version :: string
  ar_execution_request_id :: string
  ar_result_type :: string
  ar_score :: f64
  ar_confidence :: f64
  ar_severity :: string
  ar_result_payload :: doc
  ar_source_event_ids :: "string list"
  ar_feature_value_ids :: "string list"
  ar_evidence_refs :: "string list"
  ar_correlation_id :: string
  ar_created_at :: time

text \<open>\<open>AlgorithmSignalProposalRecord\<close> (\<open>storage.go\<close>).\<close>

record signal_proposal =
  sp_proposal_id :: string
  sp_tenant_id :: string
  sp_proposal_source :: string
  sp_algorithm_result_id :: string
  sp_algorithm_id :: string
  sp_algorithm_version :: string
  sp_execution_request_id :: string
  sp_hypothesis_evaluation_id :: string
  sp_hypothesis_key :: string
  sp_hypothesis_version :: string
  sp_hypothesis_lifecycle :: string
  sp_proposed_signal_type :: string
  sp_status :: string
  sp_score :: f64
  sp_confidence :: f64
  sp_severity :: string
  sp_proposal_payload :: doc
  sp_rationale :: doc
  sp_source_event_ids :: "string list"
  sp_evidence_refs :: "string list"
  sp_correlation_id :: string
  sp_research_only :: bool
  sp_materialization_eligible :: bool
  sp_eligibility_snapshot :: doc
  sp_created_by :: string
  sp_reviewed_by :: string
  sp_decision_note :: string
  sp_decided_at :: "time option"
  sp_created_at :: time
  sp_updated_at :: time

text \<open>\<open>AlgorithmSignalMaterializationRecord\<close> (\<open>storage.go\<close>).\<close>

record materialization =
  mz_materialization_id :: string
  mz_tenant_id :: string
  mz_proposal_id :: string
  mz_algorithm_result_id :: string
  mz_execution_request_id :: string
  mz_algorithm_id :: string
  mz_algorithm_version :: string
  mz_proposed_signal_type :: string
  mz_signal_id :: string
  mz_materialization_status :: string
  mz_materialization_policy_version :: string
  mz_idempotency_key :: string
  mz_duplicate_of_signal_id :: string
  mz_requested_by :: string
  mz_requested_at :: time
  mz_started_at :: "time option"
  mz_completed_at :: "time option"
  mz_failed_at :: "time option"
  mz_error_code :: string
  mz_error_message :: string
  mz_request_metadata :: doc
  mz_preflight_snapshot :: doc
  mz_signal_payload_preview :: doc
  mz_created_at :: time
  mz_updated_at :: time

text \<open>The quality states the calculations accept.\<close>

definition usable :: "string \<Rightarrow> bool" where
  "usable q \<longleftrightarrow> q = ''usable'' \<or> q = ''usable_with_warning''"

text \<open>\<open>MarketOpsFeatureObservationRecord\<close> (\<open>storage.go\<close>).\<close>

record feature_observation =
  fo_observation_id :: string
  fo_tenant_id :: string
  fo_app_id :: string
  fo_asset_id :: string
  fo_symbol :: string
  fo_session_date :: time
  fo_as_of_time :: time
  fo_feature_key :: string
  fo_feature_version :: string
  fo_dimensions :: doc
  fo_numeric_value :: "f64 option"
  fo_text_value :: "string option"
  fo_boolean_value :: "bool option"
  fo_quality_state :: string
  fo_quality_score :: "f64 option"
  fo_quality_details :: doc
  fo_source_event_ids :: "string list"
  fo_source_artifact_ids :: "string list"
  fo_calculation_run_id :: string
  fo_deterministic_key :: string
  fo_created_at :: time

text \<open>\<open>MarketOpsMarketStateRecord\<close> (\<open>storage.go\<close>).\<close>

record state_record =
  ms_market_state_id :: string
  ms_tenant_id :: string
  ms_app_id :: string
  ms_asset_id :: string
  ms_symbol :: string
  ms_session_date :: time
  ms_as_of_time :: time
  ms_state_schema_version :: string
  ms_state_payload :: doc
  ms_feature_observation_ids :: "string list"
  ms_feature_count :: int
  ms_required_feature_count :: int
  ms_completeness_ratio :: f64
  ms_quality_state :: string
  ms_quality_score :: "f64 option"
  ms_quality_summary :: doc
  ms_eligible_hypotheses :: "string list"
  ms_build_run_id :: string
  ms_deterministic_key :: string
  ms_created_at :: time

text \<open>\<open>MarketOpsStateTransitionRecord\<close> (\<open>storage.go\<close>).\<close>

record transition_record =
  tr_transition_id :: string
  tr_tenant_id :: string
  tr_app_id :: string
  tr_asset_id :: string
  tr_symbol :: string
  tr_session_date :: time
  tr_as_of_time :: time
  tr_current_state_id :: string
  tr_baseline_state_id :: string
  tr_feature_key :: string
  tr_feature_version :: string
  tr_dimensions :: doc
  tr_transition_type :: string
  tr_lookback_sessions :: "int option"
  tr_current_value :: "f64 option"
  tr_baseline_value :: "f64 option"
  tr_transition_value :: "f64 option"
  tr_z_score :: "f64 option"
  tr_percentile :: "f64 option"
  tr_persistence_sessions :: "int option"
  tr_direction :: string
  tr_quality_state :: string
  tr_transition_payload :: doc
  tr_calculation_run_id :: string
  tr_deterministic_key :: string
  tr_created_at :: time

text \<open>\<open>MarketOpsEvidenceRecord\<close> (\<open>storage.go\<close>).\<close>

record evidence_record =
  ed_evidence_id :: string
  ed_tenant_id :: string
  ed_app_id :: string
  ed_asset_id :: string
  ed_symbol :: string
  ed_session_date :: time
  ed_as_of_time :: time
  ed_evidence_type :: string
  ed_evidence_version :: string
  ed_domain :: string
  ed_direction :: string
  ed_magnitude :: "f64 option"
  ed_rarity_score :: "f64 option"
  ed_persistence_score :: "f64 option"
  ed_quality_score :: "f64 option"
  ed_statement :: string
  ed_evidence_payload :: doc
  ed_source_feature_ids :: "string list"
  ed_source_transition_ids :: "string list"
  ed_deterministic_key :: string
  ed_created_at :: time

text \<open>\<open>MarketOpsHypothesisDefinitionRecord\<close> (\<open>marketops_hypotheses.go\<close>).\<close>

record hypothesis_definition =
  hd_tenant_id :: string
  hd_hypothesis_key :: string
  hd_hypothesis_version :: string
  hd_title :: string
  hd_domain :: string
  hd_direction :: string
  hd_description :: string
  hd_rationale :: string
  hd_required_features :: doc
  hd_required_transitions :: doc
  hd_quality_policy :: doc
  hd_eligibility_expression :: doc
  hd_trigger_expression :: doc
  hd_persistence_rule :: doc
  hd_corroboration_rule :: doc
  hd_invalidation_rule :: doc
  hd_expected_outcomes :: doc
  hd_scoring_config :: doc
  hd_calibration_policy :: doc
  hd_lifecycle_status :: string
  hd_owner :: string
  hd_approved_by :: string
  hd_approved_at :: "time option"
  hd_created_at :: time
  hd_updated_at :: time

end
