(* ===== verification/Sha256.thy ===== *)
theory Sha256 imports GoText "HOL-Library.Word" begin

text \<open>
  SHA-256 (\<open>crypto/sha256\<close>) on byte strings, over 32-bit words, and hexadecimal text
  (\<open>encoding/hex\<close>); the code derives its record identifiers from them.
\<close>

unbundle bit_operations_syntax

type_synonym w32 = "32 word"

text \<open>
  The round constants and the initial state are the first 32 bits of the fractional parts of
  the cube roots of the first 64 primes and of the square roots of the first eight.
\<close>

definition int_root :: "nat \<Rightarrow> int \<Rightarrow> int" where
  "int_root k n = foldl (\<lambda>r i. if (r + 2 ^ i) ^ k \<le> n then r + 2 ^ i else r) 0 (rev [0..<36])"

definition first_primes :: "int list" where
  "first_primes = filter (\<lambda>n. list_all (\<lambda>d. n mod d \<noteq> 0) [2..n - 1]) [2..311]"

definition sha_k :: "w32 list" where
  "sha_k = map (\<lambda>p. of_int (int_root 3 (p * 2 ^ 96))) first_primes"

definition sha_h0 :: "w32 list" where
  "sha_h0 = map (\<lambda>p. of_int (int_root 2 (p * 2 ^ 64))) [2, 3, 5, 7, 11, 13, 17, 19]"

definition rotr :: "nat \<Rightarrow> w32 \<Rightarrow> w32" where
  "rotr n x = drop_bit n x OR push_bit (32 - n) x"

section \<open>Padding and words\<close>

definition be_bytes :: "nat \<Rightarrow> int \<Rightarrow> string" where
  "be_bytes k n = map (\<lambda>i. char_of (n div 256 ^ (k - 1 - i))) [0..<k]"

definition sha_pad :: "string \<Rightarrow> string" where
  "sha_pad m = m @ [CHR 0x80] @ replicate ((119 - length m mod 64) mod 64) (CHR 0x00) @ be_bytes 8 (8 * int (length m))"

definition be_word :: "string \<Rightarrow> w32" where
  "be_word bs = of_int (foldl (\<lambda>n c. 256 * n + code_of c) 0 bs)"

fun chunks :: "nat \<Rightarrow> 'a list \<Rightarrow> 'a list list" where
  "chunks n xs = (if n = 0 \<or> xs = [] then [] else take n xs # chunks n (drop n xs))"

declare chunks.simps [simp del]

section \<open>Compression\<close>

definition sched_step :: "w32 list \<Rightarrow> w32 list" where
  "sched_step w =
     (let n = length w; a = w ! (n - 15); b = w ! (n - 2);
          s0 = rotr 7 a XOR rotr 18 a XOR drop_bit 3 a;
          s1 = rotr 17 b XOR rotr 19 b XOR drop_bit 10 b
      in w @ [w ! (n - 16) + s0 + w ! (n - 7) + s1])"

definition schedule :: "w32 list \<Rightarrow> w32 list" where
  "schedule w = (sched_step ^^ 48) w"

type_synonym sha_state = "w32 \<times> w32 \<times> w32 \<times> w32 \<times> w32 \<times> w32 \<times> w32 \<times> w32"

definition sha_round :: "sha_state \<Rightarrow> w32 \<times> w32 \<Rightarrow> sha_state" where
  "sha_round st kw =
     (case (st, kw) of ((a, b, c, d, e, f, g, h), (k, w)) \<Rightarrow>
       let s1 = rotr 6 e XOR rotr 11 e XOR rotr 25 e;
           ch = (e AND f) XOR (NOT e AND g);
           t1 = h + s1 + ch + k + w;
           s0 = rotr 2 a XOR rotr 13 a XOR rotr 22 a;
           mj = (a AND b) XOR (a AND c) XOR (b AND c)
       in (t1 + s0 + mj, a, b, c, d + t1, e, f, g))"

definition state_of :: "w32 list \<Rightarrow> sha_state" where
  "state_of h = (h ! 0, h ! 1, h ! 2, h ! 3, h ! 4, h ! 5, h ! 6, h ! 7)"

definition sha_block :: "w32 list \<Rightarrow> string \<Rightarrow> w32 list" where
  "sha_block h blk =
     (case foldl sha_round (state_of h) (zip sha_k (schedule (map be_word (chunks 4 blk)))) of
       (a, b, c, d, e, f, g, k) \<Rightarrow>
         [h ! 0 + a, h ! 1 + b, h ! 2 + c, h ! 3 + d, h ! 4 + e, h ! 5 + f, h ! 6 + g, h ! 7 + k])"

definition sha256 :: "string \<Rightarrow> string" where
  "sha256 m = concat (map (\<lambda>w. be_bytes 4 (uint w)) (foldl sha_block sha_h0 (chunks 64 (sha_pad m))))"

section \<open>Hexadecimal\<close>

definition hex_digit :: "int \<Rightarrow> char" where
  "hex_digit n = (if n < 10 then char_of (48 + n) else char_of (87 + n))"

definition hex_byte :: "char \<Rightarrow> string" where
  "hex_byte c = [hex_digit (code_of c div 16), hex_digit (code_of c mod 16)]"

definition hex_encode :: "string \<Rightarrow> string" where
  "hex_encode s = concat (map hex_byte s)"

definition is_hex :: "char \<Rightarrow> bool" where
  "is_hex c \<longleftrightarrow> is_digit c \<or> (97 \<le> code_of c \<and> code_of c \<le> 102) \<or> (65 \<le> code_of c \<and> code_of c \<le> 70)"

text \<open>Whether \<open>hex.DecodeString\<close> succeeds: an even number of hexadecimal digits.\<close>

definition hex_ok :: "string \<Rightarrow> bool" where
  "hex_ok s \<longleftrightarrow> even (length s) \<and> list_all is_hex s"

lemma length_hex_encode [simp]: "length (hex_encode s) = 2 * length s"
  by (induction s) (auto simp: hex_encode_def hex_byte_def)

lemma length_be_bytes [simp]: "length (be_bytes k n) = k"
  by (simp add: be_bytes_def)

lemma length_sha_block [simp]: "length (sha_block h b) = 8"
  by (simp add: sha_block_def split: prod.splits)

lemma length_foldl_sha_block: "length h = 8 \<Longrightarrow> length (foldl sha_block h bs) = 8"
  by (induction bs arbitrary: h) auto

lemma length_concat_be_bytes: "length (concat (map (\<lambda>w. be_bytes 4 (uint w)) ws)) = 4 * length ws"
  by (induction ws) auto

lemma length_sha_h0: "length sha_h0 = 8"
  by (simp add: sha_h0_def)

lemma length_sha256 [simp]: "length (sha256 m) = 32"
  unfolding sha256_def length_concat_be_bytes
  by (subst length_foldl_sha_block) (simp_all add: length_sha_h0)

lemma code_of_less [simp]: "code_of c < 256" "0 \<le> code_of c"
proof -
  have "code_of c = code_of c mod 256" unfolding code_of_def by (metis char_of_char of_char_of)
  then show "code_of c < 256" "0 \<le> code_of c" by (metis pos_mod_bound zero_less_numeral, metis pos_mod_sign zero_less_numeral)
qed

lemma nul_notin_hex [simp]: "CHR 0x00 \<notin> set (hex_encode s)"
proof -
  have digit: "hex_digit n \<noteq> CHR 0x00" if "0 \<le> n" "n < 16" for n
  proof
    have "code_of (hex_digit n) \<noteq> 0" using that by (simp add: hex_digit_def code_of_char_of)
    moreover assume "hex_digit n = CHR 0x00"
    ultimately show False by (simp add: code_of_def)
  qed
  have "code_of c div 16 < 16" "0 \<le> code_of c div 16" for c
  proof -
    have "code_of c < 256" "0 \<le> code_of c" by simp_all
    then show "code_of c div 16 < 16" "0 \<le> code_of c div 16" by linarith+
  qed
  then have "CHR 0x00 \<notin> set (hex_byte c)" for c
    using digit [of "code_of c div 16"] digit [of "code_of c mod 16"] by (auto simp: hex_byte_def)
  then show ?thesis by (auto simp: hex_encode_def)
qed

lemma nibbles [simp]: "code_of c div 16 < 16" "0 \<le> code_of c div 16"
proof -
  have "x div 16 < 16 \<and> 0 \<le> x div 16" if "x < 256" "0 \<le> x" for x :: int
    using that by auto
  then show "code_of c div 16 < 16" "0 \<le> code_of c div 16"
    using code_of_less by blast+
qed

lemma hex_digit_is_hex: "0 \<le> n \<Longrightarrow> n < 16 \<Longrightarrow> is_hex (hex_digit n)"
  by (auto simp: hex_digit_def is_hex_def is_digit_def code_of_char_of)

lemma hex_ok_encode: "hex_ok (hex_encode s)"
proof -
  have "list_all is_hex (hex_byte c)" for c
    using code_of_less [of c] by (simp add: hex_byte_def hex_digit_is_hex)
  then have "list_all is_hex (hex_encode s)" by (induction s) (auto simp: hex_encode_def)
  then show ?thesis by (simp add: hex_ok_def)
qed

lemma hex_digit_inj: "hex_digit m = hex_digit n \<Longrightarrow> 0 \<le> m \<Longrightarrow> m < 16 \<Longrightarrow> 0 \<le> n \<Longrightarrow> n < 16 \<Longrightarrow> m = n"
  by (auto simp: hex_digit_def split: if_splits dest: arg_cong [where f = code_of] simp: code_of_char_of)

lemma hex_byte_inj: "hex_byte c = hex_byte d \<Longrightarrow> c = d"
proof -
  assume a: "hex_byte c = hex_byte d"
  have "code_of c div 16 = code_of d div 16" "code_of c mod 16 = code_of d mod 16"
    using a code_of_less [of c] code_of_less [of d]
    by (auto simp: hex_byte_def intro!: hex_digit_inj)
  then have "code_of c = code_of d" by (metis div_mult_mod_eq)
  then show "c = d" by (simp add: code_of_def)
qed

lemma hex_encode_Cons: "hex_encode (c # s) = hex_byte c @ hex_encode s"
  by (simp add: hex_encode_def)

lemma hex_encode_inj: "hex_encode s = hex_encode t \<Longrightarrow> s = t"
proof (induction s arbitrary: t)
  case Nil
  then show ?case using length_hex_encode [of t] length_hex_encode [of "[]"] by simp
next
  case (Cons c s)
  have "length t = Suc (length s)" using arg_cong [where f = length, OF Cons.prems] by simp
  then obtain d u where t: "t = d # u" by (cases t) auto
  then have "hex_byte c = hex_byte d \<and> hex_encode s = hex_encode u"
    using Cons.prems by (auto simp: hex_encode_Cons hex_byte_def)
  then show ?case using Cons.IH hex_byte_inj t by blast
qed

section \<open>Framing\<close>

text \<open>
  Two ways the code frames a list of strings before hashing it: a NUL byte after each part,
  and an 8-byte big-endian length before each part. Both framings are injective, the first
  on parts without NUL bytes.
\<close>

definition nul_frame :: "string list \<Rightarrow> string" where
  "nul_frame parts = concat (map (\<lambda>p. p @ [CHR 0x00]) parts)"

definition len_frame :: "string list \<Rightarrow> string" where
  "len_frame parts = concat (map (\<lambda>p. be_bytes 8 (int (length p)) @ p) parts)"

lemma nul_split:
  "p @ CHR 0x00 # s = q @ CHR 0x00 # t \<Longrightarrow> CHR 0x00 \<notin> set p \<Longrightarrow> CHR 0x00 \<notin> set q \<Longrightarrow> p = q \<and> s = t"
proof (induction p arbitrary: q)
  case Nil
  then show ?case by (cases q) auto
next
  case (Cons c p)
  then show ?case by (cases q) auto
qed

lemma nul_frame_inj:
  assumes "nul_frame ps = nul_frame qs" "\<forall>p \<in> set ps. CHR 0x00 \<notin> set p" "\<forall>q \<in> set qs. CHR 0x00 \<notin> set q"
  shows "ps = qs"
  using assms
proof (induction ps arbitrary: qs)
  case Nil
  then show ?case by (cases qs) (auto simp: nul_frame_def)
next
  case (Cons p ps)
  then obtain q qs' where q: "qs = q # qs'" by (cases qs) (auto simp: nul_frame_def)
  then have "p = q \<and> nul_frame ps = nul_frame qs'"
    using Cons.prems nul_split [of p "nul_frame ps" q "nul_frame qs'"] by (simp add: nul_frame_def)
  then show ?case using Cons.IH [of qs'] Cons.prems q by simp
qed

lemma foldl_be: "foldl (\<lambda>n c. 256 * n + code_of c) a (xs @ [x]) = 256 * foldl (\<lambda>n c. 256 * n + code_of c) a xs + code_of x"
  by simp

lemma be_bytes_Suc: "be_bytes (Suc k) n = be_bytes k (n div 256) @ [char_of n]"
proof -
  have "map (\<lambda>i. char_of (n div 256 ^ (Suc k - 1 - i)) :: char) [0..<k] = be_bytes k (n div 256)"
    unfolding be_bytes_def
  proof (rule map_cong)
    fix i assume "i \<in> set [0..<k]"
    then have "k - i = Suc (k - 1 - i)" by auto
    then show "char_of (n div 256 ^ (Suc k - 1 - i)) = (char_of (n div 256 div 256 ^ (k - 1 - i)) :: char)"
      by (simp add: zdiv_zmult2_eq)
  qed simp
  then show ?thesis by (simp add: be_bytes_def)
qed

lemma be_bytes_val: "foldl (\<lambda>n c. 256 * n + code_of c) 0 (be_bytes k n) = n mod 256 ^ k"
proof (induction k arbitrary: n)
  case 0
  then show ?case by (simp add: be_bytes_def)
next
  case (Suc k)
  have "n mod 256 ^ Suc k = 256 * (n div 256 mod 256 ^ k) + n mod 256"
    using zmod_zmult2_eq [of "256 ^ k" n 256] by simp
  then show ?case using Suc [of "n div 256"] by (simp add: be_bytes_Suc code_of_def)
qed

lemma be_bytes_inj: "be_bytes k m = be_bytes k n \<Longrightarrow> 0 \<le> m \<Longrightarrow> m < 256 ^ k \<Longrightarrow> 0 \<le> n \<Longrightarrow> n < 256 ^ k \<Longrightarrow> m = n"
  by (metis be_bytes_val mod_pos_pos_trivial)

lemma len_frame_inj:
  assumes "len_frame ps = len_frame qs" "\<forall>p \<in> set ps. length p < 2 ^ 64" "\<forall>q \<in> set qs. length q < 2 ^ 64"
  shows "ps = qs"
  using assms
proof (induction ps arbitrary: qs)
  case Nil
  then show ?case by (cases qs) (auto simp: len_frame_def be_bytes_def)
next
  case (Cons p ps)
  then obtain q qs' where q: "qs = q # qs'" by (cases qs) (auto simp: len_frame_def be_bytes_def)
  have e: "be_bytes 8 (int (length p)) @ p @ len_frame ps = be_bytes 8 (int (length q)) @ q @ len_frame qs'"
    using Cons.prems(1) q by (simp add: len_frame_def)
  then have "be_bytes 8 (int (length p)) = be_bytes 8 (int (length q))"
    by (metis append_eq_append_conv length_be_bytes)
  moreover have "int (length p) < 256 ^ 8" "int (length q) < 256 ^ 8" using Cons.prems q by simp_all
  ultimately have l: "length p = length q"
    using be_bytes_inj [of 8 "int (length p)" "int (length q)"] by simp
  then have "p = q \<and> len_frame ps = len_frame qs'" using e by simp
  then show ?case using Cons.IH [of qs'] Cons.prems q by simp
qed

end
