(* ===== verification/SafRecords.thy ===== *)
theory SafRecords imports StorageRecords Sha256 begin

text \<open>
  The Signal Assurance Framework's data model: the structs of
  \<open>internal/storage/signal_assurance.go\<close>, field by field. Pointers are options, \<open>[]byte\<close>
  fields holding JSON are \<open>doc\<close>s; a struct the code marshals whole into such a field is
  kept as an optional value of the struct (\<open>None\<close> when marshalling fails).
\<close>

section \<open>Constants\<close>

definition mode_live :: string where "mode_live = ''LIVE''"
definition mode_backtest :: string where "mode_backtest = ''BACKTEST''"
definition mode_research :: string where "mode_research = ''RESEARCH''"

definition st_active :: string where "st_active = ''ACTIVE''"
definition st_materialized :: string where "st_materialized = ''MATERIALIZED''"
definition st_invalidated :: string where "st_invalidated = ''INVALIDATED''"
definition st_superseded :: string where "st_superseded = ''SUPERSEDED''"
definition st_expired :: string where "st_expired = ''EXPIRED''"
definition st_closed :: string where "st_closed = ''CLOSED''"

definition input_complete :: string where "input_complete = ''COMPLETE''"
definition input_incomplete :: string where "input_incomplete = ''INCOMPLETE''"

lemmas mode_defs = mode_live_def mode_backtest_def mode_research_def
lemmas st_defs = st_active_def st_materialized_def st_invalidated_def st_superseded_def st_expired_def st_closed_def

section \<open>Records\<close>

record contract =
  c_contract_id :: string
  c_signal_type :: string
  c_contract_version :: string
  c_algorithm :: string
  c_algorithm_version :: string
  c_direction :: string
  c_primary_metric :: string
  c_comparison_operator :: string
  c_threshold :: f64
  c_evaluation_windows :: doc
  c_max_horizon_trading_days :: int
  c_materialization_policy :: string
  c_invalidation_policy :: string
  c_config :: doc
  c_active :: bool
  c_scope_key :: string
  c_created_at :: time

record eligible_event =
  e_eligible_event_id :: string
  e_tenant_id :: string
  e_signal_id :: string
  e_signal_ledger_id :: string
  e_asset_id :: string
  e_symbol :: string
  e_signal_type :: string
  e_direction :: string
  e_score :: "f64 option"
  e_confidence :: "f64 option"
  e_status :: string
  e_algorithm :: string
  e_algorithm_version :: string
  e_confirmed_at :: time
  e_event_available_at :: time
  e_confirmation_rule_version :: string
  e_validation_contract_ref :: string
  e_baseline_snapshot :: doc
  e_baseline_provenance :: doc
  e_evaluation_mode :: string
  e_evaluation_run_id :: string

record assertion =
  a_assertion_id :: string
  a_tenant_id :: string
  a_asset_id :: string
  a_symbol :: string
  a_signal_id :: string
  a_source_ledger_signal_id :: string
  a_signal_type :: string
  a_signal_direction :: string
  a_signal_score :: "f64 option"
  a_confidence :: "f64 option"
  a_algorithm :: string
  a_algorithm_version :: string
  a_confirmed_at :: time
  a_state :: string
  a_evaluation_mode :: string
  a_evaluation_run_id :: string
  a_registration_key :: string
  a_contract_id :: string
  a_contract_version :: string
  a_contract_json :: "contract option"
  a_engine_version :: string
  a_baseline_snapshot :: doc
  a_baseline_provenance :: doc
  a_materialized_at :: "time option"
  a_invalidated_at :: "time option"
  a_superseded_at :: "time option"
  a_expired_at :: "time option"
  a_closed_at :: "time option"
  a_transition_sequence :: int

record evaluation =
  v_evaluation_id :: string
  v_assertion_id :: string
  v_evaluated_at :: time
  v_session_date :: time
  v_evaluation_mode :: string
  v_evaluation_run_id :: string
  v_input_snapshot :: doc
  v_input_completeness :: string
  v_transition_sequence :: int
  v_trading_days_active :: int
  v_calendar_days_active :: int
  v_asset_price :: "f64 option"
  v_benchmark_price :: "f64 option"
  v_absolute_return :: "f64 option"
  v_benchmark_return :: "f64 option"
  v_benchmark_relative_return :: "f64 option"
  v_mfe :: "f64 option"
  v_mae :: "f64 option"
  v_materialization_met :: bool
  v_invalidation_met :: bool
  v_evaluation_version :: string

record saf_event =
  ev_event_id :: string
  ev_assertion_id :: string
  ev_event_type :: string
  ev_previous_state :: string
  ev_new_state :: string
  ev_reason_code :: string
  ev_details :: doc
  ev_occurred_at :: time
  ev_transition_sequence :: int
  ev_evaluation_id :: string
  ev_evaluation_mode :: string
  ev_evaluation_run_id :: string
  ev_idempotency_key :: string
  ev_published_at :: "time option"

record registration =
  r_event :: eligible_event
  r_contract :: contract
  r_assertion :: assertion
  r_payload :: "eligible_event option"

record persistence =
  p_evaluation :: evaluation
  p_previous_state :: string
  p_next_state :: string
  p_reason_code :: string
  p_event_details :: doc

end
