(* ===== verification/SafRules.thy ===== *)
theory SafRules imports SafRecords begin

text \<open>
  \<open>internal/marketops/signalassurance/eligibility.go\<close>: decoding and validating an eligible
  event, validating a contract, and building the registration of an assertion. A Go
  \<open>range\<close> over a map visits the keys in an order the language leaves open; the
  validators take that order as the argument \<open>ord\<close>, a permutation of the entries.
\<close>

definition range_order :: "((string \<times> string) list \<Rightarrow> (string \<times> string) list) \<Rightarrow> bool" where
  "range_order ord \<longleftrightarrow> (\<forall>xs. mset (ord xs) = mset xs)"

lemma range_order_set: "range_order ord \<Longrightarrow> set (ord xs) = set xs"
  by (metis range_order_def set_mset_mset)

definition evaluation_engine_version :: string where
  "evaluation_engine_version = ''signal_assurance.v1.1''"

section \<open>Small predicates\<close>

definition valid_mode :: "string \<Rightarrow> bool" where
  "valid_mode mode \<longleftrightarrow> mode = mode_live \<or> mode = mode_backtest \<or> mode = mode_research"

definition valid_operator :: "string \<Rightarrow> bool" where
  "valid_operator op \<longleftrightarrow> op = ''>='' \<or> op = ''>'' \<or> op = ''<='' \<or> op = ''<''"

definition json_object :: "doc \<Rightarrow> bool" where
  "json_object d \<longleftrightarrow> decode_obj d \<noteq> None"

definition json_array :: "doc \<Rightarrow> bool" where
  "json_array d \<longleftrightarrow> decode_arr d \<noteq> None"

definition deterministic_id :: "string \<Rightarrow> string list \<Rightarrow> string" where
  "deterministic_id pre parts = pre @ ''_'' @ take 24 (hex_encode (sha256 (nul_frame parts)))"

definition registration_key :: "eligible_event \<Rightarrow> string" where
  "registration_key e = join ''|'' [e_tenant_id e, e_asset_id e, e_signal_id e, e_algorithm_version e, fmt_rfc3339nano (e_confirmed_at e)]"

section \<open>Validation\<close>

definition required_event_fields :: "eligible_event \<Rightarrow> (string \<times> string) list" where
  "required_event_fields e =
     [(''eligible_event_id'', e_eligible_event_id e), (''tenant_id'', e_tenant_id e), (''signal_id'', e_signal_id e),
      (''signal_ledger_id'', e_signal_ledger_id e), (''asset_id'', e_asset_id e), (''symbol'', e_symbol e),
      (''signal_type'', e_signal_type e), (''direction'', e_direction e), (''status'', e_status e),
      (''algorithm'', e_algorithm e), (''algorithm_version'', e_algorithm_version e),
      (''confirmation_rule_version'', e_confirmation_rule_version e), (''validation_contract_ref'', e_validation_contract_ref e)]"

definition asset_price_of :: "doc \<Rightarrow> f64 option" where
  "asset_price_of d = num_of (case decode_obj d of None \<Rightarrow> None | Some m \<Rightarrow> oget m ''asset_price'')"

definition event_rules :: "eligible_event \<Rightarrow> unit res" where
  "event_rules e =
    (if e_signal_id e \<noteq> e_signal_ledger_id e then
       Inl (Err ''eligible event signal_id must equal signal_ledger_id'')
     else if e_status e \<noteq> ''confirmed'' \<or> (e_direction e \<noteq> ''bullish'' \<and> e_direction e \<noteq> ''bearish'') then
       Inl (Err ''eligible event must be a confirmed bullish or bearish signal'')
     else if (case e_confidence e of None \<Rightarrow> False | Some c \<Rightarrow> flt c (Fin 0) \<or> flt (Fin 1) c) then
       Inl (Err ''eligible event confidence must be between zero and one'')
     else if e_confirmed_at e = zero_time \<or> e_event_available_at e = zero_time \<or> e_event_available_at e < e_confirmed_at e then
       Inl (Err ''eligible event confirmation and availability times are invalid'')
     else if \<not> valid_mode (e_evaluation_mode e)
          \<or> (e_evaluation_mode e = mode_live \<and> e_evaluation_run_id e \<noteq> [])
          \<or> (e_evaluation_mode e \<noteq> mode_live \<and> e_evaluation_run_id e = []) then
       Inl (Err ''eligible event evaluation mode/run namespace is invalid'')
     else if \<not> json_object (e_baseline_snapshot e) \<or> \<not> json_object (e_baseline_provenance e) then
       Inl (Err ''eligible event baseline snapshot and provenance must be JSON objects'')
     else if (case asset_price_of (e_baseline_snapshot e) of None \<Rightarrow> True | Some p \<Rightarrow> fle p (Fin 0)) then
       Inl (Err ''eligible event baseline_snapshot.asset_price must be positive'')
     else Inr ())"

definition validate_eligible_event ::
    "((string \<times> string) list \<Rightarrow> (string \<times> string) list) \<Rightarrow> eligible_event \<Rightarrow> unit res" where
  "validate_eligible_event ord e =
     (case first_match (\<lambda>(f, v). blank v) (ord (required_event_fields e)) of
        Some (f, _) \<Rightarrow> Inl (Err (''eligible event '' @ f @ '' is required''))
      | None \<Rightarrow> event_rules e)"

definition required_contract_fields :: "contract \<Rightarrow> (string \<times> string) list" where
  "required_contract_fields c =
     [(''contract_id'', c_contract_id c), (''signal_type'', c_signal_type c), (''contract_version'', c_contract_version c),
      (''direction'', c_direction c), (''primary_metric'', c_primary_metric c),
      (''comparison_operator'', c_comparison_operator c), (''materialization_policy'', c_materialization_policy c)]"

definition contract_rules :: "contract \<Rightarrow> unit res" where
  "contract_rules c =
    (if (c_direction c \<noteq> ''bullish'' \<and> c_direction c \<noteq> ''bearish'')
        \<or> (c_primary_metric c \<noteq> ''absolute_return'' \<and> c_primary_metric c \<noteq> ''benchmark_relative_return'')
        \<or> \<not> valid_operator (c_comparison_operator c)
        \<or> c_max_horizon_trading_days c \<le> 0
        \<or> \<not> json_array (c_evaluation_windows c) \<or> \<not> json_object (c_config c) then
       Inl (Err ''validation contract contains unsupported values'')
     else Inr ())"

definition validate_contract ::
    "((string \<times> string) list \<Rightarrow> (string \<times> string) list) \<Rightarrow> contract \<Rightarrow> unit res" where
  "validate_contract ord c =
     (case first_match (\<lambda>(f, v). blank v) (ord (required_contract_fields c)) of
        Some (f, _) \<Rightarrow> Inl (Err (''validation contract '' @ f @ '' is required''))
      | None \<Rightarrow> contract_rules c)"

section \<open>Decoding\<close>

definition eligible_fields :: "string list" where
  "eligible_fields =
     [''eligible_event_id'', ''tenant_id'', ''signal_id'', ''signal_ledger_id'', ''asset_id'', ''symbol'', ''signal_type'',
      ''direction'', ''score'', ''confidence'', ''status'', ''algorithm'', ''algorithm_version'', ''confirmed_at'',
      ''event_available_at'', ''confirmation_rule_version'', ''validation_contract_ref'', ''baseline_snapshot'',
      ''baseline_provenance'', ''evaluation_mode'', ''evaluation_run_id'']"

definition decode_payload :: "doc \<Rightarrow> eligible_event option" where
  "decode_payload d =
     do { m \<leftarrow> decode_obj d;
          _ \<leftarrow> (if list_all (\<lambda>(k, v). to_lower k \<in> set eligible_fields) m then Some () else None);
          id \<leftarrow> dec_str (ofield m ''eligible_event_id'');
          tenant \<leftarrow> dec_str (ofield m ''tenant_id'');
          signal \<leftarrow> dec_str (ofield m ''signal_id'');
          ledger \<leftarrow> dec_str (ofield m ''signal_ledger_id'');
          asset \<leftarrow> dec_str (ofield m ''asset_id'');
          symbol \<leftarrow> dec_str (ofield m ''symbol'');
          ty \<leftarrow> dec_str (ofield m ''signal_type'');
          dir \<leftarrow> dec_str (ofield m ''direction'');
          score \<leftarrow> dec_num_ptr (ofield m ''score'');
          conf \<leftarrow> dec_num_ptr (ofield m ''confidence'');
          status \<leftarrow> dec_str (ofield m ''status'');
          alg \<leftarrow> dec_str (ofield m ''algorithm'');
          algv \<leftarrow> dec_str (ofield m ''algorithm_version'');
          confirmed \<leftarrow> dec_time (ofield m ''confirmed_at'');
          avail \<leftarrow> dec_time (ofield m ''event_available_at'');
          rule \<leftarrow> dec_str (ofield m ''confirmation_rule_version'');
          ref \<leftarrow> dec_str (ofield m ''validation_contract_ref'');
          mode \<leftarrow> dec_str (ofield m ''evaluation_mode'');
          run \<leftarrow> dec_str (ofield m ''evaluation_run_id'');
          Some \<lparr>e_eligible_event_id = id, e_tenant_id = tenant, e_signal_id = signal, e_signal_ledger_id = ledger,
            e_asset_id = asset, e_symbol = symbol, e_signal_type = ty, e_direction = dir, e_score = score,
            e_confidence = conf, e_status = status, e_algorithm = alg, e_algorithm_version = algv,
            e_confirmed_at = confirmed, e_event_available_at = avail, e_confirmation_rule_version = rule,
            e_validation_contract_ref = ref, e_baseline_snapshot = dec_raw (ofield m ''baseline_snapshot''),
            e_baseline_provenance = dec_raw (ofield m ''baseline_provenance''), e_evaluation_mode = mode,
            e_evaluation_run_id = run\<rparr> }"

definition canonical_mode :: "string \<Rightarrow> string" where
  "canonical_mode s = (let m = to_upper (trim_space s) in if m = [] then mode_live else m)"

definition canonical_event :: "eligible_event \<Rightarrow> eligible_event" where
  "canonical_event raw =
      raw\<lparr>e_symbol := to_upper (trim_space (e_symbol raw)),
          e_direction := to_lower (trim_space (e_direction raw)),
          e_status := to_lower (trim_space (e_status raw)),
          e_evaluation_mode := canonical_mode (e_evaluation_mode raw),
          e_evaluation_run_id := trim_space (e_evaluation_run_id raw)\<rparr>"

definition decode_eligible_event ::
    "((string \<times> string) list \<Rightarrow> (string \<times> string) list) \<Rightarrow> stream \<Rightarrow> eligible_event res" where
  "decode_eligible_event ord s =
     (case decode_payload (sm_first s) of
        None \<Rightarrow> Inl (Err ''decode signal assurance eligible event'')
      | Some raw \<Rightarrow>
          if decoder_more s then Inl (Err ''eligible event has trailing JSON values'')
          else bind_res (validate_eligible_event ord (canonical_event raw)) (\<lambda>_. Inr (canonical_event raw)))"

section \<open>Registration\<close>

definition marshal_contract :: "contract \<Rightarrow> contract option" where
  "marshal_contract c = (if is_fin (c_threshold c) then Some c else None)"

definition marshal_event :: "eligible_event \<Rightarrow> eligible_event option" where
  "marshal_event e =
     (let fin = (\<lambda>x. case x of None \<Rightarrow> True | Some v \<Rightarrow> is_fin v) in
      if fin (e_score e) \<and> fin (e_confidence e) then Some e else None)"

definition assertion_registration ::
    "((string \<times> string) list \<Rightarrow> (string \<times> string) list) \<Rightarrow> eligible_event \<Rightarrow> contract \<Rightarrow> registration res" where
  "assertion_registration ord e c =
     bind_res (validate_eligible_event ord e) (\<lambda>_.
     bind_res (validate_contract ord c) (\<lambda>_.
       if c_signal_type c \<noteq> e_signal_type e \<or> c_direction c \<noteq> e_direction e \<or> \<not> c_active c then
         Inl (Err ''eligible event does not resolve to an active validation contract'')
       else if trim_space (e_validation_contract_ref e) \<noteq> c_contract_id c
            \<and> trim_space (e_validation_contract_ref e) \<noteq> c_signal_type c @ '':'' @ c_contract_version c then
         Inl (Err ''eligible event validation contract reference does not match resolved contract'')
       else
         (let key = registration_key e;
              a = \<lparr>a_assertion_id = deterministic_id ''saf_assertion'' [e_tenant_id e, key],
                   a_tenant_id = e_tenant_id e, a_asset_id = e_asset_id e, a_symbol = e_symbol e,
                   a_signal_id = e_signal_id e, a_source_ledger_signal_id = e_signal_ledger_id e,
                   a_signal_type = e_signal_type e, a_signal_direction = e_direction e, a_signal_score = e_score e,
                   a_confidence = e_confidence e, a_algorithm = e_algorithm e, a_algorithm_version = e_algorithm_version e,
                   a_confirmed_at = e_confirmed_at e, a_state = st_active, a_evaluation_mode = e_evaluation_mode e,
                   a_evaluation_run_id = e_evaluation_run_id e, a_registration_key = key,
                   a_contract_id = c_contract_id c, a_contract_version = c_contract_version c,
                   a_contract_json = marshal_contract c, a_engine_version = evaluation_engine_version,
                   a_baseline_snapshot = e_baseline_snapshot e, a_baseline_provenance = e_baseline_provenance e,
                   a_materialized_at = None, a_invalidated_at = None, a_superseded_at = None, a_expired_at = None,
                   a_closed_at = None, a_transition_sequence = 1\<rparr>
          in Inr \<lparr>r_event = e, r_contract = c, r_assertion = a, r_payload = marshal_event e\<rparr>)))"

section \<open>Facts\<close>

text \<open>
  Both validators first visit a map of required fields in the order the runtime chooses and
  then apply rules that read no map. Whatever the order, the verdict is the same.
\<close>

locale required_fields =
  fixes validate :: "((string \<times> string) list \<Rightarrow> (string \<times> string) list) \<Rightarrow> 'a \<Rightarrow> unit res"
    and fields :: "'a \<Rightarrow> (string \<times> string) list"
    and message :: "string \<Rightarrow> string"
    and rules :: "'a \<Rightarrow> unit res"
  assumes validate_eq: "validate ord x =
    (case first_match (\<lambda>(f, v). blank v) (ord (fields x)) of Some (f, _) \<Rightarrow> Inl (Err (message f)) | None \<Rightarrow> rules x)"
begin

lemma validate_complete:
  assumes "range_order ord" "\<forall>(f, v) \<in> set (fields x). \<not> blank v"
  shows "validate ord x = rules x"
proof -
  have "first_match (\<lambda>(f, v). blank v) (ord (fields x)) = None"
    using assms(2) by (auto simp: first_match_None range_order_set [OF assms(1)])
  then show ?thesis by (simp add: validate_eq)
qed

lemma validate_incomplete:
  assumes "range_order ord" "\<not> (\<forall>(f, v) \<in> set (fields x). \<not> blank v)"
  shows "\<exists>f v. (f, v) \<in> set (fields x) \<and> blank v \<and> validate ord x = Inl (Err (message f))"
proof (cases "first_match (\<lambda>(f, v). blank v) (ord (fields x))")
  case None
  then show ?thesis using assms by (force simp: first_match_None range_order_set)
next
  case (Some p)
  then show ?thesis
    using first_match_Some [OF Some] range_order_set [OF assms(1)] by (cases p) (auto simp: validate_eq)
qed

lemma validate_iff:
  assumes "range_order ord"
  shows "validate ord x = Inr () \<longleftrightarrow> (\<forall>(f, v) \<in> set (fields x). \<not> blank v) \<and> rules x = Inr ()"
  by (cases "\<forall>(f, v) \<in> set (fields x). \<not> blank v")
    (use validate_complete [OF assms, of x] validate_incomplete [OF assms, of x] in auto)

lemma validate_order_free:
  assumes "range_order ord" "range_order ord'"
  shows "validate ord x = validate ord' x
    \<or> (\<exists>f f'. validate ord x = Inl (Err (message f)) \<and> validate ord' x = Inl (Err (message f'))
         \<and> f \<in> fst ` set (fields x) \<and> f' \<in> fst ` set (fields x))"
proof (cases "\<forall>(f, v) \<in> set (fields x). \<not> blank v")
  case True
  then show ?thesis using validate_complete assms by metis
next
  case False
  then show ?thesis using validate_incomplete [OF assms(1) False] validate_incomplete [OF assms(2) False] by force
qed

end

interpretation event_check: required_fields validate_eligible_event required_event_fields
    "\<lambda>f. ''eligible event '' @ f @ '' is required''" event_rules
  by unfold_locales (simp add: validate_eligible_event_def)

interpretation contract_check: required_fields validate_contract required_contract_fields
    "\<lambda>f. ''validation contract '' @ f @ '' is required''" contract_rules
  by unfold_locales (simp add: validate_contract_def)

text \<open>What a valid event is, without the order of the checks.\<close>

definition event_ok :: "eligible_event \<Rightarrow> bool" where
  "event_ok e \<longleftrightarrow>
     (\<forall>(f, v) \<in> set (required_event_fields e). \<not> blank v)
     \<and> e_signal_id e = e_signal_ledger_id e \<and> e_status e = ''confirmed''
     \<and> e_direction e \<in> {''bullish'', ''bearish''}
     \<and> (\<forall>c. e_confidence e = Some c \<longrightarrow> \<not> flt c (Fin 0) \<and> \<not> flt (Fin 1) c)
     \<and> e_confirmed_at e \<noteq> zero_time \<and> e_event_available_at e \<noteq> zero_time \<and> e_confirmed_at e \<le> e_event_available_at e
     \<and> valid_mode (e_evaluation_mode e) \<and> (e_evaluation_mode e = mode_live \<longleftrightarrow> e_evaluation_run_id e = [])
     \<and> json_object (e_baseline_snapshot e) \<and> json_object (e_baseline_provenance e)
     \<and> (\<exists>p. asset_price_of (e_baseline_snapshot e) = Some p \<and> \<not> fle p (Fin 0))"

lemma validate_eligible_event_iff:
  "range_order ord \<Longrightarrow> validate_eligible_event ord e = Inr () \<longleftrightarrow> event_ok e"
  by (auto simp: event_check.validate_iff event_rules_def event_ok_def not_less split: option.splits)

definition contract_ok :: "contract \<Rightarrow> bool" where
  "contract_ok c \<longleftrightarrow>
     (\<forall>(f, v) \<in> set (required_contract_fields c). \<not> blank v)
     \<and> c_direction c \<in> {''bullish'', ''bearish''}
     \<and> c_primary_metric c \<in> {''absolute_return'', ''benchmark_relative_return''}
     \<and> valid_operator (c_comparison_operator c) \<and> 0 < c_max_horizon_trading_days c
     \<and> json_array (c_evaluation_windows c) \<and> json_object (c_config c)"

lemma validate_contract_iff:
  "range_order ord \<Longrightarrow> validate_contract ord c = Inr () \<longleftrightarrow> contract_ok c"
  by (auto simp: contract_check.validate_iff contract_rules_def contract_ok_def not_le)

end
