(* ===== verification/SafEvaluation.thy ===== *)
theory SafEvaluation imports SafRules begin

text \<open>
  \<open>internal/marketops/signalassurance/evaluation.go\<close>: one point-in-time evaluation of an
  active assertion, with the lifecycle decision and its order of precedence, and
  \<open>projection.go\<close>: the projection of a materialised assertion into the outcome ledger.
\<close>

record market_state =
  k_as_of :: time
  k_asset_price :: "f64 option"
  k_benchmark_price :: "f64 option"
  k_trading_days_active :: int
  k_input_snapshot :: doc
  k_superseded :: bool
  k_supersession_reason :: string

section \<open>Helpers\<close>

record baseline =
  bl_asset_price :: f64
  bl_benchmark_price :: f64

definition baseline_prices :: "doc \<Rightarrow> baseline res" where
  "baseline_prices d =
     (case do { m \<leftarrow> decode_obj d; a \<leftarrow> dec_num (ofield m ''asset_price''); b \<leftarrow> dec_num (ofield m ''benchmark_price''); Some (a, b) } of
        None \<Rightarrow> Inl (Err ''assertion baseline asset price is invalid'')
      | Some (a, b) \<Rightarrow> if fle a (Fin 0) then Inl (Err ''assertion baseline asset price is invalid'')
                      else Inr \<lparr>bl_asset_price = a, bl_benchmark_price = b\<rparr>)"

definition compare_op :: "f64 \<Rightarrow> string \<Rightarrow> f64 \<Rightarrow> bool" where
  "compare_op v op t =
     (if op = ''>='' then fle t v else if op = ''>'' then flt t v
      else if op = ''<='' then fle v t else if op = ''<'' then flt v t else False)"

definition invalidation_met :: "doc \<Rightarrow> f64 \<Rightarrow> bool" where
  "invalidation_met config normalized =
     (case do { m \<leftarrow> decode_obj config; dec_num_ptr (ofield m ''invalidation_threshold'') } of
        Some (Some t) \<Rightarrow> fle normalized t
      | _ \<Rightarrow> False)"

definition calendar_days :: "time \<Rightarrow> time \<Rightarrow> int" where
  "calendar_days from to =
     (if to < from then 0 else f_to_int (fdiv (hours (sub_dur to from)) (Fin 24)))"

definition copy_json_or_empty :: "doc \<Rightarrow> doc" where
  "copy_json_or_empty d = (if d = NoBytes then Doc (JObj []) else d)"

definition evaluation_details :: "f64 \<Rightarrow> f64 \<Rightarrow> market_state \<Rightarrow> doc" where
  "evaluation_details metric normalized market =
     marshal (JObj [(''primary_metric_value'', JNum metric), (''normalized_metric_value'', JNum normalized),
                    (''as_of'', JStr (fmt_date (day (k_as_of market))))])"

section \<open>Evaluate\<close>

text \<open>The inputs the primary metric needs are present and positive.\<close>

definition inputs_missing :: "contract \<Rightarrow> baseline \<Rightarrow> market_state \<Rightarrow> bool" where
  "inputs_missing c base m \<longleftrightarrow>
     (case k_asset_price m of None \<Rightarrow> True | Some p \<Rightarrow> fle p (Fin 0))
     \<or> (c_primary_metric c = ''benchmark_relative_return''
        \<and> ((case k_benchmark_price m of None \<Rightarrow> True | Some p \<Rightarrow> fle p (Fin 0)) \<or> fle (bl_benchmark_price base) (Fin 0)))"

definition blank_evaluation :: "assertion \<Rightarrow> market_state \<Rightarrow> evaluation" where
  "blank_evaluation a m =
     \<lparr>v_evaluation_id = deterministic_id ''saf_eval'' [a_assertion_id a, fmt_date (k_as_of m), evaluation_engine_version],
      v_assertion_id = a_assertion_id a, v_evaluated_at = k_as_of m, v_session_date = k_as_of m,
      v_evaluation_mode = a_evaluation_mode a, v_evaluation_run_id = a_evaluation_run_id a,
      v_input_snapshot = copy_json_or_empty (k_input_snapshot m), v_input_completeness = input_complete,
      v_transition_sequence = a_transition_sequence a, v_trading_days_active = k_trading_days_active m,
      v_calendar_days_active = calendar_days (a_confirmed_at a) (k_as_of m),
      v_asset_price = None, v_benchmark_price = None, v_absolute_return = None, v_benchmark_return = None,
      v_benchmark_relative_return = None, v_mfe = None, v_mae = None, v_materialization_met = False,
      v_invalidation_met = False, v_evaluation_version = evaluation_engine_version\<rparr>"

definition incomplete_evaluation :: "assertion \<Rightarrow> market_state \<Rightarrow> persistence" where
  "incomplete_evaluation a m =
     \<lparr>p_evaluation = (blank_evaluation a m)\<lparr>v_input_completeness := input_incomplete\<rparr>,
      p_previous_state = a_state a, p_next_state = a_state a, p_reason_code = ''required_input_missing'',
      p_event_details = NoBytes\<rparr>"

definition simple_return :: "f64 \<Rightarrow> f64 \<Rightarrow> f64" where
  "simple_return price base = fsub (fdiv price base) (Fin 1)"

text \<open>The running extremes start at the first evaluation and otherwise at the previous record's, nil read as 0.\<close>

definition previous_extremes :: "evaluation option \<Rightarrow> f64 \<Rightarrow> f64 \<times> f64" where
  "previous_extremes prev normalized =
     (case prev of
        None \<Rightarrow> (normalized, normalized)
      | Some p \<Rightarrow> ((case v_mfe p of None \<Rightarrow> Fin 0 | Some x \<Rightarrow> x), (case v_mae p of None \<Rightarrow> Fin 0 | Some x \<Rightarrow> x)))"

definition next_state ::
    "assertion \<Rightarrow> contract \<Rightarrow> market_state \<Rightarrow> bool \<Rightarrow> bool \<Rightarrow> string \<times> string" where
  "next_state a c m materialized invalidated =
     (if materialized then (st_materialized, ''materialization_condition_met'')
      else if invalidated then (st_invalidated, ''invalidation_condition_met'')
      else if k_superseded m then (st_superseded, first_non_blank [k_supersession_reason m, ''superseded''])
      else if c_max_horizon_trading_days c \<le> k_trading_days_active m then (st_expired, ''max_horizon_reached'')
      else (a_state a, ''evaluated''))"

definition price_returns :: "contract \<Rightarrow> market_state \<Rightarrow> baseline \<Rightarrow> f64 \<Rightarrow> evaluation \<Rightarrow> evaluation \<times> f64" where
  "price_returns c m base price ev =
     (let asset_return = simple_return price (bl_asset_price base);
          ev1 = ev\<lparr>v_asset_price := Some price, v_absolute_return := Some asset_return\<rparr> in
      case k_benchmark_price m of
        Some b \<Rightarrow>
          if flt (Fin 0) (bl_benchmark_price base) then
            (let bench_return = simple_return b (bl_benchmark_price base); rel = fsub asset_return bench_return in
             (ev1\<lparr>v_benchmark_price := Some b, v_benchmark_return := Some bench_return, v_benchmark_relative_return := Some rel\<rparr>,
              if c_primary_metric c = ''benchmark_relative_return'' then rel else asset_return))
          else (ev1, asset_return)
      | None \<Rightarrow> (ev1, asset_return))"

definition normalize_metric :: "assertion \<Rightarrow> f64 \<Rightarrow> f64" where
  "normalize_metric a metric = (if a_signal_direction a = ''bearish'' then fneg metric else metric)"

definition complete_evaluation ::
    "assertion \<Rightarrow> contract \<Rightarrow> evaluation option \<Rightarrow> market_state \<Rightarrow> baseline \<Rightarrow> f64 \<Rightarrow> persistence" where
  "complete_evaluation a c prev m base price =
     (let (ev, metric) = price_returns c m base price (blank_evaluation a m);
          normalized = normalize_metric a metric;
          (prev_mfe, prev_mae) = previous_extremes prev normalized;
          materialized = compare_op normalized (c_comparison_operator c) (c_threshold c);
          invalidated = invalidation_met (c_config c) normalized;
          (nxt, reason) = next_state a c m materialized invalidated
      in \<lparr>p_evaluation = ev\<lparr>v_mfe := Some (fmax prev_mfe normalized), v_mae := Some (fmin prev_mae normalized),
                             v_materialization_met := materialized, v_invalidation_met := invalidated\<rparr>,
          p_previous_state = a_state a, p_next_state = nxt, p_reason_code = reason,
          p_event_details = evaluation_details metric normalized m\<rparr>)"

definition evaluate ::
    "((string \<times> string) list \<Rightarrow> (string \<times> string) list) \<Rightarrow> assertion \<Rightarrow> contract \<Rightarrow> evaluation option \<Rightarrow> market_state \<Rightarrow> persistence res" where
  "evaluate ord a c prev m0 =
     (if a_state a \<noteq> st_active then Inl (Err ''only ACTIVE assertions can be evaluated'')
      else bind_res (validate_contract ord c) (\<lambda>_.
        let m = m0\<lparr>k_as_of := day (k_as_of m0)\<rparr> in
        if k_as_of m = zero_time \<or> k_trading_days_active m < 0 then Inl (Err ''evaluation date and trading days are required'')
        else bind_res (baseline_prices (a_baseline_snapshot a)) (\<lambda>base.
          if inputs_missing c base m then
            Inr (incomplete_evaluation a m)
          else
            (case k_asset_price m of
               None \<Rightarrow> Inl (Err ''unreachable'')
             | Some price \<Rightarrow> Inr (complete_evaluation a c prev m base price)))))"

section \<open>Projection into the outcome ledger\<close>

definition compatible_horizon :: "int \<Rightarrow> bool" where
  "compatible_horizon h \<longleftrightarrow> h = 1 \<or> h = 5 \<or> h = 10 \<or> h = 20"

definition compatible_outcome_projection :: "assertion \<Rightarrow> evaluation \<Rightarrow> string \<Rightarrow> outcome option" where
  "compatible_outcome_projection a v next_st =
     (if a_evaluation_mode a \<noteq> mode_live \<or> next_st \<noteq> st_materialized \<or> \<not> compatible_horizon (v_trading_days_active v)
         \<or> v_absolute_return v = None then None
      else
        (let direction = (if a_signal_direction a = ''bearish'' then ''downside'' else ''upside'');
             key = ''saf-projection|'' @ a_tenant_id a @ ''|'' @ a_source_ledger_signal_id a @ ''|''
                   @ itoa (v_trading_days_active v) @ ''|signal_assurance.v1.1'' in
         Some \<lparr>o_outcome_id = deterministic_id ''moutcome'' [key], o_tenant_id = a_tenant_id a, o_app_id = ''marketops'',
           o_source_type = ''signal'', o_source_id = a_source_ledger_signal_id a, o_hypothesis_key = [],
           o_hypothesis_version = [], o_asset_id = a_asset_id a, o_symbol = a_symbol a, o_direction = direction,
           o_origin_session_date = a_confirmed_at a, o_horizon_sessions = v_trading_days_active v,
           o_matured_session_date = Some (v_session_date v), o_outcome_status = ''matured'',
           o_forward_return = v_absolute_return v, o_max_favorable = v_mfe v, o_max_adverse = v_mae v,
           o_maximum_drawdown = None, o_realized_vol_change = None, o_directional_hit = Some True,
           o_threshold_hit = Some True, o_days_to_threshold = None,
           o_origin_event_id = a_source_ledger_signal_id a, o_outcome_event_ids = [],
           o_payload = marshal (JObj [(''projected_by'', JStr ''signal_assurance.v1.1''), (''assertion_id'', JStr (a_assertion_id a)),
             (''evaluation_id'', JStr (v_evaluation_id v)), (''input_completeness'', JStr (v_input_completeness v))]),
           o_calculation_version = ''signal_assurance.v1.1'', o_calculation_run_id = v_evaluation_id v,
           o_deterministic_key = key, o_created_at = zero_time, o_updated_at = zero_time\<rparr>))"

section \<open>Facts about evaluations\<close>

lemma evaluate_Inr:
  assumes "evaluate ord a c prev m = Inr p"
  obtains base where "a_state a = st_active" "validate_contract ord c = Inr ()"
    "day (k_as_of m) \<noteq> zero_time" "0 \<le> k_trading_days_active m"
    "baseline_prices (a_baseline_snapshot a) = Inr base"
    "inputs_missing c base (m\<lparr>k_as_of := day (k_as_of m)\<rparr>) \<and>
       p = incomplete_evaluation a (m\<lparr>k_as_of := day (k_as_of m)\<rparr>)
     \<or> \<not> inputs_missing c base (m\<lparr>k_as_of := day (k_as_of m)\<rparr>) \<and>
       (\<exists>price. k_asset_price m = Some price \<and>
          p = complete_evaluation a c prev (m\<lparr>k_as_of := day (k_as_of m)\<rparr>) base price)"
  using assms unfolding evaluate_def Let_def
  by (auto split: if_splits option.splits)

lemma baseline_prices_positive:
  "baseline_prices d = Inr base \<Longrightarrow> \<not> fle (bl_asset_price base) (Fin 0)"
  by (auto simp: baseline_prices_def split: option.splits if_splits)

text \<open>The direction-adjusted primary metric of an evaluation with complete inputs.\<close>

definition metric_of :: "assertion \<Rightarrow> contract \<Rightarrow> market_state \<Rightarrow> baseline \<Rightarrow> f64 \<Rightarrow> f64" where
  "metric_of a c m base price = normalize_metric a (snd (price_returns c m base price (blank_evaluation a m)))"

lemma price_returns_keeps:
  "v_input_completeness (fst (price_returns c m base price ev)) = v_input_completeness ev"
  "v_trading_days_active (fst (price_returns c m base price ev)) = v_trading_days_active ev"
  "v_calendar_days_active (fst (price_returns c m base price ev)) = v_calendar_days_active ev"
  "v_session_date (fst (price_returns c m base price ev)) = v_session_date ev"
  "v_assertion_id (fst (price_returns c m base price ev)) = v_assertion_id ev"
  "v_evaluation_mode (fst (price_returns c m base price ev)) = v_evaluation_mode ev"
  "v_evaluation_run_id (fst (price_returns c m base price ev)) = v_evaluation_run_id ev"
  "v_evaluation_version (fst (price_returns c m base price ev)) = v_evaluation_version ev"
  "v_absolute_return (fst (price_returns c m base price ev)) = Some (simple_return price (bl_asset_price base))"
  by (simp_all add: price_returns_def Let_def split: option.split)

lemma complete_evaluation_fields:
  "p_previous_state (complete_evaluation a c prev m base price) = a_state a"
  "v_input_completeness (p_evaluation (complete_evaluation a c prev m base price)) = input_complete"
  "v_trading_days_active (p_evaluation (complete_evaluation a c prev m base price)) = k_trading_days_active m"
  "v_calendar_days_active (p_evaluation (complete_evaluation a c prev m base price)) = calendar_days (a_confirmed_at a) (k_as_of m)"
  "v_session_date (p_evaluation (complete_evaluation a c prev m base price)) = k_as_of m"
  "v_assertion_id (p_evaluation (complete_evaluation a c prev m base price)) = a_assertion_id a"
  "v_evaluation_mode (p_evaluation (complete_evaluation a c prev m base price)) = a_evaluation_mode a"
  "v_evaluation_run_id (p_evaluation (complete_evaluation a c prev m base price)) = a_evaluation_run_id a"
  "v_absolute_return (p_evaluation (complete_evaluation a c prev m base price)) = Some (simple_return price (bl_asset_price base))"
  by (simp_all add: complete_evaluation_def Let_def case_prod_beta price_returns_keeps blank_evaluation_def)

lemma complete_evaluation_conditions:
  "v_materialization_met (p_evaluation (complete_evaluation a c prev m base price)) =
     compare_op (metric_of a c m base price) (c_comparison_operator c) (c_threshold c)"
  "v_invalidation_met (p_evaluation (complete_evaluation a c prev m base price)) =
     invalidation_met (c_config c) (metric_of a c m base price)"
  "v_mfe (p_evaluation (complete_evaluation a c prev m base price)) =
     Some (fmax (fst (previous_extremes prev (metric_of a c m base price))) (metric_of a c m base price))"
  "v_mae (p_evaluation (complete_evaluation a c prev m base price)) =
     Some (fmin (snd (previous_extremes prev (metric_of a c m base price))) (metric_of a c m base price))"
  by (simp_all add: complete_evaluation_def Let_def case_prod_beta metric_of_def)

lemma complete_evaluation_next:
  "p_next_state (complete_evaluation a c prev m base price) =
     fst (next_state a c m (v_materialization_met (p_evaluation (complete_evaluation a c prev m base price)))
       (v_invalidation_met (p_evaluation (complete_evaluation a c prev m base price))))"
  "p_reason_code (complete_evaluation a c prev m base price) =
     snd (next_state a c m (v_materialization_met (p_evaluation (complete_evaluation a c prev m base price)))
       (v_invalidation_met (p_evaluation (complete_evaluation a c prev m base price))))"
  by (simp_all add: complete_evaluation_def Let_def case_prod_beta)

text \<open>The direction-adjusted primary metric, read back from a stored evaluation.\<close>

definition observed :: "assertion \<Rightarrow> contract \<Rightarrow> evaluation \<Rightarrow> f64" where
  "observed a c v = normalize_metric a
     (case (v_absolute_return v, v_benchmark_relative_return v) of
        (Some x, Some r) \<Rightarrow> if c_primary_metric c = ''benchmark_relative_return'' then r else x
      | (Some x, None) \<Rightarrow> x
      | _ \<Rightarrow> Fin 0)"

lemma observed_complete: "observed a c (p_evaluation (complete_evaluation a c prev m base price)) = metric_of a c m base price"
  by (simp add: observed_def metric_of_def complete_evaluation_def price_returns_def Let_def case_prod_beta blank_evaluation_def
      split: option.split)

lemma evaluate_intro:
  assumes "a_state a = st_active" "validate_contract ord c = Inr ()" "day (k_as_of m) \<noteq> zero_time" "0 \<le> k_trading_days_active m"
    "baseline_prices (a_baseline_snapshot a) = Inr base" "\<not> inputs_missing c base (m\<lparr>k_as_of := day (k_as_of m)\<rparr>)"
    "k_asset_price m = Some price"
  shows "evaluate ord a c prev m = Inr (complete_evaluation a c prev (m\<lparr>k_as_of := day (k_as_of m)\<rparr>) base price)"
  using assms by (simp add: evaluate_def Let_def)

lemma evaluate_intro_incomplete:
  assumes "a_state a = st_active" "validate_contract ord c = Inr ()" "day (k_as_of m) \<noteq> zero_time" "0 \<le> k_trading_days_active m"
    "baseline_prices (a_baseline_snapshot a) = Inr base" "inputs_missing c base (m\<lparr>k_as_of := day (k_as_of m)\<rparr>)"
  shows "evaluate ord a c prev m = Inr (incomplete_evaluation a (m\<lparr>k_as_of := day (k_as_of m)\<rparr>))"
  using assms by (simp add: evaluate_def Let_def)

text \<open>The extremes of one successful evaluation with complete inputs.\<close>

lemma evaluate_extremes:
  assumes "evaluate ord a c prev m = Inr p" "v_input_completeness (p_evaluation p) = input_complete"
  shows "v_mfe (p_evaluation p) = Some (fmax (fst (previous_extremes prev (observed a c (p_evaluation p)))) (observed a c (p_evaluation p)))"
    and "v_mae (p_evaluation p) = Some (fmin (snd (previous_extremes prev (observed a c (p_evaluation p)))) (observed a c (p_evaluation p)))"
proof -
  from assms(1) obtain base price where p: "p = complete_evaluation a c prev (m\<lparr>k_as_of := day (k_as_of m)\<rparr>) base price"
    by (cases rule: evaluate_Inr)
      (use assms(2) in \<open>auto simp: incomplete_evaluation_def input_complete_def input_incomplete_def\<close>)
  show "v_mfe (p_evaluation p) = Some (fmax (fst (previous_extremes prev (observed a c (p_evaluation p)))) (observed a c (p_evaluation p)))"
    and "v_mae (p_evaluation p) = Some (fmin (snd (previous_extremes prev (observed a c (p_evaluation p)))) (observed a c (p_evaluation p)))"
    unfolding p by (simp_all add: complete_evaluation_conditions observed_complete)
qed

lemma evaluate_incomplete_extremes:
  assumes "evaluate ord a c prev m = Inr p" "v_input_completeness (p_evaluation p) = input_incomplete"
  shows "v_mfe (p_evaluation p) = None \<and> v_mae (p_evaluation p) = None"
  using assms(1)
proof (cases rule: evaluate_Inr)
  case (1 base)
  then show ?thesis using assms(2)
    by (auto simp: complete_evaluation_fields input_complete_def input_incomplete_def incomplete_evaluation_def blank_evaluation_def)
qed

text \<open>The evaluations of one assertion over successive market states, each reading the record before it.\<close>

fun evaluation_chain ::
    "((string \<times> string) list \<Rightarrow> (string \<times> string) list) \<Rightarrow> assertion \<Rightarrow> contract \<Rightarrow> evaluation option \<Rightarrow> market_state list \<Rightarrow> persistence list res" where
  "evaluation_chain ord a c prev [] = Inr []"
| "evaluation_chain ord a c prev (m # ms) =
     bind_res (evaluate ord a c prev m) (\<lambda>p.
     bind_res (evaluation_chain ord a c (Some (p_evaluation p)) ms) (\<lambda>ps. Inr (p # ps)))"

definition sound_observation :: "assertion \<Rightarrow> contract \<Rightarrow> persistence \<Rightarrow> bool" where
  "sound_observation a c p \<longleftrightarrow> v_input_completeness (p_evaluation p) = input_complete \<and> observed a c (p_evaluation p) \<noteq> NaN"

text \<open>\<open>hi\<close> is the largest and \<open>lo\<close> the smallest of a set of values.\<close>

definition extremes :: "f64 set \<Rightarrow> f64 \<Rightarrow> f64 \<Rightarrow> bool" where
  "extremes S hi lo \<longleftrightarrow> hi \<in> S \<and> lo \<in> S \<and> NaN \<notin> S \<and> (\<forall>x \<in> S. fle x hi \<and> fle lo x)"

lemma extremes_insert:
  assumes "extremes S hi lo" "x \<noteq> NaN"
  shows "extremes (insert x S) (fmax hi x) (fmin lo x)"
proof -
  have nn: "hi \<noteq> NaN" "lo \<noteq> NaN" using assms(1) by (auto simp: extremes_def)
  have ge: "fle hi (fmax hi x) \<and> fle x (fmax hi x)" "fle (fmin lo x) lo \<and> fle (fmin lo x) x"
    using fmax_ge [OF nn(1) assms(2)] fmin_le [OF nn(2) assms(2)] by auto
  have "fmax hi x \<noteq> NaN" "fmin lo x \<noteq> NaN" using ge by auto
  then have "fmax hi x \<in> {hi, x}" "fmin lo x \<in> {lo, x}"
    using fmax_cases [of hi x] fmin_cases [of lo x] by auto
  then show ?thesis using assms ge unfolding extremes_def by (auto intro: fle_trans)
qed

lemma evaluation_chain_extremes:
  assumes "evaluation_chain ord a c (Some v) ms = Inr ps" "\<forall>p \<in> set ps. sound_observation a c p"
    and "v_mfe v = Some hi" "v_mae v = Some lo" "extremes S hi lo" "j < length ps"
  shows "\<exists>hi' lo'. v_mfe (p_evaluation (ps ! j)) = Some hi' \<and> v_mae (p_evaluation (ps ! j)) = Some lo'
    \<and> extremes (S \<union> (\<lambda>p. observed a c (p_evaluation p)) ` set (take (Suc j) ps)) hi' lo'"
  using assms
proof (induction ms arbitrary: v hi lo S ps j)
  case Nil
  then show ?case by simp
next
  case (Cons m ms)
  from Cons.prems(1) obtain p qs where p: "evaluate ord a c (Some v) m = Inr p"
      "evaluation_chain ord a c (Some (p_evaluation p)) ms = Inr qs" and ps: "ps = p # qs" by auto
  let ?x = "observed a c (p_evaluation p)"
  have s: "sound_observation a c p" "\<forall>q \<in> set qs. sound_observation a c q" using Cons.prems(2) ps by auto
  then have f: "v_mfe (p_evaluation p) = Some (fmax hi ?x)" "v_mae (p_evaluation p) = Some (fmin lo ?x)"
    using evaluate_extremes [OF p(1)] Cons.prems(3,4) by (simp_all add: sound_observation_def previous_extremes_def)
  have e: "extremes (insert ?x S) (fmax hi ?x) (fmin lo ?x)"
    using extremes_insert [OF Cons.prems(5)] s(1) by (simp add: sound_observation_def)
  show ?case
  proof (cases j)
    case 0
    then show ?thesis using f e ps by simp
  next
    case (Suc i)
    then show ?thesis using Cons.IH [OF p(2) s(2) f e, of i] Cons.prems(6) ps by simp
  qed
qed

text \<open>The state an assertion is registered in.\<close>

definition fresh_assertion :: "assertion \<Rightarrow> bool" where
  "fresh_assertion a \<longleftrightarrow> a_state a = st_active \<and> a_transition_sequence a = 1 \<and> a_materialized_at a = None
     \<and> a_invalidated_at a = None \<and> a_superseded_at a = None \<and> a_expired_at a = None \<and> a_closed_at a = None"

end
