(* ===== verification/SafStore.thy ===== *)
theory SafStore imports SafEvaluation begin

text \<open>
  \<open>internal/storage/postgres/signal_assurance.go\<close> (with the resolver and the outbox beside
  it): the repository over its tables. A table is the list of its rows, a statement a
  function on the tables with the constraints of migration 000084, a transaction that
  returns an error leaves the tables as they were. \<open>NULLIF(x,'')\<close> on the way in and
  \<open>COALESCE(x,'')\<close> on the way out cancel, so such a column holds its text.
\<close>

section \<open>Tables\<close>

record inbox_row =
  i_tenant_id :: string
  i_eligible_event_id :: string
  i_signal_ledger_id :: string
  i_assertion_id :: string

record ledger_row =
  l_signal_id :: string
  l_tenant_id :: string

record saf_db =
  db_contracts :: "contract list"
  db_assertions :: "assertion list"
  db_evaluations :: "evaluation list"
  db_events :: "saf_event list"
  db_inbox :: "inbox_row list"
  db_ledger :: "ledger_row list"

section \<open>Errors and small helpers\<close>

text \<open>\<open>mapScanError\<close>: a scan that finds no row returns the repository's own sentinel.\<close>

definition map_scan_error :: "go_error \<Rightarrow> go_error" where
  "map_scan_error e = (if e = ErrNoRows then ErrNotFound else e)"

definition scan_row :: "'a option \<Rightarrow> 'a res" where
  "scan_row r = (case r of None \<Rightarrow> Inl (map_scan_error ErrNoRows) | Some x \<Rightarrow> Inr x)"

definition json_or_empty :: "doc \<Rightarrow> doc" where
  "json_or_empty d = (if d = NoBytes then Doc (JObj []) else d)"

definition clamp_limit :: "int \<Rightarrow> nat" where
  "clamp_limit n = (if n \<le> 0 then 50 else if 5000 < n then 5000 else nat n)"

definition jsonb_object :: "doc \<Rightarrow> bool" where
  "jsonb_object d \<longleftrightarrow> (case d of Doc (JObj _) \<Rightarrow> True | _ \<Rightarrow> False)"

definition jsonb_array :: "doc \<Rightarrow> bool" where
  "jsonb_array d \<longleftrightarrow> (case d of Doc (JArr _) \<Rightarrow> True | _ \<Rightarrow> False)"

definition run_namespace_ok :: "string \<Rightarrow> string \<Rightarrow> bool" where
  "run_namespace_ok mode run \<longleftrightarrow> (mode = mode_live \<and> run = []) \<or> (mode \<noteq> mode_live \<and> run \<noteq> [])"

section \<open>Validation\<close>

definition validate_contract_row :: "contract \<Rightarrow> unit res" where
  "validate_contract_row x =
     (if blank (c_contract_id x) \<or> blank (c_signal_type x) \<or> blank (c_contract_version x) \<or> blank (c_direction x)
         \<or> blank (c_primary_metric x) \<or> blank (c_comparison_operator x) \<or> c_max_horizon_trading_days x \<le> 0 then
        Inl (Err ''signal validation contract has required fields missing'')
      else if \<not> valid_doc (json_or_empty (c_evaluation_windows x)) \<or> \<not> valid_doc (json_or_empty (c_config x)) then
        Inl (Err ''signal validation contract JSON is invalid'')
      else Inr ())"

definition validate_registration :: "registration \<Rightarrow> unit res" where
  "validate_registration x =
     (if blank (e_tenant_id (r_event x)) \<or> blank (e_eligible_event_id (r_event x)) \<or> blank (a_assertion_id (r_assertion x))
         \<or> blank (a_registration_key (r_assertion x)) \<or> e_tenant_id (r_event x) \<noteq> a_tenant_id (r_assertion x) then
        Inl (Err ''signal assurance registration is invalid'')
      else validate_contract_row (r_contract x))"

definition validate_evaluation_row :: "evaluation \<Rightarrow> unit res" where
  "validate_evaluation_row x =
     (if blank (v_evaluation_id x) \<or> blank (v_assertion_id x) \<or> v_session_date x = zero_time \<or> blank (v_evaluation_version x)
         \<or> v_trading_days_active x < 0 \<or> v_calendar_days_active x < 0 then
        Inl (Err ''signal assurance evaluation is invalid'')
      else Inr ())"

datatype terminal_column = MaterializedAt | InvalidatedAt | SupersededAt | ExpiredAt

definition terminal_timestamp_column :: "string \<Rightarrow> terminal_column option" where
  "terminal_timestamp_column state =
     (if state = st_materialized then Some MaterializedAt else if state = st_invalidated then Some InvalidatedAt
      else if state = st_superseded then Some SupersededAt else if state = st_expired then Some ExpiredAt else None)"

section \<open>Contracts\<close>

definition contract_row_ok :: "saf_db \<Rightarrow> contract \<Rightarrow> bool" where
  "contract_row_ok db x \<longleftrightarrow>
     c_direction x \<in> {''bullish'', ''bearish''} \<and> c_primary_metric x \<in> {''absolute_return'', ''benchmark_relative_return''}
     \<and> valid_operator (c_comparison_operator x) \<and> 0 < c_max_horizon_trading_days x
     \<and> jsonb_array (c_evaluation_windows x) \<and> jsonb_object (c_config x)
     \<and> \<not> (\<exists>y \<in> set (db_contracts db). c_contract_id y \<noteq> c_contract_id x \<and> c_signal_type y = c_signal_type x
            \<and> c_direction y = c_direction x \<and> c_scope_key y = c_scope_key x \<and> c_contract_version y = c_contract_version x)"

definition upsert_contract :: "time \<Rightarrow> contract \<Rightarrow> saf_db \<Rightarrow> unit res \<times> saf_db" where
  "upsert_contract now x db =
     (case validate_contract_row x of
        Inl e \<Rightarrow> (Inl e, db)
      | Inr _ \<Rightarrow>
          let row = x\<lparr>c_evaluation_windows := json_or_empty (c_evaluation_windows x), c_config := json_or_empty (c_config x),
                      c_created_at := (if c_created_at x = zero_time then now else c_created_at x)\<rparr> in
          if \<not> contract_row_ok db row then (Inl (Err ''insert signal validation contract''), db)
          else if \<exists>y \<in> set (db_contracts db). c_contract_id y = c_contract_id row then (Inr (), db)
          else (Inr (), db\<lparr>db_contracts := db_contracts db @ [row]\<rparr>))"

definition get_contract :: "saf_db \<Rightarrow> string \<Rightarrow> contract res" where
  "get_contract db cid = scan_row (first_match (\<lambda>c. c_contract_id c = trim_space cid) (db_contracts db))"

text \<open>
  \<open>ResolveSignalValidationContract\<close>: the candidate query with its ordering and its limit
  of two rows, then the choice in Go. A missing algorithm is stored as SQL NULL.
\<close>

definition resolve_candidate :: "eligible_event \<Rightarrow> contract \<Rightarrow> bool" where
  "resolve_candidate e c \<longleftrightarrow>
     c_active c \<and> c_signal_type c = e_signal_type e \<and> c_direction c = e_direction e
     \<and> (c_contract_id c = e_validation_contract_ref e \<or> c_signal_type c @ '':'' @ c_contract_version c = e_validation_contract_ref e)
     \<and> (c_algorithm c = [] \<or> c_algorithm c = e_algorithm e)
     \<and> (c_algorithm_version c = [] \<or> c_algorithm_version c = e_algorithm_version e)"

definition exact_contract :: "eligible_event \<Rightarrow> contract \<Rightarrow> bool" where
  "exact_contract e c \<longleftrightarrow> c_algorithm c = e_algorithm e \<and> c_algorithm_version c = e_algorithm_version e"

definition exact_rank :: "eligible_event \<Rightarrow> contract \<Rightarrow> nat" where
  "exact_rank e c =
     (if c_algorithm c \<noteq> [] \<and> c_algorithm_version c \<noteq> [] \<and> exact_contract e c then 0 else 1)"

definition resolve_before :: "eligible_event \<Rightarrow> contract \<Rightarrow> contract \<Rightarrow> bool" where
  "resolve_before e c d \<longleftrightarrow>
     exact_rank e c < exact_rank e d \<or> (exact_rank e c = exact_rank e d \<and> c_contract_id c < c_contract_id d)"

definition resolve_contract :: "saf_db \<Rightarrow> eligible_event \<Rightarrow> contract res" where
  "resolve_contract db e =
     (case take 2 (sort_by (resolve_before e) (filter (resolve_candidate e) (db_contracts db))) of
        [] \<Rightarrow> Inl (Err (''no active validation contract for '' @ trim_space (e_validation_contract_ref e)))
      | c # rest \<Rightarrow>
          if rest \<noteq> [] \<and> \<not> exact_contract e c
          then Inl (Err (''ambiguous validation contract for '' @ trim_space (e_validation_contract_ref e)))
          else Inr c)"

section \<open>Registration\<close>

text \<open>
  The INSERT into \<open>signal_assertions\<close> as the code spells it: its target columns and its
  value expressions. PostgreSQL rejects a statement whose two lists differ in length
  before it looks at any row.
\<close>

definition assertion_insert_columns :: "string list" where
  "assertion_insert_columns = split_on CHR '',''
     ''assertion_id,tenant_id,asset_id,symbol,signal_id,source_ledger_signal_id,signal_type,signal_direction,signal_score,confidence,algorithm,algorithm_version,confirmed_at,state,evaluation_mode,evaluation_run_id,registration_idempotency_key,validation_contract_id,validation_contract_version,validation_contract,evaluation_engine_version,baseline_snapshot,baseline_provenance,transition_sequence''"

definition assertion_insert_values :: "string list" where
  "assertion_insert_values =
     [''$1'', ''$2'', ''$3'', ''$4'', ''$5'', ''$6'', ''$7'', ''$8'', ''$9'', ''$10'', ''$11'', ''$12'', ''$13'', ''$14'',
      ''NULLIF($15,'' @ [CHR 0x27, CHR 0x27] @ '')'', ''$16'', ''$17'', ''$18'', ''$19'', ''$20'', ''$21'', ''$22'', ''$23'']"

definition insert_arity :: "string list \<Rightarrow> string list \<Rightarrow> unit res" where
  "insert_arity cols vals =
     (if length vals < length cols then Inl (Err ''INSERT has more target columns than expressions'')
      else if length cols < length vals then Inl (Err ''INSERT has more expressions than target columns'')
      else Inr ())"

definition assertion_row_ok :: "saf_db \<Rightarrow> assertion \<Rightarrow> bool" where
  "assertion_row_ok db x \<longleftrightarrow>
     a_signal_direction x \<in> {''bullish'', ''bearish''} \<and> a_state x \<in> {st_active, st_materialized, st_invalidated, st_superseded, st_expired, st_closed}
     \<and> valid_mode (a_evaluation_mode x) \<and> run_namespace_ok (a_evaluation_mode x) (a_evaluation_run_id x)
     \<and> 0 < a_transition_sequence x \<and> jsonb_object (json_or_empty (a_baseline_snapshot x)) \<and> jsonb_object (json_or_empty (a_baseline_provenance x))
     \<and> (\<exists>c \<in> set (db_contracts db). c_contract_id c = a_contract_id x)
     \<and> (case a_confidence x of None \<Rightarrow> True | Some c \<Rightarrow> fle (Fin 0) c \<and> fle c (Fin 1))
     \<and> \<not> (\<exists>y \<in> set (db_assertions db). a_assertion_id y = a_assertion_id x
            \<or> (a_tenant_id y = a_tenant_id x \<and> a_registration_key y = a_registration_key x))"

definition created_event :: "assertion \<Rightarrow> saf_event" where
  "created_event x =
     \<lparr>ev_event_id = ''saf_event_'' @ a_assertion_id x @ ''_1_created'', ev_assertion_id = a_assertion_id x,
      ev_event_type = ''ASSERTION_CREATED'', ev_previous_state = [], ev_new_state = a_state x, ev_reason_code = [],
      ev_details = Doc (JObj []), ev_occurred_at = a_confirmed_at x, ev_transition_sequence = 1, ev_evaluation_id = [],
      ev_evaluation_mode = a_evaluation_mode x, ev_evaluation_run_id = a_evaluation_run_id x,
      ev_idempotency_key = ''created|'' @ a_assertion_id x, ev_published_at = None\<rparr>"

definition event_row_ok :: "saf_db \<Rightarrow> saf_event \<Rightarrow> bool" where
  "event_row_ok db x \<longleftrightarrow>
     valid_mode (ev_evaluation_mode x) \<and> jsonb_object (ev_details x)
     \<and> (\<exists>a \<in> set (db_assertions db). a_assertion_id a = ev_assertion_id x)
     \<and> \<not> (\<exists>y \<in> set (db_events db). ev_event_id y = ev_event_id x \<or> ev_idempotency_key y = ev_idempotency_key x
            \<or> (ev_assertion_id y = ev_assertion_id x \<and> ev_transition_sequence y = ev_transition_sequence x \<and> ev_event_type y = ev_event_type x))"

definition get_assertion :: "saf_db \<Rightarrow> string \<Rightarrow> string \<Rightarrow> assertion res" where
  "get_assertion db tenant aid =
     scan_row (first_match (\<lambda>a. a_tenant_id a = trim_space tenant \<and> a_assertion_id a = trim_space aid) (db_assertions db))"

text \<open>The statements of the transaction after the duplicate check: the assertion, the inbox row, the event.\<close>

definition stored_assertion :: "assertion \<Rightarrow> assertion" where
  "stored_assertion x =
     x\<lparr>a_symbol := to_upper (a_symbol x), a_baseline_snapshot := json_or_empty (a_baseline_snapshot x),
       a_baseline_provenance := json_or_empty (a_baseline_provenance x)\<rparr>"

definition insert_assertion :: "registration \<Rightarrow> inbox_row \<Rightarrow> bool \<Rightarrow> saf_db \<Rightarrow> (assertion \<times> bool) res \<times> saf_db" where
  "insert_assertion reg row in_inbox db =
     (let x = r_assertion reg;
          x' = stored_assertion x;
          db2 = db\<lparr>db_assertions := db_assertions db @ [x'], db_inbox := db_inbox db @ [row]\<rparr>;
          ev = created_event x;
          db3 = db2\<lparr>db_events := db_events db @ [ev]\<rparr>
      in if \<not> assertion_row_ok db x' then (Inl (Err ''insert signal assertion''), db)
         else if in_inbox then (Inl (Err ''duplicate key''), db)
         else if \<not> event_row_ok db2 ev then (Inl (Err ''insert signal assertion event''), db)
         else (map_sum id (\<lambda>a. (a, True)) (get_assertion db3 (a_tenant_id x) (a_assertion_id x)), db3))"

definition inbox_of :: "registration \<Rightarrow> inbox_row" where
  "inbox_of reg = \<lparr>i_tenant_id = e_tenant_id (r_event reg), i_eligible_event_id = e_eligible_event_id (r_event reg),
     i_signal_ledger_id = e_signal_ledger_id (r_event reg), i_assertion_id = a_assertion_id (r_assertion reg)\<rparr>"

definition in_inbox :: "saf_db \<Rightarrow> inbox_row \<Rightarrow> bool" where
  "in_inbox db row \<longleftrightarrow> (\<exists>r \<in> set (db_inbox db). i_tenant_id r = i_tenant_id row \<and> i_eligible_event_id r = i_eligible_event_id row)"

definition register_assertion :: "registration \<Rightarrow> saf_db \<Rightarrow> (assertion \<times> bool) res \<times> saf_db" where
  "register_assertion reg db =
     (case validate_registration reg of
        Inl e \<Rightarrow> (Inl e, db)
      | Inr _ \<Rightarrow>
        (case first_match (\<lambda>l. l_signal_id l = e_signal_ledger_id (r_event reg)) (db_ledger db) of
           None \<Rightarrow> (Inl (Err ''load source ledger signal''), db)
         | Some l \<Rightarrow>
           if l_tenant_id l \<noteq> e_tenant_id (r_event reg) \<or> l_signal_id l \<noteq> e_signal_id (r_event reg) then
             (Inl (Err ''eligible event must reference an existing same-tenant signal ledger record''), db)
           else
             let x = r_assertion reg; row = inbox_of reg in
             (case first_match (\<lambda>a. a_tenant_id a = a_tenant_id x \<and> a_registration_key a = a_registration_key x) (db_assertions db) of
                Some existing \<Rightarrow>
                  (Inr (existing, False),
                   if in_inbox db row then db else db\<lparr>db_inbox := db_inbox db @ [row\<lparr>i_assertion_id := a_assertion_id existing\<rparr>]\<rparr>)
              | None \<Rightarrow>
                  (case insert_arity assertion_insert_columns assertion_insert_values of
                     Inl e \<Rightarrow> (Inl (Err ''insert signal assertion''), db)
                   | Inr _ \<Rightarrow> insert_assertion reg row (in_inbox db row) db))))"

section \<open>Evaluations\<close>

definition evaluation_row_ok :: "saf_db \<Rightarrow> evaluation \<Rightarrow> bool" where
  "evaluation_row_ok db x \<longleftrightarrow>
     valid_mode (v_evaluation_mode x) \<and> v_input_completeness x \<in> {input_complete, input_incomplete}
     \<and> 0 \<le> v_trading_days_active x \<and> 0 \<le> v_calendar_days_active x \<and> jsonb_object (json_or_empty (v_input_snapshot x))
     \<and> (\<exists>a \<in> set (db_assertions db). a_assertion_id a = v_assertion_id x)
     \<and> \<not> (\<exists>y \<in> set (db_evaluations db). v_evaluation_id y = v_evaluation_id x
            \<or> (v_assertion_id y = v_assertion_id x \<and> midnight (v_session_date y) = midnight (v_session_date x)
               \<and> v_evaluation_version y = v_evaluation_version x))"

definition set_terminal :: "terminal_column \<Rightarrow> time \<Rightarrow> assertion \<Rightarrow> assertion" where
  "set_terminal col t a =
     (case col of MaterializedAt \<Rightarrow> a\<lparr>a_materialized_at := Some t\<rparr> | InvalidatedAt \<Rightarrow> a\<lparr>a_invalidated_at := Some t\<rparr>
      | SupersededAt \<Rightarrow> a\<lparr>a_superseded_at := Some t\<rparr> | ExpiredAt \<Rightarrow> a\<lparr>a_expired_at := Some t\<rparr>)"

definition transition_row :: "string \<Rightarrow> int \<Rightarrow> terminal_column \<Rightarrow> time \<Rightarrow> assertion \<Rightarrow> assertion" where
  "transition_row next_st sn col t a = set_terminal col t (a\<lparr>a_state := next_st, a_transition_sequence := sn\<rparr>)"

definition transition_event :: "persistence \<Rightarrow> evaluation \<Rightarrow> int \<Rightarrow> saf_event" where
  "transition_event p x sn =
     (let ty = ''ASSERTION_'' @ p_next_state p in
      \<lparr>ev_event_id = ''saf_event_'' @ v_assertion_id x @ ''_'' @ itoa sn @ ''_'' @ to_lower (p_next_state p),
       ev_assertion_id = v_assertion_id x, ev_event_type = ty, ev_previous_state = p_previous_state p,
       ev_new_state = p_next_state p, ev_reason_code = p_reason_code p, ev_details = json_or_empty (p_event_details p),
       ev_occurred_at = v_evaluated_at x, ev_transition_sequence = sn, ev_evaluation_id = v_evaluation_id x,
       ev_evaluation_mode = v_evaluation_mode x, ev_evaluation_run_id = v_evaluation_run_id x,
       ev_idempotency_key = v_assertion_id x @ ''|'' @ itoa sn @ ''|'' @ ty, ev_published_at = None\<rparr>)"

text \<open>The statements after the duplicate check: insert the evaluation, then apply a transition.\<close>

definition insert_evaluation :: "persistence \<Rightarrow> assertion \<Rightarrow> saf_db \<Rightarrow> (evaluation \<times> bool) res \<times> saf_db" where
  "insert_evaluation p a db =
     (let moved = (p_next_state p \<noteq> p_previous_state p);
          sn = (if moved then a_transition_sequence a + 1 else a_transition_sequence a);
          x = (p_evaluation p)\<lparr>v_transition_sequence := sn\<rparr>;
          row = x\<lparr>v_input_snapshot := json_or_empty (v_input_snapshot x)\<rparr>;
          db1 = db\<lparr>db_evaluations := db_evaluations db @ [row]\<rparr>
      in if \<not> evaluation_row_ok db row then (Inl (Err ''insert assertion evaluation''), db)
         else if \<not> moved then (Inr (x, True), db1)
         else
           (case terminal_timestamp_column (p_next_state p) of
              None \<Rightarrow> (Inl (Err ''invalid assertion lifecycle transition''), db)
            | Some col \<Rightarrow>
                let db2 = db1\<lparr>db_assertions := map (\<lambda>b. if a_assertion_id b = v_assertion_id x
                                then transition_row (p_next_state p) sn col (v_evaluated_at x) b else b) (db_assertions db)\<rparr>;
                    ev = transition_event p x sn
                in if \<not> event_row_ok db2 ev then (Inl (Err ''insert signal assertion event''), db)
                   else (Inr (x, True), db2\<lparr>db_events := db_events db @ [ev]\<rparr>)))"

definition find_evaluation :: "saf_db \<Rightarrow> evaluation \<Rightarrow> evaluation option" where
  "find_evaluation db x = first_match (\<lambda>y. v_assertion_id y = v_assertion_id x
      \<and> midnight (v_session_date y) = midnight (v_session_date x) \<and> v_evaluation_version y = v_evaluation_version x) (db_evaluations db)"

definition find_assertion :: "saf_db \<Rightarrow> string \<Rightarrow> assertion option" where
  "find_assertion db aid = first_match (\<lambda>a. a_assertion_id a = aid) (db_assertions db)"

definition persist_evaluation :: "persistence \<Rightarrow> saf_db \<Rightarrow> (evaluation \<times> bool) res \<times> saf_db" where
  "persist_evaluation p db =
     (case validate_evaluation_row (p_evaluation p) of
        Inl e \<Rightarrow> (Inl e, db)
      | Inr _ \<Rightarrow>
        (case scan_row (find_assertion db (v_assertion_id (p_evaluation p))) of
           Inl e \<Rightarrow> (Inl e, db)
         | Inr a \<Rightarrow>
           if a_state a \<noteq> p_previous_state p then (Inl ErrConflict, db)
           else
             (case scan_row (find_evaluation db (p_evaluation p)) of
                Inr existing \<Rightarrow> (Inr (existing, False), db)
              | Inl e \<Rightarrow> if e \<noteq> ErrNoRows then (Inl e, db) else insert_evaluation p a db)))"

definition list_assertions :: "saf_db \<Rightarrow> string \<Rightarrow> string \<Rightarrow> string \<Rightarrow> string \<Rightarrow> int \<Rightarrow> assertion list" where
  "list_assertions db tenant state mode symbol lmt =
     take (clamp_limit lmt)
       (sort_by (\<lambda>a b. a_confirmed_at b < a_confirmed_at a)
         (filter (\<lambda>a. (trim_space tenant = [] \<or> a_tenant_id a = trim_space tenant)
                    \<and> (trim_space state = [] \<or> a_state a = trim_space state)
                    \<and> (trim_space mode = [] \<or> a_evaluation_mode a = trim_space mode)
                    \<and> (to_upper (trim_space symbol) = [] \<or> a_symbol a = to_upper (trim_space symbol)))
           (db_assertions db)))"

definition list_evaluations :: "saf_db \<Rightarrow> string \<Rightarrow> int \<Rightarrow> evaluation list" where
  "list_evaluations db aid lmt =
     take (clamp_limit lmt)
       (sort_by (\<lambda>a b. midnight (v_session_date b) < midnight (v_session_date a))
         (filter (\<lambda>v. v_assertion_id v = trim_space aid) (db_evaluations db)))"

section \<open>Outbox\<close>

definition list_undelivered :: "saf_db \<Rightarrow> int \<Rightarrow> saf_event list" where
  "list_undelivered db lmt =
     take (clamp_limit lmt)
       (sort_by (\<lambda>a b. ev_occurred_at a < ev_occurred_at b \<or> (ev_occurred_at a = ev_occurred_at b \<and> ev_event_id a < ev_event_id b))
         (filter (\<lambda>e. ev_published_at e = None) (db_events db)))"

definition mark_published :: "string \<Rightarrow> time \<Rightarrow> saf_db \<Rightarrow> unit res \<times> saf_db" where
  "mark_published eid t db =
     (if \<exists>e \<in> set (db_events db). ev_event_id e = eid \<and> ev_published_at e = None
      then (Inr (), db\<lparr>db_events := map (\<lambda>e. if ev_event_id e = eid \<and> ev_published_at e = None
                                          then e\<lparr>ev_published_at := Some t\<rparr> else e) (db_events db)\<rparr>)
      else (Inl ErrNotFound, db))"

end
