(* ===== verification/SafWorker.thy ===== *)
theory SafWorker imports SafStore begin

text \<open>
  The three programs that drive the Signal Assurance Framework: the evaluation worker
  (\<open>cmd/marketops-signal-assurance-worker/main.go\<close>), the registrar's handling of one
  message (\<open>cmd/marketops-signal-assurance-registrar/main.go\<close>) and the outbox flush
  (\<open>cmd/marketops-signal-assurance-outbox/main.go\<close>). The event ledger, the outcome ledger,
  the effectiveness refresh and the broker are arguments.
\<close>

section \<open>Market input\<close>

record close_point =
  cp_session :: time
  cp_price :: f64
  cp_event_id :: string

text \<open>The close of one ledger event, when it is visible at \<open>as_of\<close>, decodes and is positive.\<close>

definition close_of :: "time \<Rightarrow> ledger_event \<Rightarrow> (string \<times> close_point) option" where
  "close_of as_of e =
     (if as_of < n_observation_time e \<or> as_of < n_processing_time e then None
      else
        do { m \<leftarrow> decode_obj (n_normalized_payload e);
             sym \<leftarrow> dec_str (ofield m ''symbol'');
             tick \<leftarrow> dec_str (ofield m ''ticker'');
             cl \<leftarrow> dec_num (ofield m ''close'');
             let name = (if to_upper (trim_space sym) = [] then to_upper (trim_space tick) else to_upper (trim_space sym)) in
             if fle cl (Fin 0) \<or> name = [] then None
             else Some (name, \<lparr>cp_session = midnight (n_observation_time e), cp_price = cl, cp_event_id = n_event_id e\<rparr>) })"

definition points_of :: "time \<Rightarrow> ledger_event list \<Rightarrow> string \<Rightarrow> close_point list" where
  "points_of as_of events name = map snd (filter (\<lambda>(s, _). s = name) (List.map_filter (close_of as_of) events))"

fun last_visible :: "time \<Rightarrow> close_point list \<Rightarrow> f64 option \<Rightarrow> f64 option" where
  "last_visible as_of [] out = out"
| "last_visible as_of (p # ps) out = last_visible as_of ps (if cp_session p \<le> as_of then Some (cp_price p) else out)"

definition latest_close :: "time \<Rightarrow> close_point list \<Rightarrow> f64 option" where
  "latest_close as_of ps = last_visible as_of (sort_by (\<lambda>a b. cp_session a < cp_session b) ps) None"

definition session_count :: "time \<Rightarrow> time \<Rightarrow> close_point list \<Rightarrow> int" where
  "session_count confirmed as_of ps =
     int (length (remdups (map (\<lambda>p. fmt_date (cp_session p))
       (filter (\<lambda>p. midnight confirmed \<le> cp_session p \<and> cp_session p \<le> as_of) ps))))"

definition market_input ::
    "ledger_event list \<Rightarrow> string \<Rightarrow> string \<Rightarrow> time \<Rightarrow> time \<Rightarrow> f64 option \<times> f64 option \<times> int \<times> doc" where
  "market_input events symbol benchmark confirmed as_of =
     (let asset = points_of as_of events (to_upper symbol);
          bench = points_of as_of events (to_upper benchmark);
          n = session_count confirmed as_of asset
      in (latest_close as_of asset, latest_close as_of bench, n,
          marshal (JObj [(''price_source'', JStr ''normalized_event_ledger''), (''asset_symbol'', JStr (to_upper symbol)),
            (''benchmark_symbol'', JStr (to_upper benchmark)), (''as_of'', JStr (fmt_date as_of)), (''asset_session_count'', JInt n)])))"

section \<open>Evaluation worker\<close>

record worker_config =
  w_tenant_id :: string
  w_mode :: string
  w_run_id :: string
  w_benchmark :: string
  w_as_of :: time
  w_limit :: int
  w_dry_run :: bool

record worker_report =
  wr_evaluated :: int
  wr_incomplete :: int
  wr_transitions :: int

text \<open>\<open>loadConfig\<close> after flag parsing.\<close>

definition check_config :: "worker_config \<Rightarrow> worker_config res" where
  "check_config c0 =
     (let c = c0\<lparr>w_tenant_id := trim_space (w_tenant_id c0), w_mode := to_upper (trim_space (w_mode c0)),
                 w_run_id := trim_space (w_run_id c0), w_benchmark := to_upper (trim_space (w_benchmark c0))\<rparr> in
      if w_tenant_id c = [] \<or> w_benchmark c = [] \<or> w_limit c < 1 \<or> 1000 < w_limit c then Inl (Err ''invalid worker configuration'')
      else if w_mode c \<noteq> mode_live \<and> w_mode c \<noteq> mode_backtest \<and> w_mode c \<noteq> mode_research then Inl (Err ''invalid evaluation mode'')
      else if (w_mode c = mode_live \<and> w_run_id c \<noteq> []) \<or> (w_mode c \<noteq> mode_live \<and> w_run_id c = []) then Inl (Err ''invalid mode/run namespace'')
      else Inr c)"

record worker_env =
  we_events :: "assertion \<Rightarrow> ledger_event list res"
  we_upsert_outcome :: "outcome \<Rightarrow> unit res"
  we_refresh :: "unit res"

record worker_state =
  ws_db :: saf_db
  ws_report :: worker_report
  ws_outcomes :: "outcome list"

definition worker_evaluate_one ::
    "((string \<times> string) list \<Rightarrow> (string \<times> string) list) \<Rightarrow> worker_config \<Rightarrow> worker_env \<Rightarrow> assertion \<Rightarrow> saf_db \<Rightarrow> persistence res" where
  "worker_evaluate_one ord cfg env a db =
     bind_res (get_contract db (a_contract_id a)) (\<lambda>c.
     bind_res (we_events env a) (\<lambda>events.
       let (asset, bench, days, snapshot) = market_input events (a_symbol a) (w_benchmark cfg) (a_confirmed_at a) (w_as_of cfg);
           prev = (case list_evaluations db (a_assertion_id a) 1 of [] \<Rightarrow> None | v # _ \<Rightarrow> Some v)
       in evaluate ord a c prev
            \<lparr>k_as_of = w_as_of cfg, k_asset_price = asset, k_benchmark_price = bench, k_trading_days_active = days,
             k_input_snapshot = snapshot, k_superseded = False, k_supersession_reason = []\<rparr>))"

definition count_result :: "persistence \<Rightarrow> worker_report \<Rightarrow> worker_report" where
  "count_result p r =
     r\<lparr>wr_evaluated := wr_evaluated r + 1,
       wr_incomplete := wr_incomplete r + (if v_input_completeness (p_evaluation p) = input_incomplete then 1 else 0),
       wr_transitions := wr_transitions r + (if p_next_state p \<noteq> p_previous_state p then 1 else 0)\<rparr>"

definition worker_step ::
    "((string \<times> string) list \<Rightarrow> (string \<times> string) list) \<Rightarrow> worker_config \<Rightarrow> worker_env \<Rightarrow> assertion \<Rightarrow> worker_state \<Rightarrow> unit res \<times> worker_state" where
  "worker_step ord cfg env a s =
     (if a_evaluation_run_id a \<noteq> w_run_id cfg then (Inr (), s)
      else
        (case worker_evaluate_one ord cfg env a (ws_db s) of
           Inl e \<Rightarrow> (Inl e, s)
         | Inr p \<Rightarrow>
           let s1 = s\<lparr>ws_report := count_result p (ws_report s)\<rparr> in
           if w_dry_run cfg then (Inr (), s1)
           else
             (case persist_evaluation p (ws_db s) of
                (Inl e, db') \<Rightarrow> (Inl e, s1\<lparr>ws_db := db'\<rparr>)
              | (Inr (v, inserted), db') \<Rightarrow>
                let s2 = s1\<lparr>ws_db := db'\<rparr> in
                if \<not> inserted then (Inr (), s2)
                else
                  (case compatible_outcome_projection a v (p_next_state p) of
                     None \<Rightarrow> (Inr (), s2)
                   | Some o1 \<Rightarrow>
                     (case we_upsert_outcome env o1 of
                        Inl e \<Rightarrow> (Inl e, s2)
                      | Inr _ \<Rightarrow> (Inr (), s2\<lparr>ws_outcomes := ws_outcomes s2 @ [o1]\<rparr>))))))"

fun worker_loop ::
    "((string \<times> string) list \<Rightarrow> (string \<times> string) list) \<Rightarrow> worker_config \<Rightarrow> worker_env \<Rightarrow> assertion list \<Rightarrow> worker_state \<Rightarrow> unit res \<times> worker_state" where
  "worker_loop ord cfg env [] s = (Inr (), s)"
| "worker_loop ord cfg env (a # as) s =
     (case worker_step ord cfg env a s of
        (Inl e, s') \<Rightarrow> (Inl e, s')
      | (Inr _, s') \<Rightarrow> worker_loop ord cfg env as s')"

definition worker_run ::
    "((string \<times> string) list \<Rightarrow> (string \<times> string) list) \<Rightarrow> worker_config \<Rightarrow> worker_env \<Rightarrow> saf_db \<Rightarrow> unit res \<times> worker_state" where
  "worker_run ord cfg env db =
     (let s0 = \<lparr>ws_db = db, ws_report = \<lparr>wr_evaluated = 0, wr_incomplete = 0, wr_transitions = 0\<rparr>, ws_outcomes = []\<rparr> in
      case worker_loop ord cfg env (list_assertions db (w_tenant_id cfg) st_active (w_mode cfg) [] (w_limit cfg)) s0 of
        (Inl e, s) \<Rightarrow> (Inl e, s)
      | (Inr _, s) \<Rightarrow> if w_dry_run cfg then (Inr (), s) else (we_refresh env, s))"

section \<open>Registrar\<close>

text \<open>
  \<open>ResearchContractFor\<close>: the provisional contract of the research rollout.
\<close>

definition research_contract_for :: "eligible_event \<Rightarrow> contract" where
  "research_contract_for e =
     (let scope = join ''|'' [e_algorithm e, e_algorithm_version e] in
      \<lparr>c_contract_id = deterministic_id ''saf_contract'' [''research-default-v1'', e_signal_type e, e_direction e, scope],
       c_signal_type = e_signal_type e, c_contract_version = ''research-default-v1'', c_algorithm = e_algorithm e,
       c_algorithm_version = e_algorithm_version e, c_direction = e_direction e, c_primary_metric = ''absolute_return'',
       c_comparison_operator = ''>='', c_threshold = rnd (5 / 100),
       c_evaluation_windows = Doc (JArr [JNum (Fin 5), JNum (Fin 10), JNum (Fin 20)]),
       c_max_horizon_trading_days = 20, c_materialization_policy = ''threshold'',
       c_invalidation_policy = ''normalized_return_floor'',
       c_config = Doc (JObj [(''invalidation_threshold'', JNum (rnd (- 10 / 100))), (''provisional'', JBool True), (''research_only'', JBool True)]),
       c_active = True, c_scope_key = scope, c_created_at = zero_time\<rparr>)"

definition registrar_resolve :: "time \<Rightarrow> eligible_event \<Rightarrow> saf_db \<Rightarrow> contract res \<times> saf_db" where
  "registrar_resolve now e db =
     (case resolve_contract db e of
        Inr c \<Rightarrow> (Inr c, db)
      | Inl err \<Rightarrow>
          if e_evaluation_mode e \<noteq> mode_research then (Inl err, db)
          else
            (case upsert_contract now (research_contract_for e) db of
               (Inl err', db') \<Rightarrow> (Inl err', db')
             | (Inr _, db') \<Rightarrow> (resolve_contract db' e, db')))"

text \<open>One message: \<open>Inr\<close> commits the offset, \<open>Inl\<close> logs and leaves it uncommitted.\<close>

definition registrar_step ::
    "((string \<times> string) list \<Rightarrow> (string \<times> string) list) \<Rightarrow> time \<Rightarrow> stream \<Rightarrow> saf_db \<Rightarrow> unit res \<times> saf_db" where
  "registrar_step ord now msg db =
     (case decode_eligible_event ord msg of
        Inl e \<Rightarrow> (Inl e, db)
      | Inr ev \<Rightarrow>
        (case registrar_resolve now ev db of
           (Inl e, db1) \<Rightarrow> (Inl e, db1)
         | (Inr c, db1) \<Rightarrow>
           (case assertion_registration ord ev c of
              Inl e \<Rightarrow> (Inl e, db1)
            | Inr reg \<Rightarrow>
              (case register_assertion reg db1 of
                 (Inl e, db2) \<Rightarrow> (Inl e, db2)
               | (Inr _, db2) \<Rightarrow> (Inr (), db2)))))"

section \<open>Outbox\<close>

text \<open>\<open>flush\<close> publishes the undelivered events in order and marks each one once it is published.\<close>

fun flush_events ::
    "('w \<Rightarrow> saf_event \<Rightarrow> 'w res) \<Rightarrow> time \<Rightarrow> saf_event list \<Rightarrow> 'w \<Rightarrow> saf_db \<Rightarrow> unit res \<times> 'w \<times> saf_db" where
  "flush_events pub now [] w db = (Inr (), w, db)"
| "flush_events pub now (e # es) w db =
     (case pub w e of
        Inl err \<Rightarrow> (Inl err, w, db)
      | Inr w' \<Rightarrow>
        (case mark_published (ev_event_id e) now db of
           (Inl err, db') \<Rightarrow> (Inl err, w', db')
         | (Inr _, db') \<Rightarrow> flush_events pub now es w' db'))"

definition flush :: "('w \<Rightarrow> saf_event \<Rightarrow> 'w res) \<Rightarrow> time \<Rightarrow> 'w \<Rightarrow> saf_db \<Rightarrow> int res \<times> 'w \<times> saf_db" where
  "flush pub now w db =
     (let events = list_undelivered db 100 in
      case flush_events pub now events w db of
        (Inl e, w', db') \<Rightarrow> (Inl e, w', db')
      | (Inr _, w', db') \<Rightarrow> (Inr (int (length events)), w', db'))"

section \<open>Facts\<close>

lemma close_of_visible: "close_of as_of e = Some x \<Longrightarrow> n_observation_time e \<le> as_of \<and> n_processing_time e \<le> as_of"
  by (auto simp: close_of_def split: if_splits)

lemma map_filter_restrict: "(\<And>x. f x \<noteq> None \<Longrightarrow> P x) \<Longrightarrow> List.map_filter f (filter P xs) = List.map_filter f xs"
  by (induction xs) (auto simp: List.map_filter_simps split: option.splits)

lemma last_visible_in:
  "last_visible as_of ps out = Some x \<Longrightarrow> out = Some x \<or> (\<exists>p \<in> set ps. cp_session p \<le> as_of \<and> cp_price p = x)"
  by (induction as_of ps out rule: last_visible.induct) (auto split: if_splits)

lemma latest_close_in: "latest_close as_of ps = Some x \<Longrightarrow> \<exists>p \<in> set ps. cp_session p \<le> as_of \<and> cp_price p = x"
  unfolding latest_close_def using last_visible_in by fastforce

lemma close_of_positive: "close_of as_of e = Some (s, p) \<Longrightarrow> \<not> fle (cp_price p) (Fin 0) \<and> s \<noteq> []"
  by (auto simp: close_of_def Let_def bind_eq_Some_conv split: if_splits)

text \<open>The counters of a run.\<close>

lemma count_result_bounds:
  assumes "0 \<le> wr_incomplete r" "0 \<le> wr_transitions r" "wr_incomplete r + wr_transitions r \<le> wr_evaluated r"
    and "v_input_completeness (p_evaluation p) = input_incomplete \<Longrightarrow> p_next_state p = p_previous_state p"
  shows "0 \<le> wr_incomplete (count_result p r) \<and> 0 \<le> wr_transitions (count_result p r)
    \<and> wr_incomplete (count_result p r) + wr_transitions (count_result p r) \<le> wr_evaluated (count_result p r)
    \<and> wr_evaluated (count_result p r) = wr_evaluated r + 1"
  using assms by (auto simp: count_result_def)

lemma evaluate_incomplete_stays:
  assumes "evaluate ord a c prev m = Inr p" "v_input_completeness (p_evaluation p) = input_incomplete"
  shows "p_next_state p = p_previous_state p"
  using assms(1) by (cases rule: evaluate_Inr)
    (use assms(2) in \<open>auto simp: complete_evaluation_fields input_complete_def input_incomplete_def incomplete_evaluation_def\<close>)

lemma worker_evaluate_one_incomplete:
  "worker_evaluate_one ord cfg env a db = Inr p \<Longrightarrow> v_input_completeness (p_evaluation p) = input_incomplete
   \<Longrightarrow> p_next_state p = p_previous_state p"
  by (auto simp: worker_evaluate_one_def case_prod_beta Let_def dest: evaluate_incomplete_stays)

definition report_ok :: "worker_report \<Rightarrow> int \<Rightarrow> bool" where
  "report_ok r n \<longleftrightarrow> 0 \<le> wr_incomplete r \<and> 0 \<le> wr_transitions r
     \<and> wr_incomplete r + wr_transitions r \<le> wr_evaluated r \<and> wr_evaluated r \<le> n"

lemma worker_step_report:
  assumes "report_ok (ws_report s) n" "worker_step ord cfg env a s = (r, s')"
  shows "report_ok (ws_report s') (n + (if a_evaluation_run_id a = w_run_id cfg then 1 else 0))"
proof (cases "a_evaluation_run_id a = w_run_id cfg")
  case False
  then show ?thesis using assms by (simp add: worker_step_def)
next
  case True
  show ?thesis
  proof (cases "worker_evaluate_one ord cfg env a (ws_db s)")
    case (Inl e)
    then show ?thesis using assms True by (auto simp: worker_step_def report_ok_def)
  next
    case (Inr p)
    have "ws_report s' = count_result p (ws_report s)"
      using assms(2) True Inr by (auto simp: worker_step_def Let_def split: if_splits prod.splits sum.splits option.splits)
    then show ?thesis
      using assms(1) True count_result_bounds [of "ws_report s" p] worker_evaluate_one_incomplete [OF Inr]
      by (auto simp: report_ok_def)
  qed
qed

lemma worker_loop_report:
  assumes "report_ok (ws_report s) n" "worker_loop ord cfg env as s = (r, s')"
  shows "report_ok (ws_report s') (n + int (length (filter (\<lambda>a. a_evaluation_run_id a = w_run_id cfg) as)))"
  using assms
proof (induction as arbitrary: s n)
  case Nil
  then show ?case by simp
next
  case (Cons a as)
  obtain q t where t: "worker_step ord cfg env a s = (q, t)" by fastforce
  note one = worker_step_report [OF Cons.prems(1) t]
  show ?case
  proof (cases q)
    case (Inl e)
    then show ?thesis using Cons.prems(2) t one by (auto simp: report_ok_def split: if_splits)
  next
    case (Inr u)
    then show ?thesis using Cons.IH [OF one] Cons.prems(2) t by (auto simp: algebra_simps split: if_splits)
  qed
qed

text \<open>The outbox against a broker that records what it takes.\<close>

definition recording_broker :: "(saf_event list \<Rightarrow> saf_event \<Rightarrow> bool) \<Rightarrow> saf_event list \<Rightarrow> saf_event \<Rightarrow> saf_event list res" where
  "recording_broker accepts w e = (if accepts w e then Inr (w @ [e]) else Inl (Err ''broker''))"

definition mark_all :: "time \<Rightarrow> saf_event list \<Rightarrow> saf_event list \<Rightarrow> saf_event list" where
  "mark_all now sent = map (\<lambda>e. if e \<in> set sent then e\<lparr>ev_published_at := Some now\<rparr> else e)"

lemma mark_one:
  assumes "distinct (map ev_event_id (db_events db))" "e \<in> set (db_events db)" "ev_published_at e = None"
  shows "mark_published (ev_event_id e) now db = (Inr (), db\<lparr>db_events := mark_all now [e] (db_events db)\<rparr>)"
proof -
  have "ev_event_id x = ev_event_id e \<and> ev_published_at x = None \<longleftrightarrow> x = e" if "x \<in> set (db_events db)" for x
    using assms that by (metis distinct_map inj_onD)
  then show ?thesis using assms by (auto simp: mark_published_def mark_all_def)
qed

lemma flush_events_log:
  assumes "distinct (map ev_event_id (db_events db))" "set es \<subseteq> set (db_events db)" "distinct es"
    and "\<forall>e \<in> set es. ev_published_at e = None"
    and "flush_events (recording_broker accepts) now es w db = (r, w', db')"
  shows "\<exists>n \<le> length es. w' = w @ take n es \<and> db_events db' = mark_all now (take n es) (db_events db)
    \<and> (is_ok r \<longleftrightarrow> n = length es)"
  using assms
proof (induction es arbitrary: w db)
  case Nil
  then show ?case by (auto simp: mark_all_def)
next
  case (Cons e es)
  show ?case
  proof (cases "accepts w e")
    case False
    then show ?thesis using Cons.prems(5) by (intro exI [of _ 0]) (auto simp: recording_broker_def mark_all_def)
  next
    case True
    let ?db = "db\<lparr>db_events := mark_all now [e] (db_events db)\<rparr>"
    have m: "mark_published (ev_event_id e) now db = (Inr (), ?db)"
      using Cons.prems by (intro mark_one) auto
    have b: "recording_broker accepts w e = Inr (w @ [e])" using True by (simp add: recording_broker_def)
    have f: "flush_events (recording_broker accepts) now es (w @ [e]) ?db = (r, w', db')"
      using Cons.prems(5) m by (simp add: b)
    have "map ev_event_id (db_events ?db) = map ev_event_id (db_events db)" by (simp add: mark_all_def)
    then have d: "distinct (map ev_event_id (db_events ?db))" using Cons.prems(1) by simp
    have s: "set es \<subseteq> set (db_events ?db)"
      using Cons.prems(2,3) by (auto simp: mark_all_def image_iff)
    obtain n where n: "n \<le> length es" "w' = (w @ [e]) @ take n es"
        "db_events db' = mark_all now (take n es) (db_events ?db)" "is_ok r \<longleftrightarrow> n = length es"
      using Cons.IH [OF d s _ _ f] Cons.prems(3,4) by auto
    have "e\<lparr>ev_published_at := Some now\<rparr> \<notin> set (take n es)"
    proof
      assume "e\<lparr>ev_published_at := Some now\<rparr> \<in> set (take n es)"
      then have "ev_published_at (e\<lparr>ev_published_at := Some now\<rparr>) = None"
        using Cons.prems(4) by (meson in_set_takeD list.set_intros(2))
      then show False by simp
    qed
    then have "mark_all now (take n es) (mark_all now [e] (db_events db)) = mark_all now (take (Suc n) (e # es)) (db_events db)"
      by (simp add: mark_all_def)
    then show ?thesis using n by (intro exI [of _ "Suc n"]) simp
  qed
qed

end
