(* ===== verification/SafLifecycle.thy ===== *)
theory SafLifecycle imports SafWorker begin

text \<open>
  The tables of the Signal Assurance Framework as a transition system: every repository
  write is a step, among them the two groups of statements that insert an assertion and an
  evaluation, so that the invariants hold for the insertion paths too.
\<close>

section \<open>Steps\<close>

inductive saf_step ::
    "((string \<times> string) list \<Rightarrow> (string \<times> string) list) \<Rightarrow> saf_db \<Rightarrow> saf_db \<Rightarrow> bool" for ord where
  contract: "saf_step ord db (snd (upsert_contract now c db))"
| register: "assertion_registration ord e c = Inr reg \<Longrightarrow> saf_step ord db (snd (register_assertion reg db))"
| insert_row: "assertion_registration ord e c = Inr reg \<Longrightarrow> saf_step ord db (snd (insert_assertion reg row b db))"
| persist: "evaluate ord a c prev m = Inr p \<Longrightarrow> saf_step ord db (snd (persist_evaluation p db))"
| insert_eval: "find_assertion db (a_assertion_id a) = Some a \<Longrightarrow> evaluate ord a c prev m = Inr p
    \<Longrightarrow> saf_step ord db (snd (insert_evaluation p a db))"
| publish: "saf_step ord db (snd (mark_published eid t db))"

inductive_cases saf_stepE: "saf_step ord db db'"

section \<open>Invariant\<close>

definition time_of :: "terminal_column \<Rightarrow> assertion \<Rightarrow> time option" where
  "time_of col a = (case col of MaterializedAt \<Rightarrow> a_materialized_at a | InvalidatedAt \<Rightarrow> a_invalidated_at a
     | SupersededAt \<Rightarrow> a_superseded_at a | ExpiredAt \<Rightarrow> a_expired_at a)"

text \<open>A terminal assertion has moved once and carries exactly the time of its own state.\<close>

definition settled :: "assertion \<Rightarrow> bool" where
  "settled a \<longleftrightarrow> a_transition_sequence a = 2 \<and> a_closed_at a = None
     \<and> (\<exists>col. terminal_timestamp_column (a_state a) = Some col \<and> (\<forall>k. time_of k a \<noteq> None \<longleftrightarrow> k = col))"

text \<open>The event and the evaluation that moved it are in the tables.\<close>

definition recorded :: "saf_db \<Rightarrow> assertion \<Rightarrow> bool" where
  "recorded db a \<longleftrightarrow>
     (\<exists>e \<in> set (db_events db). ev_assertion_id e = a_assertion_id a \<and> ev_previous_state e = st_active
        \<and> ev_new_state e = a_state a \<and> ev_transition_sequence e = 2
        \<and> (\<exists>v \<in> set (db_evaluations db). v_evaluation_id v = ev_evaluation_id e \<and> v_assertion_id v = a_assertion_id a))"

definition lifecycle_ok :: "saf_db \<Rightarrow> bool" where
  "lifecycle_ok db \<longleftrightarrow> distinct (map a_assertion_id (db_assertions db))
     \<and> (\<forall>a \<in> set (db_assertions db). fresh_assertion a \<or> settled a \<and> recorded db a)"

lemma settled_not_active: "settled a \<Longrightarrow> a_state a \<noteq> st_active"
  by (auto simp: settled_def terminal_timestamp_column_def st_defs)

lemma recorded_mono:
  assumes "recorded db a" "\<forall>v \<in> set (db_evaluations db). v \<in> set (db_evaluations db')"
    and "\<forall>e \<in> set (db_events db). \<exists>e' \<in> set (db_events db').
           \<exists>t. e' = e\<lparr>ev_published_at := t\<rparr>"
  shows "recorded db' a"
proof -
  obtain e v where e: "e \<in> set (db_events db)" "ev_assertion_id e = a_assertion_id a" "ev_previous_state e = st_active"
      "ev_new_state e = a_state a" "ev_transition_sequence e = 2"
    and v: "v \<in> set (db_evaluations db)" "v_evaluation_id v = ev_evaluation_id e" "v_assertion_id v = a_assertion_id a"
    using assms(1) by (auto simp: recorded_def)
  obtain e' t where "e' \<in> set (db_events db')" "e' = e\<lparr>ev_published_at := t\<rparr>" using assms(3) e(1) by blast
  then show ?thesis using e v assms(2) unfolding recorded_def by (intro bexI [of _ e'] conjI bexI [of _ v]) auto
qed

lemma same_events: "\<exists>e' \<in> set es. \<exists>t. e' = e\<lparr>ev_published_at := t\<rparr>" if "e \<in> set es" for e :: saf_event
  using that by (intro bexI [of _ e] exI [of _ "ev_published_at e"]) simp_all

section \<open>Preservation\<close>

lemma upsert_contract_keeps:
  "db_assertions (snd (upsert_contract now c db)) = db_assertions db"
  "db_evaluations (snd (upsert_contract now c db)) = db_evaluations db"
  "db_events (snd (upsert_contract now c db)) = db_events db"
  by (simp_all add: upsert_contract_def Let_def split: sum.split)

lemma mark_published_keeps:
  "db_assertions (snd (mark_published eid t db)) = db_assertions db"
  "db_evaluations (snd (mark_published eid t db)) = db_evaluations db"
  by (simp_all add: mark_published_def)

lemma mark_published_events:
  assumes "e \<in> set (db_events db)"
  shows "\<exists>e' \<in> set (db_events (snd (mark_published eid t db))). \<exists>u. e' = e\<lparr>ev_published_at := u\<rparr>"
proof (cases "ev_event_id e = eid \<and> ev_published_at e = None")
  case True
  then have "e\<lparr>ev_published_at := Some t\<rparr> \<in> set (db_events (snd (mark_published eid t db)))"
    using assms by (auto simp: mark_published_def image_iff intro!: bexI [of _ e])
  then show ?thesis by blast
next
  case False
  then have "e \<in> set (db_events (snd (mark_published eid t db)))"
    using assms by (auto simp: mark_published_def image_iff intro!: bexI [of _ e])
  then show ?thesis by (rule same_events)
qed

lemma lifecycle_ok_frame:
  assumes "lifecycle_ok db" "db_assertions db' = db_assertions db"
    and "\<forall>v \<in> set (db_evaluations db). v \<in> set (db_evaluations db')"
    and "\<forall>e \<in> set (db_events db). \<exists>e' \<in> set (db_events db'). \<exists>t. e' = e\<lparr>ev_published_at := t\<rparr>"
  shows "lifecycle_ok db'"
  using assms recorded_mono [OF _ assms(3,4)] by (auto simp: lifecycle_ok_def)

lemma registration_fresh: "assertion_registration ord e c = Inr reg \<Longrightarrow> fresh_assertion (r_assertion reg)"
  by (auto simp: assertion_registration_def Let_def fresh_assertion_def split: if_splits)

lemma insert_assertion_db:
  "snd (insert_assertion reg row b db) =
     (let db2 = db\<lparr>db_assertions := db_assertions db @ [stored_assertion (r_assertion reg)], db_inbox := db_inbox db @ [row]\<rparr>;
          ev = created_event (r_assertion reg)
      in if assertion_row_ok db (stored_assertion (r_assertion reg)) \<and> \<not> b \<and> event_row_ok db2 ev
         then db2\<lparr>db_events := db_events db @ [ev]\<rparr> else db)"
  by (simp add: insert_assertion_def Let_def)

lemma insert_assertion_inv:
  assumes "lifecycle_ok db" "fresh_assertion (r_assertion reg)"
  shows "lifecycle_ok (snd (insert_assertion reg row b db))"
proof (cases "snd (insert_assertion reg row b db) = db")
  case True
  then show ?thesis using assms(1) by simp
next
  case False
  let ?x = "stored_assertion (r_assertion reg)" and ?db = "snd (insert_assertion reg row b db)"
  have new: "assertion_row_ok db ?x" "db_assertions ?db = db_assertions db @ [?x]"
      "db_evaluations ?db = db_evaluations db" "db_events ?db = db_events db @ [created_event (r_assertion reg)]"
    using False by (simp_all add: insert_assertion_db Let_def split: if_splits)
  have "recorded ?db a" if "recorded db a" for a
    using that by (rule recorded_mono) (auto simp: new intro!: same_events)
  moreover have "fresh_assertion ?x" using assms(2) by (simp add: fresh_assertion_def stored_assertion_def)
  ultimately show ?thesis using assms(1) new(1) by (auto simp: lifecycle_ok_def new(2) assertion_row_ok_def)
qed

lemma register_assertion_inv:
  assumes "lifecycle_ok db" "fresh_assertion (r_assertion reg)"
  shows "lifecycle_ok (snd (register_assertion reg db))"
proof -
  have "lifecycle_ok (db\<lparr>db_inbox := rows\<rparr>)" for rows
    by (rule lifecycle_ok_frame [OF assms(1)]) (auto intro: same_events)
  then show ?thesis
    using assms(1) insert_assertion_inv [OF assms] unfolding register_assertion_def Let_def
    by (simp split: sum.split option.split)
qed

lemma evaluate_ids:
  assumes "evaluate ord a c prev m = Inr p"
  shows "v_assertion_id (p_evaluation p) = a_assertion_id a" "p_previous_state p = st_active" "a_state a = st_active"
  using assms by (cases rule: evaluate_Inr;
      auto simp: complete_evaluation_fields incomplete_evaluation_def blank_evaluation_def)+

definition stored_evaluation :: "persistence \<Rightarrow> assertion \<Rightarrow> evaluation" where
  "stored_evaluation p a =
     (let sn = (if p_next_state p \<noteq> p_previous_state p then a_transition_sequence a + 1 else a_transition_sequence a);
          x = (p_evaluation p)\<lparr>v_transition_sequence := sn\<rparr>
      in x\<lparr>v_input_snapshot := json_or_empty (v_input_snapshot x)\<rparr>)"

text \<open>What an insertion can do to the tables: nothing, add an evaluation, or move the assertion as well.\<close>

lemma insert_evaluation_cases:
  obtains (same) "snd (insert_evaluation p a db) = db"
  | (add) "snd (insert_evaluation p a db) = db\<lparr>db_evaluations := db_evaluations db @ [stored_evaluation p a]\<rparr>"
  | (move) col where "p_next_state p \<noteq> p_previous_state p" "terminal_timestamp_column (p_next_state p) = Some col"
      "snd (insert_evaluation p a db) = db\<lparr>db_evaluations := db_evaluations db @ [stored_evaluation p a],
         db_assertions := map (\<lambda>b. if a_assertion_id b = v_assertion_id (p_evaluation p)
            then transition_row (p_next_state p) (a_transition_sequence a + 1) col (v_evaluated_at (p_evaluation p)) b else b) (db_assertions db),
         db_events := db_events db @ [transition_event p ((p_evaluation p)\<lparr>v_transition_sequence := a_transition_sequence a + 1\<rparr>) (a_transition_sequence a + 1)]\<rparr>"
proof -
  consider "snd (insert_evaluation p a db) = db" | "snd (insert_evaluation p a db) \<noteq> db" "p_next_state p = p_previous_state p"
    | col where "snd (insert_evaluation p a db) \<noteq> db" "p_next_state p \<noteq> p_previous_state p" "terminal_timestamp_column (p_next_state p) = Some col"
    | "snd (insert_evaluation p a db) \<noteq> db" "p_next_state p \<noteq> p_previous_state p" "terminal_timestamp_column (p_next_state p) = None"
    by fastforce
  then show thesis
  proof cases
    case 1
    then show thesis by (rule same)
  next
    case 2
    then show thesis by (intro add) (simp add: insert_evaluation_def stored_evaluation_def Let_def split: if_splits)
  next
    case (3 col)
    then show thesis
      by (intro move [of col]) (simp_all add: insert_evaluation_def stored_evaluation_def Let_def split: if_splits)
  next
    case 4
    then show thesis by (simp add: insert_evaluation_def Let_def)
  qed
qed

lemma transition_settles:
  assumes "fresh_assertion a" "terminal_timestamp_column st = Some col"
  shows "settled (transition_row st (a_transition_sequence a + 1) col t a)"
    "a_assertion_id (transition_row st sn col t a) = a_assertion_id a"
    "a_state (transition_row st sn col t a) = st"
proof -
  have "time_of k (transition_row st (a_transition_sequence a + 1) col t a) \<noteq> None \<longleftrightarrow> k = col" for k
    using assms(1) by (cases k; cases col) (simp_all add: time_of_def transition_row_def set_terminal_def fresh_assertion_def)
  then show "settled (transition_row st (a_transition_sequence a + 1) col t a)"
    using assms by (cases col) (simp_all add: settled_def transition_row_def set_terminal_def fresh_assertion_def)
qed (cases col; simp add: transition_row_def set_terminal_def)+

lemma transition_row_id [simp]: "a_assertion_id (transition_row st sn col t a) = a_assertion_id a"
  by (cases col) (simp_all add: transition_row_def set_terminal_def)

lemma find_assertion_Some: "find_assertion db i = Some a \<Longrightarrow> a \<in> set (db_assertions db) \<and> a_assertion_id a = i"
  using first_match_Some unfolding find_assertion_def by fastforce

lemma insert_evaluation_inv:
  assumes "lifecycle_ok db" "find_assertion db (v_assertion_id (p_evaluation p)) = Some a"
    and "p_previous_state p = st_active" "a_state a = st_active"
  shows "lifecycle_ok (snd (insert_evaluation p a db))"
proof (cases rule: insert_evaluation_cases [of p a db])
  case same
  then show ?thesis using assms(1) by simp
next
  case add
  show ?thesis by (rule lifecycle_ok_frame [OF assms(1)]) (auto simp: add intro!: same_events)
next
  case (move col)
  have ids: "v_assertion_id (p_evaluation p) = a_assertion_id a" "p_previous_state p = st_active" "a_state a = st_active"
    using assms(2-4) find_assertion_Some by auto
  let ?db = "snd (insert_evaluation p a db)"
  let ?t = "\<lambda>b. if a_assertion_id b = v_assertion_id (p_evaluation p)
            then transition_row (p_next_state p) (a_transition_sequence a + 1) col (v_evaluated_at (p_evaluation p)) b else b"
  have a: "a \<in> set (db_assertions db)" using find_assertion_Some [OF assms(2)] by blast
  have d: "distinct (map a_assertion_id (db_assertions db))" using assms(1) by (simp add: lifecycle_ok_def)
  have f: "fresh_assertion a" using assms(1) a ids(3) settled_not_active by (auto simp: lifecycle_ok_def)
  have rec: "recorded ?db b" if "recorded db b" for b
    using that by (rule recorded_mono) (auto simp: move(3) intro!: same_events)
  have new: "recorded ?db (?t a)"
  proof -
    let ?e = "transition_event p ((p_evaluation p)\<lparr>v_transition_sequence := a_transition_sequence a + 1\<rparr>) (a_transition_sequence a + 1)"
    have "?e \<in> set (db_events ?db)" "stored_evaluation p a \<in> set (db_evaluations ?db)" by (simp_all add: move(3))
    then show ?thesis unfolding recorded_def
      using f ids transition_settles(2,3) [OF f move(2)]
      by (intro bexI [of _ ?e] conjI bexI [of _ "stored_evaluation p a"])
        (simp_all add: transition_event_def stored_evaluation_def Let_def fresh_assertion_def)
  qed
  have "fresh_assertion (?t b) \<or> settled (?t b) \<and> recorded ?db (?t b)" if b: "b \<in> set (db_assertions db)" for b
  proof (cases "a_assertion_id b = a_assertion_id a")
    case True
    then have "b = a" using d a b by (metis distinct_map inj_onD)
    then show ?thesis using new transition_settles(1) [OF f move(2)] ids(1) by simp
  next
    case False
    then show ?thesis using assms(1) b rec ids(1) by (auto simp: lifecycle_ok_def)
  qed
  moreover have dba: "db_assertions ?db = map ?t (db_assertions db)" by (simp add: move(3))
  moreover have "distinct (map a_assertion_id (db_assertions ?db))"
    using d unfolding dba map_map by (rule back_subst [of distinct]) (auto simp: o_def)
  ultimately show ?thesis unfolding lifecycle_ok_def by (metis (no_types, lifting) imageE set_map)
qed

lemma persist_evaluation_snd:
  "snd (persist_evaluation p db) = db
   \<or> (\<exists>a. find_assertion db (v_assertion_id (p_evaluation p)) = Some a \<and> a_state a = p_previous_state p
        \<and> snd (persist_evaluation p db) = snd (insert_evaluation p a db))"
  by (auto simp: persist_evaluation_def scan_row_def split: sum.split option.split)

lemma saf_step_inv:
  assumes "lifecycle_ok db" "saf_step ord db db'"
  shows "lifecycle_ok db'"
  using assms(2)
proof cases
  case (contract now c)
  show ?thesis unfolding contract
    by (rule lifecycle_ok_frame [OF assms(1)]) (auto simp: upsert_contract_keeps intro!: same_events)
next
  case (register e c reg)
  then show ?thesis using register_assertion_inv [OF assms(1)] registration_fresh by blast
next
  case (insert_row e c reg row b)
  then show ?thesis using insert_assertion_inv [OF assms(1)] registration_fresh by blast
next
  case (persist a c prev m p)
  then show ?thesis
    using persist_evaluation_snd [of p db] insert_evaluation_inv [OF assms(1)] evaluate_ids(2) assms(1) by metis
next
  case (insert_eval a c prev m p)
  then show ?thesis using insert_evaluation_inv [OF assms(1)] evaluate_ids [OF insert_eval(3)] by simp
next
  case (publish eid t)
  show ?thesis unfolding publish
    by (rule lifecycle_ok_frame [OF assms(1)]) (auto simp: mark_published_keeps intro!: mark_published_events)
qed

interpretation saf: transition_system "saf_step ord" lifecycle_ok for ord
  by unfold_locales (rule saf_step_inv)

text \<open>A settled assertion is never touched again.\<close>

lemma saf_step_settled:
  assumes "lifecycle_ok db" "a \<in> set (db_assertions db)" "settled a" "saf_step ord db db'"
  shows "a \<in> set (db_assertions db')"
proof -
  have ins: "a \<in> set (db_assertions (snd (insert_evaluation p b db)))"
    if "find_assertion db (v_assertion_id (p_evaluation p)) = Some b" "a_state b = st_active" for p b
  proof (cases rule: insert_evaluation_cases [of p b db])
    case (move col)
    have "a_assertion_id a \<noteq> v_assertion_id (p_evaluation p)"
    proof
      assume e: "a_assertion_id a = v_assertion_id (p_evaluation p)"
      have "b \<in> set (db_assertions db)" "a_assertion_id b = a_assertion_id a" using find_assertion_Some [OF that(1)] e by auto
      then have "b = a" using assms(1,2) unfolding lifecycle_ok_def by (metis distinct_map inj_onD)
      then show False using that(2) settled_not_active [OF assms(3)] by simp
    qed
    then show ?thesis using assms(2) by (simp add: move(3) rev_image_eqI)
  qed (use assms(2) in simp_all)
  have row: "a \<in> set (db_assertions (snd (insert_assertion reg r b db)))" for reg r b
    using assms(2) by (simp add: insert_assertion_db Let_def)
  from assms(4) show ?thesis
  proof cases
    case (register e c reg)
    then show ?thesis using assms(2) row by (simp add: register_assertion_def Let_def split: sum.split option.split)
  next
    case (persist c' c prev m p)
    then show ?thesis using persist_evaluation_snd [of p db] ins assms(2) evaluate_ids(2) by metis
  next
    case (insert_eval b c prev m p)
    then show ?thesis using ins evaluate_ids [OF insert_eval(3)] by simp
  qed (use assms(2) row in \<open>simp_all add: upsert_contract_keeps mark_published_keeps\<close>)
qed

end
