(* ===== verification/SafMaterialize.thy ===== *)
theory SafMaterialize imports SafWorker begin

text \<open>
  \<open>internal/marketops/signalassurance/materialization_adapter.go\<close>: an eligible event built
  from a completed materialization and the canonical closes visible when it was confirmed.
  \<open>now\<close> is \<open>time.Now()\<close>. \<open>ResearchContractFor\<close> stands in \<open>SafWorker\<close>.
\<close>

definition normalize_direction :: "string \<Rightarrow> string" where
  "normalize_direction s =
     (let v = to_lower (trim_space s) in
      if v = ''bullish'' \<or> v = ''upside'' then ''bullish''
      else if v = ''bearish'' \<or> v = ''downside'' then ''bearish'' else [])"

section \<open>Canonical close\<close>

definition bar_close :: "string \<Rightarrow> time \<Rightarrow> ledger_event \<Rightarrow> f64 option" where
  "bar_close name as_of e =
     (if as_of < n_observation_time e \<or> as_of < n_processing_time e then None
      else
        do { m \<leftarrow> decode_obj (n_normalized_payload e);
             s \<leftarrow> dec_str (ofield m ''symbol'');
             t \<leftarrow> dec_str (ofield m ''ticker'');
             cl \<leftarrow> dec_num (ofield m ''close'');
             if fle cl (Fin 0) \<or> to_upper (first_non_blank [s, t]) \<noteq> name then None else Some cl })"

text \<open>An event replaces the best one so far when that has no id or is older.\<close>

definition newer_bar :: "ledger_event \<Rightarrow> ledger_event \<Rightarrow> bool" where
  "newer_bar e best \<longleftrightarrow> n_event_id best = [] \<or> n_observation_time best < n_observation_time e
     \<or> (n_observation_time best = n_observation_time e \<and> n_processing_time best < n_processing_time e)"

fun best_bar :: "string \<Rightarrow> time \<Rightarrow> ledger_event list \<Rightarrow> (f64 \<times> ledger_event) option \<Rightarrow> (f64 \<times> ledger_event) option" where
  "best_bar name as_of [] best = best"
| "best_bar name as_of (e # es) best =
     best_bar name as_of es
       (case bar_close name as_of e of
          None \<Rightarrow> best
        | Some cl \<Rightarrow> (case best of None \<Rightarrow> Some (cl, e) | Some (_, b) \<Rightarrow> if newer_bar e b then Some (cl, e) else best))"

definition canonical_close :: "ledger_event list \<Rightarrow> string \<Rightarrow> time \<Rightarrow> (f64 \<times> ledger_event) option" where
  "canonical_close events symbol as_of = best_bar (to_upper (trim_space symbol)) as_of events None"

section \<open>The eligible event\<close>

definition research_run_id :: string where
  "research_run_id = ''saf-research-materializations-v1''"

text \<open>The error of the second decoding is dropped: a field of another JSON type stays empty.\<close>

definition materialized_direction :: "string \<Rightarrow> doc \<Rightarrow> string" where
  "materialized_direction proposed result =
     (if normalize_direction proposed \<noteq> [] then normalize_direction proposed
      else
        (let m = (case decode_obj result of Some m \<Rightarrow> m | None \<Rightarrow> []) in
         normalize_direction (first_non_blank [str_of (ofield m ''direction''), str_of (ofield m ''technical_direction'')])))"

definition bar_provenance :: "ledger_event \<Rightarrow> ledger_event \<Rightarrow> json" where
  "bar_provenance asset bench =
     JObj [(''asset_event_id'', JStr (n_event_id asset)),
       (''asset_observation_time'', JStr (fmt_rfc3339nano (n_observation_time asset))),
       (''asset_available_at'', JStr (fmt_rfc3339nano (n_processing_time asset))),
       (''benchmark_event_id'', JStr (n_event_id bench)),
       (''benchmark_observation_time'', JStr (fmt_rfc3339nano (n_observation_time bench))),
       (''benchmark_available_at'', JStr (fmt_rfc3339nano (n_processing_time bench))),
       (''market_calendar_version'', JStr ''nyse:v1''),
       (''corporate_action_policy_version'', JStr ''raw_regular_session_close:v1'')]"

definition bar_baseline :: "f64 \<Rightarrow> f64 \<Rightarrow> string \<Rightarrow> json" where
  "bar_baseline asset bench benchmark =
     JObj [(''asset_price'', JNum asset), (''benchmark_price'', JNum bench), (''benchmark_symbol'', JStr (to_upper benchmark)),
       (''price_basis'', JStr ''raw_regular_session_close'')]"

definition materialized_event ::
    "time \<Rightarrow> materialization \<Rightarrow> signal_proposal \<Rightarrow> signal_ledger \<Rightarrow> string \<Rightarrow> string \<Rightarrow> string \<Rightarrow> string \<Rightarrow> time \<Rightarrow> f64 \<times> ledger_event \<Rightarrow> f64 \<times> ledger_event \<Rightarrow> eligible_event" where
  "materialized_event now m p s benchmark asset_id symbol direction confirmed a b =
     (let event = \<lparr>e_eligible_event_id = deterministic_id ''safelig'' [mz_materialization_id m],
            e_tenant_id = sl_tenant_id s, e_signal_id = sl_signal_id s, e_signal_ledger_id = sl_signal_id s,
            e_asset_id = asset_id, e_symbol = to_upper symbol, e_signal_type = sl_signal_type s,
            e_direction = direction, e_score = Some (sp_score p), e_confidence = Some (sp_confidence p),
            e_status = ''confirmed'', e_algorithm = mz_algorithm_id m, e_algorithm_version = mz_algorithm_version m,
            e_confirmed_at = confirmed, e_event_available_at = now,
            e_confirmation_rule_version = mz_materialization_policy_version m, e_validation_contract_ref = [],
            e_baseline_snapshot = marshal (bar_baseline (fst a) (fst b) benchmark),
            e_baseline_provenance = marshal (bar_provenance (snd a) (snd b)),
            e_evaluation_mode = mode_research, e_evaluation_run_id = research_run_id\<rparr>
      in event\<lparr>e_validation_contract_ref := c_contract_id (research_contract_for event)\<rparr>)"

definition eligible_from_materialization ::
    "time \<Rightarrow> materialization \<Rightarrow> signal_proposal \<Rightarrow> algorithm_result \<Rightarrow> signal_ledger \<Rightarrow> ledger_event list \<Rightarrow> string \<Rightarrow> eligible_event res" where
  "eligible_from_materialization now m p r s events benchmark =
     (if mz_materialization_status m \<noteq> ''succeeded'' \<or> blank (sl_signal_id s) then
        Inl (Err ''materialization is not a newly succeeded ledger signal'')
      else
        (case do { f \<leftarrow> decode_obj (sp_proposal_payload p); asset \<leftarrow> dec_str (ofield f ''asset_id'');
                   symbol \<leftarrow> dec_str (ofield f ''symbol''); dir \<leftarrow> dec_str (ofield f ''direction''); Some (asset, symbol, dir) } of
           None \<Rightarrow> Inl (Err ''decode proposal payload'')
         | Some (asset_id, symbol, dir) \<Rightarrow>
           let direction = materialized_direction dir (ar_result_payload r);
               confirmed = (if sl_signal_time s = zero_time
                            then (case mz_completed_at m of Some t \<Rightarrow> t | None \<Rightarrow> zero_time) else sl_signal_time s)
           in if asset_id = [] \<or> symbol = [] \<or> direction = [] then
                Inl (Err ''materialization lacks directional asset identity'')
              else if confirmed = zero_time then Inl (Err ''materialization confirmation time is missing'')
              else
                (case (canonical_close events symbol confirmed, canonical_close events benchmark confirmed) of
                   (Some a, Some b) \<Rightarrow> Inr (materialized_event now m p s benchmark asset_id symbol direction confirmed a b)
                 | _ \<Rightarrow> Inl (Err ''canonical baseline price unavailable''))))"

section \<open>Facts\<close>

lemma bar_close_visible: "bar_close name as_of e = Some cl \<Longrightarrow>
    n_observation_time e \<le> as_of \<and> n_processing_time e \<le> as_of \<and> \<not> fle cl (Fin 0)"
  by (auto simp: bar_close_def bind_eq_Some_conv split: if_splits)

text \<open>The newest of the events with an id that have a close; ties keep the earlier one.\<close>

definition bar_key :: "ledger_event \<Rightarrow> time \<times> time" where
  "bar_key e = (n_observation_time e, n_processing_time e)"

definition older_or_same :: "ledger_event \<Rightarrow> ledger_event \<Rightarrow> bool" where
  "older_or_same a b \<longleftrightarrow> n_observation_time a < n_observation_time b
     \<or> (n_observation_time a = n_observation_time b \<and> n_processing_time a \<le> n_processing_time b)"

lemma best_bar_newest:
  assumes "\<forall>e \<in> set es. n_event_id e \<noteq> []" "\<forall>p b. best = Some (p, b) \<longrightarrow> n_event_id b \<noteq> []"
    and "best_bar name as_of es best = Some (cl, b)"
  shows "(best = Some (cl, b) \<or> b \<in> set es \<and> bar_close name as_of b = Some cl)
    \<and> (\<forall>e \<in> set es. bar_close name as_of e \<noteq> None \<longrightarrow> older_or_same e b)
    \<and> (\<forall>p b0. best = Some (p, b0) \<longrightarrow> older_or_same b0 b)"
  using assms
proof (induction es arbitrary: best)
  case Nil
  then show ?case by (auto simp: older_or_same_def)
next
  case (Cons e es)
  show ?case
  proof (cases "bar_close name as_of e")
    case None
    then show ?thesis using Cons by auto
  next
    case (Some x)
    define best' where "best' = (case best of None \<Rightarrow> Some (x, e) | Some (_, b) \<Rightarrow> if newer_bar e b then Some (x, e) else best)"
    have b': "\<forall>p b. best' = Some (p, b) \<longrightarrow> n_event_id b \<noteq> []"
      using Cons.prems(1,2) by (auto simp: best'_def split: option.splits if_splits)
    have ih: "(best' = Some (cl, b) \<or> b \<in> set es \<and> bar_close name as_of b = Some cl)"
        "\<forall>e \<in> set es. bar_close name as_of e \<noteq> None \<longrightarrow> older_or_same e b"
        "\<forall>p b0. best' = Some (p, b0) \<longrightarrow> older_or_same b0 b"
      using Cons.IH [OF _ b'] Cons.prems(1,3) Some by (auto simp: best'_def)
    show ?thesis
    proof (cases best)
      case None
      then show ?thesis using ih Some by (auto simp: best'_def)
    next
      case (Some q)
      then obtain p b0 where q: "best = Some (p, b0)" by (cases q) auto
      then have "n_event_id b0 \<noteq> []" using Cons.prems(2) by blast
      then have "if newer_bar e b0 then older_or_same b0 e else older_or_same e b0"
        by (auto simp: newer_bar_def older_or_same_def)
      then show ?thesis using ih q \<open>bar_close name as_of e = Some x\<close>
        by (auto simp: best'_def older_or_same_def split: if_splits)
    qed
  qed
qed

lemma normalize_direction_range: "normalize_direction s \<in> {''bullish'', ''bearish'', []}"
  by (simp add: normalize_direction_def Let_def)

lemma materialized_direction_range: "materialized_direction d r \<in> {''bullish'', ''bearish'', []}"
  using normalize_direction_range unfolding materialized_direction_def Let_def by presburger

lemma best_bar_visible:
  "best_bar name as_of es best = Some (cl, b) \<Longrightarrow> best = Some (cl, b) \<or> (b \<in> set es \<and> bar_close name as_of b = Some cl)"
  by (induction name as_of es best rule: best_bar.induct) (auto split: option.splits if_splits)

lemma canonical_close_visible:
  assumes "canonical_close events symbol as_of = Some (cl, b)"
  shows "b \<in> set events \<and> n_observation_time b \<le> as_of \<and> n_processing_time b \<le> as_of \<and> \<not> fle cl (Fin 0)"
  using best_bar_visible [OF assms [unfolded canonical_close_def]] bar_close_visible by auto

text \<open>What a built event holds.\<close>

lemma eligible_from_materialization_Inr:
  assumes "eligible_from_materialization now m p r s events benchmark = Inr e"
  obtains asset_id symbol dir confirmed a b where
    "e = materialized_event now m p s benchmark asset_id symbol dir confirmed a b"
    "canonical_close events symbol confirmed = Some a" "canonical_close events benchmark confirmed = Some b"
    "dir \<in> {''bullish'', ''bearish''}" "confirmed \<noteq> zero_time"
proof -
  let ?ok = "\<lambda>asset_id symbol d confirmed a b. e = materialized_event now m p s benchmark asset_id symbol (materialized_direction d (ar_result_payload r)) confirmed a b
    \<and> canonical_close events symbol confirmed = Some a \<and> canonical_close events benchmark confirmed = Some b
    \<and> materialized_direction d (ar_result_payload r) \<noteq> [] \<and> confirmed \<noteq> zero_time"
  have "\<exists>asset_id symbol d confirmed a b. ?ok asset_id symbol d confirmed a b"
    using assms unfolding eligible_from_materialization_def Let_def
    by (simp split: if_splits option.splits prod.splits del: split_paired_Ex) blast+
  then show thesis using that materialized_direction_range by blast
qed

lemma materialized_event_ref:
  "e_validation_contract_ref (materialized_event now m p s benchmark asset_id symbol dir confirmed a b) =
     c_contract_id (research_contract_for (materialized_event now m p s benchmark asset_id symbol dir confirmed a b))"
  by (simp add: materialized_event_def research_contract_for_def Let_def)

end
