(* ===== verification/SafProps.thy ===== *)
theory SafProps imports SafLifecycle SafMaterialize begin

text \<open>
  The properties of the Signal Assurance Framework: what a validated event is, the order
  of precedence of the lifecycle decision, the running excursions, the reach of the two
  repository writes, the resolution of contracts, the point-in-time market input, the
  worker and the outbox.
\<close>

section \<open>Validation and registration\<close>

lemma trim_mode_live: "trim_space mode_live = mode_live"
  unfolding mode_live_def by (rule trim_visible) (simp_all add: visible_def code_of_def)

lemma upper_mode_live: "to_upper mode_live = mode_live"
  by (simp add: mode_live_def code_of_def to_upper_def upper_char_def)

lemma mode_live_fixed: "to_upper (trim_space mode_live) = mode_live" "mode_live \<noteq> []"
  by (simp add: trim_mode_live upper_mode_live) (simp add: mode_live_def)

lemma canonical_mode_idem: "canonical_mode (canonical_mode s) = canonical_mode s"
  using mode_live_fixed by (auto simp: canonical_mode_def Let_def)

lemma canonical_event_idem: "canonical_event (canonical_event raw) = canonical_event raw"
  by (simp add: canonical_event_def canonical_mode_idem)

text \<open>
  C1. \<open>DecodeEligibleEvent\<close> accepts a message only if the event it returns satisfies every
  rule of the contract (required fields, confirmed direction, confidence in range, ordered
  times, mode and run namespace, a positive baseline price), whatever order Go's map
  iteration visits the required fields in, and the canonical spelling is a fixed point.
\<close>

theorem decode_eligible_event_sound:
  assumes "range_order ord" "decode_eligible_event ord s = Inr e"
  shows "event_ok e \<and> canonical_event e = e \<and> \<not> decoder_more s"
proof (cases "decode_payload (sm_first s)")
  case None
  then show ?thesis using assms(2) by (simp add: decode_eligible_event_def)
next
  case (Some raw)
  then have "\<not> decoder_more s \<and> validate_eligible_event ord (canonical_event raw) = Inr () \<and> canonical_event raw = e"
    using assms(2) by (simp add: decode_eligible_event_def split: if_splits) metis
  then show ?thesis using validate_eligible_event_iff [OF assms(1)] canonical_event_idem by metis
qed

text \<open>Concrete inputs the witnesses share.\<close>

definition sample_json :: json where
  "sample_json = JObj [(''eligible_event_id'', JStr ''ev1''), (''tenant_id'', JStr ''t''), (''signal_id'', JStr ''s1''),
     (''signal_ledger_id'', JStr ''s1''), (''asset_id'', JStr ''a''), (''symbol'', JStr '' nvda''), (''signal_type'', JStr ''breakout''),
     (''direction'', JStr ''Bullish''), (''confidence'', JNum (Fin (1/2))), (''status'', JStr ''confirmed''), (''algorithm'', JStr ''alg''),
     (''algorithm_version'', JStr ''1''), (''confirmed_at'', JStr ''2026-01-05T00:00:00Z''),
     (''event_available_at'', JStr ''2026-01-05T01:00:00Z''), (''confirmation_rule_version'', JStr ''r1''),
     (''validation_contract_ref'', JStr ''c1''), (''baseline_snapshot'', JObj [(''asset_price'', JNum (Fin 64))]),
     (''baseline_provenance'', JObj [])]"

definition sample_stream :: stream where
  "sample_stream = \<lparr>sm_first = Doc sample_json, sm_rest = []\<rparr>"

lemma range_order_id [simp]: "range_order id"
  by (simp add: range_order_def)

lemma range_order_rev [simp]: "range_order rev"
  by (simp add: range_order_def)

lemma sample_decodes: "is_ok (decode_eligible_event id sample_stream)"
  by code_simp

theorem decode_eligible_event_sound_witness:
  "\<exists>e. decode_eligible_event id sample_stream = Inr e \<and> event_ok e"
  using sample_decodes decode_eligible_event_sound [OF range_order_id, of sample_stream]
  by (cases "decode_eligible_event id sample_stream") auto

text \<open>
  The verdict of both validators does not depend on the order in which Go's map
  iteration visits the required fields: either two orders give the same result, or both
  reject and only the field named in the message differs.
\<close>

theorem validation_order_independent:
  assumes "range_order ord" "range_order ord'"
  shows "is_ok (validate_eligible_event ord e) = is_ok (validate_eligible_event ord' e)
    \<and> is_ok (validate_contract ord c) = is_ok (validate_contract ord' c)
    \<and> (is_ok (validate_eligible_event ord e) \<longleftrightarrow> event_ok e)
    \<and> (is_ok (validate_contract ord c) \<longleftrightarrow> contract_ok c)"
proof -
  have ok: "is_ok r \<longleftrightarrow> r = Inr ()" for r :: "unit res" by (cases r) auto
  show ?thesis
    using assms by (simp add: ok validate_eligible_event_iff validate_contract_iff)
qed

theorem validation_order_independent_witness:
  "\<forall>c. is_ok (validate_contract id c) = is_ok (validate_contract rev c)"
  using validation_order_independent [OF range_order_id range_order_rev] by blast

section \<open>Evaluation\<close>

text \<open>
  Every evaluation that succeeds starts from ACTIVE. With a required price missing it is
  INCOMPLETE, records no observation and moves nothing. Otherwise the two conditions are
  recorded from the direction-adjusted metric, and the next state follows the precedence
  materialized, invalidated, superseded, expired.
\<close>

theorem evaluate_precedence:
  assumes "evaluate ord a c prev m = Inr p"
  defines "v \<equiv> p_evaluation p"
  shows "p_previous_state p = st_active \<and> a_state a = st_active \<and>
    (v_input_completeness v = input_incomplete \<and> p_next_state p = st_active
       \<and> \<not> v_materialization_met v \<and> \<not> v_invalidation_met v \<and> v_mfe v = None \<and> v_absolute_return v = None
     \<or> v_input_completeness v = input_complete
       \<and> v_materialization_met v = compare_op (observed a c v) (c_comparison_operator c) (c_threshold c)
       \<and> v_invalidation_met v = invalidation_met (c_config c) (observed a c v)
       \<and> p_next_state p =
           (if v_materialization_met v then st_materialized else if v_invalidation_met v then st_invalidated
            else if k_superseded m then st_superseded
            else if c_max_horizon_trading_days c \<le> k_trading_days_active m then st_expired else st_active))"
  using assms(1)
proof (cases rule: evaluate_Inr)
  case (1 base)
  from 1(6) show ?thesis
  proof
    assume "inputs_missing c base (m\<lparr>k_as_of := day (k_as_of m)\<rparr>) \<and>
       p = incomplete_evaluation a (m\<lparr>k_as_of := day (k_as_of m)\<rparr>)"
    then show ?thesis using 1(1) unfolding v_def by (simp add: incomplete_evaluation_def blank_evaluation_def)
  next
    assume "\<not> inputs_missing c base (m\<lparr>k_as_of := day (k_as_of m)\<rparr>) \<and>
       (\<exists>price. k_asset_price m = Some price \<and>
          p = complete_evaluation a c prev (m\<lparr>k_as_of := day (k_as_of m)\<rparr>) base price)"
    then obtain price where "p = complete_evaluation a c prev (m\<lparr>k_as_of := day (k_as_of m)\<rparr>) base price" by blast
    then show ?thesis using 1(1) unfolding v_def
      by (simp add: complete_evaluation_fields complete_evaluation_conditions complete_evaluation_next
          observed_complete next_state_def)
  qed
qed

lemma sample_return: "simple_return (Fin 96) (Fin 64) = Fin (1/2)"
proof -
  have "rnd (3/2) = Fin (3/2)" "rnd (1/2) = Fin (1/2)"
    using rnd_dyadic [of 3 1] rnd_dyadic [of 1 1] by simp_all
  then show ?thesis by (simp add: simple_return_def fdiv_def fsub_def fadd_def fneg_def is_zero_def)
qed

definition sample_contract :: contract where
  "sample_contract =
     \<lparr>c_contract_id = ''c1'', c_signal_type = ''breakout'', c_contract_version = ''v1'', c_algorithm = ''alg'',
      c_algorithm_version = ''1'', c_direction = ''bullish'', c_primary_metric = ''absolute_return'',
      c_comparison_operator = ''>='', c_threshold = Fin 1, c_evaluation_windows = Doc (JArr []),
      c_max_horizon_trading_days = 20, c_materialization_policy = ''threshold'', c_invalidation_policy = [],
      c_config = Doc (JObj []), c_active = True, c_scope_key = [], c_created_at = 0\<rparr>"

definition sample_assertion :: assertion where
  "sample_assertion =
     \<lparr>a_assertion_id = ''as1'', a_tenant_id = ''t'', a_asset_id = ''a'', a_symbol = ''NVDA'', a_signal_id = ''s1'',
      a_source_ledger_signal_id = ''s1'', a_signal_type = ''breakout'', a_signal_direction = ''bullish'', a_signal_score = None,
      a_confidence = None, a_algorithm = ''alg'', a_algorithm_version = ''1'', a_confirmed_at = 0, a_state = st_active,
      a_evaluation_mode = mode_live, a_evaluation_run_id = [], a_registration_key = ''k'', a_contract_id = ''c1'',
      a_contract_version = ''v1'', a_contract_json = None, a_engine_version = evaluation_engine_version,
      a_baseline_snapshot = Doc (JObj [(''asset_price'', JNum (Fin 64))]), a_baseline_provenance = Doc (JObj []),
      a_materialized_at = None, a_invalidated_at = None, a_superseded_at = None, a_expired_at = None, a_closed_at = None,
      a_transition_sequence = 1\<rparr>"

definition sample_market :: "f64 option \<Rightarrow> market_state" where
  "sample_market price =
     \<lparr>k_as_of = 0, k_asset_price = price, k_benchmark_price = None, k_trading_days_active = 1, k_input_snapshot = NoBytes,
      k_superseded = False, k_supersession_reason = []\<rparr>"

definition sample_baseline :: baseline where
  "sample_baseline = \<lparr>bl_asset_price = Fin 64, bl_benchmark_price = Fin 0\<rparr>"

lemma sample_preconditions:
  "a_state sample_assertion = st_active" "validate_contract id sample_contract = Inr ()"
  "day (k_as_of (sample_market x)) = 0" "(0 :: int) \<noteq> zero_time" "0 \<le> k_trading_days_active (sample_market x)"
  "baseline_prices (a_baseline_snapshot sample_assertion) = Inr sample_baseline"
  "k_asset_price (sample_market x) = x"
  by (simp_all add: sample_assertion_def sample_market_def) code_simp+

lemma sample_evaluate:
  "evaluate id sample_assertion sample_contract prev (sample_market (Some (Fin 96))) =
     Inr (complete_evaluation sample_assertion sample_contract prev (sample_market (Some (Fin 96))) sample_baseline (Fin 96))"
  by (subst evaluate_intro) (simp_all add: sample_preconditions, simp_all add: inputs_missing_def sample_market_def sample_contract_def)

lemma sample_evaluate_incomplete:
  "evaluate id sample_assertion sample_contract prev (sample_market None) = Inr (incomplete_evaluation sample_assertion (sample_market None))"
  by (subst evaluate_intro_incomplete) (simp_all add: sample_preconditions, simp_all add: inputs_missing_def sample_market_def)

lemma sample_observed:
  "observed sample_assertion sample_contract
     (p_evaluation (complete_evaluation sample_assertion sample_contract prev (sample_market (Some (Fin 96))) sample_baseline (Fin 96))) = Fin (1/2)"
  by (simp add: observed_complete metric_of_def price_returns_def Let_def normalize_metric_def sample_baseline_def sample_return)
    (simp add: sample_assertion_def sample_market_def)

theorem evaluate_precedence_witness:
  "\<exists>p. evaluate id sample_assertion sample_contract None (sample_market (Some (Fin 96))) = Inr p
     \<and> v_input_completeness (p_evaluation p) = input_complete \<and> p_next_state p = st_active"
  using evaluate_precedence [OF sample_evaluate, of None]
  by (simp add: sample_evaluate complete_evaluation_fields sample_observed)
    (simp add: sample_contract_def sample_market_def compare_op_def invalidation_met_def ofield_def input_complete_def input_incomplete_def)

text \<open>
  C2. Over a run of complete evaluations of one assertion, each reading the record before
  it, the stored maximum favourable and maximum adverse excursions are the largest and the
  smallest direction-adjusted metric observed so far.
\<close>

theorem excursions_are_running_extremes:
  assumes "evaluation_chain ord a c None ms = Inr ps" "\<forall>p \<in> set ps. sound_observation a c p" "j < length ps"
  shows "\<exists>hi lo. v_mfe (p_evaluation (ps ! j)) = Some hi \<and> v_mae (p_evaluation (ps ! j)) = Some lo
    \<and> extremes ((\<lambda>p. observed a c (p_evaluation p)) ` set (take (Suc j) ps)) hi lo"
proof -
  obtain m ms' where ms: "ms = m # ms'" using assms(1,3) by (cases ms) auto
  then obtain p qs where p: "evaluate ord a c None m = Inr p" "evaluation_chain ord a c (Some (p_evaluation p)) ms' = Inr qs"
      and ps: "ps = p # qs" using assms(1) by auto
  let ?x = "observed a c (p_evaluation p)"
  have s: "sound_observation a c p" "\<forall>q \<in> set qs. sound_observation a c q" using assms(2) ps by auto
  have x: "?x \<noteq> NaN" using s(1) by (simp add: sound_observation_def)
  then have same: "fmax ?x ?x = ?x" "fmin ?x ?x = ?x" by (simp_all add: fmax_def fmin_def)
  have f: "v_mfe (p_evaluation p) = Some ?x" "v_mae (p_evaluation p) = Some ?x"
    using evaluate_extremes [OF p(1)] s(1) same by (simp_all add: sound_observation_def previous_extremes_def)
  have e: "extremes {?x} ?x ?x" using x by (simp add: extremes_def)
  show ?thesis
  proof (cases j)
    case 0
    then show ?thesis using f e ps by simp
  next
    case (Suc i)
    then show ?thesis using evaluation_chain_extremes [OF p(2) s(2) f e, of i] assms(3) ps by simp
  qed
qed

theorem excursions_are_running_extremes_witness:
  "\<exists>ps hi lo. evaluation_chain id sample_assertion sample_contract None [sample_market (Some (Fin 96))] = Inr ps
     \<and> v_mfe (p_evaluation (ps ! 0)) = Some hi \<and> v_mae (p_evaluation (ps ! 0)) = Some lo"
proof -
  let ?p = "complete_evaluation sample_assertion sample_contract None (sample_market (Some (Fin 96))) sample_baseline (Fin 96)"
  have "evaluation_chain id sample_assertion sample_contract None [sample_market (Some (Fin 96))] = Inr [?p]"
    by (simp add: sample_evaluate)
  moreover have "sound_observation sample_assertion sample_contract ?p"
    by (simp add: sound_observation_def complete_evaluation_fields sample_observed)
  ultimately show ?thesis
    using excursions_are_running_extremes [of id sample_assertion sample_contract "[sample_market (Some (Fin 96))]" "[?p]" 0] by auto
qed

text \<open>
  C3. The history does not survive a day with a missing price: an INCOMPLETE record stores
  no extremes, the next complete evaluation reads them as zero, and its excursions are the
  larger and the smaller of zero and the metric of that day, whatever was observed before.
\<close>

theorem incomplete_record_resets_extremes:
  assumes "evaluate ord a c prev m = Inr p" "v_input_completeness (p_evaluation p) = input_incomplete"
    and "evaluate ord a c (Some (p_evaluation p)) m' = Inr q" "v_input_completeness (p_evaluation q) = input_complete"
  shows "v_mfe (p_evaluation q) = Some (fmax (Fin 0) (observed a c (p_evaluation q)))
    \<and> v_mae (p_evaluation q) = Some (fmin (Fin 0) (observed a c (p_evaluation q)))"
  using evaluate_incomplete_extremes [OF assms(1,2)] evaluate_extremes [OF assms(3,4)]
  by (simp add: previous_extremes_def)

theorem incomplete_record_resets_extremes_witness:
  "\<exists>p q. evaluate id sample_assertion sample_contract None (sample_market None) = Inr p
     \<and> evaluate id sample_assertion sample_contract (Some (p_evaluation p)) (sample_market (Some (Fin 96))) = Inr q
     \<and> v_mae (p_evaluation q) = Some (Fin 0) \<and> observed sample_assertion sample_contract (p_evaluation q) = Fin (1/2)"
  using incomplete_record_resets_extremes [OF sample_evaluate_incomplete _ sample_evaluate]
  by (simp add: sample_evaluate_incomplete sample_evaluate complete_evaluation_fields sample_observed)
    (simp add: incomplete_evaluation_def fmin_def is_zero_def)

text \<open>
  An evaluation is projected into the outcome ledger exactly when the assertion is LIVE,
  the inputs are complete, the materialization condition holds and the assertion is 1, 5, 10
  or 20 sessions old; the projected outcome is a matured hit with the return of that session.
\<close>

theorem projection_of_evaluation:
  assumes "evaluate ord a c prev m = Inr p"
  defines "v \<equiv> p_evaluation p"
  shows "(compatible_outcome_projection a v (p_next_state p) \<noteq> None) =
      (a_evaluation_mode a = mode_live \<and> v_input_completeness v = input_complete \<and> v_materialization_met v
       \<and> k_trading_days_active m \<in> {1, 5, 10, 20})
    \<and> (\<forall>o1. compatible_outcome_projection a v (p_next_state p) = Some o1 \<longrightarrow>
         o_outcome_status o1 = ''matured'' \<and> o_directional_hit o1 = Some True \<and> o_forward_return o1 = v_absolute_return v
         \<and> o_horizon_sessions o1 = k_trading_days_active m \<and> o_source_id o1 = a_source_ledger_signal_id a)"
  using assms(1)
proof (cases rule: evaluate_Inr)
  case (1 base)
  from 1(6) show ?thesis
  proof
    assume "inputs_missing c base (m\<lparr>k_as_of := day (k_as_of m)\<rparr>) \<and>
       p = incomplete_evaluation a (m\<lparr>k_as_of := day (k_as_of m)\<rparr>)"
    then show ?thesis using 1(1) unfolding v_def
      by (simp add: incomplete_evaluation_def blank_evaluation_def compatible_outcome_projection_def st_defs
          input_complete_def input_incomplete_def)
  next
    assume "\<not> inputs_missing c base (m\<lparr>k_as_of := day (k_as_of m)\<rparr>) \<and>
       (\<exists>price. k_asset_price m = Some price \<and>
          p = complete_evaluation a c prev (m\<lparr>k_as_of := day (k_as_of m)\<rparr>) base price)"
    then obtain price where p: "p = complete_evaluation a c prev (m\<lparr>k_as_of := day (k_as_of m)\<rparr>) base price" by blast
    have n: "p_next_state p = st_materialized \<longleftrightarrow> v_materialization_met v"
      using 1(1) unfolding v_def p complete_evaluation_next by (simp add: next_state_def st_defs)
    have f: "v_absolute_return v = Some (simple_return price (bl_asset_price base))" "v_input_completeness v = input_complete"
        "v_trading_days_active v = k_trading_days_active m"
      unfolding v_def p by (simp_all add: complete_evaluation_fields)
    then show ?thesis using n
      by (auto simp: compatible_outcome_projection_def compatible_horizon_def Let_def)
  qed
qed

theorem projection_of_evaluation_witness:
  "\<exists>p. evaluate id sample_assertion sample_contract None (sample_market (Some (Fin 96))) = Inr p
     \<and> compatible_outcome_projection sample_assertion (p_evaluation p) (p_next_state p) = None"
  using projection_of_evaluation [OF sample_evaluate, of None]
  by (simp add: sample_evaluate complete_evaluation_conditions sample_observed [unfolded observed_complete])
    (simp add: sample_contract_def compare_op_def)

section \<open>Registration\<close>

lemma deterministic_id_not_blank: "visible (hd pre) \<Longrightarrow> pre \<noteq> [] \<Longrightarrow> \<not> blank (deterministic_id pre parts)"
  by (rule visible_not_blank [of "hd pre"]) (simp_all add: deterministic_id_def)

lemma registration_key_not_blank: "\<not> blank (registration_key e)"
  by (rule visible_not_blank [of "CHR ''|''"]) (simp_all add: registration_key_def visible_def code_of_def)

lemma json_doc_valid: "json_object d \<or> json_array d \<Longrightarrow> valid_doc (json_or_empty d)"
  by (auto simp: json_object_def json_array_def decode_obj_def decode_arr_def valid_doc_def json_or_empty_def
      split: doc.splits json.splits)

text \<open>
  A registration built for an accepted event and contract is ACTIVE at transition one
  with no terminal time, agrees with the contract on type and direction, is named only by
  tenant and registration key, and passes the repository's own validation.
\<close>

theorem assertion_registration_sound:
  assumes "range_order ord" "assertion_registration ord e c = Inr reg"
  shows "event_ok e \<and> contract_ok c \<and> c_active c
    \<and> c_signal_type c = e_signal_type e \<and> c_direction c = e_direction e
    \<and> trim_space (e_validation_contract_ref e) \<in> {c_contract_id c, c_signal_type c @ '':'' @ c_contract_version c}
    \<and> fresh_assertion (r_assertion reg)
    \<and> a_assertion_id (r_assertion reg) = deterministic_id ''saf_assertion'' [e_tenant_id e, registration_key e]
    \<and> validate_registration reg = Inr ()"
proof -
  have ok: "event_ok e" "contract_ok c"
    using assms validate_eligible_event_iff validate_contract_iff by (auto simp: assertion_registration_def)
  have v: "validate_contract_row c = Inr ()"
    using ok(2) json_doc_valid unfolding contract_ok_def
    by (auto simp: validate_contract_row_def required_contract_fields_def)
  from assms(2) have r: "c_active c \<and> c_signal_type c = e_signal_type e \<and> c_direction c = e_direction e
      \<and> trim_space (e_validation_contract_ref e) \<in> {c_contract_id c, c_signal_type c @ '':'' @ c_contract_version c}
      \<and> fresh_assertion (r_assertion reg) \<and> r_event reg = e \<and> r_contract reg = c
      \<and> a_assertion_id (r_assertion reg) = deterministic_id ''saf_assertion'' [e_tenant_id e, registration_key e]
      \<and> a_registration_key (r_assertion reg) = registration_key e \<and> a_tenant_id (r_assertion reg) = e_tenant_id e"
    unfolding assertion_registration_def Let_def fresh_assertion_def by (auto split: if_splits)
  have "\<not> blank (deterministic_id ''saf_assertion'' [e_tenant_id e, registration_key e])"
    by (rule deterministic_id_not_blank) (simp_all add: visible_def code_of_def)
  then have "validate_registration reg = Inr ()"
    using r ok(1) v registration_key_not_blank [of e]
    by (simp add: validate_registration_def event_ok_def required_event_fields_def)
  then show ?thesis using r ok by blast
qed

definition sample_event :: eligible_event where
  "sample_event =
     \<lparr>e_eligible_event_id = ''ev1'', e_tenant_id = ''t'', e_signal_id = ''s1'', e_signal_ledger_id = ''s1'', e_asset_id = ''a'',
      e_symbol = ''NVDA'', e_signal_type = ''breakout'', e_direction = ''bullish'', e_score = None, e_confidence = Some (Fin (1/2)),
      e_status = ''confirmed'', e_algorithm = ''alg'', e_algorithm_version = ''1'', e_confirmed_at = 0, e_event_available_at = 60,
      e_confirmation_rule_version = ''r1'', e_validation_contract_ref = ''c1'',
      e_baseline_snapshot = Doc (JObj [(''asset_price'', JNum (Fin 64))]), e_baseline_provenance = Doc (JObj []),
      e_evaluation_mode = mode_live, e_evaluation_run_id = []\<rparr>"

lemma sample_event_valid: "validate_eligible_event id sample_event = Inr ()" "trim_space (e_validation_contract_ref sample_event) = ''c1''"
  by code_simp+

lemma sample_registers: "\<exists>reg. assertion_registration id sample_event sample_contract = Inr reg"
  using sample_event_valid sample_preconditions(2)
  by (simp add: assertion_registration_def Let_def) (simp add: sample_event_def sample_contract_def)

theorem assertion_registration_sound_witness:
  "\<exists>reg. assertion_registration id sample_event sample_contract = Inr reg \<and> validate_registration reg = Inr ()"
  using sample_registers assertion_registration_sound [OF range_order_id, of sample_event sample_contract] by blast

section \<open>The two repository writes\<close>

text \<open>
  C4. The INSERT of \<open>RegisterSignalAssuranceAssertion\<close> names one column more than it has
  value expressions, so no call ever adds an assertion or an event or reports one as
  inserted: a registration succeeds only when the assertion is already there.
\<close>

theorem register_assertion_never_inserts:
  assumes "register_assertion reg db = (r, db')"
  shows "db_assertions db' = db_assertions db \<and> db_events db' = db_events db \<and> r \<noteq> Inr (x, True)"
proof -
  have "insert_arity assertion_insert_columns assertion_insert_values = Inl (Err ''INSERT has more target columns than expressions'')"
    by code_simp
  then show ?thesis
    using assms unfolding register_assertion_def Let_def by (auto split: sum.splits option.splits if_splits)
qed

theorem register_assertion_never_inserts_witness:
  "\<forall>reg db. db_assertions (snd (register_assertion reg db)) = db_assertions db"
  using register_assertion_never_inserts [of _ _ "fst (register_assertion _ _)" "snd (register_assertion _ _)"] by (metis prod.collapse)

text \<open>
  C5. \<open>PersistSignalAssuranceEvaluation\<close> looks for the sentinel \<open>sql.ErrNoRows\<close> after its
  scan has already replaced it by the repository's \<open>ErrNotFound\<close>, so no call changes the
  tables, and the first evaluation of an assertion on a session is answered by an error.
\<close>

theorem persist_evaluation_never_inserts:
  "snd (persist_evaluation p db) = db \<and> fst (persist_evaluation p db) \<noteq> Inr (x, True)
   \<and> (find_evaluation db (p_evaluation p) = None \<longrightarrow> \<not> is_ok (fst (persist_evaluation p db)))"
  by (simp add: persist_evaluation_def scan_row_def map_scan_error_def split: sum.split option.split)

theorem persist_evaluation_never_inserts_witness:
  "\<forall>p. \<not> is_ok (fst (persist_evaluation p \<lparr>db_contracts = [], db_assertions = [], db_evaluations = [], db_events = [], db_inbox = [], db_ledger = []\<rparr>))"
  using persist_evaluation_never_inserts by (simp add: find_evaluation_def)

section \<open>Lifecycle\<close>

text \<open>
  C6. Whatever the sequence of repository writes, every assertion is either ACTIVE at
  transition one with no terminal time, or terminal at transition two with exactly the time
  of its own state, and then the event and the evaluation that moved it are in the tables.
\<close>

theorem lifecycle_invariant:
  assumes "(saf_step ord)\<^sup>*\<^sup>* db db'" "lifecycle_ok db"
  shows "distinct (map a_assertion_id (db_assertions db'))
    \<and> (\<forall>a \<in> set (db_assertions db'). fresh_assertion a \<or> settled a \<and> recorded db' a)"
  using saf.reach_inv [OF assms] by (simp add: lifecycle_ok_def)

definition sample_db :: saf_db where
  "sample_db = \<lparr>db_contracts = [sample_contract], db_assertions = [sample_assertion], db_evaluations = [], db_events = [],
     db_inbox = [], db_ledger = []\<rparr>"

lemma sample_lifecycle_ok: "lifecycle_ok sample_db"
  by (simp add: lifecycle_ok_def sample_db_def sample_assertion_def fresh_assertion_def)

definition sample_persistence :: persistence where
  "sample_persistence = complete_evaluation sample_assertion sample_contract None (sample_market (Some (Fin 96))) sample_baseline (Fin 96)"

lemma sample_step: "saf_step id sample_db (snd (insert_evaluation sample_persistence sample_assertion sample_db))"
  by (rule insert_eval [of _ _ _ sample_contract None "sample_market (Some (Fin 96))"])
    (simp_all add: sample_persistence_def sample_evaluate sample_db_def find_assertion_def)

theorem lifecycle_invariant_witness:
  "distinct (map a_assertion_id (db_assertions (snd (insert_evaluation sample_persistence sample_assertion sample_db))))"
  using lifecycle_invariant [OF r_into_rtranclp [of "saf_step id", OF sample_step] sample_lifecycle_ok] by blast

text \<open>
  C7. A terminal state is final: once an assertion is settled no sequence of repository
  writes changes its row.
\<close>

theorem settled_is_final:
  assumes "(saf_step ord)\<^sup>*\<^sup>* db db'" "lifecycle_ok db" "a \<in> set (db_assertions db)" "settled a"
  shows "a \<in> set (db_assertions db')"
  using saf.reach_stable [of "\<lambda>db. a \<in> set (db_assertions db)", OF _ assms(1,2,3)] saf_step_settled assms(4) by blast

definition settled_assertion :: assertion where
  "settled_assertion = sample_assertion\<lparr>a_state := st_expired, a_transition_sequence := 2, a_expired_at := Some 9\<rparr>"

definition settled_db :: saf_db where
  "settled_db = \<lparr>db_contracts = [], db_assertions = [settled_assertion],
     db_evaluations = [(blank_evaluation sample_assertion (sample_market None))\<lparr>v_evaluation_id := ''v''\<rparr>],
     db_events = [(created_event sample_assertion)\<lparr>ev_previous_state := st_active, ev_new_state := st_expired,
       ev_transition_sequence := 2, ev_evaluation_id := ''v''\<rparr>], db_inbox = [], db_ledger = []\<rparr>"

theorem settled_is_final_witness:
  "settled_assertion \<in> set (db_assertions (snd (mark_published ''x'' 5 settled_db)))"
proof -
  have "settled settled_assertion"
    unfolding settled_def settled_assertion_def terminal_timestamp_column_def
    by (auto simp: sample_assertion_def st_defs time_of_def split: terminal_column.split)
  moreover have "lifecycle_ok settled_db"
    using calculation unfolding lifecycle_ok_def settled_db_def recorded_def
    by (simp add: settled_assertion_def sample_assertion_def created_event_def blank_evaluation_def)
  ultimately show ?thesis
    using settled_is_final [OF r_into_rtranclp [of "saf_step id", OF saf_step.publish]]
    by (simp add: settled_db_def)
qed

section \<open>Contract resolution\<close>

text \<open>
  C8. The contract an event resolves to is an active candidate for its type, direction and
  reference; it fits the event's algorithm exactly or is the only candidate, and it is a
  fully qualified exact match whenever one exists.
\<close>

theorem resolve_contract_sound:
  assumes "resolve_contract db e = Inr c"
  shows "c \<in> set (db_contracts db) \<and> resolve_candidate e c
    \<and> (exact_contract e c \<or> filter (resolve_candidate e) (db_contracts db) = [c])
    \<and> (\<forall>d \<in> set (db_contracts db). resolve_candidate e d \<and> exact_rank e d = 0 \<longrightarrow> exact_rank e c = 0)"
proof -
  let ?cs = "filter (resolve_candidate e) (db_contracts db)" and ?s = "sort_by (resolve_before e) (filter (resolve_candidate e) (db_contracts db))"
  obtain rest where s: "?s = c # rest" and amb: "rest = [] \<or> exact_contract e c"
    using assms by (cases ?s) (auto simp: resolve_contract_def split: list.splits if_splits)
  have mem: "set ?s = set ?cs" "length ?s = length ?cs" by simp_all
  have c: "c \<in> set ?cs" using mem(1) s by (metis list.set_intros(1))
  have one: "?cs = [c]" if "rest = []"
    using mem(2) s that c by (cases ?cs) auto
  have "sorted_wrt (\<lambda>a b. \<not> resolve_before e b a) ?s"
    by (rule sorted_wrt_sort_by) (auto simp: resolve_before_def)
  then have "\<forall>d \<in> set rest. \<not> resolve_before e d c" using s by simp
  then have rank: "\<forall>d \<in> set rest. exact_rank e c \<le> exact_rank e d" by (auto simp: resolve_before_def not_less)
  have "exact_rank e c = 0" if "d \<in> set ?cs" "exact_rank e d = 0" for d
  proof -
    have "d \<in> set (c # rest)" using that(1) mem(1) unfolding s by blast
    then show ?thesis using rank that(2) by auto
  qed
  then show ?thesis using c one amb by auto
qed

theorem resolve_contract_sound_witness:
  "resolve_contract sample_db sample_event = Inr sample_contract \<and> resolve_candidate sample_event sample_contract"
proof -
  have "resolve_contract sample_db sample_event = Inr sample_contract"
    by (simp add: resolve_contract_def sample_db_def resolve_candidate_def)
      (simp add: sample_contract_def sample_event_def)
  then show ?thesis using resolve_contract_sound by blast
qed

section \<open>Worker\<close>

text \<open>
  C9. The market input of an evaluation is point in time: an event observed or processed
  after \<open>as_of\<close> changes nothing, and the asset price found is a positive close of a visible
  event of that symbol.
\<close>

theorem market_input_point_in_time:
  "market_input events symbol bench confirmed as_of =
     market_input (filter (\<lambda>e. n_observation_time e \<le> as_of \<and> n_processing_time e \<le> as_of) events) symbol bench confirmed as_of
   \<and> (\<forall>x. fst (market_input events symbol bench confirmed as_of) = Some x \<longrightarrow> \<not> fle x (Fin 0)
        \<and> (\<exists>e \<in> set events. \<exists>p. close_of as_of e = Some (to_upper symbol, p) \<and> cp_price p = x))"
proof -
  have "points_of as_of (filter (\<lambda>e. n_observation_time e \<le> as_of \<and> n_processing_time e \<le> as_of) events) name = points_of as_of events name" for name
    unfolding points_of_def by (subst map_filter_restrict) (auto dest: close_of_visible)
  moreover have "\<exists>e \<in> set events. close_of as_of e = Some (to_upper symbol, p)" if "p \<in> set (points_of as_of events (to_upper symbol))" for p
    using that by (auto simp: points_of_def map_filter_def)
  ultimately show ?thesis
    unfolding market_input_def Let_def using close_of_positive by (fastforce dest!: latest_close_in)
qed

theorem market_input_point_in_time_witness: "fst (market_input [] ''x'' ''spy'' 0 0) = None"
  using market_input_point_in_time [of "[]" "''x''" "''spy''" 0 0]
  by (cases "fst (market_input [] ''x'' ''spy'' 0 0)") auto

lemma worker_step_writes_nothing:
  "worker_step ord cfg env a s = (r, s') \<Longrightarrow> ws_db s' = ws_db s \<and> ws_outcomes s' = ws_outcomes s"
proof -
  assume a: "worker_step ord cfg env a s = (r, s')"
  have n: "snd (persist_evaluation p db) = db \<and> fst (persist_evaluation p db) \<noteq> Inr (x, True)" for p db x
    by (simp add: persist_evaluation_def scan_row_def map_scan_error_def split: sum.split option.split)
  show ?thesis using a n unfolding worker_step_def Let_def
    by (auto split: if_splits prod.splits sum.splits option.splits) (metis fst_conv snd_conv)+
qed

lemma worker_loop_writes_nothing:
  "worker_loop ord cfg env as s = (r, s') \<Longrightarrow> ws_db s' = ws_db s \<and> ws_outcomes s' = ws_outcomes s"
proof (induction as arbitrary: s)
  case Nil
  then show ?case by simp
next
  case (Cons a as)
  then show ?case
    by (auto split: prod.splits sum.splits dest!: worker_step_writes_nothing)
qed

text \<open>
  The counters of a worker run are consistent: incomplete evaluations and transitions
  are disjoint among the evaluated assertions, and no more are evaluated than the query
  returned in the run's namespace. The tables and the outcome ledger are left as they were,
  whether or not the run is a dry run.
\<close>

theorem worker_run_report:
  assumes "worker_run ord cfg env db = (r, s)"
  shows "report_ok (ws_report s) (int (length (filter (\<lambda>a. a_evaluation_run_id a = w_run_id cfg)
             (list_assertions db (w_tenant_id cfg) st_active (w_mode cfg) [] (w_limit cfg)))))
    \<and> ws_db s = db \<and> ws_outcomes s = []"
proof -
  let ?as = "list_assertions db (w_tenant_id cfg) st_active (w_mode cfg) [] (w_limit cfg)"
  let ?s0 = "\<lparr>ws_db = db, ws_report = \<lparr>wr_evaluated = 0, wr_incomplete = 0, wr_transitions = 0\<rparr>, ws_outcomes = []\<rparr>"
  obtain q t where t: "worker_loop ord cfg env ?as ?s0 = (q, t)" by fastforce
  have "s = t" using assms t by (auto simp: worker_run_def Let_def split: sum.splits if_splits)
  moreover have "report_ok (ws_report ?s0) 0" by (simp add: report_ok_def)
  ultimately show ?thesis using worker_loop_report [OF _ t, of 0] worker_loop_writes_nothing [OF t] by simp
qed

theorem worker_run_report_witness:
  "\<forall>env cfg. wr_evaluated (ws_report (snd (worker_run id cfg env (sample_db\<lparr>db_assertions := []\<rparr>)))) = 0"
proof (intro allI)
  fix env cfg
  obtain r s where s: "worker_run id cfg env (sample_db\<lparr>db_assertions := []\<rparr>) = (r, s)" by fastforce
  then show "wr_evaluated (ws_report (snd (worker_run id cfg env (sample_db\<lparr>db_assertions := []\<rparr>)))) = 0"
    using worker_run_report [OF s] by (simp add: list_assertions_def report_ok_def)
qed

section \<open>Outbox\<close>

text \<open>The query returns unpublished rows of the table, each once, oldest first.\<close>

lemma list_undelivered_rows:
  assumes "distinct (db_events db)"
  shows "set (list_undelivered db n) \<subseteq> set (db_events db)" "\<forall>e \<in> set (list_undelivered db n). ev_published_at e = None"
    "distinct (list_undelivered db n)" "sorted_wrt (\<lambda>a b. ev_occurred_at a \<le> ev_occurred_at b) (list_undelivered db n)"
proof -
  let ?lt = "\<lambda>a b. ev_occurred_at a < ev_occurred_at b \<or> (ev_occurred_at a = ev_occurred_at b \<and> ev_event_id a < ev_event_id b)"
  let ?s = "sort_by ?lt (filter (\<lambda>e. ev_published_at e = None) (db_events db))"
  have l: "list_undelivered db n = take (clamp_limit n) ?s" by (simp add: list_undelivered_def)
  have "distinct ?s" using distinct_filter [OF assms] mset_eq_imp_distinct_iff [OF mset_sort_by] by blast
  then show "distinct (list_undelivered db n)" unfolding l by (rule distinct_take)
  have m: "set (list_undelivered db n) \<subseteq> set (filter (\<lambda>e. ev_published_at e = None) (db_events db))"
    unfolding l using set_take_subset [of "clamp_limit n" ?s] by (simp only: set_sort_by)
  then show "set (list_undelivered db n) \<subseteq> set (db_events db)" by auto
  show "\<forall>e \<in> set (list_undelivered db n). ev_published_at e = None" using m by auto
  have "sorted_wrt (\<lambda>a b. \<not> ?lt b a) ?s" by (rule sorted_wrt_sort_by) auto
  then have "sorted_wrt (\<lambda>a b. ev_occurred_at a \<le> ev_occurred_at b) ?s"
    by (rule sorted_wrt_mono_rel [rotated]) linarith
  then show "sorted_wrt (\<lambda>a b. ev_occurred_at a \<le> ev_occurred_at b) (list_undelivered db n)"
    unfolding l by (rule sorted_wrt_take)
qed

text \<open>
  C10. A flush publishes the undelivered events oldest first, at least once: it sends a
  prefix of them, exactly the events it sent become published, and it reports success
  exactly when it sent them all.
\<close>

theorem flush_at_least_once:
  assumes "distinct (map ev_event_id (db_events db))" "flush (recording_broker accepts) now w db = (r, w', db')"
  shows "\<exists>n. w' = w @ take n (list_undelivered db 100)
    \<and> db_events db' = mark_all now (take n (list_undelivered db 100)) (db_events db)
    \<and> (is_ok r \<longleftrightarrow> n = length (list_undelivered db 100))
    \<and> sorted_wrt (\<lambda>a b. ev_occurred_at a \<le> ev_occurred_at b) (list_undelivered db 100)"
proof -
  have "distinct (db_events db)" using assms(1) by (simp add: distinct_map)
  note rows = list_undelivered_rows [OF this, of 100]
  obtain q w1 db1 where f: "flush_events (recording_broker accepts) now (list_undelivered db 100) w db = (q, w1, db1)"
    by (metis prod_cases3)
  have e: "w' = w1" "db' = db1" "is_ok r = is_ok q"
    using assms(2) f by (simp_all add: flush_def Let_def split: sum.splits) (auto)
  from flush_events_log [OF assms(1) rows(1,3,2) f] rows(4) show ?thesis unfolding e by blast
qed

theorem flush_at_least_once_witness:
  "fst (snd (flush (recording_broker (\<lambda>_ _. True)) 7 [] (sample_db\<lparr>db_events := [created_event sample_assertion]\<rparr>)))
     = [created_event sample_assertion]"
proof -
  let ?db = "sample_db\<lparr>db_events := [created_event sample_assertion]\<rparr>"
  obtain r w' db' where f: "flush (recording_broker (\<lambda>_ _. True)) 7 [] ?db = (r, w', db')" by (metis prod_cases3)
  have p: "ev_published_at (created_event sample_assertion) = None" by (simp add: created_event_def)
  have l: "list_undelivered ?db 100 = [created_event sample_assertion]"
    by (simp add: list_undelivered_def clamp_limit_def p)
  have "is_ok r" using f
    by (auto simp: flush_def Let_def l recording_broker_def mark_published_def p)
  then show ?thesis using flush_at_least_once [OF _ f] f l by auto
qed

section \<open>Materializations\<close>


definition sample_bar :: ledger_event where
  "sample_bar =
     \<lparr>n_event_id = ''n1'', n_tenant_id = [], n_source_id = [], n_app_id = [], n_domain = [], n_use_case = [],
      n_source_adapter = [], n_dataset = [], n_idempotency_key = [], n_schema_id = [], n_schema_version = [],
      n_observation_time = 0, n_processing_time = 0, n_confidence = Fin 0, n_raw_topic = [], n_raw_partition = 0,
      n_raw_offset = 0, n_normalized_topic = [], n_normalized_partition = 0, n_normalized_offset = 0,
      n_normalized_payload = Doc (JObj [(''symbol'', JStr ''NVDA''), (''close'', JNum (Fin 64))]),
      n_entities = NoBytes, n_evidence = NoBytes, n_metadata = NoBytes, n_event_json = NoBytes, n_created_at = 0,
      n_updated_at = 0\<rparr>"

definition sample_materialization :: materialization where
  "sample_materialization =
     \<lparr>mz_materialization_id = ''m1'', mz_tenant_id = [], mz_proposal_id = [], mz_algorithm_result_id = [],
      mz_execution_request_id = [], mz_algorithm_id = ''alg'', mz_algorithm_version = ''1'',
      mz_proposed_signal_type = [], mz_signal_id = [], mz_materialization_status = ''succeeded'',
      mz_materialization_policy_version = ''p1'', mz_idempotency_key = [], mz_duplicate_of_signal_id = [],
      mz_requested_by = [], mz_requested_at = 0, mz_started_at = None, mz_completed_at = None, mz_failed_at = None,
      mz_error_code = [], mz_error_message = [], mz_request_metadata = NoBytes, mz_preflight_snapshot = NoBytes,
      mz_signal_payload_preview = NoBytes, mz_created_at = 0, mz_updated_at = 0\<rparr>"

definition sample_proposal :: signal_proposal where
  "sample_proposal =
     \<lparr>sp_proposal_id = [], sp_tenant_id = [], sp_proposal_source = [], sp_algorithm_result_id = [],
      sp_algorithm_id = [], sp_algorithm_version = [], sp_execution_request_id = [],
      sp_hypothesis_evaluation_id = [], sp_hypothesis_key = [], sp_hypothesis_version = [],
      sp_hypothesis_lifecycle = [], sp_proposed_signal_type = [], sp_status = [], sp_score = Fin 0,
      sp_confidence = Fin (1/2), sp_severity = [],
      sp_proposal_payload = Doc (JObj [(''asset_id'', JStr ''a''), (''symbol'', JStr ''NVDA''), (''direction'', JStr ''bullish'')]),
      sp_rationale = NoBytes, sp_source_event_ids = [], sp_evidence_refs = [], sp_correlation_id = [],
      sp_research_only = False, sp_materialization_eligible = False, sp_eligibility_snapshot = NoBytes,
      sp_created_by = [], sp_reviewed_by = [], sp_decision_note = [], sp_decided_at = None, sp_created_at = 0,
      sp_updated_at = 0\<rparr>"

definition sample_result :: algorithm_result where
  "sample_result =
     \<lparr>ar_algorithm_result_id = [], ar_tenant_id = [], ar_algorithm_id = [], ar_algorithm_version = [],
      ar_execution_request_id = [], ar_result_type = [], ar_score = Fin 0, ar_confidence = Fin 0, ar_severity = [],
      ar_result_payload = NoBytes, ar_source_event_ids = [], ar_feature_value_ids = [], ar_evidence_refs = [],
      ar_correlation_id = [], ar_created_at = 0\<rparr>"

definition sample_signal :: signal_ledger where
  "sample_signal =
     \<lparr>sl_signal_id = ''s1'', sl_tenant_id = ''t'', sl_source_id = [], sl_app_id = [], sl_domain = [],
      sl_use_case = [], sl_source_domain = [], sl_source_adapter = [], sl_ingestion_mode = [], sl_dataset = [],
      sl_event_ids = [], sl_artifact_ids = [], sl_signal_type = ''breakout'', sl_detector_id = [],
      sl_detector_version = [], sl_model_version = [], sl_signal_time = 0, sl_observation_time = 0,
      sl_effective_time = 0, sl_processing_time = 0, sl_window_start = 0, sl_window_end = 0, sl_confidence = Fin 0,
      sl_severity = [], sl_entities = NoBytes, sl_supporting_metrics = NoBytes, sl_graph_targets = NoBytes,
      sl_semantic_evidence = NoBytes, sl_evidence = NoBytes, sl_recommendation = NoBytes, sl_correlation_id = [],
      sl_trace_id = [], sl_causation_id = [], sl_replay_job_id = [], sl_broker_topic = [], sl_broker_partition = 0,
      sl_broker_offset = 0, sl_event = NoBytes, sl_created_at = 0, sl_updated_at = 0\<rparr>"

lemma sample_closes: "canonical_close [sample_bar] ''NVDA'' 0 = Some (Fin 64, sample_bar)"
proof -
  have "trim_space ''NVDA'' = ''NVDA''" by (rule trim_visible) (simp_all add: visible_def code_of_def)
  moreover have "to_upper ''NVDA'' = ''NVDA''" by (simp add: to_upper_def upper_char_def code_of_def)
  ultimately show ?thesis
    by (simp add: canonical_close_def bar_close_def sample_bar_def ofield_def to_lower_def lower_char_def code_of_def first_non_blank.simps)
qed

lemma sample_materialized:
  "eligible_from_materialization 60 sample_materialization sample_proposal sample_result sample_signal [sample_bar] ''NVDA'' =
     Inr (materialized_event 60 sample_materialization sample_proposal sample_signal ''NVDA'' ''a'' ''NVDA'' ''bullish'' 0
       (Fin 64, sample_bar) (Fin 64, sample_bar))"
proof -
  have d: "materialized_direction ''bullish'' r = ''bullish''" for r
  proof -
    have "trim_space ''bullish'' = ''bullish''" by (rule trim_visible) (simp_all add: visible_def code_of_def)
    then show ?thesis by (simp add: materialized_direction_def normalize_direction_def to_lower_def lower_char_def code_of_def)
  qed
  have p: "do { f \<leftarrow> decode_obj (sp_proposal_payload sample_proposal); asset \<leftarrow> dec_str (ofield f ''asset_id'');
      symbol \<leftarrow> dec_str (ofield f ''symbol''); dir \<leftarrow> dec_str (ofield f ''direction''); Some (asset, symbol, dir) }
    = Some (''a'', ''NVDA'', ''bullish'')"
    by (simp add: sample_proposal_def ofield_def to_lower_def lower_char_def code_of_def)
  have s: "sl_signal_time sample_signal = 0" "\<not> blank (sl_signal_id sample_signal)" "(0 :: int) \<noteq> zero_time"
      "mz_materialization_status sample_materialization = ''succeeded''"
    by (simp_all add: sample_signal_def sample_materialization_def zero_time_def visible_not_blank [of "CHR ''s''"] visible_def code_of_def)
  show ?thesis unfolding eligible_from_materialization_def p Let_def
    by (simp add: s d sample_closes)
qed


end
