(* ===== verification/Identity.thy ===== *)
theory Identity imports GoJson Sha256 begin

text \<open>
  \<open>internal/marketops/state/identity.go\<close>: identifiers of the derived MarketOps records, a
  SHA-256 digest over length-framed components, and the canonical form of a dimension map.
\<close>

section \<open>NewIdentity\<close>

record identity =
  id_ID :: string
  id_key :: string

definition identity_prefix :: "string \<Rightarrow> string option" where
  "identity_prefix kind =
     (if kind = ''feature_observation'' then Some ''mfeat_''
      else if kind = ''market_state'' then Some ''mstate_''
      else if kind = ''state_transition'' then Some ''mtrans_''
      else if kind = ''evidence'' then Some ''mevidence_''
      else if kind = ''hypothesis_evaluation'' then Some ''mhypeval_''
      else if kind = ''opportunity'' then Some ''mopp_''
      else if kind = ''signal_proposal'' then Some ''msigprop_''
      else if kind = ''opportunity_disposition'' then Some ''moppdisp_''
      else if kind = ''outcome'' then Some ''moutcome_''
      else None)"

fun trimmed_components :: "int \<Rightarrow> string list \<Rightarrow> string list res" where
  "trimmed_components i [] = Inr []"
| "trimmed_components i (c # cs) =
     (if blank c then Inl (Err (''MarketOps identity component '' @ itoa i @ '' is required''))
      else bind_res (trimmed_components (i + 1) cs) (\<lambda>ts. Inr (trim_space c # ts)))"

definition new_identity :: "string \<Rightarrow> string list \<Rightarrow> identity res" where
  "new_identity kind components =
     (case identity_prefix kind of
        None \<Rightarrow> Inl (Err ''unsupported MarketOps identity kind'')
      | Some pre \<Rightarrow>
          if components = [] then Inl (Err ''MarketOps identity requires at least one component'')
          else bind_res (trimmed_components 0 components) (\<lambda>ts.
            let digest = hex_encode (sha256 (len_frame (kind # ts))) in
            Inr \<lparr>id_ID = pre @ take 32 digest, id_key = ''marketops.'' @ kind @ ''.v1:'' @ digest\<rparr>))"

section \<open>CanonicalDimensions\<close>

text \<open>
  Encoding a decoded object writes its keys in increasing order, at every depth. The
  canonical text is represented by the JSON value it spells, keys in the order written.
\<close>

fun canon :: "json \<Rightarrow> json" where
  "canon (JArr xs) = JArr (map canon xs)"
| "canon (JObj m) = JObj (sort_by (\<lambda>a b. fst a < fst b) (map (\<lambda>(k, v). (k, canon v)) m))"
| "canon j = j"

definition canonical_dimensions :: "stream \<Rightarrow> json res" where
  "canonical_dimensions s =
     (if sm_first s = NoBytes \<and> blank (sm_rest s) then Inr (JObj [])
      else
        (case sm_first s of
           Doc (JObj m) \<Rightarrow>
             if at_eof s then Inr (canon (JObj m))
             else Inl (Err ''MarketOps dimensions must contain one JSON object'')
         | Doc JNull \<Rightarrow> Inl (Err ''MarketOps dimensions must be a JSON object'')
         | _ \<Rightarrow> Inl (Err ''decode MarketOps dimensions'')))"

section \<open>Facts\<close>

text \<open>Two texts whose digests agree on their first \<open>n\<close> hexadecimal digits.\<close>

definition collision :: "nat \<Rightarrow> string \<Rightarrow> string \<Rightarrow> bool" where
  "collision n s t \<longleftrightarrow> s \<noteq> t \<and> take n (hex_encode (sha256 s)) = take n (hex_encode (sha256 t))"

text \<open>
  An identifier made by hashing framed parts: with an injective framing two lists of parts
  share an identifier only if they are equal or the digest collides.
\<close>

locale framed_digest =
  fixes frame :: "string list \<Rightarrow> string" and part_ok :: "string \<Rightarrow> bool"
  assumes frame_inj: "frame ps = frame qs \<Longrightarrow> list_all part_ok ps \<Longrightarrow> list_all part_ok qs \<Longrightarrow> ps = qs"
begin

lemma digest_inj:
  assumes "take n (hex_encode (sha256 (frame ps))) = take n (hex_encode (sha256 (frame qs)))"
    and "list_all part_ok ps" "list_all part_ok qs"
  shows "ps = qs \<or> collision n (frame ps) (frame qs)"
  using assms frame_inj unfolding collision_def by blast

end

interpretation nul_id: framed_digest nul_frame "\<lambda>p. CHR 0x00 \<notin> set p"
  by unfold_locales (simp add: nul_frame_inj list_all_iff)

interpretation len_id: framed_digest len_frame "\<lambda>p. length p < 2 ^ 64"
  by unfold_locales (simp add: len_frame_inj list_all_iff)

lemma trimmed_components_Inr:
  "trimmed_components i cs = Inr ts \<Longrightarrow> ts = map trim_space cs \<and> (\<forall>c \<in> set cs. \<not> blank c)"
  by (induction i cs arbitrary: ts rule: trimmed_components.induct) (auto split: if_splits)

lemma trimmed_components_ok: "\<forall>c \<in> set cs. \<not> blank c \<Longrightarrow> trimmed_components i cs = Inr (map trim_space cs)"
  by (induction i cs rule: trimmed_components.induct) auto

lemma new_identity_Inr:
  assumes "new_identity kind cs = Inr i"
  obtains pre where "identity_prefix kind = Some pre" "cs \<noteq> []" "\<forall>c \<in> set cs. \<not> blank c"
    "id_ID i = pre @ take 32 (hex_encode (sha256 (len_frame (kind # map trim_space cs))))"
    "id_key i = ''marketops.'' @ kind @ ''.v1:'' @ hex_encode (sha256 (len_frame (kind # map trim_space cs)))"
proof -
  obtain pre where p: "identity_prefix kind = Some pre" using assms by (auto simp: new_identity_def split: option.splits)
  then obtain ts where t: "cs \<noteq> []" "trimmed_components 0 cs = Inr ts"
      "i = \<lparr>id_ID = pre @ take 32 (hex_encode (sha256 (len_frame (kind # ts)))),
            id_key = ''marketops.'' @ kind @ ''.v1:'' @ hex_encode (sha256 (len_frame (kind # ts)))\<rparr>"
    using assms by (auto simp: new_identity_def Let_def split: if_splits)
  show thesis using trimmed_components_Inr [OF t(2)] t p by (intro that) simp_all
qed

lemma new_identity_ok:
  assumes "identity_prefix kind = Some pre" "cs \<noteq> []" "\<forall>c \<in> set cs. \<not> blank c"
  shows "is_ok (new_identity kind cs)"
  using assms trimmed_components_ok [OF assms(3)] by (simp add: new_identity_def Let_def)

text \<open>Sorting by a key that decides every pair depends on the elements only.\<close>

lemma sort_by_key_unique:
  fixes k :: "'a \<Rightarrow> 'b::linorder"
  assumes "mset xs = mset ys" "distinct (map k xs)"
  shows "sort_by (\<lambda>a b. k a < k b) xs = sort_by (\<lambda>a b. k a < k b) ys"
proof -
  let ?s = "sort_by (\<lambda>a b. k a < k b)"
  have srt: "sorted (map k (?s zs))" for zs
    by (rule sorted_sort_by_key)
  have m: "mset (?s xs) = mset (?s ys)" using assms(1) by simp
  have d: "distinct (map k (?s zs))" if "mset zs = mset xs" for zs
  proof -
    have "mset (map k (?s zs)) = mset (map k xs)" using that by simp
    then show ?thesis using assms(2) mset_eq_imp_distinct_iff by blast
  qed
  show ?thesis
  proof (rule map_sorted_distinct_set_unique [of k])
    show "set (?s xs) = set (?s ys)" using m by (rule mset_eq_setD)
    then show "inj_on k (set (?s xs) \<union> set (?s ys))" using d [of xs] by (simp add: distinct_map)
  qed (use srt d assms(1) in simp_all)
qed

end
