(* ===== verification/Outcomes.thy ===== *)
theory Outcomes imports Identity StorageRecords begin

text \<open>
  \<open>internal/marketops/outcomes/materializer.go\<close>: forward outcomes of triggered hypothesis
  evaluations and opportunities over the daily price history, for each horizon.
\<close>

section \<open>Data\<close>

definition calculation_version :: string where "calculation_version = ''marketops.forward_outcome.v1''"
definition default_threshold :: f64 where "default_threshold = rnd (2 / 100)"
definition default_horizons :: "int list" where "default_horizons = [1, 5, 10, 20]"

definition st_matured :: string where "st_matured = ''matured''"
definition st_pending :: string where "st_pending = ''pending''"
definition st_missing :: string where "st_missing = ''missing_price''"

lemmas status_defs = st_matured_def st_pending_def st_missing_def

record build_config =
  bc_tenant_id :: string
  bc_symbol :: string
  bc_run_id :: string
  bc_as_of :: time
  bc_threshold :: f64
  bc_bounded_cohort :: bool
  bc_horizons :: "int list"

record build_input =
  bi_evaluations :: "hyp_evaluation list"
  bi_opportunities :: "opportunity list"
  bi_equity_events :: "ledger_event list"

record build_result =
  br_outcomes :: "outcome list"
  br_sources :: int
  br_matured :: int
  br_pending :: int
  br_missing_price :: int
  br_skipped :: "(string \<times> int) list"

record source =
  so_type :: string
  so_id :: string
  so_tenant_id :: string
  so_app_id :: string
  so_hypothesis_key :: string
  so_hypothesis_version :: string
  so_asset_id :: string
  so_symbol :: string
  so_direction :: string
  so_origin :: time

record price_point =
  pp_session :: time
  pp_event_id :: string
  pp_open :: f64
  pp_high :: f64
  pp_low :: f64
  pp_close :: f64
  pp_valid :: bool

section \<open>Configuration\<close>

definition defaults :: "build_config \<Rightarrow> build_config" where
  "defaults c =
     c\<lparr>bc_tenant_id := trim_space (bc_tenant_id c), bc_symbol := to_upper (trim_space (bc_symbol c)),
       bc_run_id := trim_space (bc_run_id c), bc_as_of := day (bc_as_of c),
       bc_threshold := (if feq (bc_threshold c) (Fin 0) then default_threshold else bc_threshold c),
       bc_horizons := (if bc_horizons c = [] then default_horizons else bc_horizons c)\<rparr>"

fun check_horizons :: "int list \<Rightarrow> int list \<Rightarrow> unit res" where
  "check_horizons seen [] = Inr ()"
| "check_horizons seen (h # hs) =
     (if h \<noteq> 1 \<and> h \<noteq> 5 \<and> h \<noteq> 10 \<and> h \<noteq> 20 then Inl (Err (''unsupported G140 horizon '' @ itoa h))
      else if h \<in> set seen then Inl (Err (''duplicate G140 horizon '' @ itoa h))
      else check_horizons (h # seen) hs)"

definition validate_config :: "build_config \<Rightarrow> unit res" where
  "validate_config c =
     (if bc_tenant_id c = [] \<or> bc_symbol c = [] \<or> bc_run_id c = [] \<or> bc_as_of c = zero_time then
        Inl (Err ''G140 tenant_id, symbol, run_id, and as_of are required'')
      else if bc_symbol c \<noteq> ''AAPL'' \<and> \<not> bc_bounded_cohort c then Inl (Err ''G140 is intentionally bounded to AAPL'')
      else if fle (bc_threshold c) (Fin 0) \<or> fle (Fin 1) (bc_threshold c) then
        Inl (Err ''G140 threshold must be between 0 and 1'')
      else check_horizons [] (bc_horizons c))"

section \<open>Sources\<close>

definition valid_direction :: "string \<Rightarrow> bool" where
  "valid_direction d \<longleftrightarrow> d = ''upside'' \<or> d = ''downside'' \<or> d = ''non_directional''"

definition app_id :: "string \<Rightarrow> string" where
  "app_id s = (if blank s then ''marketops'' else trim_space s)"

definition evaluation_direction :: "hyp_evaluation \<Rightarrow> string" where
  "evaluation_direction e =
     trim_space (case decode_obj (he_payload e) of None \<Rightarrow> [] | Some m \<Rightarrow> str_of (ofield m ''resolved_direction''))"

definition bump :: "string \<Rightarrow> (string \<times> int) list \<Rightarrow> (string \<times> int) list" where
  "bump k m = AList.update k ((case map_of m k of None \<Rightarrow> 0 | Some n \<Rightarrow> n) + 1) m"

text \<open>
  What one record contributes: nothing, the reason it is skipped for, or a source. A source
  is appended unless one of the same type and identifier is already there.
\<close>

datatype 'a verdict = Foreign | Skip string | Take 'a

definition evaluation_verdict :: "build_config \<Rightarrow> hyp_evaluation \<Rightarrow> source verdict" where
  "evaluation_verdict c e =
     (if he_tenant_id e \<noteq> bc_tenant_id c \<or> to_upper (he_symbol e) \<noteq> bc_symbol c then Foreign
      else if \<not> he_eligible e \<or> \<not> he_triggered e \<or> he_invalidated e then Skip ''evaluation_not_triggered''
      else if \<not> valid_direction (evaluation_direction e) then Skip ''evaluation_direction_unresolved''
      else if bc_as_of c < day (he_session_date e) then Skip ''source_after_as_of''
      else Take \<lparr>so_type = ''hypothesis_evaluation'', so_id = he_evaluation_id e, so_tenant_id = he_tenant_id e,
        so_app_id = app_id (he_app_id e), so_hypothesis_key = he_hypothesis_key e, so_hypothesis_version = he_hypothesis_version e,
        so_asset_id = he_asset_id e, so_symbol = to_upper (he_symbol e), so_direction = evaluation_direction e,
        so_origin = day (he_session_date e)\<rparr>)"

definition opportunity_verdict :: "build_config \<Rightarrow> opportunity \<Rightarrow> source verdict" where
  "opportunity_verdict c e =
     (if op_tenant_id e \<noteq> bc_tenant_id c \<or> to_upper (op_symbol e) \<noteq> bc_symbol c then Foreign
      else if \<not> valid_direction (op_direction e) then Skip ''opportunity_direction_unresolved''
      else if bc_as_of c < day (op_last_evaluated_date e) then Skip ''source_after_as_of''
      else Take \<lparr>so_type = ''opportunity'', so_id = op_opportunity_id e, so_tenant_id = op_tenant_id e,
        so_app_id = app_id (op_app_id e), so_hypothesis_key = [], so_hypothesis_version = [],
        so_asset_id = op_asset_id e, so_symbol = to_upper (op_symbol e), so_direction = op_direction e,
        so_origin = day (op_last_evaluated_date e)\<rparr>)"

fun collect :: "source verdict list \<Rightarrow> source list \<Rightarrow> (string \<times> int) list \<Rightarrow> source list \<times> (string \<times> int) list" where
  "collect [] out sk = (out, sk)"
| "collect (Foreign # vs) out sk = collect vs out sk"
| "collect (Skip r # vs) out sk = collect vs out (bump r sk)"
| "collect (Take s # vs) out sk =
     collect vs (if \<exists>t \<in> set out. so_type t = so_type s \<and> so_id t = so_id s then out else out @ [s]) sk"

definition source_before :: "source \<Rightarrow> source \<Rightarrow> bool" where
  "source_before a b \<longleftrightarrow>
     (if so_origin a = so_origin b
      then if so_type a = so_type b then so_id a < so_id b else so_type a < so_type b
      else so_origin a < so_origin b)"

definition outcome_sources :: "build_config \<Rightarrow> build_input \<Rightarrow> source list \<times> (string \<times> int) list" where
  "outcome_sources c i =
     (let (out, sk) = collect (map (evaluation_verdict c) (bi_evaluations i) @ map (opportunity_verdict c) (bi_opportunities i)) [] []
      in (sort_by source_before out, sk))"

section \<open>Price history\<close>

definition string_value :: "json option \<Rightarrow> string" where
  "string_value j = (case j of Some (JStr s) \<Rightarrow> trim_space s | _ \<Rightarrow> [])"

definition number_value :: "json option \<Rightarrow> f64 option" where
  "number_value j = (case j of Some (JNum x) \<Rightarrow> Some x | Some (JInt i) \<Rightarrow> Some (f_of_int i) | _ \<Rightarrow> None)"

definition equity_relevant :: "build_config \<Rightarrow> ledger_event \<Rightarrow> bool" where
  "equity_relevant c e \<longleftrightarrow>
     n_tenant_id e = bc_tenant_id c \<and> n_dataset e = ''equity_eod_prices'' \<and> \<not> bc_as_of c < day (n_observation_time e)"

definition payload_symbol :: "obj \<Rightarrow> string" where
  "payload_symbol m =
     (let s = to_upper (string_value (oget m ''symbol'')) in
      if s = [] then to_upper (string_value (oget m ''ticker'')) else s)"

definition supersedes :: "ledger_event \<Rightarrow> ledger_event \<Rightarrow> bool" where
  "supersedes e cur \<longleftrightarrow> n_processing_time cur < n_processing_time e
     \<or> (n_processing_time e = n_processing_time cur \<and> n_event_id cur < n_event_id e)"

fun latest_events :: "build_config \<Rightarrow> ledger_event list \<Rightarrow> (string \<times> ledger_event) list \<Rightarrow> (string \<times> ledger_event) list res" where
  "latest_events c [] m = Inr m"
| "latest_events c (e # es) m =
     (if \<not> equity_relevant c e then latest_events c es m
      else
        (case decode_obj (n_normalized_payload e) of
           None \<Rightarrow> Inl (Err (''decode equity event '' @ n_event_id e))
         | Some p \<Rightarrow>
             if payload_symbol p \<noteq> bc_symbol c then latest_events c es m
             else
               (let k = fmt_date (day (n_observation_time e)) in
                latest_events c es
                  (case map_of m k of
                     None \<Rightarrow> AList.update k e m
                   | Some cur \<Rightarrow> if supersedes e cur then AList.update k e m else m))))"

definition price_of_event :: "ledger_event \<Rightarrow> price_point" where
  "price_of_event e =
     (let m = (case decode_obj (n_normalized_payload e) of None \<Rightarrow> [] | Some m \<Rightarrow> m);
          num = (\<lambda>k. number_value (oget m k));
          v = (\<lambda>k. case num k of None \<Rightarrow> Fin 0 | Some x \<Rightarrow> x);
          pos = (\<lambda>k. num k \<noteq> None \<and> flt (Fin 0) (v k))
      in \<lparr>pp_session = day (n_observation_time e), pp_event_id = n_event_id e, pp_open = v ''open'', pp_high = v ''high'',
          pp_low = v ''low'', pp_close = v ''close'',
          pp_valid = (pos ''open'' \<and> pos ''high'' \<and> pos ''low'' \<and> pos ''close'' \<and> fle (v ''low'') (v ''high''))\<rparr>)"

definition equity_history :: "build_config \<Rightarrow> ledger_event list \<Rightarrow> price_point list res" where
  "equity_history c events =
     bind_res (latest_events c events []) (\<lambda>m.
       Inr (sort_by (\<lambda>a b. pp_session a < pp_session b) (map (\<lambda>p. price_of_event (snd p)) m)))"

section \<open>Calculations\<close>

definition max_float :: f64 where
  "max_float = Fin (pow2 1024 - pow2 971)"

definition move :: "f64 \<Rightarrow> f64 \<Rightarrow> f64" where
  "move price base = fsub (fdiv price base) (Fin 1)"

definition weekend :: "time \<Rightarrow> bool" where
  "weekend t \<longleftrightarrow> weekday t = 6 \<or> weekday t = 0"

text \<open>The loop of \<open>addBusinessDays\<close>: a weekend is at most two days away from its end.\<close>

function business_days_from :: "time \<Rightarrow> int \<Rightarrow> time" where
  "business_days_from t n =
     (if n \<le> 0 then t
      else business_days_from (add_days t 1) (if weekend (add_days t 1) then n else n - 1))"
  by pat_completeness auto

lemma weekday_next: "weekday (add_days t 1) = (weekday t + 1) mod 7"
proof -
  have "(t + day_ns) div day_ns = t div day_ns + 1"
    by (rule div_add_self2) (simp add: day_ns_def)
  then show ?thesis by (simp add: weekday_def add_days_def mod_simps)
qed

lemma weekday_range: "0 \<le> weekday t \<and> weekday t < 7"
  by (simp add: weekday_def)

definition weekend_left :: "time \<Rightarrow> int" where
  "weekend_left t = (if weekday t = 5 then 2 else if weekday t = 6 then 1 else 0)"

termination business_days_from
proof (relation "measure (\<lambda>(t, n). nat (3 * n + weekend_left t))")
  fix t :: time and n :: int
  assume n: "\<not> n \<le> 0"
  have "weekday t \<in> {0, 1, 2, 3, 4, 5, 6}" using weekday_range [of t] by auto
  then show "((add_days t 1, if weekend (add_days t 1) then n else n - 1), (t, n)) \<in> measure (\<lambda>(t, n). nat (3 * n + weekend_left t))"
    using n by (auto simp: weekend_left_def weekend_def weekday_next)
qed simp

declare business_days_from.simps [simp del]

definition add_business_days :: "time \<Rightarrow> int \<Rightarrow> time" where
  "add_business_days t n = business_days_from (day t) n"

definition price_gap_status :: "time \<Rightarrow> time \<Rightarrow> int \<Rightarrow> string" where
  "price_gap_status as_of origin h = (if \<not> as_of < add_business_days origin h then st_missing else st_pending)"

definition directional_excursions :: "string \<Rightarrow> f64 \<Rightarrow> f64 \<Rightarrow> f64 option \<times> f64 option" where
  "directional_excursions dir up down =
     (if dir = ''upside'' then (Some up, Some down)
      else if dir = ''downside'' then (Some (fneg down), Some (fneg up))
      else (Some (fmax (fabs up) (fabs down)), None))"

definition direction_hit :: "string \<Rightarrow> f64 \<Rightarrow> bool option" where
  "direction_hit dir v =
     (if dir = ''upside'' then Some (flt (Fin 0) v) else if dir = ''downside'' then Some (flt v (Fin 0)) else None)"

definition crosses :: "string \<Rightarrow> f64 \<Rightarrow> f64 \<Rightarrow> price_point \<Rightarrow> bool" where
  "crosses dir origin threshold p =
     (let up = move (pp_high p) origin; down = move (pp_low p) origin in
      (dir = ''upside'' \<and> fle threshold up) \<or> (dir = ''downside'' \<and> fle down (fneg threshold))
      \<or> (dir = ''non_directional'' \<and> (fle threshold up \<or> fle down (fneg threshold))))"

definition threshold_outcome :: "string \<Rightarrow> f64 \<Rightarrow> price_point list \<Rightarrow> f64 \<Rightarrow> bool \<times> int option" where
  "threshold_outcome dir origin window threshold =
     (case index_of (crosses dir origin threshold) window of
        None \<Rightarrow> (False, None)
      | Some i \<Rightarrow> (True, Some (int i + 1)))"

fun drawdown_from :: "f64 \<Rightarrow> f64 \<Rightarrow> price_point list \<Rightarrow> f64" where
  "drawdown_from peak dd [] = dd"
| "drawdown_from peak dd (p # ps) =
     (let peak' = (if flt peak (pp_close p) then pp_close p else peak) in
      drawdown_from peak' (fmin dd (move (pp_close p) peak')) ps)"

definition maximum_drawdown :: "price_point \<Rightarrow> price_point list \<Rightarrow> f64" where
  "maximum_drawdown first rest = drawdown_from (pp_close first) (Fin 0) rest"

text \<open>\<open>annualizedVol\<close>: the sample deviation of the daily returns; \<open>None\<close> is Go's \<open>0, false\<close>.\<close>

fun daily_returns :: "price_point list \<Rightarrow> f64 list option" where
  "daily_returns (p # q # ps) =
     (if \<not> pp_valid p \<or> \<not> pp_valid q \<or> fle (pp_close p) (Fin 0) then None
      else map_option ((#) (move (pp_close q) (pp_close p))) (daily_returns (q # ps)))"
| "daily_returns _ = Some []"

definition annualized_vol :: "price_point list \<Rightarrow> f64 option" where
  "annualized_vol ps =
     (if length ps < 3 then None
      else
        (case daily_returns ps of
           None \<Rightarrow> None
         | Some rs \<Rightarrow>
             (let mean = fdiv (fsum rs) (f_of_int (int (length rs)));
                  variance = fdiv (fsum (map (\<lambda>r. fmul (fsub r mean) (fsub r mean)) rs)) (f_of_int (int (length rs) - 1))
              in Some (fmul (fsqrt variance) (fsqrt (Fin 252))))))"

definition realized_vol_change :: "price_point list \<Rightarrow> nat \<Rightarrow> int \<Rightarrow> f64 option" where
  "realized_vol_change prices i h =
     (if h < 2 \<or> int i < h \<or> int (length prices) \<le> int i + h then None
      else
        (case (annualized_vol (take (nat h + 1) (drop (i - nat h) prices)), annualized_vol (take (nat h + 1) (drop i prices))) of
           (Some b, Some f) \<Rightarrow> Some (fsub f b)
         | _ \<Rightarrow> None))"

section \<open>Outcomes\<close>

definition outcome_payload :: "build_config \<Rightarrow> source \<Rightarrow> price_point option \<Rightarrow> price_point list \<Rightarrow> string \<Rightarrow> doc" where
  "outcome_payload c s origin window reason =
     marshal (JObj
       ([(''as_of_date'', JStr (fmt_date (bc_as_of c))), (''threshold'', JNum (bc_threshold c)), (''source_type'', JStr (so_type s)),
         (''source_id'', JStr (so_id s)), (''direction'', JStr (so_direction s)), (''price_basis'', JStr ''normalized_equity_eod''),
         (''excursion_basis'', JStr ''direction_adjusted_intraday_high_low'')]
        @ (case origin of None \<Rightarrow> [] | Some p \<Rightarrow> [(''origin_event_id'', JStr (pp_event_id p)), (''origin_close'', JNum (pp_close p))])
        @ (if window = [] then [] else [(''forward_event_ids'', JArr (map (\<lambda>p. JStr (pp_event_id p)) window))])
        @ (if reason = [] then [] else [(''status_reason'', JStr reason)])))"

definition blank_outcome :: "build_config \<Rightarrow> source \<Rightarrow> int \<Rightarrow> identity \<Rightarrow> outcome" where
  "blank_outcome c s h i =
     \<lparr>o_outcome_id = id_ID i, o_tenant_id = so_tenant_id s, o_app_id = so_app_id s, o_source_type = so_type s,
      o_source_id = so_id s, o_hypothesis_key = so_hypothesis_key s, o_hypothesis_version = so_hypothesis_version s,
      o_asset_id = so_asset_id s, o_symbol = so_symbol s, o_direction = so_direction s, o_origin_session_date = so_origin s,
      o_horizon_sessions = h, o_matured_session_date = None, o_outcome_status = st_pending, o_forward_return = None,
      o_max_favorable = None, o_max_adverse = None, o_maximum_drawdown = None, o_realized_vol_change = None,
      o_directional_hit = None, o_threshold_hit = None, o_days_to_threshold = None, o_origin_event_id = [],
      o_outcome_event_ids = [], o_payload = Doc (JObj []), o_calculation_version = calculation_version,
      o_calculation_run_id = bc_run_id c, o_deterministic_key = id_key i, o_created_at = zero_time, o_updated_at = zero_time\<rparr>"

definition matured_outcome :: "build_config \<Rightarrow> source \<Rightarrow> price_point list \<Rightarrow> nat \<Rightarrow> int \<Rightarrow> price_point \<Rightarrow> price_point list \<Rightarrow> outcome \<Rightarrow> outcome" where
  "matured_outcome c s prices i h origin window r =
     (let base = pp_close origin; final = last window; ret = move (pp_close final) base;
          up = foldl (\<lambda>m p. fmax m (move (pp_high p) base)) (fneg max_float) window;
          down = foldl (\<lambda>m p. fmin m (move (pp_low p) base)) max_float window;
          (mfe, mae) = directional_excursions (so_direction s) up down;
          (hit, days) = threshold_outcome (so_direction s) base window (bc_threshold c)
      in r\<lparr>o_outcome_status := st_matured, o_matured_session_date := Some (day (pp_session final)), o_forward_return := Some ret,
          o_max_favorable := mfe, o_max_adverse := mae, o_maximum_drawdown := Some (maximum_drawdown origin window),
          o_realized_vol_change := realized_vol_change prices i h, o_directional_hit := direction_hit (so_direction s) ret,
          o_threshold_hit := Some hit, o_days_to_threshold := days, o_outcome_event_ids := map pp_event_id window,
          o_payload := outcome_payload c s (Some origin) window []\<rparr>)"

definition build_outcome :: "build_config \<Rightarrow> source \<Rightarrow> price_point list \<Rightarrow> int \<Rightarrow> outcome res" where
  "build_outcome c s prices h =
     bind_res (new_identity ''outcome'' [so_tenant_id s, so_type s, so_id s, itoa h, calculation_version]) (\<lambda>i.
       let r = blank_outcome c s h i; gap = price_gap_status (bc_as_of c) (so_origin s) h in
       case index_of (\<lambda>p. pp_session p = so_origin s) prices of
         None \<Rightarrow> Inr (r\<lparr>o_outcome_status := gap, o_payload := outcome_payload c s None [] ''origin_price_unavailable''\<rparr>)
       | Some k \<Rightarrow>
           let origin = prices ! k in
           if \<not> pp_valid origin then
             Inr (r\<lparr>o_outcome_status := gap, o_payload := outcome_payload c s None [] ''origin_price_unavailable''\<rparr>)
           else
             let r1 = r\<lparr>o_origin_event_id := pp_event_id origin\<rparr> in
             if int (length prices) \<le> int k + h then
               Inr (r1\<lparr>o_outcome_status := gap, o_payload := outcome_payload c s (Some origin) [] ''forward_horizon_unavailable''\<rparr>)
             else
               let window = take (nat h) (drop (Suc k) prices) in
               if \<not> list_all pp_valid window then
                 Inr (r1\<lparr>o_outcome_status := st_missing, o_payload := outcome_payload c s (Some origin) window ''invalid_forward_price''\<rparr>)
               else Inr (matured_outcome c s prices k h origin window r1))"

definition count_status :: "outcome \<Rightarrow> build_result \<Rightarrow> build_result" where
  "count_status o1 r =
     (let r1 = (if o_outcome_status o1 = st_matured then r\<lparr>br_matured := br_matured r + 1\<rparr>
                else if o_outcome_status o1 = st_pending then r\<lparr>br_pending := br_pending r + 1\<rparr>
                else if o_outcome_status o1 = st_missing then r\<lparr>br_missing_price := br_missing_price r + 1\<rparr> else r)
      in r1\<lparr>br_outcomes := br_outcomes r1 @ [o1]\<rparr>)"

fun build_all :: "build_config \<Rightarrow> price_point list \<Rightarrow> (source \<times> int) list \<Rightarrow> build_result \<Rightarrow> build_result res" where
  "build_all c prices [] r = Inr r"
| "build_all c prices ((s, h) # rest) r =
     bind_res (build_outcome c s prices h) (\<lambda>o1. build_all c prices rest (count_status o1 r))"

definition outcome_before :: "outcome \<Rightarrow> outcome \<Rightarrow> bool" where
  "outcome_before a b \<longleftrightarrow>
     (if o_origin_session_date a = o_origin_session_date b
      then if o_source_id a = o_source_id b then o_horizon_sessions a < o_horizon_sessions b else o_source_id a < o_source_id b
      else o_origin_session_date a < o_origin_session_date b)"

definition build :: "build_config \<Rightarrow> build_input \<Rightarrow> build_result res" where
  "build c0 i =
     (let c = defaults c0 in
      bind_res (validate_config c) (\<lambda>_.
        let (sources, sk) = outcome_sources c i;
            r0 = \<lparr>br_outcomes = [], br_sources = int (length sources), br_matured = 0, br_pending = 0, br_missing_price = 0, br_skipped = sk\<rparr>
        in bind_res (equity_history c (bi_equity_events i)) (\<lambda>prices.
             bind_res (build_all c prices (List.product sources (bc_horizons c)) r0) (\<lambda>r.
               Inr (r\<lparr>br_outcomes := sort_by outcome_before (br_outcomes r)\<rparr>)))))"

section \<open>Facts\<close>

text \<open>Business days: the result is \<open>n\<close> working days after the start, and is itself one.\<close>

lemma weekday_midnight [simp]: "weekday (midnight t) = weekday t"
  by (simp add: weekday_def midnight_def)

definition working_days :: "time \<Rightarrow> nat \<Rightarrow> int" where
  "working_days t k = int (card {i. 1 \<le> i \<and> i \<le> k \<and> \<not> weekend (add_days t (int i))})"

lemma working_days_0 [simp]: "working_days t 0 = 0"
  by (simp add: working_days_def)

lemma add_days_add: "add_days (add_days t a) b = add_days t (a + b)"
  by (simp add: add_days_def algebra_simps)

lemma working_days_Suc:
  "working_days t (Suc k) = (if weekend (add_days t 1) then 0 else 1) + working_days (add_days t 1) k"
proof -
  let ?A = "{i. 1 \<le> i \<and> i \<le> Suc k \<and> \<not> weekend (add_days t (int i))}"
  let ?B = "{i. 1 \<le> i \<and> i \<le> k \<and> \<not> weekend (add_days (add_days t 1) (int i))}"
  have split: "?A = (if weekend (add_days t 1) then {} else {1}) \<union> Suc ` ?B"
  proof (rule set_eqI)
    fix i
    show "i \<in> ?A \<longleftrightarrow> i \<in> (if weekend (add_days t 1) then {} else {1}) \<union> Suc ` ?B"
    proof (cases i)
      case 0
      then show ?thesis by auto
    next
      case (Suc j)
      have "add_days t (int (Suc j)) = add_days (add_days t 1) (int j)" by (simp add: add_days_add)
      then show ?thesis using Suc by (cases j) auto
    qed
  qed
  have f: "finite ?B" by (rule finite_subset [of _ "{..k}"]) auto
  have "1 \<notin> Suc ` ?B" by auto
  then have "card ?A = (if weekend (add_days t 1) then 0 else 1) + card ?B"
    unfolding split using f by (simp add: card_image)
  then show ?thesis by (simp add: working_days_def)
qed

lemma business_days_from_props:
  assumes "0 \<le> n"
  shows "\<exists>k. business_days_from t n = add_days t (int k) \<and> working_days t k = n
    \<and> (0 < n \<longrightarrow> \<not> weekend (business_days_from t n))"
  using assms
proof (induction t n rule: business_days_from.induct)
  case (1 t n)
  show ?case
  proof (cases "n \<le> 0")
    case True
    then show ?thesis using 1(2) by (intro exI [of _ 0]) (simp add: business_days_from.simps [of t 0] add_days_def)
  next
    case False
    let ?t = "add_days t 1" and ?n = "if weekend (add_days t 1) then n else n - 1"
    have e: "business_days_from t n = business_days_from ?t ?n" using False by (simp add: business_days_from.simps [of t n])
    have "0 \<le> ?n" using False by simp
    then obtain k where k: "business_days_from ?t ?n = add_days ?t (int k)" "working_days ?t k = ?n"
        "0 < ?n \<longrightarrow> \<not> weekend (business_days_from ?t ?n)"
      using 1(1) [OF False] by blast
    have "\<not> weekend (business_days_from ?t ?n)"
    proof (cases "0 < ?n")
      case True
      then show ?thesis using k(3) by simp
    next
      case False': False
      then have n1: "\<not> weekend ?t" "?n = 0" using False by (auto split: if_splits)
      then show ?thesis by (simp add: business_days_from.simps [of ?t 0])
    qed
    then show ?thesis
      using k e by (intro exI [of _ "Suc k"]) (simp add: add_days_add working_days_Suc)
  qed
qed

end
