(* ===== verification/Calibration.thy ===== *)
theory Calibration imports Outcomes begin

text \<open>
  \<open>internal/marketops/hypothesisbacktest/calibration.go\<close>: the calibration report of hypothesis
  versions over their evaluations and matured outcomes. \<open>joinSamples\<close> sorts by session and
  horizon only, which leaves the order of samples of different assets open; that sort is the
  argument \<open>srt\<close>. Go maps that are sorted or have one fixed entry per key are association
  lists; the indices of the walk-forward loop are 64 bits wide.
\<close>

section \<open>Data\<close>

record cal_config =
  cc_tenant_id :: string
  cc_hypothesis_key :: string
  cc_versions :: "string list"
  cc_outcome_version :: string
  cc_symbols :: "string list"
  cc_window_start :: time
  cc_window_end :: time
  cc_as_of :: time
  cc_mode :: string
  cc_minimum :: int
  cc_train :: int
  cc_test :: int
  cc_max_folds :: int

record cal_input =
  ci_evaluations :: "hyp_evaluation list"
  ci_outcomes :: "outcome list"
  ci_observations :: "feature_observation list"

record band_metrics =
  bm_samples :: int
  bm_directional_hit_rate :: "f64 option"
  bm_calibration_error :: "f64 option"

record metrics =
  mt_evaluations :: int
  mt_eligible_states :: int
  mt_triggers :: int
  mt_trigger_rate :: "f64 option"
  mt_independent_samples :: int
  mt_matured_samples :: int
  mt_directional_hit_rate :: "f64 option"
  mt_mean_return :: "f64 option"
  mt_median_return :: "f64 option"
  mt_mean_favorable :: "f64 option"
  mt_median_favorable :: "f64 option"
  mt_mean_adverse :: "f64 option"
  mt_median_adverse :: "f64 option"
  mt_drawdown_incidence :: "f64 option"
  mt_mean_vol_change :: "f64 option"
  mt_calibration_error :: "f64 option"
  mt_bands :: "(string \<times> band_metrics) list"
  mt_below_minimum :: bool

record version_report =
  vr_version :: string
  vr_overall :: metrics
  vr_by_horizon :: "(string \<times> metrics) list"
  vr_by_asset :: "(string \<times> metrics) list"
  vr_by_year :: "(string \<times> metrics) list"
  vr_by_volatility :: "(string \<times> metrics) list"
  vr_by_earnings :: "(string \<times> metrics) list"

record comparison =
  cp_baseline :: string
  cp_candidate :: string
  cp_trigger_rate_delta :: "f64 option"
  cp_hit_delta :: "f64 option"
  cp_return_delta :: "f64 option"
  cp_error_delta :: "f64 option"
  cp_advisory_only :: bool

record wf_fold =
  wf_number :: int
  wf_train_start :: string
  wf_train_end :: string
  wf_test_start :: string
  wf_test_end :: string
  wf_train :: version_report
  wf_test :: version_report
  wf_warnings :: "string list"

record cal_report =
  rp_summary_version :: string
  rp_mode :: string
  rp_hypothesis_key :: string
  rp_versions :: "string list"
  rp_outcome_version :: string
  rp_symbols :: "string list"
  rp_window_start :: string
  rp_window_end :: string
  rp_as_of :: string
  rp_minimum :: int
  rp_reports :: "(string \<times> version_report) list"
  rp_comparison :: "comparison option"
  rp_walk_forward :: "wf_fold list"
  rp_warnings :: "string list"
  rp_promotion_allowed :: bool

record segment =
  sg_earnings :: string
  sg_volatility :: string

record sample =
  sm_evaluation :: hyp_evaluation
  sm_outcome :: outcome
  sm_segment :: segment

section \<open>Configuration\<close>

definition mode_single :: string where "mode_single = ''single''"
definition mode_comparison :: string where "mode_comparison = ''comparison''"
definition mode_walk_forward :: string where "mode_walk_forward = ''walk_forward''"

definition cal_normalize :: "cal_config \<Rightarrow> cal_config" where
  "cal_normalize c =
     (let ov = trim_space (cc_outcome_version c); md = to_lower (trim_space (cc_mode c)) in
      \<lparr>cc_tenant_id = trim_space (cc_tenant_id c), cc_hypothesis_key = to_upper (trim_space (cc_hypothesis_key c)),
       cc_versions = keep_new [] (map trim_space (cc_versions c)),
       cc_outcome_version = (if ov = [] then calculation_version else ov),
       cc_symbols = sort (keep_new [] (map (\<lambda>s. to_upper (trim_space s)) (cc_symbols c))),
       cc_window_start = day (cc_window_start c), cc_window_end = day (cc_window_end c), cc_as_of = day (cc_as_of c),
       cc_mode = (if md = [] then mode_single else md),
       cc_minimum = (if cc_minimum c = 0 then 100 else cc_minimum c),
       cc_train = (if cc_train c = 0 then 60 else cc_train c),
       cc_test = (if cc_test c = 0 then 20 else cc_test c),
       cc_max_folds = (if cc_max_folds c = 0 then 6 else cc_max_folds c)\<rparr>)"

definition cal_validate :: "cal_config \<Rightarrow> unit res" where
  "cal_validate c =
     (if cc_tenant_id c = [] \<or> cc_hypothesis_key c = [] \<or> cc_versions c = [] \<or> cc_symbols c = [] then
        Inl (Err ''G145 tenant, hypothesis key/version, and explicit symbols are required'')
      else if 10 < length (cc_symbols c) then Inl (Err ''G145 supports at most 10 explicit symbols'')
      else if cc_window_start c = zero_time \<or> cc_window_end c = zero_time \<or> cc_as_of c = zero_time
           \<or> cc_window_end c < cc_window_start c \<or> cc_as_of c < cc_window_end c then
        Inl (Err ''G145 window and as-of dates are invalid'')
      else if cc_minimum c < 1 \<or> 10000 < cc_minimum c then
        Inl (Err ''G145 minimum sample size must be between 1 and 10000'')
      else if (cc_mode c = mode_single \<or> cc_mode c = mode_walk_forward) \<and> length (cc_versions c) \<noteq> 1 then
        Inl (Err (''G145 '' @ cc_mode c @ '' mode requires exactly one hypothesis version''))
      else if cc_mode c = mode_comparison \<and> length (cc_versions c) \<noteq> 2 then
        Inl (Err ''G145 comparison mode requires exactly two distinct hypothesis versions'')
      else if cc_mode c \<notin> {mode_single, mode_walk_forward, mode_comparison} then
        Inl (Err (''unsupported G145 mode '' @ cc_mode c))
      else if cc_train c < 1 \<or> cc_test c < 1 \<or> cc_max_folds c < 1 \<or> 20 < cc_max_folds c then
        Inl (Err ''G145 walk-forward bounds are invalid'')
      else Inr ())"

section \<open>Isolation\<close>

definition in_window :: "time \<Rightarrow> time \<Rightarrow> time \<Rightarrow> bool" where
  "in_window v start stop \<longleftrightarrow> \<not> day v < day start \<and> \<not> day stop < day v"

fun check_evaluations :: "cal_config \<Rightarrow> hyp_evaluation list \<Rightarrow> hyp_evaluation list \<Rightarrow> hyp_evaluation list res" where
  "check_evaluations c seen [] = Inr seen"
| "check_evaluations c seen (e # es) =
     (if he_tenant_id e \<noteq> cc_tenant_id c \<or> he_hypothesis_key e \<noteq> cc_hypothesis_key c \<or> he_hypothesis_version e \<notin> set (cc_versions c) then
        Inl (Err (''G145 evaluation '' @ he_evaluation_id e @ '' violates exact hypothesis-version isolation''))
      else if \<not> in_window (he_session_date e) (cc_window_start c) (cc_window_end c) \<or> cc_as_of c < day (he_as_of_time e) then
        Inl (Err (''G145 evaluation '' @ he_evaluation_id e @ '' is outside the point-in-time window''))
      else if he_evaluation_id e \<in> he_evaluation_id ` set seen then
        Inl (Err (''G145 duplicate evaluation '' @ he_evaluation_id e))
      else check_evaluations c (seen @ [e]) es)"

definition evaluation_by_id :: "hyp_evaluation list \<Rightarrow> string \<Rightarrow> hyp_evaluation option" where
  "evaluation_by_id es eid = first_match (\<lambda>e. he_evaluation_id e = eid) (rev es)"

definition outcome_source_evaluation :: string where
  "outcome_source_evaluation = ''hypothesis_evaluation''"

fun check_outcomes :: "cal_config \<Rightarrow> hyp_evaluation list \<Rightarrow> outcome list \<Rightarrow> unit res" where
  "check_outcomes c es [] = Inr ()"
| "check_outcomes c es (r # rs) =
     (if o_source_type r \<noteq> outcome_source_evaluation \<or> o_tenant_id r \<noteq> cc_tenant_id c \<or> o_hypothesis_key r \<noteq> cc_hypothesis_key c
         \<or> o_hypothesis_version r \<notin> set (cc_versions c) \<or> o_calculation_version r \<noteq> cc_outcome_version c then
        Inl (Err (''G145 outcome '' @ o_outcome_id r @ '' violates exact hypothesis-version isolation''))
      else
        (case evaluation_by_id es (o_source_id r) of
           None \<Rightarrow> Inl (Err (''G145 outcome '' @ o_outcome_id r @ '' does not match an isolated evaluation''))
         | Some e \<Rightarrow> if he_hypothesis_version e \<noteq> o_hypothesis_version r
                     then Inl (Err (''G145 outcome '' @ o_outcome_id r @ '' does not match an isolated evaluation''))
                     else check_outcomes c es rs))"

section \<open>Segments\<close>

definition observation_visible :: "hyp_evaluation \<Rightarrow> feature_observation \<Rightarrow> bool" where
  "observation_visible e ob \<longleftrightarrow>
     fo_tenant_id ob = he_tenant_id e \<and> fo_symbol ob = he_symbol e \<and> day (fo_session_date ob) = day (he_session_date e)
     \<and> fo_as_of_time ob \<le> he_as_of_time e \<and> fo_text_value ob \<noteq> None \<and> usable (fo_quality_state ob)"

definition newer_observation :: "feature_observation \<Rightarrow> feature_observation \<Rightarrow> bool" where
  "newer_observation ob cur \<longleftrightarrow> fo_as_of_time cur < fo_as_of_time ob
     \<or> (fo_as_of_time ob = fo_as_of_time cur \<and> fo_observation_id cur < fo_observation_id ob)"

fun select_observation :: "string \<Rightarrow> hyp_evaluation \<Rightarrow> feature_observation list \<Rightarrow> feature_observation option \<Rightarrow> feature_observation option" where
  "select_observation key e [] cur = cur"
| "select_observation key e (ob # obs) cur =
     select_observation key e obs
       (if observation_visible e ob \<and> fo_feature_key ob = key
           \<and> (case cur of None \<Rightarrow> True | Some c \<Rightarrow> newer_observation ob c) then Some ob else cur)"

definition selected_text :: "string \<Rightarrow> hyp_evaluation \<Rightarrow> feature_observation list \<Rightarrow> string" where
  "selected_text key e obs =
     (case select_observation key e obs None of
        None \<Rightarrow> ''unknown''
      | Some ob \<Rightarrow> trim_space (case fo_text_value ob of None \<Rightarrow> [] | Some s \<Rightarrow> s))"

definition segment_of :: "feature_observation list \<Rightarrow> hyp_evaluation \<Rightarrow> segment" where
  "segment_of obs e =
     (let e1 = selected_text ''earnings_window_state'' e obs; v1 = selected_text ''term_structure_state'' e obs;
          e2 = (if e1 = ''outside_window'' then ''outside_earnings'' else e1)
      in \<lparr>sg_earnings = (if e2 = [] then ''unknown'' else e2), sg_volatility = (if v1 = [] then ''unknown'' else v1)\<rparr>)"

definition segment_evaluations :: "hyp_evaluation list \<Rightarrow> feature_observation list \<Rightarrow> (string \<times> segment) list" where
  "segment_evaluations es obs = foldl (\<lambda>m e. AList.update (he_evaluation_id e) (segment_of obs e) m) [] es"

definition seg_get :: "(string \<times> segment) list \<Rightarrow> string \<Rightarrow> segment" where
  "seg_get m k = (case map_of m k of None \<Rightarrow> \<lparr>sg_earnings = [], sg_volatility = []\<rparr> | Some s \<Rightarrow> s)"

section \<open>Samples\<close>

definition filter_evaluation_predicate :: "hyp_evaluation list \<Rightarrow> (hyp_evaluation \<Rightarrow> bool) \<Rightarrow> hyp_evaluation list" where
  "filter_evaluation_predicate es P =
     sort_by (\<lambda>a b. if he_session_date a = he_session_date b then he_evaluation_id a < he_evaluation_id b
                    else he_session_date a < he_session_date b) (filter P es)"

definition filter_evaluations :: "hyp_evaluation list \<Rightarrow> string \<Rightarrow> time \<Rightarrow> time \<Rightarrow> hyp_evaluation list" where
  "filter_evaluations es ver start stop =
     filter_evaluation_predicate es (\<lambda>e. he_hypothesis_version e = ver \<and> in_window (he_session_date e) start stop)"

definition sample_ready :: "time \<Rightarrow> hyp_evaluation \<Rightarrow> outcome \<Rightarrow> bool" where
  "sample_ready as_of e r \<longleftrightarrow> o_outcome_status r = st_matured
     \<and> (case o_matured_session_date r of None \<Rightarrow> False | Some t \<Rightarrow> \<not> day as_of < day t)
     \<and> he_eligible e \<and> he_triggered e \<and> \<not> he_invalidated e"

definition sample_key :: "outcome \<Rightarrow> string" where
  "sample_key r = o_source_id r @ [CHR 0x00] @ itoa (o_horizon_sessions r)"

fun collect_samples :: "hyp_evaluation list \<Rightarrow> (string \<times> segment) list \<Rightarrow> time \<Rightarrow> string list \<Rightarrow> outcome list \<Rightarrow> sample list" where
  "collect_samples es segs as_of seen [] = []"
| "collect_samples es segs as_of seen (r # rs) =
     (case evaluation_by_id es (o_source_id r) of
        None \<Rightarrow> collect_samples es segs as_of seen rs
      | Some e \<Rightarrow>
          if \<not> sample_ready as_of e r \<or> sample_key r \<in> set seen then collect_samples es segs as_of seen rs
          else \<lparr>sm_evaluation = e, sm_outcome = r, sm_segment = seg_get segs (he_evaluation_id e)\<rparr>
                 # collect_samples es segs as_of (sample_key r # seen) rs)"

definition sample_before :: "sample \<Rightarrow> sample \<Rightarrow> bool" where
  "sample_before a b \<longleftrightarrow>
     (if he_session_date (sm_evaluation a) = he_session_date (sm_evaluation b)
      then o_horizon_sessions (sm_outcome a) < o_horizon_sessions (sm_outcome b)
      else he_session_date (sm_evaluation a) < he_session_date (sm_evaluation b))"

definition join_samples ::
    "(sample list \<Rightarrow> sample list) \<Rightarrow> hyp_evaluation list \<Rightarrow> outcome list \<Rightarrow> (string \<times> segment) list \<Rightarrow> time \<Rightarrow> sample list" where
  "join_samples srt es rs segs as_of = srt (collect_samples es segs as_of [] rs)"

definition filter_samples_by_evaluations :: "sample list \<Rightarrow> hyp_evaluation list \<Rightarrow> sample list" where
  "filter_samples_by_evaluations ss es =
     filter (\<lambda>s. he_evaluation_id (sm_evaluation s) \<in> he_evaluation_id ` set es) ss"

section \<open>Metrics\<close>

definition float_pointer :: "f64 \<Rightarrow> f64 option" where
  "float_pointer x = (if is_fin x then Some x else None)"

definition ratio_of :: "int \<Rightarrow> int \<Rightarrow> f64 option" where
  "ratio_of k n = (if 0 < n then float_pointer (fdiv (f_of_int k) (f_of_int n)) else None)"

definition mean :: "f64 list \<Rightarrow> f64 option" where
  "mean xs = (if xs = [] then None else float_pointer (fdiv (fsum xs) (f_of_int (int (length xs)))))"

text \<open>\<open>sort.Float64s\<close>: NaN first, the two zeros left in either order.\<close>

definition float_before :: "f64 \<Rightarrow> f64 \<Rightarrow> bool" where
  "float_before x y \<longleftrightarrow> flt x y \<or> (x = NaN \<and> y \<noteq> NaN)"

definition median :: "f64 list \<Rightarrow> f64 option" where
  "median xs =
     (if xs = [] then None
      else
        let vs = sort_by float_before xs; k = length xs div 2 in
        if odd (length xs) then float_pointer (vs ! k)
        else float_pointer (fdiv (fadd (vs ! (k - 1)) (vs ! k)) (Fin 2)))"

definition delta :: "f64 option \<Rightarrow> f64 option \<Rightarrow> f64 option" where
  "delta l r = (case (l, r) of (Some x, Some y) \<Rightarrow> float_pointer (fsub x y) | _ \<Rightarrow> None)"

definition independent_sample_count :: "sample list \<Rightarrow> int" where
  "independent_sample_count ss = int (card ((\<lambda>s. he_evaluation_id (sm_evaluation s)) ` set ss))"

definition eligible_state :: "hyp_evaluation \<Rightarrow> bool" where
  "eligible_state e \<longleftrightarrow> he_eligible e \<and> \<not> he_invalidated e"

definition trigger_state :: "hyp_evaluation \<Rightarrow> bool" where
  "trigger_state e \<longleftrightarrow> he_triggered e \<and> he_eligible e \<and> \<not> he_invalidated e"

text \<open>\<open>count P xs\<close> is the counter a loop increments for the elements with \<open>P\<close>.\<close>

definition count_if :: "('a \<Rightarrow> bool) \<Rightarrow> 'a list \<Rightarrow> int" where
  "count_if P xs = int (length (filter P xs))"

definition known_hit :: "sample \<Rightarrow> bool" where
  "known_hit s \<longleftrightarrow> o_directional_hit (sm_outcome s) \<noteq> None"

definition sure_hit :: "sample \<Rightarrow> bool" where
  "sure_hit s \<longleftrightarrow> o_directional_hit (sm_outcome s) = Some True"

definition present :: "('a \<Rightarrow> 'b option) \<Rightarrow> 'a list \<Rightarrow> 'b list" where
  "present f xs = List.map_filter f xs"

text \<open>The squared distance of the confidence from the hit, where both are known.\<close>

definition brier :: "sample \<Rightarrow> f64 option" where
  "brier s =
     (case (o_directional_hit (sm_outcome s), he_confidence_score (sm_evaluation s)) of
        (Some h, Some c) \<Rightarrow> let d = fsub c (if h then Fin 1 else Fin 0) in Some (fmul d d)
      | _ \<Rightarrow> None)"

definition confidence_band :: "f64 \<Rightarrow> string" where
  "confidence_band c = (if fle (Fin (3 / 4)) c then ''high_0.75_1.00'' else if fle (Fin (1 / 2)) c then ''medium_0.50_0.75'' else ''low_0_0.50'')"

definition band_names :: "string list" where
  "band_names = [''low_0_0.50'', ''medium_0.50_0.75'', ''high_0.75_1.00'']"

definition in_band :: "string \<Rightarrow> sample \<Rightarrow> bool" where
  "in_band b s \<longleftrightarrow> (case he_confidence_score (sm_evaluation s) of None \<Rightarrow> False | Some c \<Rightarrow> confidence_band c = b)"

definition band_of :: "sample list \<Rightarrow> band_metrics" where
  "band_of items =
     (let known = filter (\<lambda>s. known_hit s \<and> he_confidence_score (sm_evaluation s) \<noteq> None) items in
      \<lparr>bm_samples = int (length items), bm_directional_hit_rate = ratio_of (count_if sure_hit known) (int (length known)),
       bm_calibration_error = mean (present brier known)\<rparr>)"

definition metric_set :: "hyp_evaluation list \<Rightarrow> sample list \<Rightarrow> int \<Rightarrow> metrics" where
  "metric_set es ss minimum =
     (let vals = (\<lambda>f. present (\<lambda>s. f (sm_outcome s)) ss);
          returns = vals o_forward_return; favorable = vals o_max_favorable; adverse = vals o_max_adverse;
          drawdowns = vals o_maximum_drawdown
      in \<lparr>mt_evaluations = int (length es), mt_eligible_states = count_if eligible_state es, mt_triggers = count_if trigger_state es,
          mt_trigger_rate = ratio_of (count_if trigger_state es) (count_if eligible_state es),
          mt_independent_samples = independent_sample_count ss, mt_matured_samples = int (length ss),
          mt_directional_hit_rate = ratio_of (count_if sure_hit ss) (count_if known_hit ss),
          mt_mean_return = mean returns, mt_median_return = median returns,
          mt_mean_favorable = mean favorable, mt_median_favorable = median favorable,
          mt_mean_adverse = mean adverse, mt_median_adverse = median adverse,
          mt_drawdown_incidence = ratio_of (count_if (\<lambda>x. flt x (Fin 0)) drawdowns) (int (length drawdowns)),
          mt_mean_vol_change = mean (vals o_realized_vol_change), mt_calibration_error = mean (present brier ss),
          mt_bands = map (\<lambda>b. (b, band_of (filter (in_band b) ss))) band_names,
          mt_below_minimum = (independent_sample_count ss < minimum)\<rparr>)"

section \<open>Reports\<close>

definition sorted_keys :: "string list \<Rightarrow> string list" where
  "sorted_keys ks = sort (remdups ks)"

text \<open>One group of a breakdown: the evaluations of a key, and the samples of those evaluations.\<close>

definition group_metrics ::
    "(hyp_evaluation \<Rightarrow> string) \<Rightarrow> hyp_evaluation list \<Rightarrow> sample list \<Rightarrow> int \<Rightarrow> (string \<times> metrics) list" where
  "group_metrics f es ss minimum =
     map (\<lambda>k. let sel = filter_evaluation_predicate es (\<lambda>e. f e = k)
              in (k, metric_set sel (filter_samples_by_evaluations ss sel) minimum)) (sorted_keys (map f es))"

definition build_version_report ::
    "string \<Rightarrow> hyp_evaluation list \<Rightarrow> sample list \<Rightarrow> (string \<times> segment) list \<Rightarrow> int \<Rightarrow> version_report" where
  "build_version_report ver es ss segs minimum =
     \<lparr>vr_version = ver, vr_overall = metric_set es ss minimum,
      vr_by_horizon = map (\<lambda>h. (itoa h, metric_set es (filter (\<lambda>s. o_horizon_sessions (sm_outcome s) = h) ss) minimum)) [1, 5, 10, 20],
      vr_by_asset = group_metrics he_symbol es ss minimum,
      vr_by_year = group_metrics (\<lambda>e. itoa (year_of (he_session_date e))) es ss minimum,
      vr_by_volatility = group_metrics (\<lambda>e. sg_volatility (seg_get segs (he_evaluation_id e))) es ss minimum,
      vr_by_earnings = group_metrics (\<lambda>e. sg_earnings (seg_get segs (he_evaluation_id e))) es ss minimum\<rparr>"

definition date_string :: "time \<Rightarrow> string" where
  "date_string t = fmt_date (day t)"

definition distinct_dates :: "hyp_evaluation list \<Rightarrow> time list" where
  "distinct_dates es =
     sort_by (<) (map snd (foldl (\<lambda>m e. AList.update (date_string (he_session_date e)) (day (he_session_date e)) m) [] es))"

definition fold_warnings :: "version_report \<Rightarrow> version_report \<Rightarrow> string list" where
  "fold_warnings train test =
     (if mt_below_minimum (vr_overall train) then [''train_sample_size_below_minimum''] else [])
     @ (if mt_below_minimum (vr_overall test) then [''test_sample_size_below_minimum''] else [])"

definition make_fold ::
    "(sample list \<Rightarrow> sample list) \<Rightarrow> cal_config \<Rightarrow> string \<Rightarrow> hyp_evaluation list \<Rightarrow> outcome list \<Rightarrow> (string \<times> segment) list
     \<Rightarrow> int \<Rightarrow> time \<Rightarrow> time \<Rightarrow> time \<Rightarrow> time \<Rightarrow> wf_fold" where
  "make_fold srt c ver es rs segs n train_start train_end test_start test_end =
     (let report = (\<lambda>a b. let sel = filter_evaluations es ver a b
                     in build_version_report ver sel (join_samples srt sel rs segs (cc_as_of c)) segs (cc_minimum c));
          train = report train_start train_end; test = report test_start test_end
      in \<lparr>wf_number = n, wf_train_start = date_string train_start, wf_train_end = date_string train_end,
          wf_test_start = date_string test_start, wf_test_end = date_string test_end,
          wf_train = train, wf_test = test, wf_warnings = fold_warnings train test\<rparr>)"

text \<open>
  The walk-forward loop. An index below zero after the wrap-around of \<open>trainEnd\<close> or
  \<open>testEnd\<close> panics in Go; the guard on the number of folds bounds the recursion.
\<close>

function walk_forward ::
    "(int \<Rightarrow> time \<Rightarrow> time \<Rightarrow> time \<Rightarrow> time \<Rightarrow> 'w) \<Rightarrow> cal_config \<Rightarrow> time list \<Rightarrow> int \<Rightarrow> 'w list \<Rightarrow> 'w list res" where
  "walk_forward mk c dates train_end folds =
     (if train_end < int (length dates) \<and> int (length folds) < cc_max_folds c then
        let next_end = wrap64 (train_end + cc_test c);
            test_end = (if int (length dates) < next_end then int (length dates) else next_end)
        in if train_end < 1 \<or> test_end < 1 then Inl (Err ''panic: index out of range'')
           else
             let folds2 = folds @ [mk (int (length folds) + 1) (dates ! 0) (dates ! nat (train_end - 1))
                                      (dates ! nat train_end) (dates ! nat (test_end - 1))]
             in if test_end = int (length dates) then Inr folds2 else walk_forward mk c dates next_end folds2
      else Inr folds)"
  by pat_completeness auto
termination
  by (relation "measure (\<lambda>(mk, c, dates, train_end, folds). nat (cc_max_folds c - int (length folds)))") auto

declare walk_forward.simps [simp del]

definition build_walk_forward ::
    "(sample list \<Rightarrow> sample list) \<Rightarrow> cal_config \<Rightarrow> string \<Rightarrow> hyp_evaluation list \<Rightarrow> outcome list \<Rightarrow> (string \<times> segment) list \<Rightarrow> wf_fold list res" where
  "build_walk_forward srt c ver es rs segs =
     walk_forward (make_fold srt c ver es rs segs) c (distinct_dates es) (cc_train c) []"

definition version_warning :: "cal_config \<Rightarrow> string \<Rightarrow> version_report \<Rightarrow> string list" where
  "version_warning c ver r =
     (if mt_below_minimum (vr_overall r)
      then [''sample_size_below_minimum:'' @ ver @ '':'' @ itoa (mt_independent_samples (vr_overall r)) @ ''/'' @ itoa (cc_minimum c)]
      else [])"

definition compare_versions :: "string \<Rightarrow> version_report \<Rightarrow> string \<Rightarrow> version_report \<Rightarrow> comparison" where
  "compare_versions bver b cver c =
     (let base = vr_overall b; cand = vr_overall c in
      \<lparr>cp_baseline = bver, cp_candidate = cver,
       cp_trigger_rate_delta = delta (mt_trigger_rate cand) (mt_trigger_rate base),
       cp_hit_delta = delta (mt_directional_hit_rate cand) (mt_directional_hit_rate base),
       cp_return_delta = delta (mt_mean_return cand) (mt_mean_return base),
       cp_error_delta = delta (mt_calibration_error cand) (mt_calibration_error base),
       cp_advisory_only = True\<rparr>)"

definition version_report_of ::
    "(sample list \<Rightarrow> sample list) \<Rightarrow> cal_config \<Rightarrow> cal_input \<Rightarrow> (string \<times> segment) list \<Rightarrow> string \<Rightarrow> version_report" where
  "version_report_of srt c i segs ver =
     (let es = filter_evaluations (ci_evaluations i) ver (cc_window_start c) (cc_window_end c)
      in build_version_report ver es (join_samples srt es (ci_outcomes i) segs (cc_as_of c)) segs (cc_minimum c))"

definition cal_report_of ::
    "(sample list \<Rightarrow> sample list) \<Rightarrow> cal_config \<Rightarrow> cal_input \<Rightarrow> cal_report res" where
  "cal_report_of srt c i =
     (let segs = segment_evaluations (ci_evaluations i) (ci_observations i);
          reports = map (\<lambda>v. (v, version_report_of srt c i segs v)) (cc_versions c);
          warn = concat (map (\<lambda>(v, r). version_warning c v r) reports);
          r = \<lparr>rp_summary_version = ''marketops.hypothesis_calibration.v1'', rp_mode = cc_mode c,
               rp_hypothesis_key = cc_hypothesis_key c, rp_versions = cc_versions c, rp_outcome_version = cc_outcome_version c,
               rp_symbols = cc_symbols c, rp_window_start = date_string (cc_window_start c),
               rp_window_end = date_string (cc_window_end c), rp_as_of = date_string (cc_as_of c),
               rp_minimum = cc_minimum c, rp_reports = reports,
               rp_comparison = (if cc_mode c = mode_comparison
                  then Some (compare_versions (cc_versions c ! 0) (snd (reports ! 0)) (cc_versions c ! 1) (snd (reports ! 1))) else None),
               rp_walk_forward = [], rp_warnings = sort warn, rp_promotion_allowed = False\<rparr>
      in if cc_mode c \<noteq> mode_walk_forward then Inr r
         else
           let ver = cc_versions c ! 0 in
           bind_res (build_walk_forward srt c ver (filter_evaluations (ci_evaluations i) ver (cc_window_start c) (cc_window_end c))
                       (ci_outcomes i) segs) (\<lambda>folds.
             Inr (r\<lparr>rp_walk_forward := folds,
                    rp_warnings := sort (warn @ (if folds = [] then [''insufficient_sessions_for_walk_forward''] else []))\<rparr>)))"

definition cal_build :: "(sample list \<Rightarrow> sample list) \<Rightarrow> cal_config \<Rightarrow> cal_input \<Rightarrow> cal_report res" where
  "cal_build srt c0 i =
     (let c = cal_normalize c0 in
      bind_res (cal_validate c) (\<lambda>_.
        bind_res (check_evaluations c [] (ci_evaluations i)) (\<lambda>by_id.
          bind_res (check_outcomes c by_id (ci_outcomes i)) (\<lambda>_. cal_report_of srt c i))))"

end
