(* ===== verification/OutcomeProps.thy ===== *)
theory OutcomeProps imports Outcomes begin

text \<open>
  The properties of the outcome materialiser: business days, the price history it reads,
  what a matured outcome says, the accounting of a build, and the identity of outcomes.
\<close>

section \<open>Business days\<close>

text \<open>
  C12. \<open>addBusinessDays\<close> ends exactly \<open>n\<close> working days after the session, on a working day
  when \<open>n\<close> is positive.
\<close>

theorem add_business_days_counts:
  assumes "0 \<le> n"
  shows "\<exists>k. add_business_days t n = add_days (day t) (int k) \<and> working_days (day t) k = n
    \<and> (0 < n \<longrightarrow> \<not> weekend (add_business_days t n))"
  using business_days_from_props [OF assms, of "day t"] by (simp add: add_business_days_def)

theorem add_business_days_counts_witness: "\<not> weekend (add_business_days 0 (1 :: int))"
  using add_business_days_counts [of 1 0] by auto

section \<open>Price history\<close>

lemma set_update_subset: "set (AList.update k v m) \<subseteq> insert (k, v) (set m)"
  by (induction m) auto

definition history_ok :: "build_config \<Rightarrow> (string \<times> ledger_event) list \<Rightarrow> bool" where
  "history_ok c m \<longleftrightarrow> distinct (map fst m)
     \<and> (\<forall>(k, e) \<in> set m. k = fmt_date (day (n_observation_time e)) \<and> day (n_observation_time e) \<le> bc_as_of c)"

lemma history_ok_update:
  "history_ok c m \<Longrightarrow> equity_relevant c e \<Longrightarrow> history_ok c (AList.update (fmt_date (day (n_observation_time e))) e m)"
  using set_update_subset [of "fmt_date (day (n_observation_time e))" e m] distinct_update [of m]
  by (fastforce simp: history_ok_def equity_relevant_def)

lemma latest_events_ok: "latest_events c es m = Inr m' \<Longrightarrow> history_ok c m \<Longrightarrow> history_ok c m'"
proof (induction es arbitrary: m)
  case Nil
  then show ?case by simp
next
  case (Cons e es)
  then show ?case
    by (auto simp: Let_def split: if_splits option.splits intro: history_ok_update)
qed

lemma latest_events_filter:
  "latest_events c (filter (\<lambda>e. day (n_observation_time e) \<le> bc_as_of c) es) m = latest_events c es m"
  by (induction es arbitrary: m) (auto simp: equity_relevant_def Let_def split: option.split)

text \<open>
  The price history of a build has one point per session, in strictly increasing
  order, none after the as-of date; events of later sessions do not matter.
\<close>

theorem equity_history_point_in_time:
  assumes "equity_history c events = Inr prices"
  shows "sorted_wrt (<) (map pp_session prices) \<and> (\<forall>p \<in> set prices. pp_session p \<le> bc_as_of c)
    \<and> equity_history c (filter (\<lambda>e. day (n_observation_time e) \<le> bc_as_of c) events) = Inr prices"
proof -
  obtain m where m: "latest_events c events [] = Inr m"
    and p: "prices = sort_by (\<lambda>a b. pp_session a < pp_session b) (map (\<lambda>p. price_of_event (snd p)) m)"
    using assms by (auto simp: equity_history_def)
  have ok: "history_ok c m" using latest_events_ok [OF m] by (simp add: history_ok_def)
  have sess: "pp_session (price_of_event e) = day (n_observation_time e)" for e
    by (simp add: price_of_event_def Let_def)
  have "distinct (map (\<lambda>p. fmt_date (pp_session (price_of_event (snd p)))) m)"
  proof -
    have "map (\<lambda>p. fmt_date (pp_session (price_of_event (snd p)))) m = map fst m"
      using ok by (intro map_cong) (auto simp: history_ok_def sess)
    moreover have "distinct (map fst m)" using ok by (simp add: history_ok_def)
    ultimately show ?thesis by (simp only:)
  qed
  then have "distinct (map fmt_date (map pp_session (map (\<lambda>p. price_of_event (snd p)) m)))" by (simp add: comp_def)
  then have d: "distinct (map pp_session (map (\<lambda>p. price_of_event (snd p)) m))" by (rule distinct_map [THEN iffD1, THEN conjunct1])
  have "mset (map pp_session prices) = mset (map pp_session (map (\<lambda>p. price_of_event (snd p)) m))"
    unfolding p mset_map mset_sort_by ..
  then have "distinct (map pp_session prices)" using d mset_eq_imp_distinct_iff by blast
  moreover have "sorted (map pp_session prices)"
    unfolding p by (rule sorted_sort_by_key)
  ultimately have "sorted_wrt (<) (map pp_session prices)" by (simp add: strict_sorted_iff)
  moreover have "\<forall>p \<in> set prices. pp_session p \<le> bc_as_of c"
    unfolding p using ok by (auto simp: history_ok_def sess)
  ultimately show ?thesis using assms by (simp add: equity_history_def latest_events_filter)
qed

definition sample_config :: build_config where
  "sample_config = \<lparr>bc_tenant_id = ''t'', bc_symbol = ''AAPL'', bc_run_id = ''r'', bc_as_of = 0, bc_threshold = Fin (1/2),
     bc_bounded_cohort = False, bc_horizons = [1]\<rparr>"

theorem equity_history_point_in_time_witness: "equity_history sample_config [] = Inr [] \<and> sorted_wrt (<) (map pp_session [])"
  using equity_history_point_in_time [of sample_config "[]" "[]"] by (simp add: equity_history_def)

section \<open>A matured outcome\<close>

lemma price_gap_not_matured [simp]: "price_gap_status a b h \<noteq> st_matured" "st_missing \<noteq> st_matured" "st_pending \<noteq> st_matured"
    "st_missing \<noteq> st_pending"
  by (simp_all add: price_gap_status_def status_defs)

lemma build_outcome_Inr:
  assumes "build_outcome c s prices h = Inr r"
  obtains i where "new_identity ''outcome'' [so_tenant_id s, so_type s, so_id s, itoa h, calculation_version] = Inr i"
    "o_deterministic_key r = id_key i" "o_outcome_id r = id_ID i" "o_tenant_id r = so_tenant_id s" "o_source_type r = so_type s"
    "o_source_id r = so_id s" "o_horizon_sessions r = h" "o_origin_session_date r = so_origin s"
    "o_outcome_status r \<in> {st_matured, st_pending, st_missing}"
proof -
  obtain i where i: "new_identity ''outcome'' [so_tenant_id s, so_type s, so_id s, itoa h, calculation_version] = Inr i"
    using assms by (auto simp: build_outcome_def)
  have m: "o_deterministic_key (matured_outcome c s prices k h p w q) = o_deterministic_key q"
      "o_outcome_id (matured_outcome c s prices k h p w q) = o_outcome_id q"
      "o_tenant_id (matured_outcome c s prices k h p w q) = o_tenant_id q"
      "o_source_type (matured_outcome c s prices k h p w q) = o_source_type q"
      "o_source_id (matured_outcome c s prices k h p w q) = o_source_id q"
      "o_horizon_sessions (matured_outcome c s prices k h p w q) = o_horizon_sessions q"
      "o_origin_session_date (matured_outcome c s prices k h p w q) = o_origin_session_date q"
      "o_outcome_status (matured_outcome c s prices k h p w q) = st_matured" for k p w q
    by (simp_all add: matured_outcome_def Let_def case_prod_beta)
  define P where "P q \<longleftrightarrow> o_deterministic_key q = id_key i \<and> o_outcome_id q = id_ID i \<and> o_tenant_id q = so_tenant_id s
      \<and> o_source_type q = so_type s \<and> o_source_id q = so_id s \<and> o_horizon_sessions q = h \<and> o_origin_session_date q = so_origin s
      \<and> o_outcome_status q \<in> {st_matured, st_pending, st_missing}" for q :: outcome
  have gap: "price_gap_status a b n = st_missing \<or> price_gap_status a b n = st_pending" for a b n
    by (simp add: price_gap_status_def)
  have plain: "P ((blank_outcome c s h i)\<lparr>o_outcome_status := x, o_payload := y\<rparr>)"
      "P ((blank_outcome c s h i)\<lparr>o_origin_event_id := e, o_outcome_status := x, o_payload := y\<rparr>)"
    if "x = st_missing \<or> x = st_pending" for x y e
    using that by (auto simp: P_def blank_outcome_def)
  have mat: "P (matured_outcome c s prices k h p w ((blank_outcome c s h i)\<lparr>o_origin_event_id := e\<rparr>))" for k p w e
    by (simp add: P_def m blank_outcome_def)
  have "P r"
  proof (cases "index_of (\<lambda>p. pp_session p = so_origin s) prices")
    case None
    then show ?thesis using assms i plain(1) [OF gap] by (auto simp: build_outcome_def Let_def)
  next
    case (Some k)
    then show ?thesis using assms i plain(1) [OF gap] plain(2) [OF gap] plain(2) [of st_missing] mat
      by (auto simp: build_outcome_def Let_def split: if_splits)
  qed
  then show thesis using that [OF i] unfolding P_def by blast
qed

lemma threshold_outcome_first:
  assumes "threshold_outcome d b w t = (hit, days)"
  shows "hit \<longleftrightarrow> (\<exists>p \<in> set w. crosses d b t p)"
    and "days = Some n \<Longrightarrow> \<exists>j < length w. n = int j + 1 \<and> crosses d b t (w ! j) \<and> (\<forall>k < j. \<not> crosses d b t (w ! k))"
proof -
  have "(hit \<longleftrightarrow> (\<exists>p \<in> set w. crosses d b t p)) \<and> (days = Some n \<longrightarrow>
      (\<exists>j < length w. n = int j + 1 \<and> crosses d b t (w ! j) \<and> (\<forall>k < j. \<not> crosses d b t (w ! k))))"
  proof (cases "index_of (crosses d b t) w")
    case None
    then have "\<not> hit" "days = None" using assms by (simp_all add: threshold_outcome_def)
    then show ?thesis using None by (simp add: index_of_None)
  next
    case (Some i)
    note f = index_of_Some [OF Some]
    have "hit" "days = Some (int i + 1)" using assms Some by (simp_all add: threshold_outcome_def)
    then show ?thesis using f nth_mem by blast
  qed
  then show "hit \<longleftrightarrow> (\<exists>p \<in> set w. crosses d b t p)"
    and "days = Some n \<Longrightarrow> \<exists>j < length w. n = int j + 1 \<and> crosses d b t (w ! j) \<and> (\<forall>k < j. \<not> crosses d b t (w ! k))"
    by blast+
qed

lemma build_outcome_matured:
  assumes "build_outcome c s prices h = Inr r" "o_outcome_status r = st_matured"
  obtains i k where "index_of (\<lambda>p. pp_session p = so_origin s) prices = Some k" "pp_valid (prices ! k)"
    "\<not> int (length prices) \<le> int k + h" "list_all pp_valid (take (nat h) (drop (Suc k) prices))"
    "r = matured_outcome c s prices k h (prices ! k) (take (nat h) (drop (Suc k) prices))
           ((blank_outcome c s h i)\<lparr>o_origin_event_id := pp_event_id (prices ! k)\<rparr>)"
proof -
  obtain i where i: "new_identity ''outcome'' [so_tenant_id s, so_type s, so_id s, itoa h, calculation_version] = Inr i"
    using assms(1) by (auto simp: build_outcome_def)
  show thesis
  proof (cases "index_of (\<lambda>p. pp_session p = so_origin s) prices")
    case None
    then show thesis using assms i by (auto simp: build_outcome_def Let_def)
  next
    case (Some k)
    have gap: "price_gap_status a b n \<noteq> st_matured" for a b n by simp
    have v: "pp_valid (prices ! k)"
      by (rule ccontr) (use assms i Some gap in \<open>auto simp: build_outcome_def Let_def\<close>)
    moreover have l: "\<not> int (length prices) \<le> int k + h"
      by (rule notI) (use assms i Some v gap in \<open>auto simp: build_outcome_def Let_def\<close>)
    moreover have w: "list_all pp_valid (take (nat h) (drop (Suc k) prices))"
      by (rule ccontr) (use assms i Some v l in \<open>auto simp: build_outcome_def Let_def\<close>)
    ultimately show thesis using assms(1) i Some by (intro that [OF Some, of i]) (simp_all add: build_outcome_def Let_def)
  qed
qed


definition sample_source :: source where
  "sample_source = \<lparr>so_type = ''opportunity'', so_id = ''o1'', so_tenant_id = ''t'', so_app_id = ''marketops'', so_hypothesis_key = [],
     so_hypothesis_version = [], so_asset_id = ''a'', so_symbol = ''AAPL'', so_direction = ''upside'', so_origin = 0\<rparr>"

definition sample_point :: "time \<Rightarrow> f64 \<Rightarrow> price_point" where
  "sample_point t x = \<lparr>pp_session = t, pp_event_id = ''e'', pp_open = x, pp_high = x, pp_low = x, pp_close = x, pp_valid = True\<rparr>"

lemma sample_identity:
  "\<exists>i. new_identity ''outcome'' [so_tenant_id sample_source, so_type sample_source, so_id sample_source, itoa 1, calculation_version] = Inr i"
proof -
  have "is_ok (new_identity ''outcome'' [so_tenant_id sample_source, so_type sample_source, so_id sample_source, itoa 1, calculation_version])"
    by (rule new_identity_ok [of _ "''moutcome_''"])
      (simp_all add: identity_prefix_def sample_source_def calculation_version_def itoa_def int_digits.simps trim_visible visible_def code_of_def)
  then show ?thesis by (cases "new_identity ''outcome'' [so_tenant_id sample_source, so_type sample_source, so_id sample_source, itoa 1, calculation_version]") auto
qed


section \<open>Accounting\<close>

definition with_status :: "string \<Rightarrow> outcome list \<Rightarrow> int" where
  "with_status st os = int (length (filter (\<lambda>r. o_outcome_status r = st) os))"

lemma build_all_outcomes:
  assumes "build_all c prices ps r = Inr r'"
  shows "\<exists>os. list_all2 (\<lambda>(s, h) o1. build_outcome c s prices h = Inr o1) ps os
    \<and> br_outcomes r' = br_outcomes r @ os \<and> br_sources r' = br_sources r
    \<and> br_matured r' = br_matured r + with_status st_matured os \<and> br_pending r' = br_pending r + with_status st_pending os
    \<and> br_missing_price r' = br_missing_price r + with_status st_missing os"
  using assms
proof (induction c prices ps r rule: build_all.induct)
  case (1 c prices r)
  then show ?case by (simp add: with_status_def)
next
  case (2 c prices s h rest r)
  then obtain o1 where o1: "build_outcome c s prices h = Inr o1" "build_all c prices rest (count_status o1 r) = Inr r'" by auto
  obtain os where os: "list_all2 (\<lambda>(s, h) o1. build_outcome c s prices h = Inr o1) rest os"
      "br_outcomes r' = br_outcomes (count_status o1 r) @ os" "br_sources r' = br_sources (count_status o1 r)"
      "br_matured r' = br_matured (count_status o1 r) + with_status st_matured os"
      "br_pending r' = br_pending (count_status o1 r) + with_status st_pending os"
      "br_missing_price r' = br_missing_price (count_status o1 r) + with_status st_missing os"
    using 2(1) [OF o1(2)] by blast
  show ?case using os o1(1)
    by (intro exI [of _ "o1 # os"]) (auto simp: count_status_def with_status_def status_defs Let_def)
qed

lemma collect_distinct:
  "distinct (map (\<lambda>s. (so_type s, so_id s)) out) \<Longrightarrow> collect vs out sk = (out', sk') \<Longrightarrow>
   distinct (map (\<lambda>s. (so_type s, so_id s)) out')"
proof (induction vs out sk rule: collect.induct)
  case (4 s vs out sk)
  have "distinct (map (\<lambda>s. (so_type s, so_id s)) (if \<exists>t \<in> set out. so_type t = so_type s \<and> so_id t = so_id s then out else out @ [s]))"
    using 4(2) by (simp add: image_iff) metis
  then show ?case using 4(1,3) by simp
qed simp_all

lemma check_horizons_distinct: "check_horizons seen hs = Inr () \<Longrightarrow>
    distinct hs \<and> set hs \<inter> set seen = {} \<and> set hs \<subseteq> {1, 5, 10, 20}"
  by (induction seen hs rule: check_horizons.induct) (auto split: if_splits)

lemma map_product: "map (\<lambda>(s, h). (f s, h)) (List.product ss hs) = List.product (map f ss) hs"
  by (induction ss) auto

lemma statuses_partition:
  assumes "\<forall>r \<in> set os. o_outcome_status r \<in> {st_matured, st_pending, st_missing}"
  shows "with_status st_matured os + with_status st_pending os + with_status st_missing os = int (length os)"
  using assms by (induction os) (auto simp: with_status_def status_defs)

text \<open>
  A build yields one outcome for each source and horizon, no two of them for the same
  source and horizon, and its counters add up: every outcome is matured, pending or missing
  a price.
\<close>

theorem build_accounts_for_all:
  assumes "build c i = Inr r"
  shows "int (length (br_outcomes r)) = br_sources r * int (length (bc_horizons (defaults c)))
    \<and> br_matured r + br_pending r + br_missing_price r = int (length (br_outcomes r))
    \<and> distinct (map (\<lambda>o1. (o_source_type o1, o_source_id o1, o_horizon_sessions o1)) (br_outcomes r))
    \<and> br_matured r = with_status st_matured (br_outcomes r)"
proof -
  let ?c = "defaults c"
  obtain ss sk where ss: "outcome_sources ?c i = (ss, sk)" by fastforce
  let ?r0 = "\<lparr>br_outcomes = [], br_sources = int (length ss), br_matured = 0, br_pending = 0, br_missing_price = 0, br_skipped = sk\<rparr>"
  obtain prices r1 where b: "validate_config ?c = Inr ()" "build_all ?c prices (List.product ss (bc_horizons ?c)) ?r0 = Inr r1"
      "r = r1\<lparr>br_outcomes := sort_by outcome_before (br_outcomes r1)\<rparr>"
    using assms ss by (auto simp: build_def Let_def)
  obtain os where os: "list_all2 (\<lambda>(s, h) o1. build_outcome ?c s prices h = Inr o1) (List.product ss (bc_horizons ?c)) os"
      "br_outcomes r1 = os" "br_sources r1 = int (length ss)" "br_matured r1 = with_status st_matured os"
      "br_pending r1 = with_status st_pending os" "br_missing_price r1 = with_status st_missing os"
    using build_all_outcomes [OF b(2)] by auto
  let ?key = "\<lambda>o1. ((o_source_type o1, o_source_id o1), o_horizon_sessions o1)"
  have st: "\<forall>o1 \<in> set os. o_outcome_status o1 \<in> {st_matured, st_pending, st_missing}"
    using os(1) by (auto simp: list_all2_conv_all_nth in_set_conv_nth case_prod_beta elim!: build_outcome_Inr)
  have "map ?key os = map (\<lambda>(s, h). ((so_type s, so_id s), h)) (List.product ss (bc_horizons ?c))"
    using os(1) by (induction rule: list_all2_induct) (auto elim!: build_outcome_Inr)
  also have "\<dots> = List.product (map (\<lambda>s. (so_type s, so_id s)) ss) (bc_horizons ?c)" by (rule map_product)
  finally have keys: "map ?key os = List.product (map (\<lambda>s. (so_type s, so_id s)) ss) (bc_horizons ?c)" .
  obtain out where out: "collect (map (evaluation_verdict ?c) (bi_evaluations i) @ map (opportunity_verdict ?c) (bi_opportunities i)) [] [] = (out, sk)"
      "ss = sort_by source_before out"
    using ss by (auto simp: outcome_sources_def split: prod.splits)
  have "mset (map (\<lambda>s. (so_type s, so_id s)) ss) = mset (map (\<lambda>s. (so_type s, so_id s)) out)"
    unfolding out(2) mset_map mset_sort_by ..
  then have "distinct (map (\<lambda>s. (so_type s, so_id s)) ss)"
    using collect_distinct [OF _ out(1)] mset_eq_imp_distinct_iff by fastforce
  moreover have "distinct (bc_horizons ?c)"
    using b(1) check_horizons_distinct by (auto simp: validate_config_def split: if_splits)
  ultimately have "distinct (map ?key os)" unfolding keys by (rule distinct_product)
  moreover have "mset (map ?key (br_outcomes r)) = mset (map ?key os)" unfolding b(3) using os(2) by simp
  ultimately have d: "distinct (map ?key (br_outcomes r))" using mset_eq_imp_distinct_iff by blast
  have "distinct (map (\<lambda>o1. (o_source_type o1, o_source_id o1, o_horizon_sessions o1)) (br_outcomes r))"
    using d by (simp add: distinct_map inj_on_def)
  moreover have "length (br_outcomes r) = length (List.product ss (bc_horizons ?c))"
    using list_all2_lengthD [OF os(1)] os(2) b(3) by simp
  moreover have "with_status st_matured (br_outcomes r) = with_status st_matured os"
    unfolding with_status_def b(3) using os(2) by (simp flip: size_mset)
  ultimately show ?thesis using os b(3) statuses_partition [OF st] by simp
qed

definition sample_input :: build_input where
  "sample_input = \<lparr>bi_evaluations = [], bi_opportunities = [], bi_equity_events = []\<rparr>"

lemma sample_builds: "is_ok (build sample_config sample_input)"
  by code_simp

theorem build_accounts_for_all_witness:
  "\<exists>r. build sample_config sample_input = Inr r \<and> br_matured r = with_status st_matured (br_outcomes r)"
  using sample_builds build_accounts_for_all [of sample_config sample_input]
  by (cases "build sample_config sample_input") auto

section \<open>Drawdown\<close>

definition positive :: "f64 \<Rightarrow> bool" where
  "positive x \<longleftrightarrow> is_fin x \<and> 0 < fval x"

lemma move_between:
  assumes "positive x" "positive peak" "fval x \<le> fval peak"
  shows "between (- 1) 0 (move x peak)"
proof -
  have "between 0 (fval peak) x" using assms by (simp add: between_iff positive_def)
  then have "between 0 1 (fdiv x peak)"
    using assms(2) fdiv_between [of "fval peak" x peak 1] by (simp add: positive_def)
  then have "between (0 - 1) (1 - 1) (fsub (fdiv x peak) (Fin 1))"
    by (rule fsub_between) simp_all
  then show ?thesis by (simp add: move_def)
qed

lemma fmin_between: "between a b x \<Longrightarrow> between a b y \<Longrightarrow> between a b (fmin x y) \<and> fle (fmin x y) x \<and> fle (fmin x y) y"
  using fmin_cases [of x y] fmin_le [of x y] by (cases "x = NaN"; cases "y = NaN") auto

lemma drawdown_from_between:
  assumes "\<forall>p \<in> set ps. positive (pp_close p)" "positive peak" "between (- 1) 0 dd"
  shows "between (- 1) 0 (drawdown_from peak dd ps) \<and> fle (drawdown_from peak dd ps) dd"
  using assms
proof (induction peak dd ps rule: drawdown_from.induct)
  case (1 peak dd)
  then have "dd \<noteq> NaN" by auto
  then show ?case using 1 by simp
next
  case (2 peak dd p ps)
  let ?peak = "if flt peak (pp_close p) then pp_close p else peak"
  have c: "positive (pp_close p)" using 2(2) by simp
  have pk: "positive ?peak" "fval (pp_close p) \<le> fval ?peak"
    using c 2(3) fle_iff_fin [of "pp_close p" peak] not_flt [of peak "pp_close p"]
    by (cases "peak = NaN"; cases "pp_close p = NaN"; auto simp: positive_def)+
  have m: "between (- 1) 0 (fmin dd (move (pp_close p) ?peak)) \<and> fle (fmin dd (move (pp_close p) ?peak)) dd"
    using fmin_between [OF 2(4) move_between [OF c pk]] by blast
  have ps: "\<forall>q \<in> set ps. positive (pp_close q)" using 2(2) by simp
  have "between (- 1) 0 (drawdown_from ?peak (fmin dd (move (pp_close p) ?peak)) ps)
      \<and> fle (drawdown_from ?peak (fmin dd (move (pp_close p) ?peak)) ps) (fmin dd (move (pp_close p) ?peak))"
    using 2(1) [OF refl ps pk(1)] m by blast
  then show ?case using m fle_trans by (auto simp: Let_def)
qed

text \<open>
  With positive closes the maximum drawdown lies between minus one and zero, in exact
  \<open>float64\<close> arithmetic.
\<close>

theorem maximum_drawdown_bounds:
  assumes "positive (pp_close p)" "\<forall>q \<in> set ps. positive (pp_close q)"
  shows "between (- 1) 0 (maximum_drawdown p ps)"
  using drawdown_from_between [OF assms(2,1), of "Fin 0"] by (simp add: maximum_drawdown_def)

theorem maximum_drawdown_bounds_witness:
  "between (- 1) 0 (maximum_drawdown (sample_point 0 (Fin 2)) [sample_point 5 (Fin 3)])"
  by (rule maximum_drawdown_bounds) (simp_all add: sample_point_def positive_def)

section \<open>Identity\<close>

lemma itoa_inj: "itoa m = itoa n \<Longrightarrow> 0 \<le> m \<Longrightarrow> 0 \<le> n \<Longrightarrow> m = n"
  by (simp add: itoa_def int_digits_inj)

lemma itoa_trim: "0 \<le> n \<Longrightarrow> trim_space (itoa n) = itoa n"
proof -
  assume n: "0 \<le> n"
  have "int_digits k \<noteq> [] \<and> visible (hd (int_digits k)) \<and> visible (last (int_digits k))" if "0 \<le> k" for k
    using that
  proof (induction k rule: int_digits.induct)
    case (1 k)
    have "visible (char_of (48 + j))" if "0 \<le> j" "j < 10" for j :: int
      using that by (simp add: visible_def code_of_char_of)
    then show ?case using 1 by (subst (1 2 3) int_digits.simps) auto
  qed
  then show ?thesis using n by (auto simp: itoa_def intro: trim_visible)
qed

definition outcome_frame :: "source \<Rightarrow> int \<Rightarrow> string" where
  "outcome_frame s h =
     len_frame (''outcome'' # map trim_space [so_tenant_id s, so_type s, so_id s, itoa h, calculation_version])"

text \<open>
  C14. Two outcomes with the same deterministic key are for the same tenant, source and
  horizon, up to white space around the components, unless the digests of exactly their two
  framed texts collide.
\<close>

theorem outcome_key_unique:
  assumes "build_outcome c s prices h = Inr r" "build_outcome c' s' prices' h' = Inr r'"
    and "o_deterministic_key r = o_deterministic_key r'" "0 \<le> h" "0 \<le> h'"
    and "list_all (\<lambda>p. length (trim_space p) < 2 ^ 64) [so_tenant_id s, so_type s, so_id s, itoa h, so_tenant_id s', so_type s', so_id s', itoa h']"
  shows "(trim_space (so_tenant_id s) = trim_space (so_tenant_id s') \<and> trim_space (so_type s) = trim_space (so_type s')
      \<and> trim_space (so_id s) = trim_space (so_id s') \<and> h = h')
    \<or> (outcome_frame s h \<noteq> outcome_frame s' h' \<and> sha256 (outcome_frame s h) = sha256 (outcome_frame s' h'))"
proof -
  let ?cs = "\<lambda>s h. [so_tenant_id s, so_type s, so_id s, itoa h, calculation_version]"
  let ?ps = "\<lambda>s h. ''outcome'' # map trim_space (?cs s h)"
  obtain i where i: "new_identity ''outcome'' (?cs s h) = Inr i" "o_deterministic_key r = id_key i"
    by (rule build_outcome_Inr [OF assms(1)])
  obtain j where j: "new_identity ''outcome'' (?cs s' h') = Inr j" "o_deterministic_key r' = id_key j"
    by (rule build_outcome_Inr [OF assms(2)])
  have "id_key i = ''marketops.'' @ ''outcome'' @ ''.v1:'' @ hex_encode (sha256 (len_frame (?ps s h)))"
    by (rule new_identity_Inr [OF i(1)])
  moreover have "id_key j = ''marketops.'' @ ''outcome'' @ ''.v1:'' @ hex_encode (sha256 (len_frame (?ps s' h')))"
    by (rule new_identity_Inr [OF j(1)])
  ultimately have "hex_encode (sha256 (len_frame (?ps s h))) = hex_encode (sha256 (len_frame (?ps s' h')))"
    using i(2) j(2) assms(3) by (simp only: append_Cons append_Nil list.inject same_append_eq)
  then have e: "sha256 (len_frame (?ps s h)) = sha256 (len_frame (?ps s' h'))" by (rule hex_encode_inj)
  show ?thesis
  proof (cases "len_frame (?ps s h) = len_frame (?ps s' h')")
    case False
    then show ?thesis using e unfolding outcome_frame_def by blast
  next
    case True
    have "length (trim_space calculation_version) < 2 ^ 64"
      by (simp add: calculation_version_def trim_visible visible_def code_of_def)
    then have "?ps s h = ?ps s' h'" using True assms(6) by (intro len_id.frame_inj) simp_all
    then show ?thesis using itoa_inj assms(4,5) by (simp add: itoa_trim)
  qed
qed

theorem outcome_key_unique_witness:
  "\<exists>r. build_outcome sample_config sample_source [] 1 = Inr r \<and> trim_space (so_id sample_source) = trim_space (so_id sample_source)"
proof -
  obtain i where i: "new_identity ''outcome'' [so_tenant_id sample_source, so_type sample_source, so_id sample_source, itoa 1, calculation_version] = Inr i"
    using sample_identity by blast
  then obtain r where r: "build_outcome sample_config sample_source [] 1 = Inr r" by (auto simp: build_outcome_def Let_def)
  have "list_all (\<lambda>p. length (trim_space p) < 2 ^ 64) [so_tenant_id sample_source, so_type sample_source, so_id sample_source, itoa 1,
      so_tenant_id sample_source, so_type sample_source, so_id sample_source, itoa 1]"
    by (simp add: sample_source_def itoa_def int_digits.simps trim_visible visible_def code_of_def)
  then show ?thesis using outcome_key_unique [OF r r] r by auto
qed

end
