(* ===== verification/CalibrationProps.thy ===== *)
theory CalibrationProps imports Calibration OutcomeProps begin

text \<open>
  The properties of the calibration report: the isolation of its inputs, the samples it
  joins, the ranges of its rates, the groups of its breakdowns, the walk-forward folds in
  closed form, and what the unstable sort of the samples cannot change.
\<close>

section \<open>The sort of the samples\<close>

text \<open>What \<open>sort.Slice\<close> promises of its result, ties left open.\<close>

locale sample_order =
  fixes srt :: "sample list \<Rightarrow> sample list"
  assumes perm: "mset (srt ss) = mset ss"
    and ordered: "sorted_wrt (\<lambda>a b. \<not> sample_before b a) (srt ss)"
begin

lemma set_srt [simp]: "set (srt ss) = set ss"
  by (metis perm set_mset_mset)

lemma mset_join: "mset (join_samples srt es rs segs t) = mset (collect_samples es segs t [] rs)"
  by (simp add: join_samples_def perm)

lemma set_join: "set (join_samples srt es rs segs t) = set (collect_samples es segs t [] rs)"
  by (simp add: join_samples_def)

lemma distinct_join: "distinct (map f (join_samples srt es rs segs t)) = distinct (map f (collect_samples es segs t [] rs))"
  by (metis mset_join mset_map mset_eq_imp_distinct_iff)

end

interpretation stable_order: sample_order "sort_by sample_before"
proof (unfold_locales)
  fix ss
  show "sorted_wrt (\<lambda>a b. \<not> sample_before b a) (sort_by sample_before ss)"
    by (rule sorted_wrt_sort_by) (auto simp: sample_before_def split: if_splits)
qed simp

section \<open>Isolation\<close>

definition isolated :: "cal_config \<Rightarrow> hyp_evaluation \<Rightarrow> bool" where
  "isolated c e \<longleftrightarrow> he_tenant_id e = cc_tenant_id c \<and> he_hypothesis_key e = cc_hypothesis_key c
     \<and> he_hypothesis_version e \<in> set (cc_versions c) \<and> in_window (he_session_date e) (cc_window_start c) (cc_window_end c)
     \<and> day (he_as_of_time e) \<le> cc_as_of c"

lemma check_evaluations_Inr:
  assumes "check_evaluations c seen es = Inr all" "distinct (map he_evaluation_id seen)"
  shows "all = seen @ es \<and> distinct (map he_evaluation_id all) \<and> (\<forall>e \<in> set es. isolated c e)"
  using assms
proof (induction es arbitrary: seen)
  case Nil
  then show ?case by simp
next
  case (Cons e es)
  have a: "check_evaluations c (seen @ [e]) es = Inr all" "isolated c e" "he_evaluation_id e \<notin> he_evaluation_id ` set seen"
    using Cons.prems(1) by (auto simp: isolated_def not_less split: if_splits)
  then have d: "distinct (map he_evaluation_id (seen @ [e]))" using Cons.prems(2) by auto
  note h = Cons.IH [OF a(1) d]
  show ?case
  proof (intro conjI)
    show "all = seen @ e # es" using h by simp
    show "distinct (map he_evaluation_id all)" using h by blast
    show "\<forall>x \<in> set (e # es). isolated c x" using h a(2) by simp
  qed
qed

lemma check_outcomes_Inr: "check_outcomes c es rs = Inr () \<Longrightarrow> r \<in> set rs \<Longrightarrow>
    o_calculation_version r = cc_outcome_version c
    \<and> (\<exists>e \<in> set es. he_evaluation_id e = o_source_id r \<and> he_hypothesis_version e = o_hypothesis_version r)"
proof (induction rs)
  case Nil
  then show ?case by simp
next
  case (Cons q rs)
  have "evaluation_by_id es i = Some e \<Longrightarrow> e \<in> set es \<and> he_evaluation_id e = i" for i e
    unfolding evaluation_by_id_def by (drule first_match_Some) simp
  then show ?case using Cons by (auto split: if_splits option.splits)
qed

lemma report_fields:
  assumes "cal_report_of srt c i = Inr r"
  shows "map fst (rp_reports r) = cc_versions c \<and> (rp_comparison r \<noteq> None \<longleftrightarrow> cc_mode c = mode_comparison)
    \<and> (\<forall>k. rp_comparison r = Some k \<longrightarrow> cp_advisory_only k) \<and> \<not> rp_promotion_allowed r"
  using assms by (auto simp: cal_report_of_def Let_def comp_def compare_versions_def split: if_splits)


section \<open>Samples\<close>

lemma evaluation_by_id_Some: "evaluation_by_id es i = Some e \<Longrightarrow> e \<in> set es \<and> he_evaluation_id e = i"
  unfolding evaluation_by_id_def by (drule first_match_Some) simp

lemma collect_samples_sound: "s \<in> set (collect_samples es segs t seen rs) \<Longrightarrow>
    sm_outcome s \<in> set rs \<and> sm_evaluation s \<in> set es \<and> he_evaluation_id (sm_evaluation s) = o_source_id (sm_outcome s)
    \<and> sample_ready t (sm_evaluation s) (sm_outcome s)"
  by (induction rs arbitrary: seen) (auto split: option.splits if_splits dest: evaluation_by_id_Some)

lemma collect_samples_distinct:
  "distinct (map (\<lambda>s. sample_key (sm_outcome s)) (collect_samples es segs t seen rs))
   \<and> (\<forall>s \<in> set (collect_samples es segs t seen rs). sample_key (sm_outcome s) \<notin> set seen)"
proof (induction rs arbitrary: seen)
  case Nil
  then show ?case by simp
next
  case (Cons r rs)
  show ?case using Cons.IH [of seen] Cons.IH [of "sample_key r # seen"] by (auto split: option.splits)
qed

lemma collect_samples_complete:
  assumes "r \<in> set rs" "evaluation_by_id es (o_source_id r) = Some e" "sample_ready t e r"
  shows "sample_key r \<in> set seen \<union> (\<lambda>s. sample_key (sm_outcome s)) ` set (collect_samples es segs t seen rs)"
  using assms
proof (induction rs arbitrary: seen)
  case Nil
  then show ?case by simp
next
  case (Cons q rs)
  show ?case
  proof (cases "r = q")
    case True
    then show ?thesis using Cons.prems by auto
  next
    case False
    then show ?thesis using Cons.IH [of seen] Cons.IH [of "sample_key q # seen"] Cons.prems by (auto split: option.splits)
  qed
qed

text \<open>
  C17. The samples of a report look at nothing later than the as-of date: each joins an
  eligible, triggered and not invalidated evaluation with an outcome of it that matured by
  then. There is at most one per evaluation and horizon, and one for every matured outcome
  of such an evaluation; they come in the order of their sessions and horizons.
\<close>

theorem joined_samples:
  fixes es rs segs t
  assumes "sample_order srt"
  defines "ss \<equiv> join_samples srt es rs segs t"
  shows "(\<forall>s \<in> set ss. sm_outcome s \<in> set rs \<and> sm_evaluation s \<in> set es \<and> he_evaluation_id (sm_evaluation s) = o_source_id (sm_outcome s)
         \<and> o_outcome_status (sm_outcome s) = st_matured
         \<and> (\<exists>m. o_matured_session_date (sm_outcome s) = Some m \<and> day m \<le> day t) \<and> trigger_state (sm_evaluation s))
    \<and> distinct (map (\<lambda>s. (o_source_id (sm_outcome s), o_horizon_sessions (sm_outcome s))) ss)
    \<and> (\<forall>r \<in> set rs. \<forall>e. evaluation_by_id es (o_source_id r) = Some e \<and> sample_ready t e r \<longrightarrow>
         (\<exists>s \<in> set ss. sample_key (sm_outcome s) = sample_key r))
    \<and> sorted_wrt (\<lambda>a b. \<not> sample_before b a) ss"
proof -
  note o = sample_order.set_join [OF assms(1)] sample_order.distinct_join [OF assms(1)]
  have "distinct (map (\<lambda>s. sample_key (sm_outcome s)) (collect_samples es segs t [] rs))"
    using collect_samples_distinct by blast
  then have "distinct (map (\<lambda>(a, h). a @ [CHR 0x00] @ itoa h)
      (map (\<lambda>s. (o_source_id (sm_outcome s), o_horizon_sessions (sm_outcome s))) (collect_samples es segs t [] rs)))"
    by (simp add: sample_key_def comp_def)
  then have d: "distinct (map (\<lambda>s. (o_source_id (sm_outcome s), o_horizon_sessions (sm_outcome s))) ss)"
    unfolding ss_def o(2) by (subst (asm) distinct_map) blast
  have s: "\<forall>s \<in> set ss. sm_outcome s \<in> set rs \<and> sm_evaluation s \<in> set es \<and> he_evaluation_id (sm_evaluation s) = o_source_id (sm_outcome s)
      \<and> sample_ready t (sm_evaluation s) (sm_outcome s)"
    unfolding ss_def o(1) using collect_samples_sound by blast
  have c: "\<forall>r \<in> set rs. \<forall>e. evaluation_by_id es (o_source_id r) = Some e \<and> sample_ready t e r \<longrightarrow>
      (\<exists>s \<in> set ss. sample_key (sm_outcome s) = sample_key r)"
    unfolding ss_def o(1) using collect_samples_complete [of _ rs es _ t "[]"] by fastforce
  have w: "sorted_wrt (\<lambda>a b. \<not> sample_before b a) ss"
    unfolding ss_def join_samples_def by (rule sample_order.ordered [OF assms(1)])
  have "\<exists>m. o_matured_session_date (sm_outcome s) = Some m \<and> day m \<le> day t" if "sample_ready t (sm_evaluation s) (sm_outcome s)" for s
    using that by (auto simp: sample_ready_def split: option.splits)
  then show ?thesis using s d c w by (auto simp: sample_ready_def trigger_state_def)
qed

section \<open>Rates\<close>

text \<open>The quotient of two counts, the smaller one above, lies between zero and one.\<close>

definition rate :: "f64 option \<Rightarrow> bool" where
  "rate x \<longleftrightarrow> (\<forall>v. x = Some v \<longrightarrow> between 0 1 v)"

lemma ratio_of_rate:
  assumes "0 \<le> k" "k \<le> n" "n \<le> 2 ^ 53"
  shows "rate (ratio_of k n) \<and> (ratio_of k n = None \<longleftrightarrow> n = 0)"
proof (cases "0 < n")
  case False
  then show ?thesis using assms by (simp add: ratio_of_def rate_def)
next
  case True
  have i: "f_of_int m = Fin (of_int m)" if "0 \<le> m" "m \<le> n" for m
    using that assms(3) by (simp add: f_of_int_def rnd_rep rep_int)
  have "between 0 1 (fdiv (f_of_int k) (f_of_int n))"
    by (rule fdiv_between [of "of_int n"]) (use assms True i in simp_all)
  then show ?thesis using True by (auto simp: ratio_of_def rate_def float_pointer_def between_iff)
qed

lemma count_if_bounds: "0 \<le> count_if P xs" "count_if P xs \<le> int (length xs)"
  by (simp_all add: count_if_def)

lemma count_if_mono: "(\<And>x. P x \<Longrightarrow> Q x) \<Longrightarrow> count_if P xs \<le> count_if Q xs"
  unfolding count_if_def by (induction xs) auto

lemma length_present: "length (present f xs) \<le> length xs"
  unfolding present_def List.map_filter_def by simp

text \<open>
  The trigger rate, the directional hit rate, the drawdown incidence and the hit rate of
  every confidence band are proper rates in exact \<open>float64\<close> arithmetic, for any input of up
  to \<open>2^53\<close> evaluations and samples. The trigger rate is absent exactly when no state was
  eligible, the hit rate exactly when no hit is known.
\<close>

theorem metric_rates:
  fixes minimum
  assumes "int (length es) \<le> 2 ^ 53" "int (length ss) \<le> 2 ^ 53"
  defines "m \<equiv> metric_set es ss minimum"
  shows "rate (mt_trigger_rate m) \<and> (mt_trigger_rate m = None \<longleftrightarrow> mt_eligible_states m = 0)
    \<and> rate (mt_directional_hit_rate m) \<and> (mt_directional_hit_rate m = None \<longleftrightarrow> (\<forall>s \<in> set ss. \<not> known_hit s))
    \<and> rate (mt_drawdown_incidence m) \<and> (\<forall>(b, x) \<in> set (mt_bands m). rate (bm_directional_hit_rate x))
    \<and> mt_triggers m \<le> mt_eligible_states m \<and> mt_eligible_states m \<le> mt_evaluations m
    \<and> mt_independent_samples m \<le> mt_matured_samples m"
proof -
  have t: "count_if trigger_state es \<le> count_if eligible_state es"
    by (rule count_if_mono) (simp add: trigger_state_def eligible_state_def)
  have h: "count_if sure_hit xs \<le> count_if known_hit xs" for xs
    by (rule count_if_mono) (simp add: sure_hit_def known_hit_def)
  have z: "count_if known_hit ss = 0 \<longleftrightarrow> (\<forall>s \<in> set ss. \<not> known_hit s)"
    by (simp add: count_if_def filter_empty_conv)
  have b: "rate (bm_directional_hit_rate (band_of (filter P ss)))" for P
  proof -
    let ?k = "filter (\<lambda>s. known_hit s \<and> he_confidence_score (sm_evaluation s) \<noteq> None) (filter P ss)"
    have "length ?k \<le> length ss" by (meson length_filter_le order_trans)
    then have "int (length ?k) \<le> 2 ^ 53" using assms(2) by linarith
    then have "rate (ratio_of (count_if sure_hit ?k) (int (length ?k)))"
      using ratio_of_rate [OF count_if_bounds(1) [of sure_hit ?k] count_if_bounds(2)] by blast
    then show ?thesis by (simp add: band_of_def Let_def)
  qed
  let ?d = "present (\<lambda>s. o_maximum_drawdown (sm_outcome s)) ss"
  have d: "int (length ?d) \<le> 2 ^ 53" using length_present [of "\<lambda>s. o_maximum_drawdown (sm_outcome s)" ss] assms(2) by linarith
  have "card ((\<lambda>s. he_evaluation_id (sm_evaluation s)) ` set ss) \<le> length ss"
    by (meson card_image_le card_length finite_set order_trans)
  then have i: "independent_sample_count ss \<le> int (length ss)" by (simp add: independent_sample_count_def)
  note r1 = ratio_of_rate [OF count_if_bounds(1) t order_trans [OF count_if_bounds(2) assms(1)]]
  note r2 = ratio_of_rate [OF count_if_bounds(1) h order_trans [OF count_if_bounds(2) assms(2)]]
  note r3 = ratio_of_rate [OF count_if_bounds(1) count_if_bounds(2) d, of "\<lambda>x. flt x (Fin 0)"]
  show ?thesis
    unfolding m_def metric_set_def Let_def using r1 r2 r3 b t i z count_if_bounds(2) [of eligible_state es]
    by (auto simp: band_names_def)
qed

section \<open>Breakdowns\<close>

lemma mset_filter_evaluation_predicate: "mset (filter_evaluation_predicate es P) = mset (filter P es)"
  by (simp add: filter_evaluation_predicate_def)

lemma set_filter_evaluation_predicate [simp]: "set (filter_evaluation_predicate es P) = {e \<in> set es. P e}"
  by (simp add: filter_evaluation_predicate_def)

lemma length_filter_evaluation_predicate: "int (length (filter_evaluation_predicate es P)) = count_if P es"
  by (simp add: filter_evaluation_predicate_def count_if_def)

lemma count_if_mset: "mset xs = mset ys \<Longrightarrow> count_if P xs = count_if P ys"
  unfolding count_if_def by (metis mset_filter size_mset)

lemma count_if_filter: "count_if P (filter Q xs) = count_if (\<lambda>x. P x \<and> Q x) xs"
  by (simp add: count_if_def conj_commute)

lemma sum_indicator:
  assumes "distinct ks" "y \<in> set ks"
  shows "(\<Sum>k\<leftarrow>ks. if y = k then a else (0 :: int)) = a"
  using assms
proof (induction ks)
  case Nil
  then show ?case by simp
next
  case (Cons k ks)
  have "y \<notin> set ks \<Longrightarrow> (\<Sum>k\<leftarrow>ks. if y = k then a else (0 :: int)) = 0" by (induction ks) auto
  then show ?case using Cons by auto
qed

text \<open>The groups of a key function count every element exactly once.\<close>

lemma count_groups:
  assumes "distinct ks" "f ` set xs \<subseteq> set ks"
  shows "(\<Sum>k\<leftarrow>ks. count_if (\<lambda>x. P x \<and> f x = k) xs) = count_if P xs"
  using assms(2)
proof (induction xs)
  case Nil
  then show ?case by (simp add: count_if_def)
next
  case (Cons x xs)
  have "count_if (\<lambda>x. P x \<and> f x = k) (x # xs) = (if f x = k then (if P x then 1 else 0) else 0) + count_if (\<lambda>x. P x \<and> f x = k) xs" for k
    by (simp add: count_if_def)
  then show ?case using Cons sum_indicator [OF assms(1), of "f x" "if P x then 1 else 0"]
    by (simp add: sum_list_addf) (simp add: count_if_def)
qed

lemma sorted_keys_set [simp]: "set (sorted_keys ks) = set ks" "distinct (sorted_keys ks)"
  by (simp_all add: sorted_keys_def)

lemma strict_sorted_keys: "sorted_wrt (<) (sorted_keys ks)"
  by (simp add: sorted_keys_def strict_sorted_iff)

lemma group_samples:
  assumes "distinct (map he_evaluation_id es)" "\<forall>s \<in> set ss. sm_evaluation s \<in> set es"
  shows "filter_samples_by_evaluations ss (filter_evaluation_predicate es (\<lambda>e. f e = k)) = filter (\<lambda>s. f (sm_evaluation s) = k) ss"
proof -
  have "e = e'" if "e \<in> set es" "e' \<in> set es" "he_evaluation_id e = he_evaluation_id e'" for e e'
    using that assms(1) by (simp add: distinct_map inj_on_def)
  then show ?thesis unfolding filter_samples_by_evaluations_def using assms(2) by (intro filter_cong) (auto simp: image_iff)
qed

text \<open>
  Every breakdown of a report, by asset, year, volatility regime or earnings window, is
  a partition: its keys are distinct and in order, and the evaluations, the eligible states,
  the triggers and the samples of its groups add up to those of the whole.
\<close>

theorem breakdown_partition:
  assumes "distinct (map he_evaluation_id es)" "\<forall>s \<in> set ss. sm_evaluation s \<in> set es"
  shows "sorted_wrt (<) (map fst (group_metrics f es ss minimum))
    \<and> set (map fst (group_metrics f es ss minimum)) = f ` set es
    \<and> (\<Sum>(k, m)\<leftarrow>group_metrics f es ss minimum. mt_evaluations m) = mt_evaluations (metric_set es ss minimum)
    \<and> (\<Sum>(k, m)\<leftarrow>group_metrics f es ss minimum. mt_eligible_states m) = mt_eligible_states (metric_set es ss minimum)
    \<and> (\<Sum>(k, m)\<leftarrow>group_metrics f es ss minimum. mt_triggers m) = mt_triggers (metric_set es ss minimum)
    \<and> (\<Sum>(k, m)\<leftarrow>group_metrics f es ss minimum. mt_matured_samples m) = mt_matured_samples (metric_set es ss minimum)"
proof -
  let ?ks = "sorted_keys (map f es)"
  have c: "count_if P (filter_evaluation_predicate es (\<lambda>e. f e = k)) = count_if (\<lambda>e. P e \<and> f e = k) es" for P k
    by (simp add: count_if_mset [OF mset_filter_evaluation_predicate] count_if_filter)
  have e: "(\<Sum>k\<leftarrow>?ks. count_if (\<lambda>e. P e \<and> f e = k) es) = count_if P es" for P
    by (rule count_groups) simp_all
  have s: "(\<Sum>k\<leftarrow>?ks. count_if (\<lambda>s. f (sm_evaluation s) = k) ss) = int (length ss)"
    using count_groups [of ?ks "\<lambda>s. f (sm_evaluation s)" ss "\<lambda>_. True"] assms(2) by (auto simp: count_if_def)
  have l: "(\<Sum>k\<leftarrow>?ks. count_if (\<lambda>e. f e = k) es) = int (length es)"
    using e [of "\<lambda>_. True"] by (simp add: count_if_def)
  have g: "group_metrics f es ss minimum = map (\<lambda>k. (k, metric_set (filter_evaluation_predicate es (\<lambda>e. f e = k))
      (filter (\<lambda>s. f (sm_evaluation s) = k) ss) minimum)) ?ks"
    by (simp add: group_metrics_def Let_def group_samples [OF assms])
  have keys: "map fst (group_metrics f es ss minimum) = ?ks" by (simp add: g comp_def)
  have n: "int (length (filter (\<lambda>s. f (sm_evaluation s) = k) ss)) = count_if (\<lambda>s. f (sm_evaluation s) = k) ss" for k
    by (simp add: count_if_def)
  show ?thesis unfolding keys unfolding g
    by (simp add: comp_def metric_set_def Let_def strict_sorted_keys length_filter_evaluation_predicate c e l n s)
qed

section \<open>Walk-forward folds\<close>

definition dated :: "(string \<times> time) list \<Rightarrow> bool" where
  "dated m \<longleftrightarrow> distinct (map fst m) \<and> (\<forall>p \<in> set m. fst p = date_string (snd p))"

definition add_date :: "(string \<times> time) list \<Rightarrow> hyp_evaluation \<Rightarrow> (string \<times> time) list" where
  "add_date m e = AList.update (date_string (he_session_date e)) (day (he_session_date e)) m"

lemma add_date_dated: "dated m \<Longrightarrow> dated (add_date m e)"
  unfolding dated_def add_date_def
  using set_update_subset [of "date_string (he_session_date e)" "day (he_session_date e)" m]
  by (auto simp: distinct_update date_string_def)

lemma foldl_add_date_dated: "dated m \<Longrightarrow> dated (foldl add_date m es)"
  by (induction es arbitrary: m) (simp_all add: add_date_dated)

lemma dated_distinct: "dated m \<Longrightarrow> distinct (map snd m)"
  unfolding dated_def by (metis (no_types, lifting) comp_apply distinct_map list.map_comp map_eq_conv)

lemma distinct_dates_strict: "sorted_wrt (<) (distinct_dates es)"
proof -
  let ?v = "map snd (foldl add_date [] es)"
  have d: "distinct ?v" by (rule dated_distinct, rule foldl_add_date_dated) (simp add: dated_def)
  have e: "distinct_dates es = sort_by (\<lambda>a b. id a < id b) ?v"
    by (simp add: distinct_dates_def add_date_def [abs_def])
  have "sorted (map id (sort_by (\<lambda>a b. id a < id b) ?v))" by (rule sorted_sort_by_key)
  moreover have "distinct (sort_by (\<lambda>a b. id a < id b) ?v)" using d by (metis mset_eq_imp_distinct_iff mset_sort_by)
  ultimately show ?thesis unfolding e strict_sorted_iff by simp
qed

text \<open>The folds a loop starting at \<open>te\<close> adds, in closed form.\<close>

definition fold_count :: "int \<Rightarrow> int \<Rightarrow> int \<Rightarrow> int \<Rightarrow> nat" where
  "fold_count n te step room = nat (min room ((n - te + step - 1) div step))"

definition fold_at :: "(int \<Rightarrow> time \<Rightarrow> time \<Rightarrow> time \<Rightarrow> time \<Rightarrow> 'w) \<Rightarrow> time list \<Rightarrow> int \<Rightarrow> int \<Rightarrow> int \<Rightarrow> 'w" where
  "fold_at mk ds number te step =
     mk number (ds ! 0) (ds ! nat (te - 1)) (ds ! nat te) (ds ! nat (min (int (length ds)) (te + step) - 1))"

lemma fold_count_Suc:
  assumes "te < n" "1 \<le> step" "0 < room"
  shows "fold_count n te step room = Suc (fold_count n (te + step) step (room - 1))"
proof -
  let ?q = "(n - te - 1) div step"
  have e: "n - te + step - 1 = (n - te - 1) + step" "n - (te + step) + step - 1 = n - te - 1" by simp_all
  have d: "(n - te + step - 1) div step = ?q + 1" unfolding e using assms(2) by (subst div_add_self2) simp_all
  have q: "0 \<le> ?q" using assms by (simp add: pos_imp_zdiv_nonneg_iff)
  have "min room (?q + 1) = min (room - 1) ?q + 1" by simp
  then show ?thesis unfolding fold_count_def d e(2) using q assms(3) by (simp add: Suc_nat_eq_nat_zadd1)
qed

lemma fold_count_0:
  assumes "n \<le> te \<or> room \<le> 0" "1 \<le> step"
  shows "fold_count n te step room = 0"
proof -
  have "(n - te + step - 1) div step \<le> 0" if "n \<le> te"
    using that assms(2) zdiv_mono1 [of "n - te + step - 1" "step - 1" step] by (simp add: div_pos_pos_trivial)
  then show ?thesis using assms(1) by (auto simp: fold_count_def)
qed

lemma walk_forward_closed:
  assumes "1 \<le> te" "1 \<le> cc_test c" "int (length ds) + cc_test c < 2 ^ 63"
  shows "walk_forward mk c ds te folds =
    Inr (folds @ map (\<lambda>k. fold_at mk ds (int (length folds) + 1 + int k) (te + int k * cc_test c) (cc_test c))
                     [0..<fold_count (int (length ds)) te (cc_test c) (cc_max_folds c - int (length folds))])"
  using assms
proof (induction mk c ds te folds rule: walk_forward.induct)
  case (1 mk c ds te folds)
  let ?n = "int (length ds)" and ?s = "cc_test c" and ?room = "cc_max_folds c - int (length folds)"
  show ?case
  proof (cases "te < ?n \<and> int (length folds) < cc_max_folds c")
    case False
    then have "fold_count ?n te ?s ?room = 0" by (intro fold_count_0) (use "1.prems" in auto)
    then show ?thesis unfolding walk_forward.simps [of mk c ds te folds] if_not_P [OF False] by simp
  next
    case True
    have w: "wrap64 (te + ?s) = te + ?s" by (rule wrap64_id) (use True "1.prems" in auto)
    let ?f = "fold_at mk ds (int (length folds) + 1) te ?s"
    have step: "walk_forward mk c ds te folds =
        (if ?n \<le> te + ?s then Inr (folds @ [?f]) else walk_forward mk c ds (te + ?s) (folds @ [?f]))"
      using True "1.prems" by (auto simp: walk_forward.simps [of mk c ds te folds] Let_def w fold_at_def min_def)
    have cnt: "fold_count ?n te ?s ?room = Suc (fold_count ?n (te + ?s) ?s (?room - 1))"
      by (rule fold_count_Suc) (use True "1.prems" in auto)
    show ?thesis
    proof (cases "?n \<le> te + ?s")
      case True
      then have "fold_count ?n (te + ?s) ?s (?room - 1) = 0" by (intro fold_count_0) (use "1.prems" in auto)
      then show ?thesis using step True cnt by simp
    next
      case False
      have "walk_forward mk c ds (te + ?s) (folds @ [?f]) =
          Inr ((folds @ [?f]) @ map (\<lambda>k. fold_at mk ds (int (length (folds @ [?f])) + 1 + int k) (te + ?s + int k * ?s) ?s)
                     [0..<fold_count ?n (te + ?s) ?s (cc_max_folds c - int (length (folds @ [?f])))])"
        using "1.IH" [of "te + ?s" "te + ?s" "folds @ [?f]"] True False w "1.prems"
        by (simp add: fold_at_def)
      then show ?thesis using step False cnt
        by (simp add: upt_conv_Cons map_Suc_upt [symmetric] algebra_simps del: upt_Suc)
    qed
  qed
qed

lemma fold_count_bounds:
  assumes "1 \<le> step"
  shows "k < fold_count n te step room \<Longrightarrow> te + int k * step < n"
    and "0 \<le> room \<Longrightarrow> int (fold_count n te step room) \<le> room"
    and "int (fold_count n te step room) < room \<Longrightarrow> n \<le> te + int (fold_count n te step room) * step"
proof -
  let ?a = "n - te + step - 1" and ?q = "(n - te + step - 1) div step"
  have m: "?q * step + ?a mod step = ?a" "0 \<le> ?a mod step" "?a mod step < step"
    using assms by simp_all
  show "te + int k * step < n" if "k < fold_count n te step room"
  proof -
    have "int k + 1 \<le> ?q" using that by (simp add: fold_count_def zless_nat_eq_int_zless)
    then have "(int k + 1) * step \<le> ?q * step" using assms by (intro mult_right_mono) auto
    moreover have "(int k + 1) * step = int k * step + step" by (simp add: distrib_right)
    ultimately show ?thesis using m by linarith
  qed
  show "int (fold_count n te step room) \<le> room" if "0 \<le> room" using that by (simp add: fold_count_def)
  show "n \<le> te + int (fold_count n te step room) * step" if "int (fold_count n te step room) < room"
  proof (cases "0 \<le> ?q")
    case True
    then have "int (fold_count n te step room) = ?q" using that by (auto simp: fold_count_def min_def split: if_splits)
    then have "int (fold_count n te step room) * step = ?q * step" by (rule arg_cong)
    then show ?thesis using m by linarith
  next
    case False
    then have "?q * step \<le> 0" using assms by (simp add: mult_le_0_iff)
    then have "?a < step" using m by linarith
    then have "n \<le> te" by simp
    then show ?thesis using assms by (smt (verit) mult_nonneg_nonneg of_nat_0_le_iff)
  qed
qed

text \<open>
  C18. The walk-forward loop returns, and its folds are those of a closed form: fold \<open>k\<close>
  trains on every session before its test window and tests the next \<open>TestSessions\<close> of them.
  The last train session lies before the first test session, consecutive test windows do not
  meet, and the windows reach the last session unless the fold limit stops them.
\<close>

theorem walk_forward_folds:
  fixes srt ver rs segs
  assumes "cal_validate c = Inr ()" "int (length (distinct_dates es)) + cc_test c < 2 ^ 63"
  defines "ds \<equiv> distinct_dates es" and "start \<equiv> \<lambda>k::nat. cc_train c + int k * cc_test c"
  shows "\<exists>m. build_walk_forward srt c ver es rs segs =
      Inr (map (\<lambda>k. fold_at (make_fold srt c ver es rs segs) ds (int k + 1) (start k) (cc_test c)) [0..<m])
    \<and> int m \<le> cc_max_folds c \<and> sorted_wrt (<) ds
    \<and> (\<forall>k < m. ds ! nat (start k - 1) < ds ! nat (start k))
    \<and> (\<forall>k. Suc k < m \<longrightarrow> ds ! nat (start k + cc_test c - 1) < ds ! nat (start (Suc k)))
    \<and> (int m < cc_max_folds c \<longrightarrow> int (length ds) \<le> start m)"
proof -
  have v: "1 \<le> cc_train c" "1 \<le> cc_test c" "1 \<le> cc_max_folds c"
    using assms(1) by (auto simp: cal_validate_def split: if_splits)
  let ?m = "fold_count (int (length ds)) (cc_train c) (cc_test c) (cc_max_folds c)"
  note b = fold_count_bounds [OF v(2), where n = "int (length ds)" and te = "cc_train c" and room = "cc_max_folds c"]
  have s: "sorted_wrt (<) ds" unfolding ds_def by (rule distinct_dates_strict)
  have less: "ds ! nat (x - 1) < ds ! nat x" if "1 \<le> x" "x < int (length ds)" for x
    using sorted_wrt_nth_less [OF s, of "nat (x - 1)" "nat x"] that by simp
  have pos: "1 \<le> start k" for k
  proof -
    have "0 \<le> int k * cc_test c" using v by simp
    then show ?thesis using v unfolding start_def by linarith
  qed
  have r: "start k < int (length ds)" if "k < ?m" for k using b(1) [OF that] by (simp add: start_def)
  have n: "start k + cc_test c = start (Suc k)" for k by (simp add: start_def algebra_simps)
  have w: "ds ! nat (start k - 1) < ds ! nat (start k)" if "k < ?m" for k by (rule less [OF pos r [OF that]])
  have e: "int ?m < cc_max_folds c \<Longrightarrow> int (length ds) \<le> start ?m" using b(3) by (simp add: start_def)
  have "build_walk_forward srt c ver es rs segs =
      Inr (map (\<lambda>k. fold_at (make_fold srt c ver es rs segs) ds (int k + 1) (start k) (cc_test c)) [0..<?m])"
    unfolding build_walk_forward_def ds_def [symmetric]
    by (subst walk_forward_closed) (use v assms(2) in \<open>simp_all add: ds_def start_def add.commute\<close>)
  moreover have "int ?m \<le> cc_max_folds c" using b(2) v(3) by simp
  ultimately show ?thesis using s w e unfolding n by blast
qed

text \<open>
  Nothing bounds \<open>TestSessions\<close> from above: when the end of the first test window does
  not fit into 64 bits the sum wraps around below zero and the loop indexes its sessions out
  of range, which panics.
\<close>

theorem walk_forward_overflow_panics:
  assumes "cal_validate c = Inr ()" "cc_train c < int (length (distinct_dates es))"
    and "2 ^ 63 \<le> cc_train c + cc_test c" "cc_train c < 2 ^ 63" "cc_test c < 2 ^ 63"
  shows "build_walk_forward srt c ver es rs segs = Inl (Err ''panic: index out of range'')"
proof -
  have v: "1 \<le> cc_train c" "1 \<le> cc_max_folds c"
    using assms(1) by (auto simp: cal_validate_def split: if_splits)
  have "wrap64 (cc_train c + cc_test c) < 0" by (rule wrap64_over) (use assms in auto)
  then show ?thesis using v assms(2)
    by (simp add: build_walk_forward_def walk_forward.simps Let_def)
qed

section \<open>Ties\<close>

text \<open>A report without its means and medians, the only values that sum or sort samples.\<close>

definition order_free :: "metrics \<Rightarrow> metrics" where
  "order_free m = m\<lparr>mt_mean_return := None, mt_median_return := None, mt_mean_favorable := None, mt_median_favorable := None,
     mt_mean_adverse := None, mt_median_adverse := None, mt_mean_vol_change := None, mt_calibration_error := None,
     mt_bands := map (\<lambda>(b, x). (b, x\<lparr>bm_calibration_error := None\<rparr>)) (mt_bands m)\<rparr>"

definition groups_free :: "(string \<times> metrics) list \<Rightarrow> (string \<times> metrics) list" where
  "groups_free = map (\<lambda>(k, m). (k, order_free m))"

definition report_free :: "version_report \<Rightarrow> version_report" where
  "report_free r = r\<lparr>vr_overall := order_free (vr_overall r), vr_by_horizon := groups_free (vr_by_horizon r),
     vr_by_asset := groups_free (vr_by_asset r), vr_by_year := groups_free (vr_by_year r),
     vr_by_volatility := groups_free (vr_by_volatility r), vr_by_earnings := groups_free (vr_by_earnings r)\<rparr>"

definition fold_free :: "wf_fold \<Rightarrow> wf_fold" where
  "fold_free f = f\<lparr>wf_train := report_free (wf_train f), wf_test := report_free (wf_test f)\<rparr>"

lemma order_free_below [simp]: "mt_below_minimum (order_free m) = mt_below_minimum m"
  "mt_independent_samples (order_free m) = mt_independent_samples m"
  by (simp_all add: order_free_def)

lemma report_free_overall [simp]: "vr_overall (report_free r) = order_free (vr_overall r)"
  by (simp add: report_free_def)

lemma count_present: "count_if P (present f xs) = count_if (\<lambda>x. \<exists>v. f x = Some v \<and> P v) xs"
  by (induction xs) (auto simp: count_if_def present_def List.map_filter_def)

lemma length_count: "int (length xs) = count_if (\<lambda>_. True) xs"
  by (simp add: count_if_def)

lemma band_order:
  assumes "mset ss = mset ss'"
  shows "(band_of (filter P ss))\<lparr>bm_calibration_error := None\<rparr> = (band_of (filter P ss'))\<lparr>bm_calibration_error := None\<rparr>"
  unfolding band_of_def Let_def length_count count_if_filter filter_filter count_if_mset [OF assms] by simp

lemma metric_set_order:
  assumes "mset ss = mset ss'"
  shows "order_free (metric_set es ss n) = order_free (metric_set es ss' n)"
proof -
  have s: "set ss = set ss'" using assms by (metis set_mset_mset)
  have i: "independent_sample_count ss = independent_sample_count ss'" by (simp add: independent_sample_count_def s)
  have l: "length ss = length ss'" using assms by (metis size_mset)
  show ?thesis
    unfolding order_free_def metric_set_def Let_def length_count [of "present f xs" for f xs] count_present
    by (simp add: count_if_mset [OF assms] i l band_order [OF assms] case_prod_beta comp_def)
qed

lemma group_metrics_order:
  assumes "mset ss = mset ss'"
  shows "groups_free (group_metrics f es ss n) = groups_free (group_metrics f es ss' n)"
proof -
  have "mset (filter_samples_by_evaluations ss sel) = mset (filter_samples_by_evaluations ss' sel)" for sel
    by (simp add: filter_samples_by_evaluations_def assms)
  then show ?thesis
    by (auto simp: groups_free_def group_metrics_def Let_def intro: metric_set_order)
qed

lemma version_report_order:
  assumes "mset ss = mset ss'"
  shows "report_free (build_version_report v es ss segs n) = report_free (build_version_report v es ss' segs n)"
proof -
  have "mset (filter P ss) = mset (filter P ss')" for P by (simp add: assms)
  then have h: "groups_free (map (\<lambda>h. (itoa h, metric_set es (filter (P h) ss) n)) hs)
      = groups_free (map (\<lambda>h. (itoa h, metric_set es (filter (P h) ss') n)) hs)" for P hs
    unfolding groups_free_def list.map_comp by (intro map_cong refl) (simp add: metric_set_order [of "filter P ss" "filter P ss'" for P])
  show ?thesis unfolding report_free_def build_version_report_def
    by (simp only: version_report.simps version_report.update_convs group_metrics_order [OF assms] metric_set_order [OF assms] h)
qed

lemma walk_forward_map:
  "map_sum id (map g) (walk_forward mk c ds te folds) = walk_forward (\<lambda>n a b x y. g (mk n a b x y)) c ds te (map g folds)"
proof (induction mk c ds te folds rule: walk_forward.induct)
  case (1 mk c ds te folds)
  let ?next = "wrap64 (te + cc_test c)"
  let ?stop = "if int (length ds) < ?next then int (length ds) else ?next"
  note unf = walk_forward.simps [of mk c ds te folds] walk_forward.simps [of "\<lambda>n a b x y. g (mk n a b x y)" c ds te "map g folds"]
  show ?case
  proof (cases "te < int (length ds) \<and> int (length folds) < cc_max_folds c")
    case False
    then show ?thesis unfolding unf by auto
  next
    case True
    show ?thesis
    proof (cases "te < 1 \<or> ?stop < 1")
      case p: True
      show ?thesis unfolding unf Let_def length_map if_P [OF True] if_P [OF p] by simp
    next
      case p: False
      show ?thesis
      proof (cases "?stop = int (length ds)")
        case e: True
        show ?thesis unfolding unf Let_def length_map if_P [OF True] if_not_P [OF p] if_P [OF e] by simp
      next
        case e: False
        show ?thesis
          unfolding unf Let_def length_map if_P [OF True] if_not_P [OF p] if_not_P [OF e]
            "1.IH" [OF True refl refl p refl e] by simp
      qed
    qed
  qed
qed

lemma report_warnings_free:
  assumes "report_free r = report_free r'" "report_free s = report_free s'"
  shows "version_warning c v r = version_warning c v r'" "fold_warnings r s = fold_warnings r' s'"
proof -
  have "order_free (vr_overall r) = order_free (vr_overall r')" "order_free (vr_overall s) = order_free (vr_overall s')"
    using assms by (metis report_free_overall)+
  then have "mt_below_minimum (vr_overall r) = mt_below_minimum (vr_overall r')"
    "mt_below_minimum (vr_overall s) = mt_below_minimum (vr_overall s')"
    "mt_independent_samples (vr_overall r) = mt_independent_samples (vr_overall r')"
    by (metis order_free_below)+
  then show "version_warning c v r = version_warning c v r'" "fold_warnings r s = fold_warnings r' s'"
    by (simp_all add: version_warning_def fold_warnings_def)
qed

lemma joined_report_order:
  assumes "sample_order srt" "sample_order srt'"
  shows "report_free (build_version_report v sel (join_samples srt es rs segs t) segs n)
    = report_free (build_version_report v sel (join_samples srt' es rs segs t) segs n)"
  by (rule version_report_order) (simp add: sample_order.mset_join assms)

lemma make_fold_order:
  assumes "sample_order srt" "sample_order srt'"
  shows "fold_free (make_fold srt c v es rs segs n a b x y) = fold_free (make_fold srt' c v es rs segs n a b x y)"
  unfolding make_fold_def Let_def fold_free_def
  by (simp only: wf_fold.simps wf_fold.update_convs joined_report_order [OF assms]
      report_warnings_free(2) [OF joined_report_order [OF assms] joined_report_order [OF assms]])

lemma walk_forward_order:
  assumes "sample_order srt" "sample_order srt'"
  shows "map_sum id (map fold_free) (build_walk_forward srt c v es rs segs) = map_sum id (map fold_free) (build_walk_forward srt' c v es rs segs)"
  unfolding build_walk_forward_def walk_forward_map make_fold_order [OF assms] ..

text \<open>
  The order in which the unstable sort leaves samples of one session and horizon decides
  nothing but the means, which it sums in that order, and the medians: whether a report is built, its counts, rates, drawdown incidence and confidence bands in every
  breakdown and fold, and its warnings are those of any other order.
\<close>

theorem tie_order_irrelevant:
  assumes "sample_order srt" "sample_order srt'" "cal_build srt c i = Inr r"
  shows "\<exists>r'. cal_build srt' c i = Inr r' \<and> rp_warnings r' = rp_warnings r
    \<and> map (\<lambda>(v, x). (v, report_free x)) (rp_reports r') = map (\<lambda>(v, x). (v, report_free x)) (rp_reports r)
    \<and> map fold_free (rp_walk_forward r') = map fold_free (rp_walk_forward r)"
proof -
  let ?c = "cal_normalize c" and ?segs = "segment_evaluations (ci_evaluations i) (ci_observations i)"
  have vr: "report_free (version_report_of srt ?c i ?segs v) = report_free (version_report_of srt' ?c i ?segs v)" for v
    unfolding version_report_of_def Let_def by (rule joined_report_order [OF assms(1,2)])
  have w: "version_warning ?c v (version_report_of srt' ?c i ?segs v) = version_warning ?c v (version_report_of srt ?c i ?segs v)" for v
    by (rule report_warnings_free(1)) (rule vr [symmetric], rule refl)
  have rep: "cal_report_of srt ?c i = Inr r"
    using assms(3) by (auto simp: cal_build_def Let_def)
  have other: "cal_build srt' c i = cal_report_of srt' ?c i"
    using assms(3) by (auto simp: cal_build_def Let_def)
  have "\<exists>r'. cal_report_of srt' ?c i = Inr r' \<and> rp_warnings r' = rp_warnings r
    \<and> map (\<lambda>(v, x). (v, report_free x)) (rp_reports r') = map (\<lambda>(v, x). (v, report_free x)) (rp_reports r)
    \<and> map fold_free (rp_walk_forward r') = map fold_free (rp_walk_forward r)"
  proof (cases "cc_mode ?c = mode_walk_forward")
    case False
    then show ?thesis using rep by (auto simp: cal_report_of_def Let_def comp_def w vr)
  next
    case True
    let ?v = "cc_versions ?c ! 0"
    let ?f = "\<lambda>srt. build_walk_forward srt ?c ?v (filter_evaluations (ci_evaluations i) ?v (cc_window_start ?c) (cc_window_end ?c)) (ci_outcomes i) ?segs"
    obtain fs where fs: "?f srt = Inr fs" using rep True by (auto simp: cal_report_of_def Let_def)
    have "map_sum id (map fold_free) (?f srt) = map_sum id (map fold_free) (?f srt')" by (rule walk_forward_order [OF assms(1,2)])
    then have "map_sum id (map fold_free) (?f srt') = Inr (map fold_free fs)" by (simp add: fs)
    then obtain fs' where fs': "?f srt' = Inr fs'" "map fold_free fs' = map fold_free fs"
      by (cases "?f srt'") auto
    have "fs' = [] \<longleftrightarrow> fs = []" using fs'(2) by (metis map_is_Nil_conv)
    then show ?thesis using rep True fs fs' by (auto simp: cal_report_of_def Let_def comp_def w vr)
  qed
  then show ?thesis using other by simp
qed

section \<open>A concrete report\<close>

definition sample_hypothesis :: "string \<Rightarrow> time \<Rightarrow> hyp_evaluation" where
  "sample_hypothesis eid d = \<lparr>he_evaluation_id = eid, he_tenant_id = ''t'', he_app_id = [], he_hypothesis_key = ''H001'', he_hypothesis_version = ''1'',
    he_market_state_id = [], he_asset_id = [], he_symbol = ''AAPL'', he_session_date = d, he_as_of_time = d,
    he_eligible = True, he_triggered = True, he_trigger_score = None, he_confidence_score = Some (Fin (1 / 2)),
    he_magnitude_score = None, he_rarity_score = None, he_persistence_score = None, he_corroboration_score = None,
    he_quality_score = None, he_invalidated = False, he_evidence_ids = [], he_reason_codes = [], he_payload = NoBytes,
    he_run_id = [], he_deterministic_key = [], he_created_at = 0\<rparr>"

definition sample_matured :: "string \<Rightarrow> outcome" where
  "sample_matured eid = \<lparr>o_outcome_id = [], o_tenant_id = ''t'', o_app_id = [], o_source_type = outcome_source_evaluation, o_source_id = eid,
    o_hypothesis_key = ''H001'', o_hypothesis_version = ''1'', o_asset_id = [], o_symbol = [], o_direction = [],
    o_origin_session_date = 0, o_horizon_sessions = 5, o_matured_session_date = Some 0, o_outcome_status = st_matured,
    o_forward_return = None, o_max_favorable = None, o_max_adverse = None, o_maximum_drawdown = None,
    o_realized_vol_change = None, o_directional_hit = Some True, o_threshold_hit = None, o_days_to_threshold = None,
    o_origin_event_id = [], o_outcome_event_ids = [], o_payload = NoBytes, o_calculation_version = calculation_version,
    o_calculation_run_id = [], o_deterministic_key = [], o_created_at = 0, o_updated_at = 0\<rparr>"

definition sample_cal :: "string \<Rightarrow> int \<Rightarrow> cal_config" where
  "sample_cal mode step = \<lparr>cc_tenant_id = ''t'', cc_hypothesis_key = ''H001'', cc_versions = [''1''], cc_outcome_version = calculation_version,
     cc_symbols = [''AAPL''], cc_window_start = 0, cc_window_end = 2 * day_ns, cc_as_of = 3 * day_ns, cc_mode = mode,
     cc_minimum = 1, cc_train = 1, cc_test = step, cc_max_folds = 3\<rparr>"

definition sample_hypotheses :: "hyp_evaluation list" where
  "sample_hypotheses = [sample_hypothesis ''a'' 0, sample_hypothesis ''b'' day_ns]"

definition sample_cal_input :: cal_input where
  "sample_cal_input = \<lparr>ci_evaluations = sample_hypotheses, ci_outcomes = [sample_matured ''b''], ci_observations = []\<rparr>"

lemmas sample_cal_defs = sample_hypothesis_def sample_matured_def sample_cal_def sample_hypotheses_def sample_cal_input_def

lemma sample_normal: "cal_normalize (sample_cal mode_single 1) = sample_cal mode_single 1"
  by code_simp

lemma sample_valid: "cal_validate (sample_cal mode_walk_forward 1) = Inr ()"
  "cal_validate (sample_cal mode_walk_forward (2 ^ 63 - 1)) = Inr ()"
  "cal_validate (sample_cal mode_single 1) = Inr ()"
  by code_simp+

lemma sample_dates: "distinct_dates sample_hypotheses = [0, day_ns]"
  by code_simp

lemma sample_report: "\<exists>r. cal_build (sort_by sample_before) (sample_cal mode_single 1) sample_cal_input = Inr r"
proof -
  have "check_evaluations (sample_cal mode_single 1) [] sample_hypotheses = Inr sample_hypotheses"
    "check_outcomes (sample_cal mode_single 1) sample_hypotheses [sample_matured ''b''] = Inr ()"
    by code_simp+
  then show ?thesis
    by (simp add: cal_build_def Let_def sample_normal sample_valid sample_cal_input_def)
      (simp add: cal_report_of_def Let_def sample_cal_def mode_single_def mode_walk_forward_def)
qed

section \<open>The properties on it\<close>


theorem joined_samples_witness:
  "\<exists>s \<in> set (join_samples (sort_by sample_before) sample_hypotheses [sample_matured ''b''] [] 0). sm_outcome s = sample_matured ''b''"
proof -
  have e: "evaluation_by_id sample_hypotheses (o_source_id (sample_matured ''b'')) = Some (sample_hypothesis ''b'' day_ns)"
    "sample_ready 0 (sample_hypothesis ''b'' day_ns) (sample_matured ''b'')"
    by (simp_all add: sample_cal_defs evaluation_by_id_def sample_ready_def)
  note j = joined_samples [OF stable_order.sample_order_axioms, where es = sample_hypotheses and rs = "[sample_matured ''b'']" and segs = "[]" and t = 0]
  obtain s where s: "s \<in> set (join_samples (sort_by sample_before) sample_hypotheses [sample_matured ''b''] [] 0)"
    using j e by fastforce
  then have "sm_outcome s \<in> set [sample_matured ''b'']" using j by blast
  then show ?thesis using s by auto
qed

theorem metric_rates_witness: "rate (mt_trigger_rate (metric_set sample_hypotheses [] 1))"
  using metric_rates [of sample_hypotheses "[]" 1] by (simp add: sample_hypotheses_def)

theorem breakdown_partition_witness:
  "(\<Sum>(k, m)\<leftarrow>group_metrics he_symbol sample_hypotheses [] 1. mt_triggers m) = mt_triggers (metric_set sample_hypotheses [] 1)"
  using breakdown_partition [of sample_hypotheses "[]" he_symbol 1] by (simp add: sample_hypotheses_def sample_hypothesis_def)

theorem walk_forward_folds_witness:
  "\<exists>folds. build_walk_forward (sort_by sample_before) (sample_cal mode_walk_forward 1) ''1'' sample_hypotheses [] [] = Inr folds \<and> length folds = 1"
proof -
  have l: "int (length (distinct_dates sample_hypotheses)) + cc_test (sample_cal mode_walk_forward 1) < 2 ^ 63"
    by (simp add: sample_dates sample_cal_def)
  obtain m where m: "build_walk_forward (sort_by sample_before) (sample_cal mode_walk_forward 1) ''1'' sample_hypotheses [] []
      = Inr (map (\<lambda>k. fold_at (make_fold (sort_by sample_before) (sample_cal mode_walk_forward 1) ''1'' sample_hypotheses [] [])
          (distinct_dates sample_hypotheses) (int k + 1) (cc_train (sample_cal mode_walk_forward 1) + int k * cc_test (sample_cal mode_walk_forward 1))
          (cc_test (sample_cal mode_walk_forward 1))) [0..<m])"
    using walk_forward_folds [OF sample_valid(1) l] by blast
  have "walk_forward mk (sample_cal mode_walk_forward 1) [0, day_ns] 1 [] = Inr [mk 1 0 0 day_ns day_ns]" for mk :: "int \<Rightarrow> time \<Rightarrow> time \<Rightarrow> time \<Rightarrow> time \<Rightarrow> wf_fold"
    by (simp add: walk_forward.simps sample_cal_def wrap64_def)
  then have "\<exists>x. build_walk_forward (sort_by sample_before) (sample_cal mode_walk_forward 1) ''1'' sample_hypotheses [] [] = Inr [x]"
    by (simp add: build_walk_forward_def sample_dates) (simp add: sample_cal_def)
  then obtain x where "build_walk_forward (sort_by sample_before) (sample_cal mode_walk_forward 1) ''1'' sample_hypotheses [] [] = Inr [x]" by blast
  from arg_cong [OF trans [OF m [symmetric] this], of "\<lambda>r. case r of Inr l \<Rightarrow> length l | Inl _ \<Rightarrow> 0"]
  have "m = 1" by simp
  then show ?thesis using m by (intro exI conjI) (assumption, simp)
qed

theorem walk_forward_overflow_panics_witness:
  "build_walk_forward (sort_by sample_before) (sample_cal mode_walk_forward (2 ^ 63 - 1)) ''1'' sample_hypotheses [] []
    = Inl (Err ''panic: index out of range'')"
  by (rule walk_forward_overflow_panics [OF sample_valid(2)]) (simp_all add: sample_dates sample_cal_def)

theorem tie_order_irrelevant_witness:
  "\<exists>r. cal_build (sort_by sample_before) (sample_cal mode_single 1) sample_cal_input = Inr r"
proof -
  obtain r where "cal_build (sort_by sample_before) (sample_cal mode_single 1) sample_cal_input = Inr r" using sample_report by blast
  then show ?thesis using tie_order_irrelevant [OF stable_order.sample_order_axioms stable_order.sample_order_axioms] by blast
qed

end
