(* ===== verification/Hypotheses.thy ===== *)
theory Hypotheses imports StorageRecords Identity begin

text \<open>
  \<open>internal/marketops/hypotheses\<close>: the research hypotheses of \<open>registry.go\<close> and their
  evaluation on one market state, \<open>evaluator.go\<close>. The evaluation under construction is
  passed from call to call. Products and sums round once each (no fused operations).
\<close>

section \<open>Data\<close>

record input_set =
  in_state :: state_record
  in_observations :: "feature_observation list"
  in_transitions :: "transition_record list"
  in_evidence :: "evidence_record list"

record hyp_state =
  hs_eligible :: bool
  hs_triggered :: bool
  hs_invalidated :: bool
  hs_reasons :: "string list"
  hs_features :: "string list"
  hs_transitions :: "string list"
  hs_checks :: obj
  hs_magnitude :: f64
  hs_rarity :: f64
  hs_persistence :: f64
  hs_corroboration :: f64
  hs_quality :: f64

text \<open>\<open>dims(optionType, dte, delta)\<close>: the delta is .25 in every call.\<close>

datatype dims = Dims (dm_option_type: string) (dm_dte: int)

section \<open>Helpers\<close>

definition clamp01 :: "f64 \<Rightarrow> f64" where
  "clamp01 v = (if flt v (Fin 0) then Fin 0 else if flt (Fin 1) v then Fin 1 else v)"

definition bool_score :: "bool \<Rightarrow> f64" where
  "bool_score b = (if b then Fin 1 else Fin 0)"

text \<open>
  \<open>fmt.Sprint\<close> of a decoded value against that of an expected one: a string prints as itself
  and a number as its shortest decimal text, which no other number has; null, booleans,
  arrays and objects print as texts no expected value has.
\<close>

definition prints_as :: "string \<Rightarrow> f64 option \<Rightarrow> json option \<Rightarrow> bool" where
  "prints_as s v j \<longleftrightarrow> (case j of Some (JStr t) \<Rightarrow> t = s | Some (JNum x) \<Rightarrow> v = Some x | _ \<Rightarrow> False)"

definition decoded :: "doc \<Rightarrow> obj" where
  "decoded d = (case decode_obj d of None \<Rightarrow> [] | Some m \<Rightarrow> m)"

definition dimensions_match :: "doc \<Rightarrow> dims option \<Rightarrow> bool" where
  "dimensions_match raw expected \<longleftrightarrow>
     (case expected of None \<Rightarrow> True
      | Some (Dims ty dte) \<Rightarrow>
          prints_as ty None (oget (decoded raw) ''option_type'')
          \<and> prints_as (itoa dte) (Some (Fin (of_int dte))) (oget (decoded raw) ''target_dte'')
          \<and> prints_as ''0.25'' (Some (Fin (1 / 4))) (oget (decoded raw) ''target_delta''))"

definition quoted :: "string \<Rightarrow> string" where
  "quoted s = CHR 0x22 # s @ [CHR 0x22]"

definition dimension_token :: "dims option \<Rightarrow> string" where
  "dimension_token expected =
     (case expected of None \<Rightarrow> []
      | Some (Dims ty dte) \<Rightarrow> '':{'' @ quoted ''option_type'' @ '':'' @ quoted ty @ '','' @ quoted ''target_delta'' @ '':0.25,''
          @ quoted ''target_dte'' @ '':'' @ itoa dte @ ''}'')"

definition fvalue :: "feature_observation option \<Rightarrow> f64" where
  "fvalue ob = (case ob of None \<Rightarrow> Fin 0 | Some x \<Rightarrow> (case fo_numeric_value x of None \<Rightarrow> Fin 0 | Some v \<Rightarrow> v))"

definition text_value :: "feature_observation option \<Rightarrow> string" where
  "text_value ob = (case ob of None \<Rightarrow> [] | Some x \<Rightarrow> (case fo_text_value x of None \<Rightarrow> [] | Some v \<Rightarrow> v))"

definition change :: "transition_record option \<Rightarrow> f64" where
  "change tr = (case tr of None \<Rightarrow> Fin 0 | Some x \<Rightarrow> (case tr_transition_value x of None \<Rightarrow> Fin 0 | Some v \<Rightarrow> v))"

definition transition_persistence :: "transition_record option \<Rightarrow> int" where
  "transition_persistence tr = (case tr of None \<Rightarrow> 0 | Some x \<Rightarrow> (case tr_persistence_sessions x of None \<Rightarrow> 0 | Some v \<Rightarrow> v))"

definition sign_of :: "f64 \<Rightarrow> int" where
  "sign_of v = (if flt (Fin 0) v then 1 else if flt v (Fin 0) then - 1 else 0)"

fun same_direction :: "int \<Rightarrow> f64 list \<Rightarrow> bool" where
  "same_direction s [] = True"
| "same_direction s (v # vs) =
     (if sign_of v = 0 then False
      else if s = 0 then same_direction (sign_of v) vs
      else if s \<noteq> sign_of v then False else same_direction s vs)"

definition same_non_zero_direction :: "f64 list \<Rightarrow> bool" where
  "same_non_zero_direction vs = same_direction 0 vs"

definition dimension_string :: "doc \<Rightarrow> string \<Rightarrow> string" where
  "dimension_string raw key = str_of (oget (decoded raw) key)"

definition unique :: "string list \<Rightarrow> string list" where
  "unique vs = sort (keep_new [] vs)"

text \<open>The range over the map of checks; the sort makes its order irrelevant.\<close>

definition threshold_reasons :: "(string \<times> bool) list \<Rightarrow> string list" where
  "threshold_reasons checks = sort (map (\<lambda>(k, _). ''threshold_not_met:'' @ k) (filter snd checks))"

definition linked_evidence_ids :: "evidence_record list \<Rightarrow> string list \<Rightarrow> string list \<Rightarrow> string list" where
  "linked_evidence_ids records fids tids =
     unique (map ed_evidence_id (filter (\<lambda>d. \<exists>v \<in> set (ed_source_feature_ids d @ ed_source_transition_ids d). v \<in> set (fids @ tids)) records))"

section \<open>Required inputs\<close>

definition base :: "input_set \<Rightarrow> hyp_state" where
  "base i = \<lparr>hs_eligible = False, hs_triggered = False, hs_invalidated = False, hs_reasons = [], hs_features = [], hs_transitions = [],
     hs_checks = [], hs_magnitude = Fin 0, hs_rarity = Fin 0, hs_persistence = Fin 0, hs_corroboration = Fin 0,
     hs_quality = clamp01 (case ms_quality_score (in_state i) of None \<Rightarrow> Fin 0 | Some q \<Rightarrow> q)\<rparr>"

definition add_reason :: "string \<Rightarrow> hyp_state \<Rightarrow> hyp_state" where
  "add_reason s r = r\<lparr>hs_reasons := hs_reasons r @ [s]\<rparr>"

definition add_feature :: "string \<Rightarrow> hyp_state \<Rightarrow> hyp_state" where
  "add_feature s r = r\<lparr>hs_features := hs_features r @ [s]\<rparr>"

definition add_transition :: "string \<Rightarrow> hyp_state \<Rightarrow> hyp_state" where
  "add_transition s r = r\<lparr>hs_transitions := hs_transitions r @ [s]\<rparr>"

definition numeric_usable :: "feature_observation \<Rightarrow> bool" where
  "numeric_usable ob \<longleftrightarrow> usable (fo_quality_state ob) \<and> fo_numeric_value ob \<noteq> None"

definition transition_usable :: "transition_record \<Rightarrow> bool" where
  "transition_usable tr \<longleftrightarrow> usable (tr_quality_state tr) \<and> tr_transition_value tr \<noteq> None"

definition find_feature :: "input_set \<Rightarrow> string \<Rightarrow> dims option \<Rightarrow> feature_observation option" where
  "find_feature i key d = first_match (\<lambda>ob. fo_feature_key ob = key \<and> dimensions_match (fo_dimensions ob) d) (in_observations i)"

definition require_feature ::
    "input_set \<Rightarrow> string \<Rightarrow> dims option \<Rightarrow> hyp_state \<Rightarrow> feature_observation option \<times> hyp_state" where
  "require_feature i key d r =
     (case find_feature i key d of
        None \<Rightarrow> (None, add_reason (''missing_feature:'' @ key @ dimension_token d) r)
      | Some ob \<Rightarrow>
          (Some ob, if \<not> numeric_usable ob then add_reason (''unusable_feature:'' @ key @ '':'' @ fo_quality_state ob) r
                    else add_feature (fo_observation_id ob) r))"

text \<open>The two option types are tried in order; an observation without an id counts as missing.\<close>

fun require_any_option_feature ::
    "input_set \<Rightarrow> string \<Rightarrow> string list \<Rightarrow> hyp_state \<Rightarrow> feature_observation option \<times> hyp_state" where
  "require_any_option_feature i key [] r = (None, add_reason (''missing_or_unusable_option_feature:'' @ key) r)"
| "require_any_option_feature i key (ty # tys) r =
     (case find_feature i key (Some (Dims ty 30)) of
        None \<Rightarrow> require_any_option_feature i key tys r
      | Some ob \<Rightarrow> if fo_observation_id ob \<noteq> [] \<and> numeric_usable ob then (Some ob, add_feature (fo_observation_id ob) r)
                   else require_any_option_feature i key tys r)"

definition find_transition :: "input_set \<Rightarrow> string \<Rightarrow> dims option \<Rightarrow> transition_record option" where
  "find_transition i key d =
     first_match (\<lambda>tr. tr_feature_key tr = key \<and> dimensions_match (tr_dimensions tr) d \<and> transition_usable tr) (in_transitions i)"

definition require_transition ::
    "input_set \<Rightarrow> string \<Rightarrow> dims option \<Rightarrow> hyp_state \<Rightarrow> transition_record option \<times> hyp_state" where
  "require_transition i key d r =
     (case find_transition i key d of
        None \<Rightarrow> (None, add_reason (''missing_usable_transition:'' @ key @ dimension_token d) r)
      | Some tr \<Rightarrow> (Some tr, add_transition (tr_transition_id tr) r))"

fun require_any_option_transition ::
    "input_set \<Rightarrow> string \<Rightarrow> string list \<Rightarrow> hyp_state \<Rightarrow> transition_record option \<times> hyp_state" where
  "require_any_option_transition i key [] r = (None, add_reason (''missing_usable_option_transition:'' @ key) r)"
| "require_any_option_transition i key (ty # tys) r =
     (case find_transition i key (Some (Dims ty 30)) of
        None \<Rightarrow> require_any_option_transition i key tys r
      | Some tr \<Rightarrow> (Some tr, add_transition (tr_transition_id tr) r))"

definition option_types :: "string list" where
  "option_types = [''put'', ''call'']"

section \<open>H001: overbought downside hedging\<close>

definition fgt :: "f64 \<Rightarrow> f64 \<Rightarrow> bool" where "fgt x y = flt y x"
definition fge :: "f64 \<Rightarrow> f64 \<Rightarrow> bool" where "fge x y = fle y x"

text \<open>The decimal constants of the code, rounded to \<open>float64\<close>.\<close>

definition c_02 :: f64 where "c_02 = rnd (2 / 100)"
definition c_01 :: f64 where "c_01 = rnd (1 / 100)"
definition c_8 :: f64 where "c_8 = rnd (8 / 10)"
definition c_6 :: f64 where "c_6 = rnd (6 / 10)"
definition c_95 :: f64 where "c_95 = rnd (95 / 100)"

definition note_earnings :: "input_set \<Rightarrow> hyp_state \<Rightarrow> hyp_state" where
  "note_earnings i r =
     (case find_feature i ''earnings_window_state'' None of
        None \<Rightarrow> r
      | Some ob \<Rightarrow>
          if fo_observation_id ob \<noteq> [] \<and> usable (fo_quality_state ob) \<and> fo_text_value ob \<noteq> None then
            (let r1 = add_feature (fo_observation_id ob) r in
             if text_value (Some ob) \<in> {''pre_earnings'', ''earnings_day'', ''post_earnings''}
             then add_reason ''known_earnings_window'' (r1\<lparr>hs_invalidated := True\<rparr>) else r1)
          else r)"

text \<open>The body of the \<open>if r.eligible\<close> branch, over the values it reads.\<close>

definition h001_score ::
    "f64 \<Rightarrow> f64 \<Rightarrow> feature_observation option \<Rightarrow> feature_observation option \<Rightarrow> f64 \<Rightarrow> f64 \<Rightarrow> f64 \<Rightarrow> f64 \<Rightarrow> f64 \<Rightarrow> f64 \<Rightarrow> f64 \<Rightarrow> f64 \<Rightarrow> hyp_state \<Rightarrow> hyp_state" where
  "h001_score rsi coverage iv_rv iv_regime put30 put60 premium oi t30 t60 tp t1 r =
     (let triggered = (fge rsi (Fin 70) \<and> fge coverage c_8 \<and> fgt t30 c_02 \<and> fgt t60 c_02 \<and> fgt tp (Fin 0) \<and> fgt oi (Fin 0) \<and> fgt t1 (Fin 0)
            \<and> fge premium (Fin 0) \<and> fgt put30 (Fin 0) \<and> fgt put60 (Fin 0));
          elevated = (\<exists>ob v. iv_rv = Some ob \<and> usable (fo_quality_state ob) \<and> fo_numeric_value ob = Some v \<and> fge v (Fin (5 / 4)))
            \<and> (\<exists>ob. iv_regime = Some ob \<and> usable (fo_quality_state ob)) \<and> text_value iv_regime = ''elevated_premium''
      in r\<lparr>hs_triggered := triggered,
           hs_checks := [(''rsi_14'', JNum rsi), (''surface_coverage_ratio'', JNum coverage), (''iv_rv_ratio_20d'', JNum (fvalue iv_rv)),
             (''medium_term_iv_regime'', JStr (text_value iv_regime)), (''put_iv_change_30d'', JNum t30), (''put_iv_change_60d'', JNum t60),
             (''premium_change'', JNum tp), (''put_oi_change'', JNum oi)],
           hs_magnitude := clamp01 (fadd (fadd (fdiv (fsub rsi (Fin 70)) (Fin 20)) (fmul (fmax t30 (Fin 0)) (Fin 5))) (fmul (fmax t60 (Fin 0)) (Fin 5))),
           hs_corroboration := (if elevated then Fin 1 else Fin (3 / 4)), hs_persistence := Fin (1 / 2), hs_rarity := Fin (1 / 2),
           hs_reasons := (if triggered then hs_reasons r
             else threshold_reasons [(''rsi_below_threshold'', flt rsi (Fin 70)), (''surface_coverage_below_minimum'', flt coverage c_8),
               (''put_iv_not_expanding'', fle t30 c_02 \<or> fle t60 c_02), (''premium_not_expanding'', fle tp (Fin 0)),
               (''put_oi_not_increasing'', fle oi (Fin 0) \<or> fle t1 (Fin 0))])\<rparr>)"

definition evaluate_h001 :: "input_set \<Rightarrow> hyp_state" where
  "evaluate_h001 i =
     (let p30 = Some (Dims ''put'' 30); p60 = Some (Dims ''put'' 60);
          (rsi, r1) = require_feature i ''rsi_14'' None (base i);
          (coverage, r2) = require_feature i ''surface_coverage_ratio'' None r1;
          iv_rv = find_feature i ''iv_rv_ratio_20d'' None;
          iv_regime = find_feature i ''medium_term_iv_regime'' None;
          (put30, r3) = require_feature i ''iv'' p30 r2;
          (put60, r4) = require_feature i ''iv'' p60 r3;
          (premium, r5) = require_feature i ''extrinsic_premium'' p30 r4;
          (oi, r6) = require_feature i ''oi_change_1d'' p30 r5;
          (t30, r7) = require_transition i ''iv'' p30 r6;
          (t60, r8) = require_transition i ''iv'' p60 r7;
          (tp, r9) = require_transition i ''extrinsic_premium'' p30 r8;
          (t1, r10) = require_transition i ''oi_change_1d'' p30 r9;
          r11 = note_earnings i r10;
          eligible = (hs_reasons r11 = [] \<and> \<not> hs_invalidated r11);
          r12 = r11\<lparr>hs_eligible := eligible\<rparr>
      in if eligible
         then h001_score (fvalue rsi) (fvalue coverage) iv_rv iv_regime (fvalue put30) (fvalue put60) (fvalue premium) (fvalue oi)
                (change t30) (change t60) (change tp) (change t1) r12
         else r12)"

section \<open>H004: term-structure regime shift\<close>

definition h004_score :: "f64 \<Rightarrow> f64 \<Rightarrow> f64 \<Rightarrow> f64 \<Rightarrow> f64 \<Rightarrow> f64 \<Rightarrow> f64 \<Rightarrow> hyp_state \<Rightarrow> hyp_state" where
  "h004_score iv30 iv60 iv90 coverage t30 t60 t90 r =
     (let spread = fsub iv30 iv90; aligned = same_non_zero_direction [t30, t60, t90];
          triggered = (fge coverage c_8 \<and> fge (fabs spread) c_02 \<and> aligned)
      in r\<lparr>hs_triggered := triggered,
           hs_checks := [(''atm_iv_30d'', JNum iv30), (''atm_iv_60d'', JNum iv60), (''atm_iv_90d'', JNum iv90), (''term_spread_30_90'', JNum spread),
             (''aligned_transition'', JBool aligned), (''surface_coverage_ratio'', JNum coverage)],
           hs_magnitude := clamp01 (fmul (fabs spread) (Fin 10)), hs_persistence := Fin 1, hs_corroboration := bool_score aligned,
           hs_rarity := Fin (1 / 2),
           hs_reasons := (if triggered then hs_reasons r
             else threshold_reasons [(''surface_coverage_below_minimum'', flt coverage c_8), (''term_spread_below_threshold'', flt (fabs spread) c_02),
               (''curve_transition_not_corroborated'', \<not> aligned)])\<rparr>)"

definition evaluate_h004 :: "input_set \<Rightarrow> hyp_state" where
  "evaluate_h004 i =
     (let (iv30, r1) = require_feature i ''atm_iv_30d'' None (base i);
          (iv60, r2) = require_feature i ''atm_iv_60d'' None r1;
          (iv90, r3) = require_feature i ''atm_iv_90d'' None r2;
          (coverage, r4) = require_feature i ''surface_coverage_ratio'' None r3;
          (t30, r5) = require_transition i ''atm_iv_30d'' None r4;
          (t60, r6) = require_transition i ''atm_iv_60d'' None r5;
          (t90, r7) = require_transition i ''atm_iv_90d'' None r6;
          r8 = (if transition_persistence t30 < 2 \<and> transition_persistence t60 < 2 \<and> transition_persistence t90 < 2
                then add_reason ''insufficient_transition_persistence'' r7 else r7);
          eligible = (hs_reasons r8 = []);
          r9 = r8\<lparr>hs_eligible := eligible\<rparr>
      in if eligible
         then h004_score (fvalue iv30) (fvalue iv60) (fvalue iv90) (fvalue coverage) (change t30) (change t60) (change t90) r9
         else r9)"

section \<open>H006: premium and price divergence\<close>

definition h006_score :: "f64 \<Rightarrow> f64 \<Rightarrow> f64 \<Rightarrow> f64 \<Rightarrow> f64 \<Rightarrow> hyp_state \<Rightarrow> hyp_state" where
  "h006_score mv premium iv premium_move iv_move r =
     (let diverges = (fge (fabs mv) (Fin 1)
            \<and> ((fgt mv (Fin 0) \<and> (flt premium_move (fneg c_01) \<or> flt iv_move (fneg c_01)))
               \<or> (flt mv (Fin 0) \<and> (fgt premium_move c_01 \<or> fgt iv_move c_01))));
          triggered = (diverges \<and> fgt premium (Fin 0) \<and> fgt iv (Fin 0))
      in r\<lparr>hs_triggered := triggered,
           hs_checks := [(''return_1d'', JNum mv), (''premium_change'', JNum premium_move), (''iv_change'', JNum iv_move), (''divergence'', JBool diverges)],
           hs_magnitude := clamp01 (fadd (fdiv (fabs mv) (Fin 5)) (fmul (fmax (fabs premium_move) (fabs iv_move)) (Fin 5))),
           hs_corroboration := Fin 1, hs_persistence := Fin (1 / 2), hs_rarity := Fin (1 / 2),
           hs_reasons := (if triggered then hs_reasons r
             else threshold_reasons [(''underlying_move_below_threshold'', flt (fabs mv) (Fin 1)), (''premium_iv_divergence_not_detected'', \<not> diverges)])\<rparr>)"

definition evaluate_h006 :: "input_set \<Rightarrow> hyp_state" where
  "evaluate_h006 i =
     (let (underlying, r1) = require_feature i ''return_1d'' None (base i);
          (premium, r2) = require_any_option_feature i ''mid_premium'' option_types r1;
          (iv, r3) = require_any_option_feature i ''iv'' option_types r2;
          (tp, r4) = require_any_option_transition i ''mid_premium'' option_types r3;
          (ti, r5) = require_any_option_transition i ''iv'' option_types r4;
          eligible = (hs_reasons r5 = []);
          r6 = r5\<lparr>hs_eligible := eligible\<rparr>
      in if eligible then h006_score (fvalue underlying) (fvalue premium) (fvalue iv) (change tp) (change ti) r6 else r6)"

section \<open>H007: unusual open interest\<close>

definition json_ptr :: "f64 option \<Rightarrow> json" where
  "json_ptr x = (case x of None \<Rightarrow> JNull | Some v \<Rightarrow> JNum v)"

definition at_least :: "f64 option \<Rightarrow> f64 \<Rightarrow> bool" where
  "at_least x m \<longleftrightarrow> (case x of None \<Rightarrow> False | Some v \<Rightarrow> fge v m)"

definition h007_score :: "feature_observation option \<Rightarrow> f64 \<Rightarrow> transition_record option \<Rightarrow> hyp_state \<Rightarrow> hyp_state" where
  "h007_score oi coverage tr r =
     (let z = Option.bind tr tr_z_score; pc = Option.bind tr tr_percentile;
          rare = (at_least z (Fin 2) \<or> at_least pc c_95);
          triggered = (fge (fvalue oi) (Fin 100) \<and> fge coverage c_6 \<and> rare)
      in r\<lparr>hs_triggered := triggered,
           hs_checks := [(''oi_change_1d'', JNum (fvalue oi)), (''surface_coverage_ratio'', JNum coverage), (''zscore'', json_ptr z),
             (''percentile'', json_ptr pc), (''rarity_threshold_met'', JBool rare),
             (''option_type'', JStr (case oi of None \<Rightarrow> [] | Some ob \<Rightarrow> dimension_string (fo_dimensions ob) ''option_type''))],
           hs_magnitude := clamp01 (fdiv (fvalue oi) (Fin 1000)), hs_rarity := bool_score rare, hs_persistence := Fin (1 / 2),
           hs_corroboration := Fin (1 / 4),
           hs_reasons := (if triggered then hs_reasons r
             else threshold_reasons [(''oi_change_below_minimum'', flt (fvalue oi) (Fin 100)), (''surface_coverage_below_minimum'', flt coverage c_6),
               (''oi_change_not_statistically_unusual'', \<not> rare)])\<rparr>)"

definition evaluate_h007 :: "input_set \<Rightarrow> hyp_state" where
  "evaluate_h007 i =
     (let (oi, r1) = require_any_option_feature i ''oi_change_1d'' option_types (base i);
          (coverage, r2) = require_feature i ''surface_coverage_ratio'' None r1;
          (tr, r3) = require_any_option_transition i ''oi_change_1d'' option_types r2;
          eligible = (hs_reasons r3 = []);
          r4 = r3\<lparr>hs_eligible := eligible\<rparr>
      in if eligible then h007_score oi (fvalue coverage) tr r4 else r4)"

section \<open>Evaluate\<close>

definition opportunity_profile :: "hypothesis_definition \<Rightarrow> obj \<Rightarrow> string \<times> string \<times> string" where
  "opportunity_profile d checks =
     (let direction =
        (if hd_hypothesis_key d = ''H006'' then
           (let mv = (case num_of (oget checks ''return_1d'') of None \<Rightarrow> Fin 0 | Some x \<Rightarrow> x) in
            if flt (Fin 0) mv then ''downside'' else if flt mv (Fin 0) then ''upside'' else hd_direction d)
         else if hd_hypothesis_key d = ''H007'' then
           (let ty = str_of (oget checks ''option_type'') in
            if ty = ''put'' then ''downside'' else if ty = ''call'' then ''upside'' else hd_direction d)
         else hd_direction d)
      in (direction, ''5_to_20_sessions'', hd_domain d))"

definition dispatch :: "string \<Rightarrow> input_set \<Rightarrow> hyp_state res" where
  "dispatch key i =
     (if key = ''H001'' then Inr (evaluate_h001 i) else if key = ''H004'' then Inr (evaluate_h004 i)
      else if key = ''H006'' then Inr (evaluate_h006 i) else if key = ''H007'' then Inr (evaluate_h007 i)
      else Inl (Err (''unsupported research hypothesis '' @ key)))"

definition final_reasons :: "hyp_state \<Rightarrow> string list" where
  "final_reasons r =
     (let u = unique (hs_reasons r);
          v = (if hs_eligible r \<and> \<not> hs_triggered r \<and> u = [] then [''eligible_not_triggered''] else u)
      in if hs_triggered r then v @ [''triggered_research_only''] else v)"

definition trigger_score :: "hyp_state \<Rightarrow> f64" where
  "trigger_score r =
     clamp01 (fadd (fadd (fadd (fadd (fmul (Fin (1 / 4)) (hs_magnitude r)) (fmul (rnd (2 / 10)) (hs_rarity r)))
       (fmul (rnd (15 / 100)) (hs_persistence r))) (fmul (rnd (2 / 10)) (hs_corroboration r))) (fmul (rnd (2 / 10)) (hs_quality r)))"

definition evaluation_payload :: "hypothesis_definition \<Rightarrow> state_record \<Rightarrow> hyp_state \<Rightarrow> doc" where
  "evaluation_payload d st r =
     (let (direction, horizon, family) = opportunity_profile d (hs_checks r)
      in marshal (JObj [(''research_only'', JBool True), (''checks'', JObj (hs_checks r)),
           (''source_feature_ids'', JArr (map JStr (unique (hs_features r)))), (''source_transition_ids'', JArr (map JStr (unique (hs_transitions r)))),
           (''state_quality'', JStr (ms_quality_state st)), (''resolved_direction'', JStr direction), (''horizon'', JStr horizon),
           (''hypothesis_family'', JStr family)]))"

definition evaluation_record :: "string \<Rightarrow> hypothesis_definition \<Rightarrow> input_set \<Rightarrow> identity \<Rightarrow> hyp_state \<Rightarrow> hyp_evaluation" where
  "evaluation_record run d i ident r =
     (let st = in_state i; ptr = (\<lambda>x. if hs_eligible r then Some x else None) in
      \<lparr>he_evaluation_id = id_ID ident, he_tenant_id = ms_tenant_id st, he_app_id = ''marketops'', he_hypothesis_key = hd_hypothesis_key d,
       he_hypothesis_version = hd_hypothesis_version d, he_market_state_id = ms_market_state_id st, he_asset_id = ms_asset_id st,
       he_symbol = ms_symbol st, he_session_date = ms_session_date st, he_as_of_time = ms_as_of_time st,
       he_eligible = hs_eligible r, he_triggered = hs_triggered r, he_trigger_score = ptr (trigger_score r),
       he_confidence_score = ptr (trigger_score r), he_magnitude_score = ptr (clamp01 (hs_magnitude r)),
       he_rarity_score = ptr (clamp01 (hs_rarity r)), he_persistence_score = ptr (clamp01 (hs_persistence r)),
       he_corroboration_score = ptr (clamp01 (hs_corroboration r)), he_quality_score = Some (clamp01 (hs_quality r)),
       he_invalidated = hs_invalidated r,
       he_evidence_ids = linked_evidence_ids (in_evidence i) (hs_features r) (hs_transitions r),
       he_reason_codes = final_reasons r, he_payload = evaluation_payload d st r, he_run_id = run,
       he_deterministic_key = id_key ident, he_created_at = zero_time\<rparr>)"

definition hyp_evaluate :: "string \<Rightarrow> hypothesis_definition \<Rightarrow> input_set \<Rightarrow> hyp_evaluation res" where
  "hyp_evaluate run d i =
     (let st = in_state i in
      if blank run \<or> hd_tenant_id d \<noteq> ms_tenant_id st \<or> hd_hypothesis_version d = [] then
        Inl (Err ''hypothesis evaluation run, tenant, and version must match'')
      else
        bind_res (dispatch (hd_hypothesis_key d) i) (\<lambda>r.
          bind_res (new_identity ''hypothesis_evaluation'' [ms_tenant_id st, ms_asset_id st, fmt_date (ms_session_date st),
              hd_hypothesis_key d, hd_hypothesis_version d, ms_market_state_id st]) (\<lambda>ident.
            Inr (evaluation_record run d i ident r))))"

section \<open>The registry\<close>

definition cell :: "string \<Rightarrow> string \<Rightarrow> int \<Rightarrow> json" where
  "cell key ty dte = JObj [(''feature_key'', JStr key),
     (''dimensions'', JObj [(''option_type'', JStr ty), (''target_dte'', JInt dte), (''target_delta'', JNum (Fin (1 / 4)))])]"

definition research_definition ::
    "string \<Rightarrow> string \<Rightarrow> string \<Rightarrow> string \<Rightarrow> string \<Rightarrow> json list \<Rightarrow> json list \<Rightarrow> obj \<Rightarrow> string list \<Rightarrow> hypothesis_definition" where
  "research_definition tenant key title domain direction features transitions thresholds outcomes =
     \<lparr>hd_tenant_id = tenant, hd_hypothesis_key = key, hd_hypothesis_version = ''v1'', hd_title = title, hd_domain = domain,
      hd_direction = direction, hd_description = ''Research-only deterministic evaluation of '' @ title @ ''.'',
      hd_rationale = ''Preserve eligible, triggered, and rejected state evaluations before calibration or production promotion.'',
      hd_required_features = marshal (JArr features), hd_required_transitions = marshal (JArr transitions),
      hd_quality_policy = marshal (JObj [(''accepted_quality_states'', JArr [JStr ''usable'', JStr ''usable_with_warning'']), (''missing_is_not_zero'', JBool True)]),
      hd_eligibility_expression = marshal (JObj [(''operator'', JStr ''all_required_inputs_usable'')]),
      hd_trigger_expression = marshal (JObj [(''operator'', JStr ''hypothesis_specific_thresholds''), (''thresholds'', JObj thresholds)]),
      hd_persistence_rule = marshal (JObj [(''minimum_sessions'',
        case oget thresholds ''minimum_persistence_sessions'' of None \<Rightarrow> JNull | Some j \<Rightarrow> j)]),
      hd_corroboration_rule = marshal (JObj [(''requires_independent_evidence'', JBool True)]),
      hd_invalidation_rule = marshal (JObj [(''quality_failure_invalidates'', JBool True), (''earnings_window'', JStr ''record_when_available'')]),
      hd_expected_outcomes = marshal (JArr (map JStr outcomes)),
      hd_scoring_config = marshal (JObj [(''magnitude_weight'', JNum (Fin (1 / 4))), (''rarity_weight'', JNum (rnd (2 / 10))),
        (''persistence_weight'', JNum (rnd (15 / 100))), (''corroboration_weight'', JNum (rnd (2 / 10))), (''quality_weight'', JNum (rnd (2 / 10)))]),
      hd_calibration_policy = marshal (JObj [(''minimum_sample_size'', JInt 100), (''requires_walk_forward'', JBool True),
        (''production_materialization_allowed'', JBool False)]),
      hd_lifecycle_status = ''research'', hd_owner = ''marketops-research'', hd_approved_by = [], hd_approved_at = None,
      hd_created_at = zero_time, hd_updated_at = zero_time\<rparr>"

definition research_definitions :: "string \<Rightarrow> hypothesis_definition list" where
  "research_definitions tenant =
     [research_definition tenant ''H001'' ''Overbought downside-hedging expansion'' ''momentum_exhaustion'' ''downside''
        [JStr ''rsi_14'', cell ''iv'' ''put'' 30, cell ''iv'' ''put'' 60, cell ''extrinsic_premium'' ''put'' 30, cell ''oi_change_1d'' ''put'' 30, JStr ''surface_coverage_ratio'']
        [cell ''iv'' ''put'' 30, cell ''iv'' ''put'' 60, cell ''extrinsic_premium'' ''put'' 30, cell ''oi_change_1d'' ''put'' 30]
        [(''rsi_min'', JInt 70), (''iv_change_min'', JNum c_02), (''premium_change_min'', JInt 0), (''oi_change_min'', JInt 0), (''surface_coverage_min'', JNum c_8)]
        [''forward_drawdown_5d'', ''forward_drawdown_10d'', ''forward_drawdown_20d'', ''realized_volatility_change''],
      research_definition tenant ''H004'' ''Volatility term-structure regime shift'' ''volatility_surface'' ''non_directional''
        [JStr ''atm_iv_30d'', JStr ''atm_iv_60d'', JStr ''atm_iv_90d'', JStr ''surface_coverage_ratio'']
        [JStr ''atm_iv_30d'', JStr ''atm_iv_60d'', JStr ''atm_iv_90d'']
        [(''surface_coverage_min'', JNum c_8), (''term_spread_min'', JNum c_02), (''minimum_persistence_sessions'', JInt 2)]
        [''realized_volatility_change'', ''term_structure_state''],
      research_definition tenant ''H006'' ''Premium-price divergence'' ''divergence'' ''conditional''
        [JStr ''return_1d'', cell ''mid_premium'' ''put_or_call'' 30, cell ''iv'' ''put_or_call'' 30]
        [cell ''mid_premium'' ''put_or_call'' 30, cell ''iv'' ''put_or_call'' 30]
        [(''underlying_move_min_pct'', JInt 1), (''premium_or_iv_change_min'', JNum c_01), (''requires_bid_ask'', JBool True)]
        [''forward_return_5d'', ''forward_return_10d'', ''realized_volatility_change''],
      research_definition tenant ''H007'' ''Delta-bucket unusual OI accumulation'' ''option_positioning'' ''conditional''
        [cell ''oi_change_1d'' ''put_or_call'' 30, JStr ''surface_coverage_ratio'']
        [cell ''oi_change_1d'' ''put_or_call'' 30]
        [(''minimum_oi_change'', JInt 100), (''minimum_zscore'', JInt 2), (''minimum_percentile'', JNum c_95), (''surface_coverage_min'', JNum c_6)]
        [''forward_return_5d'', ''forward_return_10d'', ''realized_volatility_change'']]"

end
