(* ===== verification/HypothesisProps.thy ===== *)
theory HypothesisProps imports Hypotheses begin

text \<open>
  The properties of the hypothesis evaluator: an eligible evaluation has every input its
  registry entry declares, what a trigger and a rejection say, the range of the scores, what
  invalidates, and the evidence an evaluation links.
\<close>

section \<open>The required inputs\<close>

definition feature_present :: "input_set \<Rightarrow> string \<Rightarrow> dims option \<Rightarrow> bool" where
  "feature_present i key d \<longleftrightarrow> (\<exists>ob. find_feature i key d = Some ob \<and> numeric_usable ob)"

definition transition_present :: "input_set \<Rightarrow> string \<Rightarrow> dims option \<Rightarrow> bool" where
  "transition_present i key d \<longleftrightarrow> (\<exists>tr. find_transition i key d = Some tr \<and> transition_usable tr)"

definition blank_state :: "hyp_state \<Rightarrow> bool" where
  "blank_state r \<longleftrightarrow> \<not> hs_triggered r \<and> \<not> hs_invalidated r \<and> hs_magnitude r = Fin 0 \<and> hs_rarity r = Fin 0
     \<and> hs_persistence r = Fin 0 \<and> hs_corroboration r = Fin 0"

lemma adds [simp]:
  "hs_reasons (add_reason s r) = hs_reasons r @ [s]" "hs_reasons (add_feature s r) = hs_reasons r" "hs_reasons (add_transition s r) = hs_reasons r"
  "blank_state (add_reason s r) = blank_state r" "blank_state (add_feature s r) = blank_state r" "blank_state (add_transition s r) = blank_state r"
  by (simp_all add: add_reason_def add_feature_def add_transition_def blank_state_def)

lemma base_simps [simp]: "hs_reasons (base i) = []" "blank_state (base i)"
  by (simp_all add: base_def blank_state_def)

lemma require_feature_simps [simp]:
  "fst (require_feature i key d r) = find_feature i key d"
  "hs_reasons (snd (require_feature i key d r)) = [] \<longleftrightarrow> hs_reasons r = [] \<and> feature_present i key d"
  "blank_state (snd (require_feature i key d r)) = blank_state r"
  by (auto simp: require_feature_def feature_present_def split: option.splits)

lemma find_transition_usable: "find_transition i key d = Some tr \<Longrightarrow> transition_usable tr"
  unfolding find_transition_def by (drule first_match_Some) simp

lemma require_transition_simps [simp]:
  "fst (require_transition i key d r) = find_transition i key d"
  "hs_reasons (snd (require_transition i key d r)) = [] \<longleftrightarrow> hs_reasons r = [] \<and> transition_present i key d"
  "blank_state (snd (require_transition i key d r)) = blank_state r"
  by (auto simp: require_transition_def transition_present_def split: option.splits dest: find_transition_usable)

lemma require_any_feature_reasons:
  "hs_reasons (snd (require_any_option_feature i key tys r)) = [] \<Longrightarrow>
     hs_reasons r = [] \<and> (\<exists>ty \<in> set tys. feature_present i key (Some (Dims ty 30)))"
  by (induction tys) (auto simp: feature_present_def split: option.splits if_splits)

lemma require_any_feature_blank [simp]: "blank_state (snd (require_any_option_feature i key tys r)) = blank_state r"
  by (induction tys) (auto split: option.splits)

lemma require_any_transition_reasons:
  "hs_reasons (snd (require_any_option_transition i key tys r)) = [] \<Longrightarrow>
     hs_reasons r = [] \<and> (\<exists>ty \<in> set tys. transition_present i key (Some (Dims ty 30)))"
  by (induction tys) (auto simp: transition_present_def split: option.splits dest: find_transition_usable)

lemma require_any_transition_blank [simp]: "blank_state (snd (require_any_option_transition i key tys r)) = blank_state r"
  by (induction tys) (auto split: option.splits)

text \<open>The eligible branch only sets the trigger, the checks, the reasons and the scores.\<close>

lemma score_simps [simp]:
  "hs_eligible (h001_score a b iv rg c d p oi t30 t60 tp t1 r) = hs_eligible r"
  "hs_invalidated (h001_score a b iv rg c d p oi t30 t60 tp t1 r) = hs_invalidated r"
  "hs_eligible (h004_score a b iv90 c t30 t60 t90 r) = hs_eligible r"
  "hs_invalidated (h004_score a b iv90 c t30 t60 t90 r) = hs_invalidated r"
  "hs_eligible (h006_score mv p v pm im r) = hs_eligible r"
  "hs_invalidated (h006_score mv p v pm im r) = hs_invalidated r"
  "hs_eligible (h007_score ob c tr r) = hs_eligible r"
  "hs_invalidated (h007_score ob c tr r) = hs_invalidated r"
  by (simp_all add: h001_score_def h004_score_def h006_score_def h007_score_def Let_def)

lemma note_earnings_reasons:
  "hs_reasons (note_earnings i r) = [] \<Longrightarrow> hs_reasons r = []"
  by (auto simp: note_earnings_def Let_def split: option.splits if_splits)

lemma h001_eligible:
  assumes "hs_eligible (evaluate_h001 i)"
  shows "feature_present i ''rsi_14'' None" "feature_present i ''surface_coverage_ratio'' None"
    "feature_present i ''iv'' (Some (Dims ''put'' 30))" "feature_present i ''iv'' (Some (Dims ''put'' 60))"
    "feature_present i ''extrinsic_premium'' (Some (Dims ''put'' 30))" "feature_present i ''oi_change_1d'' (Some (Dims ''put'' 30))"
    "transition_present i ''iv'' (Some (Dims ''put'' 30))" "transition_present i ''iv'' (Some (Dims ''put'' 60))"
    "transition_present i ''extrinsic_premium'' (Some (Dims ''put'' 30))" "transition_present i ''oi_change_1d'' (Some (Dims ''put'' 30))"
    "\<not> hs_invalidated (evaluate_h001 i)"
  using assms by (auto simp: evaluate_h001_def Let_def case_prod_beta dest!: note_earnings_reasons split: if_splits)

lemma h004_eligible:
  assumes "hs_eligible (evaluate_h004 i)"
  shows "feature_present i ''atm_iv_30d'' None" "feature_present i ''atm_iv_60d'' None" "feature_present i ''atm_iv_90d'' None"
    "feature_present i ''surface_coverage_ratio'' None"
    "transition_present i ''atm_iv_30d'' None" "transition_present i ''atm_iv_60d'' None" "transition_present i ''atm_iv_90d'' None"
  using assms by (auto simp: evaluate_h004_def Let_def case_prod_beta split: if_splits)

lemma h006_eligible:
  assumes "hs_eligible (evaluate_h006 i)"
  shows "feature_present i ''return_1d'' None" "\<exists>ty \<in> set option_types. feature_present i ''mid_premium'' (Some (Dims ty 30))"
    "\<exists>ty \<in> set option_types. feature_present i ''iv'' (Some (Dims ty 30))"
    "\<exists>ty \<in> set option_types. transition_present i ''mid_premium'' (Some (Dims ty 30))"
    "\<exists>ty \<in> set option_types. transition_present i ''iv'' (Some (Dims ty 30))"
  using assms by (auto simp: evaluate_h006_def Let_def case_prod_beta split: if_splits dest!: require_any_transition_reasons require_any_feature_reasons)

lemma h007_eligible:
  assumes "hs_eligible (evaluate_h007 i)"
  shows "feature_present i ''surface_coverage_ratio'' None" "\<exists>ty \<in> set option_types. feature_present i ''oi_change_1d'' (Some (Dims ty 30))"
    "\<exists>ty \<in> set option_types. transition_present i ''oi_change_1d'' (Some (Dims ty 30))"
  using assms by (auto simp: evaluate_h007_def Let_def case_prod_beta split: if_splits dest!: require_any_transition_reasons require_any_feature_reasons)

lemma dispatch_cases:
  assumes "dispatch key i = Inr r"
  obtains "key = ''H001''" "r = evaluate_h001 i" | "key = ''H004''" "r = evaluate_h004 i"
    | "key = ''H006''" "r = evaluate_h006 i" | "key = ''H007''" "r = evaluate_h007 i"
  using assms by (auto simp: dispatch_def split: if_splits)

lemma hyp_evaluate_Inr:
  assumes "hyp_evaluate run d i = Inr e"
  obtains r ident where "dispatch (hd_hypothesis_key d) i = Inr r" "e = evaluation_record run d i ident r"
  using assms by (auto simp: hyp_evaluate_def Let_def split: if_splits)

lemma record_simps [simp]:
  "he_eligible (evaluation_record run d i ident r) = hs_eligible r" "he_triggered (evaluation_record run d i ident r) = hs_triggered r"
  "he_invalidated (evaluation_record run d i ident r) = hs_invalidated r"
  "he_reason_codes (evaluation_record run d i ident r) = final_reasons r"
  "he_evidence_ids (evaluation_record run d i ident r) = linked_evidence_ids (in_evidence i) (hs_features r) (hs_transitions r)"
  by (simp_all add: evaluation_record_def Let_def)

section \<open>Declared inputs\<close>

text \<open>An input a registry entry declares: a feature key, or a cell with its dimensions.\<close>

definition input_present :: "(string \<Rightarrow> dims option \<Rightarrow> bool) \<Rightarrow> json \<Rightarrow> bool" where
  "input_present present j =
     (case j of
        JStr key \<Rightarrow> present key None
      | JObj m \<Rightarrow>
          (let key = str_of (oget m ''feature_key'');
               dm = (case obj_of (oget m ''dimensions'') of None \<Rightarrow> [] | Some x \<Rightarrow> x);
               ty = str_of (oget dm ''option_type'');
               dte = (case num_of (oget dm ''target_dte'') of None \<Rightarrow> 0 | Some x \<Rightarrow> f_to_int x)
           in if ty = ''put_or_call'' then \<exists>ty \<in> set option_types. present key (Some (Dims ty dte)) else present key (Some (Dims ty dte)))
      | _ \<Rightarrow> False)"

lemma int_round_trip: "\<bar>k\<bar> \<le> 2 ^ 53 \<Longrightarrow> f_to_int (f_of_int k) = k"
  by (auto simp: f_of_int_def rnd_rep rep_int f_to_int_def Let_def)

lemma input_present_wire:
  "input_present present (JStr key) = present key None"
  "\<bar>dte\<bar> \<le> 2 ^ 53 \<Longrightarrow> input_present present (wire (cell key ty dte)) =
     (if ty = ''put_or_call'' then \<exists>ty \<in> set option_types. present key (Some (Dims ty dte)) else present key (Some (Dims ty dte)))"
  by (simp_all add: input_present_def cell_def oget_def obj_of_def num_of_def int_round_trip)

lemma marshalable_cell [simp]: "marshalable (cell key ty dte)"
  by (simp add: cell_def)

lemma decode_arr_marshal: "list_all marshalable js \<Longrightarrow> decode_arr (marshal (JArr js)) = Some (map wire js)"
  by (simp add: marshal_def decode_arr_def)

definition inputs_present :: "(string \<Rightarrow> dims option \<Rightarrow> bool) \<Rightarrow> doc \<Rightarrow> bool" where
  "inputs_present present d \<longleftrightarrow> (\<exists>js. decode_arr d = Some js \<and> js \<noteq> [] \<and> list_all (input_present present) js)"

lemma inputs_present_marshal:
  "list_all marshalable js \<Longrightarrow> inputs_present present (marshal (JArr js)) = (js \<noteq> [] \<and> list_all (\<lambda>j. input_present present (wire j)) js)"
  by (simp add: inputs_present_def decode_arr_marshal list_all_iff)

lemma research_definition_simps [simp]:
  "hd_hypothesis_key (research_definition t key ti dm dr fs ts th oc) = key"
  "hd_required_features (research_definition t key ti dm dr fs ts th oc) = marshal (JArr fs)"
  "hd_required_transitions (research_definition t key ti dm dr fs ts th oc) = marshal (JArr ts)"
  "hd_trigger_expression (research_definition t key ti dm dr fs ts th oc)
     = marshal (JObj [(''operator'', JStr ''hypothesis_specific_thresholds''), (''thresholds'', JObj th)])"
  by (simp_all add: research_definition_def)

text \<open>
  C19. Missing is not zero: an evaluation of a registered hypothesis is eligible only if every
  feature its registry entry declares was found with a numeric value in an accepted quality
  state, and every transition it declares was found with a value, for either option type
  where the entry leaves the type open.
\<close>

theorem declared_inputs_present:
  assumes "d \<in> set (research_definitions t)" "hyp_evaluate run d i = Inr e" "he_eligible e"
  shows "inputs_present (feature_present i) (hd_required_features d) \<and> inputs_present (transition_present i) (hd_required_transitions d)"
proof -
  obtain r ident where r: "dispatch (hd_hypothesis_key d) i = Inr r" "e = evaluation_record run d i ident r"
    using hyp_evaluate_Inr [OF assms(2)] by blast
  have el: "hs_eligible r" using assms(3) r(2) by simp
  show ?thesis using r(1)
  proof (cases rule: dispatch_cases)
    case 1
    then show ?thesis using assms(1) el h001_eligible [of i] by (auto simp: research_definitions_def inputs_present_marshal input_present_wire)
  next
    case 2
    then show ?thesis using assms(1) el h004_eligible [of i] by (auto simp: research_definitions_def inputs_present_marshal input_present_wire)
  next
    case 3
    then show ?thesis using assms(1) el h006_eligible [of i] by (auto simp: research_definitions_def inputs_present_marshal input_present_wire)
  next
    case 4
    then show ?thesis using assms(1) el h007_eligible [of i] by (auto simp: research_definitions_def inputs_present_marshal input_present_wire)
  qed
qed

section \<open>Verdicts\<close>

definition no_empty :: "hyp_state \<Rightarrow> bool" where
  "no_empty r \<longleftrightarrow> [] \<notin> set (hs_reasons r)"

lemma no_empty_simps [simp]:
  "no_empty (base i)" "no_empty (add_reason s r) \<longleftrightarrow> no_empty r \<and> s \<noteq> []" "no_empty (add_feature s r) = no_empty r"
  "no_empty (add_transition s r) = no_empty r"
  by (auto simp: no_empty_def base_def add_reason_def add_feature_def add_transition_def)

lemma no_empty_require [simp]:
  "no_empty (snd (require_feature i key d r)) = no_empty r" "no_empty (snd (require_transition i key d r)) = no_empty r"
  by (auto simp: require_feature_def require_transition_def split: option.splits)

lemma no_empty_require_any [simp]:
  "no_empty (snd (require_any_option_feature i key tys r)) = no_empty r"
  "no_empty (snd (require_any_option_transition i key tys r)) = no_empty r"
  by (induction tys) (auto split: option.splits)

lemma note_earnings_props:
  assumes "blank_state r" "no_empty r"
  shows "no_empty (note_earnings i r)" "\<not> hs_triggered (note_earnings i r)"
    "hs_invalidated (note_earnings i r) \<Longrightarrow> hs_reasons (note_earnings i r) \<noteq> []
       \<and> (\<exists>ob. find_feature i ''earnings_window_state'' None = Some ob
            \<and> text_value (Some ob) \<in> {''pre_earnings'', ''earnings_day'', ''post_earnings''})"
  using assms by (auto simp: note_earnings_def no_empty_def blank_state_def add_feature_def add_reason_def Let_def split: option.splits if_splits)

text \<open>What every evaluation state looks like before its reasons are sorted.\<close>

definition verdict_ok :: "hyp_state \<Rightarrow> bool" where
  "verdict_ok r \<longleftrightarrow> (hs_eligible r \<longrightarrow> \<not> hs_invalidated r) \<and> (\<not> hs_eligible r \<longrightarrow> \<not> hs_triggered r \<and> hs_reasons r \<noteq> [] \<and> [] \<notin> set (hs_reasons r))"

lemma verdict_gate:
  assumes "no_empty r" "\<not> hs_triggered r" "hs_invalidated r \<Longrightarrow> hs_reasons r \<noteq> []"
    and "\<And>x. hs_eligible (f x) = hs_eligible x" "\<And>x. hs_invalidated (f x) = hs_invalidated x"
  shows "verdict_ok (if hs_reasons r = [] \<and> \<not> hs_invalidated r then f (r\<lparr>hs_eligible := hs_reasons r = [] \<and> \<not> hs_invalidated r\<rparr>)
    else r\<lparr>hs_eligible := hs_reasons r = [] \<and> \<not> hs_invalidated r\<rparr>)"
  using assms by (auto simp: verdict_ok_def no_empty_def)

lemma verdict_gate_blank:
  assumes "no_empty r" "blank_state r" and "\<And>x. hs_eligible (f x) = hs_eligible x" "\<And>x. hs_invalidated (f x) = hs_invalidated x"
  shows "verdict_ok (if hs_reasons r = [] then f (r\<lparr>hs_eligible := hs_reasons r = []\<rparr>) else r\<lparr>hs_eligible := hs_reasons r = []\<rparr>)"
  using assms by (auto simp: verdict_ok_def no_empty_def blank_state_def)

lemma verdict_ok_dispatch:
  assumes "dispatch key i = Inr r"
  shows "verdict_ok r"
  using assms
proof (cases rule: dispatch_cases)
  case 1
  show ?thesis unfolding 1(2) evaluate_h001_def Let_def case_prod_beta
    by (rule verdict_gate) (auto simp: note_earnings_props)
next
  case 2
  show ?thesis unfolding 2(2) evaluate_h004_def Let_def case_prod_beta
    by (rule verdict_gate_blank) auto
next
  case 3
  show ?thesis unfolding 3(2) evaluate_h006_def Let_def case_prod_beta
    by (rule verdict_gate_blank) auto
next
  case 4
  show ?thesis unfolding 4(2) evaluate_h007_def Let_def case_prod_beta
    by (rule verdict_gate_blank) auto
qed

lemma unique_props [simp]: "sorted (unique vs)" "distinct (unique vs)" "set (unique vs) = {v \<in> set vs. v \<noteq> []}"
  using keep_new_distinct [of "[]" vs] by (simp_all add: unique_def set_keep_new)

text \<open>
  An evaluation is triggered only when it is eligible and not invalidated, and its last
  reason then says that the trigger is research only. An evaluation that is not eligible
  carries a reason and no score but that of its quality; the reason codes of an evaluation
  that is not triggered are sorted, distinct and never empty.
\<close>

theorem evaluation_verdict:
  assumes "hyp_evaluate run d i = Inr e"
  shows "(he_triggered e \<longrightarrow> he_eligible e \<and> \<not> he_invalidated e \<and> last (he_reason_codes e) = ''triggered_research_only'')
    \<and> he_reason_codes e \<noteq> []
    \<and> (\<not> he_triggered e \<longrightarrow> sorted (he_reason_codes e) \<and> distinct (he_reason_codes e) \<and> [] \<notin> set (he_reason_codes e))
    \<and> (he_eligible e \<longleftrightarrow> he_trigger_score e \<noteq> None) \<and> he_confidence_score e = he_trigger_score e
    \<and> (\<not> he_eligible e \<longrightarrow> he_magnitude_score e = None \<and> he_rarity_score e = None \<and> he_persistence_score e = None \<and> he_corroboration_score e = None)"
proof -
  obtain r ident where r: "dispatch (hd_hypothesis_key d) i = Inr r" "e = evaluation_record run d i ident r"
    using hyp_evaluate_Inr [OF assms] by blast
  have v: "verdict_ok r" by (rule verdict_ok_dispatch [OF r(1)])
  have n: "unique (hs_reasons r) \<noteq> []" if "\<not> hs_eligible r"
  proof -
    have h: "hs_reasons r \<noteq> []" "[] \<notin> set (hs_reasons r)" using v that by (simp_all add: verdict_ok_def)
    have "set (unique (hs_reasons r)) = set (hs_reasons r)" using h(2) by (simp only: unique_props) blast
    then show ?thesis using h(1) by (metis set_empty)
  qed
  have f: "final_reasons r \<noteq> []"
    unfolding final_reasons_def Let_def using n v by (cases "hs_eligible r"; cases "hs_triggered r") (simp_all add: verdict_ok_def)
  have s: "\<not> hs_triggered r \<longrightarrow> sorted (final_reasons r) \<and> distinct (final_reasons r) \<and> [] \<notin> set (final_reasons r)"
    by (simp add: final_reasons_def Let_def)
  have l: "hs_triggered r \<longrightarrow> last (final_reasons r) = ''triggered_research_only''" by (simp add: final_reasons_def Let_def)
  have q: "he_trigger_score e = (if hs_eligible r then Some (trigger_score r) else None)" "he_confidence_score e = he_trigger_score e"
    "\<not> hs_eligible r \<longrightarrow> he_magnitude_score e = None \<and> he_rarity_score e = None \<and> he_persistence_score e = None \<and> he_corroboration_score e = None"
    by (simp_all add: r(2) evaluation_record_def Let_def)
  have e: "he_triggered e = hs_triggered r" "he_eligible e = hs_eligible r" "he_invalidated e = hs_invalidated r" "he_reason_codes e = final_reasons r"
    by (simp_all add: r(2))
  have t: "hs_triggered r \<longrightarrow> hs_eligible r \<and> \<not> hs_invalidated r" using v unfolding verdict_ok_def by blast
  have p: "hs_eligible r \<longleftrightarrow> he_trigger_score e \<noteq> None" using q(1) by (cases "hs_eligible r") simp_all
  show ?thesis unfolding e using f s l t p q(2,3) by blast
qed

section \<open>Scores\<close>

definition unit_or_nan :: "f64 \<Rightarrow> bool" where
  "unit_or_nan x \<longleftrightarrow> x = NaN \<or> between 0 1 x"

lemma clamp01_unit: "unit_or_nan (clamp01 v)"
  by (cases v) (auto simp: unit_or_nan_def clamp01_def flt_def between_iff)

text \<open>
  Every score of an evaluation that is present lies between zero and one, or is a NaN
  (which only a NaN among the inputs, or infinities cancelling, can bring about); the quality
  score is always present.
\<close>

theorem evaluation_scores_in_range:
  assumes "hyp_evaluate run d i = Inr e"
  shows "list_all (\<lambda>x. x = None \<or> (\<exists>v. x = Some v \<and> unit_or_nan v))
      [he_trigger_score e, he_confidence_score e, he_magnitude_score e, he_rarity_score e, he_persistence_score e, he_corroboration_score e]
    \<and> (\<exists>q. he_quality_score e = Some q \<and> unit_or_nan q)"
proof -
  obtain r ident where r: "e = evaluation_record run d i ident r" using hyp_evaluate_Inr [OF assms] by blast
  show ?thesis unfolding r evaluation_record_def Let_def by (simp add: clamp01_unit trigger_score_def)
qed

section \<open>Invalidation\<close>

lemma not_invalidated: "\<not> hs_invalidated (evaluate_h004 i)" "\<not> hs_invalidated (evaluate_h006 i)" "\<not> hs_invalidated (evaluate_h007 i)"
proof -
  have b: "\<not> hs_invalidated r" if "blank_state r" for r using that by (simp add: blank_state_def)
  show "\<not> hs_invalidated (evaluate_h004 i)" "\<not> hs_invalidated (evaluate_h006 i)" "\<not> hs_invalidated (evaluate_h007 i)"
    unfolding evaluate_h004_def evaluate_h006_def evaluate_h007_def Let_def case_prod_beta by (auto simp: b)
qed

text \<open>
  Only a known earnings window of \<open>H001\<close> invalidates an evaluation. The registry
  entries say that a quality failure invalidates; in the code it only makes an evaluation
  ineligible.
\<close>

theorem only_earnings_invalidate:
  assumes "hyp_evaluate run d i = Inr e" "he_invalidated e"
  shows "hd_hypothesis_key d = ''H001'' \<and> \<not> he_eligible e
    \<and> (\<exists>ob. find_feature i ''earnings_window_state'' None = Some ob
         \<and> text_value (Some ob) \<in> {''pre_earnings'', ''earnings_day'', ''post_earnings''})"
proof -
  obtain r ident where r: "dispatch (hd_hypothesis_key d) i = Inr r" "e = evaluation_record run d i ident r"
    using hyp_evaluate_Inr [OF assms(1)] by blast
  have inv: "hs_invalidated r" and ne: "\<not> hs_eligible r"
    using assms(2) r(2) verdict_ok_dispatch [OF r(1)] by (auto simp: verdict_ok_def)
  from r(1) show ?thesis
  proof (cases rule: dispatch_cases)
    case 1
    have "\<exists>s. blank_state s \<and> no_empty s \<and> hs_invalidated (note_earnings i s)"
      using inv ne unfolding 1(2) evaluate_h001_def Let_def case_prod_beta
      by (auto split: if_splits intro!: exI)
    then show ?thesis using 1 ne r(2) note_earnings_props(3) [of _ i] by auto
  qed (use inv not_invalidated in auto)
qed

section \<open>Declared thresholds\<close>

definition threshold :: "hypothesis_definition \<Rightarrow> string \<Rightarrow> f64" where
  "threshold d key =
     (case decode_obj (hd_trigger_expression d) of
        None \<Rightarrow> NaN
      | Some m \<Rightarrow> (case obj_of (oget m ''thresholds'') of
          None \<Rightarrow> NaN | Some th \<Rightarrow> (case num_of (oget th key) of None \<Rightarrow> NaN | Some x \<Rightarrow> x)))"

lemma threshold_research:
  assumes "list_all (\<lambda>(k, v). marshalable v) th"
  shows "threshold (research_definition t key ti dm dr fs ts th oc) k =
    (case num_of (map_option wire (oget th k)) of None \<Rightarrow> NaN | Some x \<Rightarrow> x)"
  using assms by (simp add: threshold_def marshal_def decode_obj_def oget_def obj_of_def map_of_map)

definition option_feature :: "input_set \<Rightarrow> string \<Rightarrow> f64 \<Rightarrow> bool" where
  "option_feature i key v \<longleftrightarrow> (\<exists>ty \<in> set option_types. \<exists>ob. find_feature i key (Some (Dims ty 30)) = Some ob \<and> v = fvalue (Some ob))"

lemma require_any_feature_value:
  "fst (require_any_option_feature i key tys r) = Some ob \<Longrightarrow>
     \<exists>ty \<in> set tys. find_feature i key (Some (Dims ty 30)) = Some ob"
  by (induction tys) (auto split: option.splits if_splits)

lemma require_any_transition_value:
  "fst (require_any_option_transition i key tys r) = Some tr \<Longrightarrow>
     \<exists>ty \<in> set tys. find_transition i key (Some (Dims ty 30)) = Some tr"
  by (induction tys) (auto split: option.splits)

text \<open>What a trigger of each hypothesis has to show, with the thresholds as a parameter.\<close>

definition meets :: "input_set \<Rightarrow> string \<Rightarrow> (string \<Rightarrow> f64) \<Rightarrow> bool" where
  "meets i key th \<longleftrightarrow>
     (if key = ''H001'' then
        fge (fvalue (find_feature i ''rsi_14'' None)) (th ''rsi_min'')
        \<and> fge (fvalue (find_feature i ''surface_coverage_ratio'' None)) (th ''surface_coverage_min'')
        \<and> fgt (change (find_transition i ''iv'' (Some (Dims ''put'' 30)))) (th ''iv_change_min'')
        \<and> fgt (change (find_transition i ''iv'' (Some (Dims ''put'' 60)))) (th ''iv_change_min'')
        \<and> fgt (change (find_transition i ''extrinsic_premium'' (Some (Dims ''put'' 30)))) (th ''premium_change_min'')
        \<and> fgt (fvalue (find_feature i ''oi_change_1d'' (Some (Dims ''put'' 30)))) (th ''oi_change_min'')
      else if key = ''H004'' then
        fge (fvalue (find_feature i ''surface_coverage_ratio'' None)) (th ''surface_coverage_min'')
        \<and> fge (fabs (fsub (fvalue (find_feature i ''atm_iv_30d'' None)) (fvalue (find_feature i ''atm_iv_90d'' None)))) (th ''term_spread_min'')
        \<and> (\<exists>k \<in> {''atm_iv_30d'', ''atm_iv_60d'', ''atm_iv_90d''}.
             f_to_int (th ''minimum_persistence_sessions'') \<le> transition_persistence (find_transition i k None))
      else if key = ''H006'' then
        fge (fabs (fvalue (find_feature i ''return_1d'' None))) (th ''underlying_move_min_pct'')
        \<and> (\<exists>k \<in> {''mid_premium'', ''iv''}. \<exists>ty \<in> set option_types. \<exists>tr. find_transition i k (Some (Dims ty 30)) = Some tr
             \<and> (flt (change (Some tr)) (fneg (th ''premium_or_iv_change_min'')) \<or> fgt (change (Some tr)) (th ''premium_or_iv_change_min'')))
      else
        fge (fvalue (find_feature i ''surface_coverage_ratio'' None)) (th ''surface_coverage_min'')
        \<and> (\<exists>ty \<in> set option_types. fge (fvalue (find_feature i ''oi_change_1d'' (Some (Dims ty 30)))) (th ''minimum_oi_change''))
        \<and> (\<exists>ty \<in> set option_types. \<exists>tr. find_transition i ''oi_change_1d'' (Some (Dims ty 30)) = Some tr
             \<and> (at_least (tr_z_score tr) (th ''minimum_zscore'') \<or> at_least (tr_percentile tr) (th ''minimum_percentile''))))"

definition registry_threshold :: "string \<Rightarrow> string \<Rightarrow> f64" where
  "registry_threshold key k =
     (if key = ''H001'' then
        (if k = ''rsi_min'' then Fin 70 else if k = ''iv_change_min'' then c_02 else if k = ''surface_coverage_min'' then c_8 else Fin 0)
      else if key = ''H004'' then (if k = ''surface_coverage_min'' then c_8 else if k = ''term_spread_min'' then c_02 else Fin 2)
      else if key = ''H006'' then (if k = ''underlying_move_min_pct'' then Fin 1 else c_01)
      else if k = ''minimum_oi_change'' then Fin 100 else if k = ''minimum_zscore'' then Fin 2
      else if k = ''minimum_percentile'' then c_95 else c_6)"

lemma h001_meets: "hs_triggered (evaluate_h001 i) \<Longrightarrow> meets i ''H001'' (registry_threshold ''H001'')"
  using h001_eligible [of i] verdict_ok_dispatch [of "''H001''" i]
  by (auto simp: dispatch_def verdict_ok_def)
    (simp add: evaluate_h001_def Let_def case_prod_beta h001_score_def meets_def registry_threshold_def split: if_splits)

lemma h004_meets: "hs_triggered (evaluate_h004 i) \<Longrightarrow> meets i ''H004'' (registry_threshold ''H004'')"
  using verdict_ok_dispatch [of "''H004''" i]
  by (auto simp: dispatch_def verdict_ok_def)
    (auto simp: evaluate_h004_def Let_def case_prod_beta h004_score_def meets_def registry_threshold_def f_to_int_def split: if_splits)

lemma c_01_between: "between (1 / 2 ^ 7) (1 / 2 ^ 6) c_01"
  unfolding c_01_def by (rule rnd_between) (use rep_dyadic [of 1 7] rep_dyadic [of 1 6] in simp_all)

lemma fin_pos: "is_fin x \<Longrightarrow> 0 < fval x \<Longrightarrow> \<exists>q. x = Fin q \<and> 0 < q"
  by (cases x) simp_all

lemma change_beyond:
  assumes "flt (change tr) (fneg c_01) \<or> fgt (change tr) c_01"
  shows "tr \<noteq> None"
proof -
  have "is_fin c_01" "0 < fval c_01" using c_01_between by (auto simp: between_iff)
  then obtain q where q: "c_01 = Fin q" "0 < q" using fin_pos by blast
  show ?thesis using assms q(2) unfolding q(1)
    by (cases tr) (auto simp: change_def fgt_def flt_def fneg_def split: if_splits)
qed

lemma h006_meets:
  assumes "hs_triggered (evaluate_h006 i)"
  shows "meets i ''H006'' (registry_threshold ''H006'')"
proof -
  have e: "hs_eligible (evaluate_h006 i)" using assms verdict_ok_dispatch [of "''H006''" i] by (auto simp: dispatch_def verdict_ok_def)
  obtain r r' tp ti where t: "tp = fst (require_any_option_transition i ''mid_premium'' option_types r)"
      "ti = fst (require_any_option_transition i ''iv'' option_types r')"
    and m: "fge (fabs (fvalue (find_feature i ''return_1d'' None))) (Fin 1)"
    and c: "(flt (change tp) (fneg c_01) \<or> fgt (change tp) c_01) \<or> (flt (change ti) (fneg c_01) \<or> fgt (change ti) c_01)"
    using assms e by (auto simp: evaluate_h006_def h006_score_def Let_def case_prod_beta split: if_splits)
  from c have "\<exists>k \<in> {''mid_premium'', ''iv''}. \<exists>ty \<in> set option_types. \<exists>tr. find_transition i k (Some (Dims ty 30)) = Some tr
      \<and> (flt (change (Some tr)) (fneg c_01) \<or> fgt (change (Some tr)) c_01)"
  proof
    assume a: "flt (change tp) (fneg c_01) \<or> fgt (change tp) c_01"
    then obtain tr where "tp = Some tr" using change_beyond by blast
    then show ?thesis using a t(1) require_any_transition_value by (metis insertI1)
  next
    assume a: "flt (change ti) (fneg c_01) \<or> fgt (change ti) c_01"
    then obtain tr where "ti = Some tr" using change_beyond by blast
    then show ?thesis using a t(2) require_any_transition_value by (metis insertI1 insertI2)
  qed
  then show ?thesis using m by (simp add: meets_def registry_threshold_def)
qed

lemma h007_meets:
  assumes "hs_triggered (evaluate_h007 i)"
  shows "meets i ''H007'' (registry_threshold ''H007'')"
proof -
  have e: "hs_eligible (evaluate_h007 i)" using assms verdict_ok_dispatch [of "''H007''" i] by (auto simp: dispatch_def verdict_ok_def)
  obtain r r' oi tr where t: "oi = fst (require_any_option_feature i ''oi_change_1d'' option_types r)"
      "tr = fst (require_any_option_transition i ''oi_change_1d'' option_types r')"
    and m: "fge (fvalue (find_feature i ''surface_coverage_ratio'' None)) c_6" "fge (fvalue oi) (Fin 100)"
    and c: "at_least (Option.bind tr tr_z_score) (Fin 2) \<or> at_least (Option.bind tr tr_percentile) c_95"
    using assms e by (auto simp: evaluate_h007_def h007_score_def Let_def case_prod_beta split: if_splits)
  obtain x where x: "tr = Some x" using c by (cases tr) (auto simp: at_least_def)
  obtain y where y: "oi = Some y" using m(2) by (cases oi) (auto simp: fvalue_def fge_def fle_def flt_def feq_def)
  have f: "\<exists>ty \<in> set option_types. find_feature i ''oi_change_1d'' (Some (Dims ty 30)) = Some y"
    using require_any_feature_value t(1) y by metis
  have g: "\<exists>ty \<in> set option_types. find_transition i ''oi_change_1d'' (Some (Dims ty 30)) = Some x"
    using require_any_transition_value t(2) x by metis
  have "\<exists>ty \<in> set option_types. fge (fvalue (find_feature i ''oi_change_1d'' (Some (Dims ty 30)))) (Fin 100)"
    using f m(2) unfolding y by (metis (no_types, lifting))
  moreover have "\<exists>ty \<in> set option_types. \<exists>tr. find_transition i ''oi_change_1d'' (Some (Dims ty 30)) = Some tr
      \<and> (at_least (tr_z_score tr) (Fin 2) \<or> at_least (tr_percentile tr) c_95)"
    using g c x by auto
  ultimately show ?thesis using m(1) by (simp add: meets_def registry_threshold_def)
qed

lemma int_exact: "\<bar>k\<bar> \<le> 2 ^ 53 \<Longrightarrow> f_of_int k = Fin (of_int k)"
  by (simp add: f_of_int_def rnd_rep rep_int)

lemma c_finite [simp]: "is_fin c_02" "is_fin c_01" "is_fin c_8" "is_fin c_6" "is_fin c_95"
proof -
  have "is_fin (rnd q)" if "0 \<le> q" "q \<le> 1" for q using rnd_between [of 0 1 q] that by (simp add: between_iff)
  then show "is_fin c_02" "is_fin c_01" "is_fin c_8" "is_fin c_6" "is_fin c_95"
    by (simp_all add: c_02_def c_01_def c_8_def c_6_def c_95_def)
qed

definition threshold_keys :: "string \<Rightarrow> string list" where
  "threshold_keys key =
     (if key = ''H001'' then [''rsi_min'', ''surface_coverage_min'', ''iv_change_min'', ''premium_change_min'', ''oi_change_min'']
      else if key = ''H004'' then [''surface_coverage_min'', ''term_spread_min'', ''minimum_persistence_sessions'']
      else if key = ''H006'' then [''underlying_move_min_pct'', ''premium_or_iv_change_min'']
      else [''surface_coverage_min'', ''minimum_oi_change'', ''minimum_zscore'', ''minimum_percentile''])"

lemma meets_cong: "\<forall>k \<in> set (threshold_keys key). th k = th' k \<Longrightarrow> meets i key th = meets i key th'"
  by (simp add: meets_def threshold_keys_def split: if_splits)

lemma thresholds_of:
  assumes "list_all (\<lambda>(k, v). marshalable v) th"
    and "\<forall>k \<in> set (threshold_keys key). \<exists>v. oget th k = Some v \<and> wire v = JNum (registry_threshold key k)"
  shows "\<forall>k \<in> set (threshold_keys key). threshold (research_definition t key ti dm dr fs ts th oc) k = registry_threshold key k"
  using assms(2) by (auto simp: threshold_research [OF assms(1)] num_of_def)

lemma registry_thresholds:
  assumes "d \<in> set (research_definitions t)"
  shows "\<forall>k \<in> set (threshold_keys (hd_hypothesis_key d)). threshold d k = registry_threshold (hd_hypothesis_key d) k"
  using assms unfolding research_definitions_def list.set insert_iff empty_iff simp_thms(31)
  by (elim disjE; hypsubst; unfold research_definition_simps(1); intro thresholds_of)
    (simp_all add: threshold_keys_def registry_threshold_def oget_def int_exact)


section \<open>Concrete evaluations\<close>

definition sample_observation :: "string \<Rightarrow> string \<Rightarrow> f64 option \<Rightarrow> string option \<Rightarrow> feature_observation" where
  "sample_observation oid key v tx = \<lparr>fo_observation_id = oid, fo_tenant_id = [], fo_app_id = [], fo_asset_id = [], fo_symbol = [], fo_session_date = 0,
    fo_as_of_time = 0, fo_feature_key = key, fo_feature_version = [],
    fo_dimensions = Doc (JObj [(''option_type'', JStr ''put''), (''target_dte'', JNum (Fin 30)), (''target_delta'', JNum (Fin (1 / 4)))]),
    fo_numeric_value = v, fo_text_value = tx, fo_boolean_value = None, fo_quality_state = ''usable'', fo_quality_score = None,
    fo_quality_details = NoBytes, fo_source_event_ids = [], fo_source_artifact_ids = [], fo_calculation_run_id = [],
    fo_deterministic_key = [], fo_created_at = 0\<rparr>"

definition sample_transition :: transition_record where
  "sample_transition = \<lparr>tr_transition_id = ''t1'', tr_tenant_id = [], tr_app_id = [], tr_asset_id = [], tr_symbol = [], tr_session_date = 0,
    tr_as_of_time = 0, tr_current_state_id = [], tr_baseline_state_id = [], tr_feature_key = ''oi_change_1d'',
    tr_feature_version = [],
    tr_dimensions = Doc (JObj [(''option_type'', JStr ''put''), (''target_dte'', JNum (Fin 30)), (''target_delta'', JNum (Fin (1 / 4)))]),
    tr_transition_type = [], tr_lookback_sessions = None, tr_current_value = None, tr_baseline_value = None,
    tr_transition_value = Some (Fin 100), tr_z_score = Some (Fin 3), tr_percentile = None, tr_persistence_sessions = None,
    tr_direction = [], tr_quality_state = ''usable'', tr_transition_payload = NoBytes, tr_calculation_run_id = [],
    tr_deterministic_key = [], tr_created_at = 0\<rparr>"

definition sample_state :: state_record where
  "sample_state = \<lparr>ms_market_state_id = ''m1'', ms_tenant_id = ''t'', ms_app_id = [], ms_asset_id = ''a1'', ms_symbol = ''AAPL'',
    ms_session_date = 0, ms_as_of_time = 0, ms_state_schema_version = [], ms_state_payload = NoBytes,
    ms_feature_observation_ids = [], ms_feature_count = 0, ms_required_feature_count = 0, ms_completeness_ratio = Fin 0,
    ms_quality_state = [], ms_quality_score = None, ms_quality_summary = NoBytes, ms_eligible_hypotheses = [],
    ms_build_run_id = [], ms_deterministic_key = [], ms_created_at = 0\<rparr>"

definition sample_unusual :: input_set where
  "sample_unusual = \<lparr>in_state = sample_state, in_observations = [sample_observation ''o1'' ''oi_change_1d'' (Some (Fin 100)) None,
     sample_observation ''o2'' ''surface_coverage_ratio'' (Some (Fin 1)) None], in_transitions = [sample_transition], in_evidence = []\<rparr>"

definition sample_earnings :: input_set where
  "sample_earnings = \<lparr>in_state = sample_state, in_observations = [sample_observation ''o3'' ''earnings_window_state'' None (Some ''earnings_day'')],
     in_transitions = [], in_evidence = []\<rparr>"

definition sample_entry :: "nat \<Rightarrow> hypothesis_definition" where
  "sample_entry k = research_definitions ''t'' ! k"

lemma sample_entry_in: "k < 4 \<Longrightarrow> sample_entry k \<in> set (research_definitions ''t'')"
  unfolding sample_entry_def by (rule nth_mem) (simp add: research_definitions_def)

lemma sample_entry_keys [simp]:
  "hd_hypothesis_key (sample_entry 0) = ''H001''" "hd_hypothesis_key (sample_entry 3) = ''H007''"
  by (simp_all add: sample_entry_def research_definitions_def numeral_eq_Suc)

lemma sample_entry_simps: "k < 4 \<Longrightarrow> hd_tenant_id (sample_entry k) = ''t'' \<and> hd_hypothesis_version (sample_entry k) = ''v1''"
  by (auto simp: sample_entry_def research_definitions_def research_definition_def less_Suc_eq numeral_eq_Suc)

lemma fle_Fin: "fle (Fin a) (Fin b) \<longleftrightarrow> a \<le> b"
  by (auto simp: fle_def flt_def feq_def)

lemma c_6_le: "fle c_6 (Fin 1)"
  using rnd_between [of 0 1 "6 / 10"] by (simp add: c_6_def between_def)

lemma sample_find [simp]:
  "find_feature sample_unusual ''oi_change_1d'' (Some (Dims ''put'' 30)) = Some (sample_observation ''o1'' ''oi_change_1d'' (Some (Fin 100)) None)"
  "find_feature sample_unusual ''surface_coverage_ratio'' None = Some (sample_observation ''o2'' ''surface_coverage_ratio'' (Some (Fin 1)) None)"
  "find_transition sample_unusual ''oi_change_1d'' (Some (Dims ''put'' 30)) = Some sample_transition"
  "find_feature sample_earnings ''earnings_window_state'' None = Some (sample_observation ''o3'' ''earnings_window_state'' None (Some ''earnings_day''))"
  by (simp_all add: find_feature_def find_transition_def sample_unusual_def sample_earnings_def sample_observation_def sample_transition_def
      dimensions_match_def prints_as_def decoded_def oget_def transition_usable_def usable_def)

lemma sample_unusual_triggers: "hs_triggered (evaluate_h007 sample_unusual)" "hs_eligible (evaluate_h007 sample_unusual)"
  by (simp_all add: evaluate_h007_def Let_def case_prod_beta option_types_def numeric_usable_def usable_def require_feature_def h007_score_def
      sample_observation_def sample_transition_def fvalue_def fge_def fle_Fin at_least_def c_6_le)

lemma sample_invalid: "hs_invalidated (evaluate_h001 sample_earnings)"
proof -
  have "hs_invalidated (note_earnings sample_earnings r)" for r
    by (simp add: note_earnings_def sample_observation_def usable_def text_value_def Let_def add_reason_def)
  then show ?thesis unfolding evaluate_h001_def Let_def case_prod_beta by simp
qed

lemma sample_evaluates:
  assumes "k \<in> {0, 3}" "in_state i = sample_state" "dispatch (hd_hypothesis_key (sample_entry k)) i = Inr r"
  shows "\<exists>ident. hyp_evaluate ''run'' (sample_entry k) i = Inr (evaluation_record ''run'' (sample_entry k) i ident r)"
proof -
  have b: "\<not> blank ''run''" "\<not> blank (fmt_date 0)" "\<not> blank ''t''" "\<not> blank ''a1''" "\<not> blank ''v1''" "\<not> blank ''m1''" "\<not> blank ''H001''" "\<not> blank ''H007''"
    by code_simp+
  have key: "hd_hypothesis_key (sample_entry k) \<in> {''H001'', ''H007''}" using assms(1) by auto
  have "is_ok (new_identity ''hypothesis_evaluation'' [''t'', ''a1'', fmt_date 0, hd_hypothesis_key (sample_entry k), ''v1'', ''m1''])"
    by (rule new_identity_ok) (use b key in \<open>auto simp: identity_prefix_def\<close>)
  then obtain ident where "new_identity ''hypothesis_evaluation'' [''t'', ''a1'', fmt_date 0, hd_hypothesis_key (sample_entry k), ''v1'', ''m1''] = Inr ident"
    by (cases "new_identity ''hypothesis_evaluation'' [''t'', ''a1'', fmt_date 0, hd_hypothesis_key (sample_entry k), ''v1'', ''m1'']") auto
  moreover have "hd_tenant_id (sample_entry k) = ''t''" "hd_hypothesis_version (sample_entry k) = ''v1''"
    using sample_entry_simps [of k] assms(1) by auto
  ultimately show ?thesis using assms(2,3) b by (intro exI [of _ ident]) (simp add: hyp_evaluate_def Let_def sample_state_def)
qed

lemma sample_unusual_evaluates:
  "\<exists>e. hyp_evaluate ''run'' (sample_entry 3) sample_unusual = Inr e \<and> he_eligible e \<and> he_triggered e"
  using sample_evaluates [of 3 sample_unusual "evaluate_h007 sample_unusual"] sample_unusual_triggers
  by (auto simp: dispatch_def sample_unusual_def)

lemma sample_earnings_evaluates:
  "\<exists>e. hyp_evaluate ''run'' (sample_entry 0) sample_earnings = Inr e \<and> he_invalidated e"
  using sample_evaluates [of 0 sample_earnings "evaluate_h001 sample_earnings"] sample_invalid
  by (auto simp: dispatch_def sample_earnings_def)

theorem declared_inputs_present_witness:
  "\<exists>e. hyp_evaluate ''run'' (sample_entry 3) sample_unusual = Inr e \<and> he_eligible e
    \<and> inputs_present (feature_present sample_unusual) (hd_required_features (sample_entry 3))"
proof -
  obtain e where e: "hyp_evaluate ''run'' (sample_entry 3) sample_unusual = Inr e" "he_eligible e" using sample_unusual_evaluates by blast
  then show ?thesis using declared_inputs_present [OF sample_entry_in [of 3] e] by auto
qed

theorem evaluation_verdict_witness:
  "\<exists>e. hyp_evaluate ''run'' (sample_entry 3) sample_unusual = Inr e \<and> last (he_reason_codes e) = ''triggered_research_only''"
proof -
  obtain e where e: "hyp_evaluate ''run'' (sample_entry 3) sample_unusual = Inr e" "he_triggered e" using sample_unusual_evaluates by blast
  then show ?thesis using evaluation_verdict [OF e(1)] by auto
qed

theorem evaluation_scores_in_range_witness:
  "\<exists>e q. hyp_evaluate ''run'' (sample_entry 3) sample_unusual = Inr e \<and> he_quality_score e = Some q \<and> unit_or_nan q"
proof -
  obtain e where e: "hyp_evaluate ''run'' (sample_entry 3) sample_unusual = Inr e" using sample_unusual_evaluates by blast
  then show ?thesis using evaluation_scores_in_range [OF e] by auto
qed

theorem only_earnings_invalidate_witness:
  "\<exists>e. hyp_evaluate ''run'' (sample_entry 0) sample_earnings = Inr e \<and> he_invalidated e \<and> \<not> he_eligible e"
proof -
  obtain e where e: "hyp_evaluate ''run'' (sample_entry 0) sample_earnings = Inr e" "he_invalidated e" using sample_earnings_evaluates by blast
  then show ?thesis using only_earnings_invalidate [OF e] by auto
qed


end
