(* ===== verification/Eeom.thy ===== *)
theory Eeom imports GoFloatBounds "HOL-Library.Multiset" begin

text \<open>
  \<open>internal/marketops/eeom/model.go\<close>: the pre-earnings setup score. \<open>Evaluate\<close> ranges over
  the component map twice; the two orders are the arguments \<open>ord1\<close> and \<open>ord2\<close>, each a
  permutation of the keys. Products and sums round once each (no fused operations).
\<close>

section \<open>Data\<close>

record component =
  cm_score :: f64
  cm_weight :: f64
  cm_effective_weight :: f64
  cm_available :: bool
  cm_direction :: string
  cm_reason :: string

record eeom_input =
  ei_days_to_earnings :: int
  ei_technical :: component
  ei_options :: component
  ei_risk_reward :: component
  ei_vc :: component
  ei_dosm :: component
  ei_materiality :: component

record eeom_result =
  er_score :: f64
  er_posture :: string
  er_classification :: string
  er_evidence_quality :: string
  er_eligible :: bool
  er_days_to_earnings :: int
  er_components :: "(string \<times> component) list"
  er_withheld :: "string list"

section \<open>Model\<close>

definition weights_for :: "int \<Rightarrow> (string \<times> f64) list" where
  "weights_for days =
     (if 21 \<le> days then [(''technical'', Fin 25), (''options'', Fin 20), (''risk_reward'', Fin 15), (''vc'', Fin 15), (''dosm'', Fin 10), (''event_materiality'', Fin 15)]
      else if 10 \<le> days then [(''technical'', Fin 26), (''options'', Fin 21), (''risk_reward'', Fin 15), (''vc'', Fin 13), (''dosm'', Fin 10), (''event_materiality'', Fin 15)]
      else if 5 \<le> days then [(''technical'', Fin 28), (''options'', Fin 22), (''risk_reward'', Fin 15), (''vc'', Fin 10), (''dosm'', Fin 10), (''event_materiality'', Fin 15)]
      else [(''technical'', Fin 30), (''options'', Fin 25), (''risk_reward'', Fin 15), (''vc'', Fin 10), (''dosm'', Fin 10), (''event_materiality'', Fin 10)])"

definition weight_of :: "int \<Rightarrow> string \<Rightarrow> f64" where
  "weight_of days k = (case map_of (weights_for days) k of None \<Rightarrow> Fin 0 | Some w \<Rightarrow> w)"

definition clamp100 :: "f64 \<Rightarrow> f64" where
  "clamp100 v = (if flt v (Fin 0) then Fin 0 else if flt (Fin 100) v then Fin 100 else v)"

definition round2 :: "f64 \<Rightarrow> f64" where
  "round2 v = fdiv (fround (fmul v (Fin 100))) (Fin 100)"

definition zero_component :: component where
  "zero_component = \<lparr>cm_score = Fin 0, cm_weight = Fin 0, cm_effective_weight = Fin 0, cm_available = False, cm_direction = [], cm_reason = []\<rparr>"

definition cget :: "(string \<times> component) list \<Rightarrow> string \<Rightarrow> component" where
  "cget m k = (case map_of m k of None \<Rightarrow> zero_component | Some c \<Rightarrow> c)"

definition component_keys :: "string list" where
  "component_keys = [''technical'', ''options'', ''risk_reward'', ''vc'', ''dosm'', ''event_materiality'']"

definition input_components :: "eeom_input \<Rightarrow> (string \<times> component) list" where
  "input_components i =
     [(''technical'', ei_technical i), (''options'', ei_options i), (''risk_reward'', ei_risk_reward i),
      (''vc'', ei_vc i), (''dosm'', ei_dosm i), (''event_materiality'', ei_materiality i)]"

definition posture :: "(string \<times> component) list \<Rightarrow> string" where
  "posture m =
     (let side = (\<lambda>d. foldl (\<lambda>t k. if cm_available (cget m k) \<and> cm_direction (cget m k) = d then fadd t (cm_effective_weight (cget m k)) else t)
                    (Fin 0) [''technical'', ''options'', ''risk_reward'']);
          up = side ''bullish''; down = side ''bearish''
      in if fle (Fin 20) up \<and> fle (Fin 20) down then ''mixed''
         else if flt down up then ''bullish'' else if flt up down then ''bearish'' else ''neutral'')"

definition classification :: "f64 \<Rightarrow> string \<Rightarrow> int \<Rightarrow> string \<Rightarrow> string" where
  "classification score pst days quality =
     (if quality = ''withheld'' then ''informational_only''
      else if fle (Fin 8) score \<and> pst \<noteq> ''mixed'' then ''priority_a''
      else if fle (Fin (13 / 2)) score then ''priority_b''
      else if flt score (Fin (7 / 2)) then ''avoid''
      else if days \<le> 5 \<and> pst = ''mixed'' then ''await_validation''
      else if fle (Fin (11 / 2)) score then ''distressed_inflection''
      else ''informational_only'')"

text \<open>The first range: weights, clamped scores, the total and the withheld keys.\<close>

definition weighed :: "eeom_input \<Rightarrow> (string \<times> component) list" where
  "weighed i = map (\<lambda>(k, c). (k, c\<lparr>cm_weight := weight_of (ei_days_to_earnings i) k, cm_score := clamp100 (cm_score c)\<rparr>)) (input_components i)"

definition total_weight :: "(string \<times> component) list \<Rightarrow> string list \<Rightarrow> f64" where
  "total_weight m ks = foldl (\<lambda>t k. if cm_available (cget m k) then fadd t (cm_weight (cget m k)) else t) (Fin 0) ks"

text \<open>The second range: effective weights and the weighted score.\<close>

definition effective :: "f64 \<Rightarrow> (string \<times> component) list \<Rightarrow> (string \<times> component) list" where
  "effective tot m = map (\<lambda>(k, c). (k, if cm_available c
     then c\<lparr>cm_effective_weight := fdiv (fmul (cm_weight c) (Fin 100)) tot\<rparr> else c)) m"

definition weighted_score :: "(string \<times> component) list \<Rightarrow> string list \<Rightarrow> f64" where
  "weighted_score m ks =
     foldl (\<lambda>t k. if cm_available (cget m k)
        then fadd t (fdiv (fmul (cm_score (cget m k)) (cm_effective_weight (cget m k))) (Fin 100)) else t) (Fin 0) ks"

definition eeom_evaluate :: "(string list \<Rightarrow> string list) \<Rightarrow> (string list \<Rightarrow> string list) \<Rightarrow> eeom_input \<Rightarrow> eeom_result" where
  "eeom_evaluate ord1 ord2 i =
     (let m = weighed i; ks1 = ord1 component_keys; ks2 = ord2 component_keys;
          tot = total_weight m ks1; withheld = filter (\<lambda>k. \<not> cm_available (cget m k)) ks1;
          core = (cm_available (cget m ''technical'') \<and> cm_available (cget m ''risk_reward''));
          r = \<lparr>er_score = Fin 0, er_posture = ''neutral'', er_classification = ''informational_only'', er_evidence_quality = ''withheld'',
               er_eligible = core, er_days_to_earnings = ei_days_to_earnings i, er_components = m, er_withheld = withheld\<rparr>
      in if \<not> core then r
         else
           let m2 = effective tot m;
               score = round2 (fdiv (weighted_score m2 ks2) (Fin 10));
               quality = (if withheld \<noteq> [] then ''partial'' else ''complete'');
               pst = posture m2
           in r\<lparr>er_score := score, er_evidence_quality := quality, er_posture := pst,
                er_classification := classification score pst (ei_days_to_earnings i) quality, er_components := m2\<rparr>)"

section \<open>Facts\<close>

text \<open>Sums of small integers are exact, so their order does not matter.\<close>

lemma fadd_ints: "\<bar>a + b\<bar> \<le> 2 ^ 53 \<Longrightarrow> fadd (Fin (of_int a)) (Fin (of_int b)) = Fin (of_int (a + b))"
  using rnd_rep [OF rep_int [of "a + b"]] by (simp add: fadd_def)

lemma foldl_fadd_ints:
  assumes "\<forall>x \<in> set xs. 0 \<le> f x" "0 \<le> a" "a + sum_list (map f (filter P xs)) \<le> 2 ^ 53"
  shows "foldl (\<lambda>t x. if P x then fadd t (Fin (of_int (f x))) else t) (Fin (of_int a)) xs
    = Fin (of_int (a + sum_list (map f (filter P xs))))"
  using assms
proof (induction xs arbitrary: a)
  case Nil
  then show ?case by simp
next
  case (Cons x xs)
  have "0 \<le> sum_list (map f (filter P xs))" using Cons.prems(1) by (intro sum_list_nonneg) auto
  then show ?case using Cons.prems Cons.IH [of "a + f x"] Cons.IH [of a] fadd_ints [of a "f x"]
    by (auto simp: algebra_simps)
qed

definition int_weight :: "int \<Rightarrow> string \<Rightarrow> int" where
  "int_weight days k = \<lfloor>fval (weight_of days k)\<rfloor>"

lemma weight_of_int:
  assumes "k \<in> set component_keys"
  shows "weight_of days k = Fin (of_int (int_weight days k))" "10 \<le> int_weight days k" "int_weight days k \<le> 30"
  using assms by (auto simp: component_keys_def weight_of_def weights_for_def int_weight_def)

lemma cget_weighed:
  assumes "k \<in> set component_keys"
  shows "cm_weight (cget (weighed i) k) = weight_of (ei_days_to_earnings i) k"
    "cm_available (cget (weighed i) k) = cm_available (cget (input_components i) k)"
    "cm_score (cget (weighed i) k) = clamp100 (cm_score (cget (input_components i) k))"
  using assms by (auto simp: component_keys_def weighed_def input_components_def cget_def)

definition avail :: "eeom_input \<Rightarrow> string \<Rightarrow> bool" where
  "avail i k \<longleftrightarrow> cm_available (cget (input_components i) k)"

definition avail_total :: "eeom_input \<Rightarrow> int" where
  "avail_total i = sum_list (map (int_weight (ei_days_to_earnings i)) (filter (avail i) component_keys))"

lemma weights_sum:
  "set ks \<subseteq> set component_keys \<Longrightarrow>
   10 * int (length ks) \<le> sum_list (map (int_weight d) ks) \<and> sum_list (map (int_weight d) ks) \<le> 30 * int (length ks)"
proof (induction ks)
  case Nil
  then show ?case by simp
next
  case (Cons k ks)
  then show ?case using weight_of_int(2,3) [of k d] by simp
qed

lemma avail_total_bounds: "0 \<le> avail_total i" "avail_total i \<le> 180" "avail i ''technical'' \<Longrightarrow> 10 \<le> avail_total i"
proof -
  let ?ks = "filter (avail i) component_keys"
  have b: "10 * int (length ?ks) \<le> avail_total i" "avail_total i \<le> 30 * int (length ?ks)"
    using weights_sum [of ?ks "ei_days_to_earnings i"] by (auto simp: avail_total_def)
  have "length ?ks \<le> 6" using length_filter_le [of "avail i" component_keys] by (simp add: component_keys_def)
  then show "0 \<le> avail_total i" "avail_total i \<le> 180" using b by linarith+
  assume "avail i ''technical''"
  then have "?ks \<noteq> []" by (simp add: component_keys_def)
  then have "1 \<le> length ?ks" by (cases ?ks) auto
  then show "10 \<le> avail_total i" using b by linarith
qed

lemma total_weight_exact:
  assumes "mset ks = mset component_keys"
  shows "total_weight (weighed i) ks = Fin (of_int (avail_total i))"
proof -
  have ks: "set ks = set component_keys" using assms by (rule mset_eq_setD)
  have "total_weight (weighed i) ks =
      foldl (\<lambda>t k. if avail i k then fadd t (Fin (of_int (int_weight (ei_days_to_earnings i) k))) else t) (Fin (of_int 0)) ks"
    unfolding total_weight_def using ks
    by (intro foldl_cong) (auto simp: cget_weighed weight_of_int avail_def)
  also have "\<dots> = Fin (of_int (0 + sum_list (map (int_weight (ei_days_to_earnings i)) (filter (avail i) ks))))"
  proof (rule foldl_fadd_ints)
    have "sum_list (map (int_weight (ei_days_to_earnings i)) (filter (avail i) ks)) = avail_total i"
      unfolding avail_total_def by (metis assms mset_filter mset_map sum_mset_sum_list)
    then show "0 + sum_list (map (int_weight (ei_days_to_earnings i)) (filter (avail i) ks)) \<le> 2 ^ 53"
      using avail_total_bounds(2) [of i] by simp
    show "\<forall>x \<in> set ks. 0 \<le> int_weight (ei_days_to_earnings i) x"
      using ks weight_of_int(2) [of _ "ei_days_to_earnings i"] by fastforce
  qed simp
  also have "sum_list (map (int_weight (ei_days_to_earnings i)) (filter (avail i) ks)) = avail_total i"
    unfolding avail_total_def by (metis assms mset_filter mset_map sum_mset_sum_list)
  finally show ?thesis by simp
qed

text \<open>
  Every term of the score is below the effective weight rounded up to a multiple of
  \<open>2^-20\<close>; these bounds add up to at most 100 and six units of that grid.
\<close>

definition grid :: rat where "grid = 2 ^ 20"

definition weight_bound :: "eeom_input \<Rightarrow> string \<Rightarrow> int" where
  "weight_bound i k = \<lceil>of_int (100 * int_weight (ei_days_to_earnings i) k) * grid / of_int (avail_total i)\<rceil>"

lemma rep_grid: "\<bar>k\<bar> \<le> 2 ^ 53 \<Longrightarrow> rep (of_int k / grid)"
  unfolding grid_def by (rule rep_dyadic) simp_all

lemma grid_pos [simp]: "0 < grid" "grid \<noteq> 0" by (simp_all add: grid_def)

lemma cget_effective:
  assumes "k \<in> set component_keys"
  shows "cm_available (cget (effective tot (weighed i)) k) = avail i k"
    "cm_score (cget (effective tot (weighed i)) k) = clamp100 (cm_score (cget (input_components i) k))"
    "avail i k \<Longrightarrow> cm_effective_weight (cget (effective tot (weighed i)) k)
       = fdiv (fmul (Fin (of_int (int_weight (ei_days_to_earnings i) k))) (Fin 100)) tot"
proof -
  have "cget (effective tot (weighed i)) k = (let c = cget (weighed i) k in
      if cm_available c then c\<lparr>cm_effective_weight := fdiv (fmul (cm_weight c) (Fin 100)) tot\<rparr> else c)"
    using assms by (auto simp: component_keys_def effective_def weighed_def input_components_def cget_def)
  then show "cm_available (cget (effective tot (weighed i)) k) = avail i k"
    "cm_score (cget (effective tot (weighed i)) k) = clamp100 (cm_score (cget (input_components i) k))"
    "avail i k \<Longrightarrow> cm_effective_weight (cget (effective tot (weighed i)) k)
       = fdiv (fmul (Fin (of_int (int_weight (ei_days_to_earnings i) k))) (Fin 100)) tot"
    using cget_weighed [OF assms] weight_of_int(1) [OF assms] by (simp_all add: Let_def avail_def)
qed

lemma clamp100_between: "v \<noteq> NaN \<Longrightarrow> between 0 100 (clamp100 v)"
  by (cases v) (auto simp: clamp100_def between_def flt_def fle_def feq_def)

lemma weight_bound_range:
  assumes "k \<in> set component_keys" "avail i k" "avail i ''technical''"
  shows "0 \<le> weight_bound i k" "weight_bound i k \<le> 300 * 2 ^ 20"
    "of_int (100 * int_weight (ei_days_to_earnings i) k) / of_int (avail_total i) \<le> of_int (weight_bound i k) / grid"
    "of_int (weight_bound i k) \<le> of_int (100 * int_weight (ei_days_to_earnings i) k) * grid / of_int (avail_total i) + 1"
proof -
  let ?w = "int_weight (ei_days_to_earnings i) k" and ?T = "avail_total i"
  have T: "10 \<le> ?T" using avail_total_bounds(3) assms(3) by blast
  have w: "0 \<le> ?w" "?w \<le> 30" using weight_of_int(2,3) [OF assms(1), of "ei_days_to_earnings i"] by linarith+
  let ?q = "of_int (100 * ?w) * grid / (of_int ?T :: rat)"
  have q: "0 \<le> ?q" "?q \<le> 300 * 2 ^ 20"
    using T w by (simp_all add: grid_def field_simps)
  show "0 \<le> weight_bound i k" "weight_bound i k \<le> 300 * 2 ^ 20"
    unfolding weight_bound_def using q by (simp_all add: ceiling_le_iff)
  show "of_int (weight_bound i k) \<le> ?q + 1" unfolding weight_bound_def using ceiling_correct [of ?q] by linarith
  have "?q \<le> of_int (weight_bound i k)" unfolding weight_bound_def by (rule le_of_int_ceiling)
  then show "of_int (100 * ?w) / of_int ?T \<le> of_int (weight_bound i k) / grid" by (simp add: field_simps)
qed

lemma effective_weight_between:
  assumes "k \<in> set component_keys" "avail i k" "avail i ''technical''"
  shows "between 0 (of_int (weight_bound i k) / grid)
    (cm_effective_weight (cget (effective (Fin (of_int (avail_total i))) (weighed i)) k))"
proof -
  let ?w = "int_weight (ei_days_to_earnings i) k"
  note b = weight_bound_range [OF assms]
  have w: "10 \<le> ?w" "?w \<le> 30" using weight_of_int(2,3) [OF assms(1)] by blast+
  have T: "10 \<le> avail_total i" using avail_total_bounds(3) assms(3) by blast
  have "rnd (of_int (?w * 100)) = Fin (of_int (?w * 100))" using w by (intro rnd_rep rep_int) simp
  then have m: "fmul (Fin (of_int ?w)) (Fin 100) = Fin (of_int (?w * 100))"
    using w by (simp add: fmul_def Let_def is_zero_def is_neg_def)
  have "between 0 (of_int (weight_bound i k) / grid) (fdiv (Fin (of_int (?w * 100))) (Fin (of_int (avail_total i))))"
  proof (rule fdiv_between [of "of_int (?w * 100)"])
    show "rep (of_int (weight_bound i k) / grid)" using b(1,2) by (intro rep_grid) simp
    show "of_int (?w * 100) \<le> of_int (weight_bound i k) / grid * fval (Fin (of_int (avail_total i)))"
      using b(3) T by (simp add: field_simps)
  qed (use w T in simp_all)
  then show ?thesis using cget_effective(3) [OF assms(1,2)] m by simp
qed

lemma score_term_between:
  assumes "between 0 100 x" "between 0 (of_int n / grid) y" "0 \<le> n" "n \<le> 300 * 2 ^ 20"
  shows "between 0 (of_int n / grid) (fdiv (fmul x y) (Fin 100))"
proof (rule fdiv_between)
  have "rep (of_int (100 * n) / grid)" using assms(3,4) by (intro rep_grid) simp
  then have "rep (100 * (of_int n / grid))" by simp
  then show "between 0 (100 * (of_int n / grid)) (fmul x y)" by (rule fmul_between [OF assms(1,2)])
qed (use assms(3,4) in \<open>simp_all add: rep_grid mult.commute\<close>)

lemma weighted_score_fold:
  assumes "\<forall>k \<in> set ks. P k \<longrightarrow> between 0 (of_int (n k) / grid) (t k) \<and> 0 \<le> n k"
    and "between 0 (of_int a / grid) x" "0 \<le> a" "a + sum_list (map n (filter P ks)) \<le> 2 ^ 53"
  shows "between 0 (of_int (a + sum_list (map n (filter P ks))) / grid) (foldl (\<lambda>acc k. if P k then fadd acc (t k) else acc) x ks)"
  using assms
proof (induction ks arbitrary: a x)
  case Nil
  then show ?case by simp
next
  case (Cons k ks)
  have nn: "0 \<le> sum_list (map n (filter P ks))" using Cons.prems(1) by (intro sum_list_nonneg) auto
  show ?case
  proof (cases "P k")
    case False
    then show ?thesis using Cons by simp
  next
    case True
    then have k: "between 0 (of_int (n k) / grid) (t k)" "0 \<le> n k" using Cons.prems(1) by simp_all
    have "a + n k \<le> 2 ^ 53" using Cons.prems(4) True nn by simp
    then have "rep (of_int (a + n k) / grid)" using Cons.prems(3) k(2) by (intro rep_grid) simp
    then have "between (0 + 0) (of_int a / grid + of_int (n k) / grid) (fadd x (t k))"
      using Cons.prems(2) k(1) by (intro fadd_between) (simp_all add: add_divide_distrib)
    then have "between 0 (of_int (a + n k) / grid) (fadd x (t k))" by (simp add: add_divide_distrib)
    then show ?thesis using Cons.IH [of "a + n k" "fadd x (t k)"] Cons.prems True k(2) by (simp add: add.assoc)
  qed
qed

text \<open>The bounds of the available weights add up to 100 and six units.\<close>

lemma weight_bounds_sum:
  assumes "mset ks = mset component_keys" "avail i ''technical''"
  shows "sum_list (map (weight_bound i) (filter (avail i) ks)) \<le> 100 * 2 ^ 20 + 6"
proof -
  let ?ks = "filter (avail i) component_keys" and ?W = "int_weight (ei_days_to_earnings i)"
  have T: "10 \<le> avail_total i" using avail_total_bounds(3) assms(2) by blast
  have each: "(of_int (sum_list (map (weight_bound i) xs)) :: rat)
      \<le> of_int (100 * sum_list (map ?W xs)) * grid / of_int (avail_total i) + of_nat (length xs)"
    if "set xs \<subseteq> set ?ks" for xs
    using that
  proof (induction xs)
    case Nil
    then show ?case by simp
  next
    case (Cons k xs)
    then have "of_int (weight_bound i k) \<le> of_int (100 * ?W k) * grid / (of_int (avail_total i) :: rat) + 1"
      using weight_bound_range(4) assms(2) by auto
    then show ?case using Cons by (simp add: algebra_simps add_divide_distrib)
  qed
  have "sum_list (map ?W ?ks) = avail_total i" by (simp add: avail_total_def)
  moreover have "(of_nat (length ?ks) :: rat) \<le> 6"
    using length_filter_le [of "avail i" component_keys] by (simp add: component_keys_def)
  ultimately have "(of_int (sum_list (map (weight_bound i) ?ks)) :: rat) \<le> 100 * grid + 6"
    using each [OF subset_refl] T by simp
  then have "(of_int (sum_list (map (weight_bound i) ?ks)) :: rat) \<le> of_int (100 * 2 ^ 20 + 6)"
    by (simp add: grid_def)
  then have "sum_list (map (weight_bound i) ?ks) \<le> 100 * 2 ^ 20 + 6" by (simp only: of_int_le_iff)
  moreover have "sum_list (map (weight_bound i) (filter (avail i) ks)) = sum_list (map (weight_bound i) ?ks)"
    by (metis assms(1) mset_filter mset_map sum_mset_sum_list)
  ultimately show ?thesis by simp
qed

lemma round2_between:
  assumes "between 0 (of_int (10 * 2 ^ 20 + 1) / grid) v"
  shows "between 0 10 (round2 v)"
proof -
  have "rep (of_int (1000 * 2 ^ 20 + 100) / grid)" by (intro rep_grid) simp
  then have "rep (of_int (10 * 2 ^ 20 + 1) / grid * 100)" by simp
  then have m: "between 0 (of_int (10 * 2 ^ 20 + 1) / grid * 100) (fmul v (Fin 100))"
    by (intro fmul_between assms) simp_all
  then have f: "is_fin (fmul v (Fin 100))" "0 \<le> fval (fmul v (Fin 100))" "fval (fmul v (Fin 100)) \<le> of_int (10 * 2 ^ 20 + 1) / grid * 100"
    by (simp_all add: between_iff)
  have "between 0 1000 (fround (fmul v (Fin 100)))"
  proof (cases "fmul v (Fin 100)")
    case (Fin q)
    then have q: "0 \<le> q" "q + 1 / 2 < 1001" using f by (simp_all add: grid_def)
    then have "\<lfloor>q + 1 / 2\<rfloor> < 1001" by (simp add: floor_less_iff)
    moreover have "0 \<le> \<lfloor>q + 1 / 2\<rfloor>" using q(1) by simp
    ultimately show ?thesis using Fin q(1) by (simp add: fround_def Let_def)
  qed (use f in \<open>simp_all add: fround_def between_iff\<close>)
  then show ?thesis unfolding round2_def by (rule fdiv_between) (simp_all add: rep_numeral)
qed

lemma core_available:
  "cm_available (cget (weighed i) ''technical'') = avail i ''technical''"
  "cm_available (cget (weighed i) ''risk_reward'') = avail i ''risk_reward''"
  by (simp_all add: cget_weighed avail_def component_keys_def)

lemma eeom_evaluate_score:
  "er_score (eeom_evaluate ord1 ord2 i) =
     (if avail i ''technical'' \<and> avail i ''risk_reward''
      then round2 (fdiv (weighted_score (effective (total_weight (weighed i) (ord1 component_keys)) (weighed i)) (ord2 component_keys)) (Fin 10))
      else Fin 0)"
  by (simp add: eeom_evaluate_def Let_def core_available)

section \<open>Properties\<close>

text \<open>An order in which Go may visit the keys of the component map.\<close>

definition key_order :: "(string list \<Rightarrow> string list) \<Rightarrow> bool" where
  "key_order ord \<longleftrightarrow> mset (ord component_keys) = mset component_keys"

lemma key_order_id [simp]: "key_order id" and key_order_rev [simp]: "key_order rev"
  by (simp_all add: key_order_def)

definition sample_component :: "bool \<Rightarrow> component" where
  "sample_component a = \<lparr>cm_score = Fin 50, cm_weight = Fin 0, cm_effective_weight = Fin 0, cm_available = a,
     cm_direction = ''bullish'', cm_reason = []\<rparr>"

definition sample_eeom :: eeom_input where
  "sample_eeom = \<lparr>ei_days_to_earnings = 7, ei_technical = sample_component True, ei_options = sample_component False,
     ei_risk_reward = sample_component True, ei_vc = sample_component False, ei_dosm = sample_component True,
     ei_materiality = sample_component True\<rparr>"

text \<open>
  C15. In exact \<open>float64\<close> arithmetic, with every rounding and whatever the two iteration
  orders, the score lies between zero and ten, as long as no component score is a NaN.
\<close>

theorem eeom_score_range:
  assumes "key_order ord1" "key_order ord2" "\<forall>(k, c) \<in> set (input_components i). cm_score c \<noteq> NaN"
  shows "between 0 10 (er_score (eeom_evaluate ord1 ord2 i))"
proof (cases "avail i ''technical'' \<and> avail i ''risk_reward''")
  case False
  then show ?thesis unfolding eeom_evaluate_score by (simp only: if_False between_fin) simp
next
  case True
  let ?ks = "ord2 component_keys" and ?m = "effective (Fin (of_int (avail_total i))) (weighed i)"
  have ks: "mset ?ks = mset component_keys" "set ?ks = set component_keys"
    using assms(2) mset_eq_setD unfolding key_order_def by blast+
  have t: "total_weight (weighed i) (ord1 component_keys) = Fin (of_int (avail_total i))"
    using assms(1) by (intro total_weight_exact) (simp add: key_order_def)
  let ?t = "\<lambda>k. fdiv (fmul (cm_score (cget ?m k)) (cm_effective_weight (cget ?m k))) (Fin 100)"
  have trm: "between 0 (of_int (weight_bound i k) / grid) (?t k) \<and> 0 \<le> weight_bound i k" if "k \<in> set ?ks" "avail i k" for k
  proof -
    have k: "k \<in> set component_keys" using that ks(2) by simp
    have "cm_score (cget (input_components i) k) \<noteq> NaN"
      using k assms(3) by (auto simp: component_keys_def input_components_def cget_def)
    then have "between 0 100 (cm_score (cget ?m k))" using cget_effective(2) [OF k] clamp100_between by simp
    moreover note effective_weight_between [OF k that(2)] weight_bound_range(1,2) [OF k that(2)]
    ultimately show ?thesis using True score_term_between by blast
  qed
  have fold: "weighted_score ?m ?ks = foldl (\<lambda>acc k. if avail i k then fadd acc (?t k) else acc) (Fin 0) ?ks"
    unfolding weighted_score_def using ks(2) cget_effective(1) by (intro foldl_cong) auto
  have sum: "sum_list (map (weight_bound i) (filter (avail i) ?ks)) \<le> 100 * 2 ^ 20 + 6"
    using weight_bounds_sum [OF ks(1)] True by blast
  have "between 0 (of_int (0 + sum_list (map (weight_bound i) (filter (avail i) ?ks))) / grid) (weighted_score ?m ?ks)"
    unfolding fold
  proof (rule weighted_score_fold)
    show "\<forall>k \<in> set ?ks. avail i k \<longrightarrow> between 0 (of_int (weight_bound i k) / grid) (?t k) \<and> 0 \<le> weight_bound i k"
      using trm by blast
    show "0 + sum_list (map (weight_bound i) (filter (avail i) ?ks)) \<le> 2 ^ 53" by (rule order_trans [OF _ order_trans [OF sum]]) simp_all
  qed simp_all
  then have "between 0 (of_int (100 * 2 ^ 20 + 6) / grid) (weighted_score ?m ?ks)"
    by (rule between_weaken) (use sum in \<open>auto intro!: divide_right_mono of_int_le_iff [THEN iffD2] simp: less_imp_le simp del: of_int_add of_int_mult\<close>)
  then have "between 0 (of_int (10 * 2 ^ 20 + 1) / grid) (fdiv (weighted_score ?m ?ks) (Fin 10))"
    by (rule fdiv_between) (rule rep_grid | simp add: grid_def)+
  then have "between 0 10 (round2 (fdiv (weighted_score ?m ?ks) (Fin 10)))" by (rule round2_between)
  moreover have "er_score (eeom_evaluate ord1 ord2 i) = round2 (fdiv (weighted_score ?m ?ks) (Fin 10))"
    using True by (simp add: eeom_evaluate_score t)
  ultimately show ?thesis by simp
qed

theorem eeom_score_range_witness: "between 0 10 (er_score (eeom_evaluate id rev sample_eeom))"
  by (rule eeom_score_range) (simp_all add: input_components_def sample_eeom_def sample_component_def)

text \<open>
  The iteration orders of the map decide nothing but the order of the withheld inputs
  and the rounding of the score: weights, effective weights, posture, eligibility and
  evidence quality are those of any other order.
\<close>

theorem eeom_order_independent:
  assumes "key_order ord1" "key_order ord2" "key_order ord1'" "key_order ord2'"
  shows "er_components (eeom_evaluate ord1 ord2 i) = er_components (eeom_evaluate ord1' ord2' i)
    \<and> er_posture (eeom_evaluate ord1 ord2 i) = er_posture (eeom_evaluate ord1' ord2' i)
    \<and> er_eligible (eeom_evaluate ord1 ord2 i) = er_eligible (eeom_evaluate ord1' ord2' i)
    \<and> er_evidence_quality (eeom_evaluate ord1 ord2 i) = er_evidence_quality (eeom_evaluate ord1' ord2' i)
    \<and> mset (er_withheld (eeom_evaluate ord1 ord2 i)) = mset (er_withheld (eeom_evaluate ord1' ord2' i))"
proof -
  have t: "total_weight (weighed i) (ord component_keys) = Fin (of_int (avail_total i))" if "key_order ord" for ord
    using that by (intro total_weight_exact) (simp add: key_order_def)
  let ?wh = "\<lambda>ord. filter (\<lambda>k. \<not> cm_available (cget (weighed i) k)) (ord component_keys)"
  have w: "mset (?wh ord1) = mset (?wh ord1')" using assms(1,3) by (simp add: key_order_def)
  then have "?wh ord1 = [] \<longleftrightarrow> ?wh ord1' = []" by (metis mset_zero_iff)
  then show ?thesis using w t [OF assms(1)] t [OF assms(3)]
    by (cases "avail i ''technical'' \<and> avail i ''risk_reward''") (simp_all add: eeom_evaluate_def Let_def core_available)
qed

theorem eeom_order_independent_witness:
  "er_posture (eeom_evaluate id id sample_eeom) = er_posture (eeom_evaluate rev rev sample_eeom)"
  using eeom_order_independent [OF key_order_id key_order_id key_order_rev key_order_rev] by blast

text \<open>
  The order of the withheld inputs is not determined: two admissible orders of one map
  report the same inputs in different sequences.
\<close>

theorem eeom_withheld_order:
  "\<exists>ord ord'. key_order ord \<and> key_order ord'
     \<and> er_withheld (eeom_evaluate ord id sample_eeom) \<noteq> er_withheld (eeom_evaluate ord' id sample_eeom)"
proof -
  have "er_withheld (eeom_evaluate id id sample_eeom) = [''options'', ''vc'']"
    "er_withheld (eeom_evaluate rev id sample_eeom) = [''vc'', ''options'']"
    by (simp_all add: eeom_evaluate_def Let_def component_keys_def weighed_def input_components_def cget_def sample_eeom_def sample_component_def)
  then show ?thesis by (intro exI [of _ id] exI [of _ rev]) simp
qed

end
