(* ===== verification/CyberConnect.thy ===== *)
theory CyberConnect imports Identity begin

text \<open>
  The intake of CyberOps Connect events: \<open>internal/cyberops/connect\<close> (validation and
  processing of a message), the repository of \<open>internal/storage/postgres/cyberops_connect.go\<close>
  over explicit tables, and the outbox command. A message is its decoded JSON value; a
  transaction that fails leaves the tables as they were. The constraints are those of
  migrations 58 and 59; PostgreSQL refuses a NUL character in text and in \<open>jsonb\<close>.
  Times are kept at full precision (the columns keep microseconds).
\<close>

section \<open>Data\<close>

record connect_event =
  ce_tenant_id :: string
  ce_ingress_event_id :: string
  ce_source_id :: string
  ce_payload_hash :: string
  ce_raw :: doc
  ce_metadata :: obj
  ce_lineage :: doc
  ce_occurred_at :: time
  ce_ingested_at :: time
  ce_hostname :: string
  ce_application :: string
  ce_severity :: "int option"
  ce_facility :: "int option"
  ce_message :: string
  ce_correlation_id :: string
  ce_causation_id :: string
  ce_trace_id :: string

record raw_record =
  cr_tenant_id :: string
  cr_ingress_event_id :: string
  cr_event_id :: string
  cr_source_id :: string
  cr_event_type :: string
  cr_occurred_at :: time
  cr_ingested_at :: time
  cr_hostname :: string
  cr_application :: string
  cr_severity :: "int option"
  cr_facility :: "int option"
  cr_message :: string
  cr_raw_event :: doc
  cr_connect_metadata :: doc
  cr_payload_hash :: string
  cr_created_at :: time

record failure_record =
  cf_failure_id :: string
  cf_tenant_id :: string
  cf_ingress_event_id :: string
  cf_existing_event_id :: string
  cf_existing_hash :: string
  cf_incoming_hash :: string
  cf_existing_lineage :: doc
  cf_incoming_lineage :: doc
  cf_received_event :: doc
  cf_first_seen_at :: time
  cf_last_seen_at :: time
  cf_occurrence_count :: int
  cf_resolution_status :: string
  cf_resolved_at :: "time option"
  cf_resolution_actor :: string
  cf_resolution_reason :: string

record outbox_record =
  co_outbox_id :: string
  co_tenant_id :: string
  co_topic :: string
  co_message_key :: string
  co_message_value :: doc
  co_headers :: doc
  co_correlation_id :: string
  co_causation_id :: string
  co_trace_id :: string
  co_created_at :: time
  co_published_at :: "time option"
  co_attempts :: int

record process_result =
  pr_ignored :: bool
  pr_duplicate :: bool
  pr_integrity_failure :: bool

record audit_row =
  au_tenant_id :: string
  au_failure_id :: string
  au_previous_status :: string
  au_resolution_status :: string
  au_actor :: string
  au_reason :: string
  au_occurred_at :: time

record connect_db =
  cd_raw :: "raw_record list"
  cd_failures :: "failure_record list"
  cd_outbox :: "outbox_record list"
  cd_audit :: "audit_row list"

section \<open>Validation\<close>

definition string_value_of :: "obj \<Rightarrow> string \<Rightarrow> string" where
  "string_value_of m k = trim_space (str_of (oget m k))"

definition int_value :: "json option \<Rightarrow> int option" where
  "int_value j =
     (case num_of j of None \<Rightarrow> None
      | Some x \<Rightarrow> if feq x (f_of_int (f_to_int x)) then Some (f_to_int x) else None)"

definition has_prefix :: "string \<Rightarrow> string \<Rightarrow> bool" where
  "has_prefix s p \<longleftrightarrow> take (length p) s = p"

definition sub_object :: "obj \<Rightarrow> string \<Rightarrow> obj" where
  "sub_object m k = (case obj_of (oget m k) of None \<Rightarrow> [] | Some x \<Rightarrow> x)"

definition is_candidate :: "doc \<Rightarrow> (string \<times> string) list \<Rightarrow> bool" where
  "is_candidate value headers \<longleftrightarrow>
     (let header = (\<lambda>k. case map_of headers k of None \<Rightarrow> [] | Some s \<Rightarrow> s) in
      \<not> blank (header ''connect_ingress_event_id'') \<or> \<not> blank (header ''connect_delivery_id'')
      \<or> (case decode_obj value of
           None \<Rightarrow> False
         | Some m \<Rightarrow> string_value_of m ''app_id'' = ''cyberops'' \<or> has_prefix (string_value_of m ''source_adapter'') ''connect:''
                     \<or> oget (sub_object m ''metadata'') ''connect'' \<noteq> None))"

definition required_keys :: "string list" where
  "required_keys = [''tenant_id'', ''source_id'', ''source_domain'', ''source_adapter'', ''ingestion_mode'', ''dataset'', ''event_id'', ''event_type'',
     ''schema_id'', ''schema_version'', ''correlation_id'', ''idempotency_key'']"

definition required_connect :: "string list" where
  "required_connect = [''contract_version'', ''tenant_id'', ''ingress_event_id'', ''connector_id'', ''connector_version'', ''channel_id'', ''producer_id'',
     ''protocol_key'', ''protocol_version'', ''mapping_key'', ''mapping_version'', ''dataset_binding_id'', ''dataset_key'', ''dataset_version'',
     ''destination'', ''payload_hash_algorithm'', ''payload_hash'', ''processing_run_id'', ''delivery_id'']"

definition envelope_ok :: "obj \<Rightarrow> bool" where
  "envelope_ok raw \<longleftrightarrow>
     string_value_of raw ''app_id'' = ''cyberops'' \<and> string_value_of raw ''domain'' = ''security'' \<and> string_value_of raw ''use_case'' = ''cyberops''
     \<and> string_value_of raw ''source_domain'' = ''security'' \<and> has_prefix (string_value_of raw ''source_adapter'') ''connect:''
     \<and> string_value_of raw ''ingestion_mode'' = ''push_event'' \<and> string_value_of raw ''dataset'' = ''cyberops.syslog.raw''
     \<and> string_value_of raw ''event_type'' = ''cyberops.syslog.raw'' \<and> string_value_of raw ''schema_id'' = ''signalops.raw_signal_event.v1''
     \<and> string_value_of raw ''schema_version'' = ''1.0.0''"

definition identity_ok :: "obj \<Rightarrow> obj \<Rightarrow> bool" where
  "identity_ok raw con \<longleftrightarrow>
     string_value_of con ''contract_version'' = ''1.0.0'' \<and> string_value_of con ''tenant_id'' = string_value_of raw ''tenant_id''
     \<and> string_value_of con ''producer_id'' = string_value_of raw ''source_id'' \<and> string_value_of con ''protocol_key'' = ''syslog-rfc5424''
     \<and> string_value_of con ''protocol_version'' = ''1.0.0'' \<and> string_value_of con ''payload_hash_algorithm'' = ''sha256''
     \<and> (\<forall>k \<in> {''event_id'', ''correlation_id'', ''causation_id'', ''idempotency_key''}.
           string_value_of raw k = string_value_of con ''ingress_event_id'')"

definition parse_time_of :: "obj \<Rightarrow> string \<Rightarrow> time res" where
  "parse_time_of m k =
     (case parse_ts True (string_value_of m k) of None \<Rightarrow> Inl (Err (k @ '' must be RFC3339Nano'')) | Some t \<Rightarrow> Inr t)"

text \<open>The first value that is not blank, as it stands.\<close>

definition first_value :: "string list \<Rightarrow> string" where
  "first_value vs = (case first_match (\<lambda>v. \<not> blank v) vs of None \<Rightarrow> [] | Some v \<Rightarrow> v)"

text \<open>A second time of the message that has to parse and to equal the first.\<close>

definition same_time :: "obj \<Rightarrow> string \<Rightarrow> time \<Rightarrow> bool" where
  "same_time m k t \<longleftrightarrow> parse_time_of m k = Inr t"

definition immutable_keys :: "obj \<Rightarrow> obj" where
  "immutable_keys m = filter (\<lambda>p. fst p \<noteq> ''processing_run_id'' \<and> fst p \<noteq> ''delivery_id'') m"

definition connect_event_of :: "doc \<Rightarrow> obj \<Rightarrow> obj \<Rightarrow> obj \<Rightarrow> time \<Rightarrow> time \<Rightarrow> connect_event" where
  "connect_event_of value raw con payload occurred processing =
     (let ingress = string_value_of con ''ingress_event_id''; source = sub_object payload ''source''; syslog = sub_object payload ''syslog'' in
      \<lparr>ce_tenant_id = string_value_of raw ''tenant_id'', ce_ingress_event_id = ingress, ce_source_id = string_value_of raw ''source_id'',
       ce_payload_hash = string_value_of con ''payload_hash'', ce_raw = value, ce_metadata = con, ce_lineage = marshal (JObj (immutable_keys con)),
       ce_occurred_at = occurred, ce_ingested_at = processing, ce_hostname = string_value_of source ''hostname'',
       ce_application = string_value_of source ''application'', ce_severity = int_value (oget syslog ''severity''),
       ce_facility = int_value (oget syslog ''facility''), ce_message = string_value_of payload ''message'', ce_correlation_id = ingress,
       ce_causation_id = ingress, ce_trace_id = first_value [string_value_of raw ''trace_id'', ''trc_'' @ ingress]\<rparr>)"

text \<open>The checks on the payload and the times, after those on the envelope.\<close>

definition validate_payload :: "doc \<Rightarrow> obj \<Rightarrow> obj \<Rightarrow> connect_event res" where
  "validate_payload value raw con =
     (case obj_of (oget raw ''payload'') of
        None \<Rightarrow> Inl (Err ''payload is required'')
      | Some payload \<Rightarrow>
        if string_value_of payload ''message'' = [] then Inl (Err ''payload.message is required'')
        else
          bind_res (parse_time_of raw ''occurred_at'') (\<lambda>occurred.
            if \<not> same_time raw ''effective_time'' occurred then Inl (Err ''effective_time must equal occurred_at'')
            else if \<not> same_time payload ''occurred_at'' occurred then Inl (Err ''payload.occurred_at must equal occurred_at'')
            else
              bind_res (parse_time_of raw ''observed_at'') (\<lambda>observed.
                if \<not> same_time raw ''observation_time'' observed then Inl (Err ''observation_time must equal observed_at'')
                else bind_res (parse_time_of raw ''processing_time'') (\<lambda>processing.
                  Inr (connect_event_of value raw con payload occurred processing)))))"

definition validate_connect :: "doc \<Rightarrow> connect_event res" where
  "validate_connect value =
     (case decode_obj value of
        None \<Rightarrow> Inl (Err ''decode raw event'')
      | Some raw \<Rightarrow>
        (case first_match (\<lambda>k. string_value_of raw k = []) required_keys of
           Some k \<Rightarrow> Inl (Err (k @ '' is required''))
         | None \<Rightarrow>
           if \<not> envelope_ok raw then Inl (Err ''event does not match the CyberOps Connect envelope'')
           else
             (case obj_of (oget (sub_object raw ''metadata'') ''connect'') of
                None \<Rightarrow> Inl (Err ''metadata.connect is required'')
              | Some con \<Rightarrow>
                (case first_match (\<lambda>k. string_value_of con k = []) required_connect of
                   Some k \<Rightarrow> Inl (Err (''metadata.connect.'' @ k @ '' is required''))
                 | None \<Rightarrow>
                   if string_value_of raw ''source_adapter'' \<noteq> ''connect:'' @ string_value_of con ''connector_id'' then
                     Inl (Err ''source_adapter must match metadata.connect.connector_id'')
                   else if \<not> identity_ok raw con then Inl (Err ''metadata.connect identity or protocol mismatch'')
                   else if length (string_value_of con ''payload_hash'') \<noteq> 64 \<or> \<not> hex_ok (string_value_of con ''payload_hash'') then
                     Inl (Err ''metadata.connect.payload_hash must be sha256 hex'')
                   else validate_payload value raw con))))"

section \<open>Repository\<close>

fun nul_free :: "json \<Rightarrow> bool" where
  "nul_free (JStr s) = (CHR 0x00 \<notin> set s)"
| "nul_free (JArr xs) = list_all nul_free xs"
| "nul_free (JObj m) = list_all (\<lambda>(k, v). CHR 0x00 \<notin> set k \<and> nul_free v) m"
| "nul_free _ = True"

definition pg_json :: "doc \<Rightarrow> bool" where
  "pg_json d \<longleftrightarrow> (case d of Doc j \<Rightarrow> nul_free j | _ \<Rightarrow> False)"

definition pg_text :: "string \<Rightarrow> bool" where
  "pg_text s \<longleftrightarrow> CHR 0x00 \<notin> set s"

definition pg_int :: "int option \<Rightarrow> bool" where
  "pg_int i \<longleftrightarrow> (case i of None \<Rightarrow> True | Some k \<Rightarrow> - (2 ^ 31) \<le> k \<and> k < 2 ^ 31)"

definition raw_row_ok :: "raw_record \<Rightarrow> bool" where
  "raw_row_ok r \<longleftrightarrow>
     list_all pg_text [cr_tenant_id r, cr_ingress_event_id r, cr_event_id r, cr_source_id r, cr_event_type r, cr_hostname r, cr_application r,
       cr_message r, cr_payload_hash r]
     \<and> pg_int (cr_severity r) \<and> pg_int (cr_facility r) \<and> pg_json (cr_raw_event r) \<and> pg_json (cr_connect_metadata r)"

definition canonical_lineage :: "doc \<Rightarrow> json option" where
  "canonical_lineage d =
     (case d of Doc (JObj m) \<Rightarrow> Some (canon (JObj (immutable_keys m))) | Doc JNull \<Rightarrow> Some JNull | _ \<Rightarrow> None)"

definition same_lineage :: "doc \<Rightarrow> doc \<Rightarrow> bool" where
  "same_lineage a b \<longleftrightarrow> canonical_lineage a \<noteq> None \<and> canonical_lineage a = canonical_lineage b"

definition bar_digest :: "nat \<Rightarrow> string list \<Rightarrow> string" where
  "bar_digest n parts = take (2 * n) (hex_encode (sha256 (join ''|'' parts)))"

definition integrity_failure_id :: "string \<Rightarrow> string \<Rightarrow> string \<Rightarrow> string" where
  "integrity_failure_id tenant ingress hash = ''cyberint_'' @ bar_digest 12 [tenant, ingress, hash]"

definition raw_match :: "raw_record \<Rightarrow> raw_record \<Rightarrow> bool" where
  "raw_match r x \<longleftrightarrow> cr_tenant_id x = cr_tenant_id r \<and> cr_ingress_event_id x = cr_ingress_event_id r"

definition failure_match :: "raw_record \<Rightarrow> failure_record \<Rightarrow> bool" where
  "failure_match r f \<longleftrightarrow> cf_tenant_id f = cr_tenant_id r \<and> cf_ingress_event_id f = cr_ingress_event_id r \<and> cf_incoming_hash f = cr_payload_hash r"

text \<open>The upsert of an integrity failure: a failure of the same event and hash counts once more.\<close>

definition record_failure :: "time \<Rightarrow> raw_record \<Rightarrow> raw_record \<Rightarrow> doc \<Rightarrow> connect_db \<Rightarrow> process_result res \<times> connect_db" where
  "record_failure now raw existing lineage db =
     (let fid = integrity_failure_id (cr_tenant_id raw) (cr_ingress_event_id raw) (cr_payload_hash raw);
          row = \<lparr>cf_failure_id = fid, cf_tenant_id = cr_tenant_id raw, cf_ingress_event_id = cr_ingress_event_id raw,
            cf_existing_event_id = cr_event_id existing, cf_existing_hash = cr_payload_hash existing, cf_incoming_hash = cr_payload_hash raw,
            cf_existing_lineage = cr_connect_metadata existing, cf_incoming_lineage = lineage, cf_received_event = cr_raw_event raw,
            cf_first_seen_at = now, cf_last_seen_at = now, cf_occurrence_count = 1, cf_resolution_status = ''open'', cf_resolved_at = None,
            cf_resolution_actor = [], cf_resolution_reason = []\<rparr>;
          failed = \<lparr>pr_ignored = False, pr_duplicate = False, pr_integrity_failure = True\<rparr>
      in if \<not> pg_json lineage then (Inl (Err ''persist integrity failure''), db)
         else if \<exists>f \<in> set (cd_failures db). failure_match raw f \<and> \<not> pg_int (Some (cf_occurrence_count f + 1)) then
           (Inl (Err ''persist integrity failure''), db)
         else if \<exists>f \<in> set (cd_failures db). failure_match raw f then
           (Inr failed, db\<lparr>cd_failures := map (\<lambda>f. if failure_match raw f
              then f\<lparr>cf_last_seen_at := now, cf_occurrence_count := cf_occurrence_count f + 1\<rparr> else f) (cd_failures db)\<rparr>)
         else if \<exists>f \<in> set (cd_failures db). cf_failure_id f = fid then (Inl (Err ''persist integrity failure''), db)
         else (Inr failed, db\<lparr>cd_failures := cd_failures db @ [row]\<rparr>))"

definition outbox_row :: "time \<Rightarrow> raw_record \<Rightarrow> outbox_record \<Rightarrow> outbox_record" where
  "outbox_row now raw o1 = o1\<lparr>co_tenant_id := cr_tenant_id raw,
     co_headers := (if co_headers o1 = NoBytes then Doc (JObj []) else co_headers o1),
     co_created_at := now, co_published_at := None, co_attempts := 0\<rparr>"

definition outbox_row_ok :: "connect_db \<Rightarrow> outbox_record \<Rightarrow> bool" where
  "outbox_row_ok db o1 \<longleftrightarrow>
     list_all pg_text [co_outbox_id o1, co_topic o1, co_message_key o1, co_correlation_id o1, co_causation_id o1, co_trace_id o1]
     \<and> pg_json (co_headers o1) \<and> (\<forall>x \<in> set (cd_outbox db). co_outbox_id x \<noteq> co_outbox_id o1)"

definition persist_connect_raw :: "time \<Rightarrow> raw_record \<Rightarrow> outbox_record \<Rightarrow> doc \<Rightarrow> connect_db \<Rightarrow> process_result res \<times> connect_db" where
  "persist_connect_raw now raw out lineage db =
     (if blank (cr_tenant_id raw) \<or> blank (cr_ingress_event_id raw) \<or> cr_raw_event raw = NoBytes \<or> cr_connect_metadata raw = NoBytes then
        (Inl (Err ''cyberops connect raw identity and evidence are required''), db)
      else if \<not> raw_row_ok raw then (Inl (Err ''insert cyberops connect raw''), db)
      else
        (case first_match (raw_match raw) (cd_raw db) of
           Some existing \<Rightarrow>
             if cr_payload_hash existing = cr_payload_hash raw \<and> same_lineage (cr_connect_metadata existing) lineage then
               (Inr \<lparr>pr_ignored = False, pr_duplicate = True, pr_integrity_failure = False\<rparr>, db)
             else record_failure now raw existing lineage db
         | None \<Rightarrow>
             let row = outbox_row now raw out in
             if \<not> outbox_row_ok db row then (Inl (Err ''insert cyberops outbox''), db)
             else (Inr \<lparr>pr_ignored = False, pr_duplicate = False, pr_integrity_failure = False\<rparr>,
                   db\<lparr>cd_raw := cd_raw db @ [raw\<lparr>cr_created_at := now\<rparr>], cd_outbox := cd_outbox db @ [row]\<rparr>)))"

text \<open>
  The reads. The collation of \<open>ORDER BY\<close> on text and the full-text match are the
  database's: the parameters \<open>tlt\<close> and \<open>fts\<close>.
\<close>

definition pg_limit :: "int \<Rightarrow> nat" where
  "pg_limit v = (if v \<le> 0 then 50 else if 200 < v then 200 else nat v)"

record raw_filter =
  rf_tenant_id :: string
  rf_from :: time
  rf_to :: time
  rf_hostname :: string
  rf_application :: string
  rf_severity :: "int option"
  rf_facility :: "int option"
  rf_producer_id :: string
  rf_connector_id :: string
  rf_event_type :: string
  rf_search :: string
  rf_limit :: int

definition connector_of :: "raw_record \<Rightarrow> string option" where
  "connector_of r =
     (case decode_obj (cr_connect_metadata r) of None \<Rightarrow> None
      | Some m \<Rightarrow> (case oget m ''connector_id'' of Some (JStr s) \<Rightarrow> Some s | _ \<Rightarrow> None))"

definition raw_selected :: "(string \<Rightarrow> string \<Rightarrow> bool) \<Rightarrow> raw_filter \<Rightarrow> raw_record \<Rightarrow> bool" where
  "raw_selected fts f r \<longleftrightarrow>
     cr_tenant_id r = rf_tenant_id f
     \<and> (rf_from f = zero_time \<or> rf_from f \<le> cr_occurred_at r) \<and> (rf_to f = zero_time \<or> cr_occurred_at r \<le> rf_to f)
     \<and> (rf_hostname f = [] \<or> cr_hostname r = rf_hostname f) \<and> (rf_application f = [] \<or> cr_application r = rf_application f)
     \<and> (rf_severity f = None \<or> cr_severity r = rf_severity f) \<and> (rf_facility f = None \<or> cr_facility r = rf_facility f)
     \<and> (rf_producer_id f = [] \<or> cr_source_id r = rf_producer_id f)
     \<and> (rf_connector_id f = [] \<or> connector_of r = Some (rf_connector_id f))
     \<and> (rf_event_type f = [] \<or> cr_event_type r = rf_event_type f) \<and> (rf_search f = [] \<or> fts (cr_message r) (rf_search f))"

definition list_connect_raw ::
  "(string \<Rightarrow> string \<Rightarrow> bool) \<Rightarrow> (string \<Rightarrow> string \<Rightarrow> bool) \<Rightarrow> raw_filter \<Rightarrow> connect_db \<Rightarrow> raw_record list" where
  "list_connect_raw tlt fts f db =
     take (pg_limit (rf_limit f))
       (sort_by (\<lambda>a b. cr_occurred_at b < cr_occurred_at a
           \<or> (cr_occurred_at a = cr_occurred_at b \<and> tlt (cr_ingress_event_id b) (cr_ingress_event_id a)))
         (filter (raw_selected fts f) (cd_raw db)))"

definition get_connect_raw :: "string \<Rightarrow> string \<Rightarrow> connect_db \<Rightarrow> raw_record res" where
  "get_connect_raw tenant ingress db =
     (case first_match (\<lambda>r. cr_tenant_id r = tenant \<and> cr_ingress_event_id r = ingress) (cd_raw db) of
        None \<Rightarrow> Inl ErrNotFound | Some r \<Rightarrow> Inr r)"

definition list_integrity_failures ::
  "(string \<Rightarrow> string \<Rightarrow> bool) \<Rightarrow> string \<Rightarrow> string \<Rightarrow> int \<Rightarrow> connect_db \<Rightarrow> failure_record list" where
  "list_integrity_failures tlt tenant status n db =
     take (pg_limit n)
       (sort_by (\<lambda>a b. cf_last_seen_at b < cf_last_seen_at a
           \<or> (cf_last_seen_at a = cf_last_seen_at b \<and> tlt (cf_failure_id b) (cf_failure_id a)))
         (filter (\<lambda>f. cf_tenant_id f = tenant \<and> (status = [] \<or> cf_resolution_status f = status)) (cd_failures db)))"

section \<open>Resolution of integrity failures\<close>

text \<open>\<open>char_length(btrim(x))\<close>: spaces are trimmed, UTF-8 continuation bytes not counted.\<close>

definition btrim_length :: "string \<Rightarrow> nat" where
  "btrim_length s =
     (let t = rev (dropWhile (\<lambda>c. c = CHR '' '') (rev (dropWhile (\<lambda>c. c = CHR '' '') s))) in
      length (filter (\<lambda>c. \<not> (128 \<le> code_of c \<and> code_of c < 192)) t))"

definition resolved_statuses :: "string list" where
  "resolved_statuses = [''resolved_false_positive'', ''resolved_test_fixture'', ''resolved_confirmed_conflict'']"

definition resolution_ok :: "string \<Rightarrow> string \<Rightarrow> string \<Rightarrow> bool" where
  "resolution_ok status actor reason \<longleftrightarrow>
     status \<in> set resolved_statuses \<and> pg_text actor \<and> pg_text reason
     \<and> 1 \<le> btrim_length actor \<and> btrim_length actor \<le> 256 \<and> 3 \<le> btrim_length reason \<and> btrim_length reason \<le> 1024"

definition resolved_row :: "string \<Rightarrow> string \<Rightarrow> string \<Rightarrow> time \<Rightarrow> failure_record \<Rightarrow> failure_record" where
  "resolved_row status actor reason t f =
     f\<lparr>cf_resolution_status := status, cf_resolved_at := Some t, cf_resolution_actor := actor, cf_resolution_reason := reason\<rparr>"

definition resolve_failure ::
  "string \<Rightarrow> string \<Rightarrow> string \<Rightarrow> string \<Rightarrow> string \<Rightarrow> time \<Rightarrow> connect_db \<Rightarrow> failure_record res \<times> connect_db" where
  "resolve_failure tenant fid status actor reason t db =
     (let here = (\<lambda>f. cf_tenant_id f = tenant \<and> cf_failure_id f = fid) in
      case (if pg_text tenant \<and> pg_text fid then first_match here (cd_failures db) else None) of
        None \<Rightarrow> (Inl (if pg_text tenant \<and> pg_text fid then ErrNotFound else Err ''load cyberops integrity failure''), db)
      | Some f \<Rightarrow>
        if cf_resolution_status f \<noteq> ''open'' then
          (if cf_resolution_status f = status then Inr f else Inl ErrConflict, db)
        else if \<not> resolution_ok status actor reason then (Inl (Err ''resolve cyberops integrity failure''), db)
        else
          (Inr (resolved_row status actor reason t f),
           db\<lparr>cd_failures := map (\<lambda>g. if here g then resolved_row status actor reason t g else g) (cd_failures db),
              cd_audit := cd_audit db @ [\<lparr>au_tenant_id = tenant, au_failure_id = fid, au_previous_status = ''open'',
                au_resolution_status = status, au_actor = actor, au_reason = reason, au_occurred_at = t\<rparr>]\<rparr>))"

section \<open>Outbox\<close>

text \<open>
  The pending rows, oldest first. Rows of one instant come in the order the database reads
  them in, the parameter \<open>heap\<close>.
\<close>

definition list_pending_outbox :: "(outbox_record list \<Rightarrow> outbox_record list) \<Rightarrow> int \<Rightarrow> connect_db \<Rightarrow> outbox_record list" where
  "list_pending_outbox heap n db =
     take (pg_limit n) (sort_by (\<lambda>a b. co_created_at a < co_created_at b) (heap (filter (\<lambda>x. co_published_at x = None) (cd_outbox db))))"

definition update_outbox :: "string \<Rightarrow> (outbox_record \<Rightarrow> outbox_record) \<Rightarrow> connect_db \<Rightarrow> unit res \<times> connect_db" where
  "update_outbox oid g db =
     (let here = (\<lambda>x. co_outbox_id x = oid \<and> co_published_at x = None) in
      if \<exists>x \<in> set (cd_outbox db). here x \<and> \<not> pg_int (Some (co_attempts x + 1)) then (Inl (Err ''integer out of range''), db)
      else (Inr (), db\<lparr>cd_outbox := map (\<lambda>x. if here x then g x else x) (cd_outbox db)\<rparr>))"

definition mark_outbox_published :: "string \<Rightarrow> time \<Rightarrow> connect_db \<Rightarrow> unit res \<times> connect_db" where
  "mark_outbox_published oid t = update_outbox oid (\<lambda>x. x\<lparr>co_published_at := Some t, co_attempts := co_attempts x + 1\<rparr>)"

definition mark_outbox_attempt :: "string \<Rightarrow> connect_db \<Rightarrow> unit res \<times> connect_db" where
  "mark_outbox_attempt oid = update_outbox oid (\<lambda>x. x\<lparr>co_attempts := co_attempts x + 1\<rparr>)"

record broker_message =
  bm_topic :: string
  bm_key :: string
  bm_value :: doc
  bm_headers :: "(string \<times> string) list"
  bm_correlation_id :: string
  bm_causation_id :: string
  bm_trace_id :: string
  bm_published_at :: time

record consumed_message = broker_message +
  cm_partition :: int
  cm_offset :: int

text \<open>Decoding into a \<open>map[string]string\<close>: \<open>null\<close> leaves the empty string.\<close>

fun string_values :: "obj \<Rightarrow> (string \<times> string) list option" where
  "string_values [] = Some []"
| "string_values ((k, JStr s) # m) = map_option (\<lambda>hs. (k, s) # hs) (string_values m)"
| "string_values ((k, JNull) # m) = map_option (\<lambda>hs. (k, []) # hs) (string_values m)"
| "string_values (_ # m) = None"

definition decode_headers :: "doc \<Rightarrow> (string \<times> string) list option" where
  "decode_headers d = (case decode_obj d of None \<Rightarrow> None | Some m \<Rightarrow> string_values m)"

definition outbox_message :: "time \<Rightarrow> (string \<times> string) list \<Rightarrow> outbox_record \<Rightarrow> broker_message" where
  "outbox_message now hs x =
     \<lparr>bm_topic = co_topic x, bm_key = co_message_key x, bm_value = co_message_value x, bm_headers = hs,
      bm_correlation_id = co_correlation_id x, bm_causation_id = co_causation_id x, bm_trace_id = co_trace_id x, bm_published_at = now\<rparr>"

text \<open>
  The broker and the clock are a world \<open>'w\<close>: \<open>pub\<close> tells whether the broker took the
  message, \<open>clock\<close> is the time read next.
\<close>

fun flush_outbox_items ::
  "('w \<Rightarrow> broker_message \<Rightarrow> bool \<times> 'w) \<Rightarrow> ('w \<Rightarrow> time) \<Rightarrow> outbox_record list \<Rightarrow> 'w \<Rightarrow> connect_db \<Rightarrow> unit res \<times> 'w \<times> connect_db" where
  "flush_outbox_items pub clock [] w db = (Inr (), w, db)"
| "flush_outbox_items pub clock (x # xs) w db =
     (case decode_headers (co_headers x) of
        None \<Rightarrow> (Inl (Err ''decode headers''), w, db)
      | Some hs \<Rightarrow>
        (case pub w (outbox_message (clock w) hs x) of
           (False, w1) \<Rightarrow> flush_outbox_items pub clock xs w1 (snd (mark_outbox_attempt (co_outbox_id x) db))
         | (True, w1) \<Rightarrow>
             (case mark_outbox_published (co_outbox_id x) (clock w1) db of
                (Inl e, db1) \<Rightarrow> (Inl e, w1, db1)
              | (Inr _, db1) \<Rightarrow> flush_outbox_items pub clock xs w1 db1)))"

definition flush_outbox ::
  "('w \<Rightarrow> broker_message \<Rightarrow> bool \<times> 'w) \<Rightarrow> ('w \<Rightarrow> time) \<Rightarrow> (outbox_record list \<Rightarrow> outbox_record list) \<Rightarrow> 'w \<Rightarrow> connect_db
   \<Rightarrow> unit res \<times> 'w \<times> connect_db" where
  "flush_outbox pub clock heap w db = flush_outbox_items pub clock (list_pending_outbox heap 50 db) w db"

end
