(* ===== verification/CyberIntake.thy ===== *)
theory CyberIntake imports CyberConnect begin

text \<open>
  The intake as it runs: \<open>Processor.Process\<close> of \<open>internal/cyberops/connect/persister.go\<close>,
  the dead letter of \<open>internal/normalization/processor.go\<close> and the loop of the command
  \<open>cyberops-connect-persister\<close>; then the tables as a transition system under these
  operations, the operator's resolutions and the outbox command, with its invariant.
\<close>

section \<open>Processing a message\<close>

text \<open>An error the loop tells apart with \<open>errors.As\<close>, or any other.\<close>

datatype process_error = Invalid_event go_error | Process_failed go_error

definition outbox_id :: "connect_event \<Rightarrow> string" where
  "outbox_id e = ''cyberout_'' @ bar_digest 16 [ce_tenant_id e, ce_ingress_event_id e, ce_payload_hash e]"

definition raw_of :: "connect_event \<Rightarrow> raw_record" where
  "raw_of e =
     \<lparr>cr_tenant_id = ce_tenant_id e, cr_ingress_event_id = ce_ingress_event_id e, cr_event_id = ce_ingress_event_id e,
      cr_source_id = ce_source_id e, cr_event_type = ''cyberops.syslog.raw'', cr_occurred_at = ce_occurred_at e,
      cr_ingested_at = ce_ingested_at e, cr_hostname = ce_hostname e, cr_application = ce_application e, cr_severity = ce_severity e,
      cr_facility = ce_facility e, cr_message = ce_message e, cr_raw_event = ce_raw e, cr_connect_metadata = marshal (JObj (ce_metadata e)),
      cr_payload_hash = ce_payload_hash e, cr_created_at = zero_time\<rparr>"

definition headers_of :: "connect_event \<Rightarrow> doc" where
  "headers_of e = marshal (JObj
     [(''connect_delivery_id'', JStr (string_value_of (ce_metadata e) ''delivery_id'')),
      (''connect_ingress_event_id'', JStr (ce_ingress_event_id e)), (''content_type'', JStr ''application/json''),
      (''signalops_schema_id'', JStr ''signalops.raw_signal_event.v1'')])"

definition outbox_of :: "time \<Rightarrow> string \<Rightarrow> connect_event \<Rightarrow> outbox_record" where
  "outbox_of now topic e =
     \<lparr>co_outbox_id = outbox_id e, co_tenant_id = ce_tenant_id e, co_topic = topic, co_message_key = ce_ingress_event_id e,
      co_message_value = ce_raw e, co_headers = headers_of e, co_correlation_id = ce_correlation_id e,
      co_causation_id = ce_causation_id e, co_trace_id = ce_trace_id e, co_created_at = now, co_published_at = None, co_attempts = 0\<rparr>"

definition process_connect ::
  "time \<Rightarrow> string \<Rightarrow> consumed_message \<Rightarrow> connect_db \<Rightarrow> (process_error + process_result) \<times> connect_db" where
  "process_connect now topic m db =
     (if \<not> is_candidate (bm_value m) (bm_headers m) then
        (Inr \<lparr>pr_ignored = True, pr_duplicate = False, pr_integrity_failure = False\<rparr>, db)
      else if topic = [] then (Inl (Process_failed (Err ''cyberops connect processor is not configured'')), db)
      else
        (case validate_connect (bm_value m) of
           Inl e \<Rightarrow> (Inl (Invalid_event e), db)
         | Inr e \<Rightarrow> map_prod (map_sum Process_failed id) id (persist_connect_raw now (raw_of e) (outbox_of now topic e) (ce_lineage e) db)))"

section \<open>The persister command\<close>

definition error_text :: "go_error \<Rightarrow> string" where
  "error_text e = (case e of Err s \<Rightarrow> s | ErrConflict \<Rightarrow> ''storage record conflict'' | ErrNoRows \<Rightarrow> ''sql: no rows in result set'' | ErrNotFound \<Rightarrow> ''storage record not found'')"

text \<open>The dead letter quotes the bytes of the message in base64, the parameter \<open>b64\<close>.\<close>

definition invalid_event_message :: "(doc \<Rightarrow> string) \<Rightarrow> time \<Rightarrow> string \<Rightarrow> consumed_message \<Rightarrow> go_error \<Rightarrow> broker_message" where
  "invalid_event_message b64 now topic m e =
     \<lparr>bm_topic = topic, bm_key = bm_key m,
      bm_value = marshal (JObj
        [(''schema_id'', JStr ''signalops.dlq.normalization.v1''), (''failed_at'', JStr (fmt_rfc3339nano now)),
         (''error_type'', JStr ''InvalidNormalizationEvent''), (''error_message'', JStr (error_text e)),
         (''source'', JObj [(''topic'', JStr (bm_topic m)), (''partition'', JInt (cm_partition m)), (''offset'', JInt (cm_offset m)),
            (''key'', JStr (bm_key m)), (''headers'', JObj (map (\<lambda>(k, v). (k, JStr v)) (bm_headers m))), (''value_base64'', JStr (b64 (bm_value m)))])]),
      bm_headers = [(''content_type'', ''application/json''), (''signalops_dlq_reason'', ''InvalidNormalizationEvent''),
        (''signalops_source_topic'', bm_topic m), (''signalops_source_partition'', itoa (cm_partition m)),
        (''signalops_source_offset'', itoa (cm_offset m))],
      bm_correlation_id = bm_correlation_id m, bm_causation_id = [], bm_trace_id = [], bm_published_at = zero_time\<rparr>"

text \<open>
  The loop body on one consumed message: \<open>True\<close> goes on with the next one. The world holds
  the broker, the group's offsets and the clock; \<open>pub\<close> and \<open>commit\<close> tell their success and
  \<open>wait\<close> lets the second pass that follows a failure. Cancellation ends a run between messages.
\<close>

record 'w persister =
  pc_pub :: "'w \<Rightarrow> broker_message \<Rightarrow> bool \<times> 'w"
  pc_commit :: "'w \<Rightarrow> consumed_message \<Rightarrow> bool \<times> 'w"
  pc_wait :: "'w \<Rightarrow> 'w"
  pc_clock :: "'w \<Rightarrow> time"
  pc_b64 :: "doc \<Rightarrow> string"
  pc_topic :: string
  pc_dlq :: string

definition persister_step :: "'w persister \<Rightarrow> consumed_message \<Rightarrow> 'w \<Rightarrow> connect_db \<Rightarrow> bool \<times> 'w \<times> connect_db" where
  "persister_step pc m w db =
     (case process_connect (pc_clock pc w) (pc_topic pc) m db of
        (Inl (Invalid_event e), db1) \<Rightarrow>
          (case pc_pub pc w (invalid_event_message (pc_b64 pc) (pc_clock pc w) (pc_dlq pc) m e) of
             (False, w1) \<Rightarrow> (False, w1, db1)
           | (True, w1) \<Rightarrow> (case pc_commit pc w1 m of (ok, w2) \<Rightarrow> (ok, w2, db1)))
      | (Inl (Process_failed e), db1) \<Rightarrow> (True, pc_wait pc w, db1)
      | (Inr r, db1) \<Rightarrow> (case pc_commit pc w m of (ok, w1) \<Rightarrow> (ok, w1, db1)))"

fun persister_run :: "'w persister \<Rightarrow> consumed_message list \<Rightarrow> 'w \<Rightarrow> connect_db \<Rightarrow> bool \<times> 'w \<times> connect_db" where
  "persister_run pc [] w db = (True, w, db)"
| "persister_run pc (m # ms) w db =
     (case persister_step pc m w db of
        (False, w1, db1) \<Rightarrow> (False, w1, db1)
      | (True, w1, db1) \<Rightarrow> persister_run pc ms w1 db1)"

section \<open>The tables as a transition system\<close>

inductive connect_step :: "connect_db \<Rightarrow> connect_db \<Rightarrow> bool" where
  process: "connect_step db (snd (process_connect now topic m db))"
| resolve: "connect_step db (snd (resolve_failure tenant fid status actor reason t db))"
| publish: "connect_step db (snd (mark_outbox_published oid t db))"
| attempt: "connect_step db (snd (mark_outbox_attempt oid db))"

definition raw_key :: "raw_record \<Rightarrow> string \<times> string" where
  "raw_key r = (cr_tenant_id r, cr_ingress_event_id r)"

definition failure_key :: "failure_record \<Rightarrow> string \<times> string \<times> string" where
  "failure_key f = (cf_tenant_id f, cf_ingress_event_id f, cf_incoming_hash f)"

text \<open>The outbox row that announces a raw event.\<close>

definition announces :: "raw_record \<Rightarrow> outbox_record \<Rightarrow> bool" where
  "announces r x \<longleftrightarrow>
     co_outbox_id x = ''cyberout_'' @ bar_digest 16 [cr_tenant_id r, cr_ingress_event_id r, cr_payload_hash r]
     \<and> co_tenant_id x = cr_tenant_id r \<and> co_message_key x = cr_ingress_event_id r \<and> co_message_value x = cr_raw_event r"

text \<open>The audit rows of a failure: none while it is open, afterwards the one that repeats its resolution.\<close>

definition audit_of :: "failure_record \<Rightarrow> audit_row list" where
  "audit_of f =
     (case cf_resolved_at f of None \<Rightarrow> []
      | Some t \<Rightarrow> [\<lparr>au_tenant_id = cf_tenant_id f, au_failure_id = cf_failure_id f, au_previous_status = ''open'',
          au_resolution_status = cf_resolution_status f, au_actor = cf_resolution_actor f, au_reason = cf_resolution_reason f, au_occurred_at = t\<rparr>])"

definition failure_ok :: "connect_db \<Rightarrow> failure_record \<Rightarrow> bool" where
  "failure_ok db f \<longleftrightarrow>
     cf_failure_id f = integrity_failure_id (cf_tenant_id f) (cf_ingress_event_id f) (cf_incoming_hash f)
     \<and> 1 \<le> cf_occurrence_count f
     \<and> (\<exists>r \<in> set (cd_raw db). raw_key r = (cf_tenant_id f, cf_ingress_event_id f) \<and> cr_payload_hash r = cf_existing_hash f)
     \<and> (cf_resolution_status f = ''open'' \<longleftrightarrow> cf_resolved_at f = None)
     \<and> (cf_resolved_at f \<noteq> None \<longrightarrow> cf_resolution_status f \<in> set resolved_statuses)
     \<and> filter (\<lambda>a. au_failure_id a = cf_failure_id f) (cd_audit db) = audit_of f"

definition intake_ok :: "connect_db \<Rightarrow> bool" where
  "intake_ok db \<longleftrightarrow>
     distinct (map raw_key (cd_raw db)) \<and> list_all2 announces (cd_raw db) (cd_outbox db) \<and> distinct (map co_outbox_id (cd_outbox db))
     \<and> distinct (map cf_failure_id (cd_failures db)) \<and> (\<forall>f \<in> set (cd_failures db). failure_ok db f)
     \<and> (\<forall>a \<in> set (cd_audit db). \<exists>f \<in> set (cd_failures db). cf_failure_id f = au_failure_id a)"

section \<open>The invariant\<close>

lemma distinct_map_eq: "distinct (map k xs) \<Longrightarrow> x \<in> set xs \<Longrightarrow> y \<in> set xs \<Longrightarrow> k x = k y \<Longrightarrow> x = y"
  by (metis distinct_map inj_onD)

lemma failure_ok_audit: "failure_ok db f \<Longrightarrow> filter (\<lambda>a. au_failure_id a = cf_failure_id f) (cd_audit db) = audit_of f"
  unfolding failure_ok_def by (elim conjE)

lemma failure_ok_frame:
  "failure_ok db f \<Longrightarrow> set (cd_raw db) \<subseteq> set (cd_raw db')
   \<Longrightarrow> filter (\<lambda>a. au_failure_id a = cf_failure_id f) (cd_audit db') = filter (\<lambda>a. au_failure_id a = cf_failure_id f) (cd_audit db)
   \<Longrightarrow> failure_ok db' f"
  unfolding failure_ok_def by (metis subsetD)

text \<open>A new raw event with its outbox row.\<close>

lemma intake_ok_insert:
  assumes "intake_ok db" "\<forall>x \<in> set (cd_raw db). raw_key x \<noteq> raw_key r" "announces r x"
    and "\<forall>y \<in> set (cd_outbox db). co_outbox_id y \<noteq> co_outbox_id x"
  shows "intake_ok (db\<lparr>cd_raw := cd_raw db @ [r], cd_outbox := cd_outbox db @ [x]\<rparr>)"
proof -
  have "failure_ok (db\<lparr>cd_raw := cd_raw db @ [r], cd_outbox := cd_outbox db @ [x]\<rparr>) f" if "failure_ok db f" for f
    using that by (auto simp: failure_ok_def)
  then show ?thesis using assms by (auto simp: intake_ok_def list_all2_appendI)
qed

text \<open>A row of the failures replaced by one with the same identity.\<close>

lemma intake_ok_failures:
  assumes "intake_ok db" "\<And>f. f \<in> set (cd_failures db) \<Longrightarrow> cf_failure_id (g f) = cf_failure_id f"
    and "\<And>f. f \<in> set (cd_failures db) \<Longrightarrow> failure_ok (db\<lparr>cd_audit := aud\<rparr>) (g f)"
    and "\<forall>a \<in> set aud. \<exists>f \<in> set (cd_failures db). cf_failure_id f = au_failure_id a"
  shows "intake_ok (db\<lparr>cd_failures := map g (cd_failures db), cd_audit := aud\<rparr>)"
proof -
  have "map cf_failure_id (map g (cd_failures db)) = map cf_failure_id (cd_failures db)" using assms(2) by simp
  then have "distinct (map cf_failure_id (map g (cd_failures db)))" using assms(1) by (simp only: intake_ok_def)
  moreover have "failure_ok (db\<lparr>cd_failures := fs, cd_audit := aud\<rparr>) f = failure_ok (db\<lparr>cd_audit := aud\<rparr>) f" for fs f
    by (simp add: failure_ok_def)
  ultimately show ?thesis using assms unfolding intake_ok_def by (simp add: image_iff)
qed

lemma failure_ok_counted: "failure_ok db f \<Longrightarrow> failure_ok db (f\<lparr>cf_last_seen_at := t, cf_occurrence_count := cf_occurrence_count f + 1\<rparr>)"
  unfolding failure_ok_def audit_of_def by auto

lemma record_failure_inv:
  assumes ok: "intake_ok db" and ex: "existing \<in> set (cd_raw db)" "raw_key existing = raw_key raw"
  shows "intake_ok (snd (record_failure now raw existing lineage db))"
proof -
  define up where "up = (\<lambda>f. if failure_match raw f then f\<lparr>cf_last_seen_at := now, cf_occurrence_count := cf_occurrence_count f + 1\<rparr> else f)"
  define fid where "fid = integrity_failure_id (cr_tenant_id raw) (cr_ingress_event_id raw) (cr_payload_hash raw)"
  have counted: "intake_ok (db\<lparr>cd_failures := map up (cd_failures db)\<rparr>)"
  proof -
    have "failure_ok (db\<lparr>cd_audit := cd_audit db\<rparr>) (up f)" if "f \<in> set (cd_failures db)" for f
      using ok that failure_ok_counted unfolding intake_ok_def up_def by simp
    moreover have "cf_failure_id (up f) = cf_failure_id f" for f by (simp add: up_def)
    moreover have "\<forall>a \<in> set (cd_audit db). \<exists>f \<in> set (cd_failures db). cf_failure_id f = au_failure_id a"
      using ok unfolding intake_ok_def by blast
    ultimately show ?thesis using intake_ok_failures [of db up "cd_audit db"] ok by simp
  qed
  have new: "intake_ok (db\<lparr>cd_failures := cd_failures db @ [row]\<rparr>)"
    if "\<not> (\<exists>f \<in> set (cd_failures db). cf_failure_id f = fid)" "cf_failure_id row = fid" "cf_tenant_id row = cr_tenant_id raw"
      "cf_ingress_event_id row = cr_ingress_event_id raw" "cf_incoming_hash row = cr_payload_hash raw" "cf_occurrence_count row = 1"
      "cf_existing_hash row = cr_payload_hash existing" "cf_resolution_status row = ''open''" "cf_resolved_at row = None" for row
  proof -
    have none: "filter (\<lambda>a. au_failure_id a = fid) (cd_audit db) = []"
      using ok that(1) unfolding intake_ok_def filter_empty_conv by metis
    have "raw_key existing = (cf_tenant_id row, cf_ingress_event_id row)" using ex(2) that by (simp add: raw_key_def)
    then have "failure_ok (db\<lparr>cd_failures := cd_failures db @ [row]\<rparr>) row"
      using that(2-9) ex(1) none unfolding failure_ok_def audit_of_def by (simp add: fid_def) metis
    moreover have "failure_ok (db\<lparr>cd_failures := cd_failures db @ [row]\<rparr>) f" if "failure_ok db f" for f
      using that by (rule failure_ok_frame) simp_all
    moreover have "distinct (map cf_failure_id (cd_failures db @ [row]))"
      using ok that(1,2) unfolding intake_ok_def by auto
    ultimately show ?thesis using ok unfolding intake_ok_def by simp
  qed
  consider "snd (record_failure now raw existing lineage db) = db"
    | "snd (record_failure now raw existing lineage db) = db\<lparr>cd_failures := map up (cd_failures db)\<rparr>"
    | row where "snd (record_failure now raw existing lineage db) = db\<lparr>cd_failures := cd_failures db @ [row]\<rparr>"
      "\<not> (\<exists>f \<in> set (cd_failures db). cf_failure_id f = fid)" "cf_failure_id row = fid" "cf_tenant_id row = cr_tenant_id raw"
      "cf_ingress_event_id row = cr_ingress_event_id raw" "cf_incoming_hash row = cr_payload_hash raw" "cf_occurrence_count row = 1"
      "cf_existing_hash row = cr_payload_hash existing" "cf_resolution_status row = ''open''" "cf_resolved_at row = None"
    unfolding record_failure_def Let_def up_def fid_def by (fastforce split: if_splits)
  then show ?thesis using ok counted new by cases simp_all
qed

lemma persist_connect_raw_inv:
  assumes ok: "intake_ok db" and out: "announces raw out"
  shows "intake_ok (snd (persist_connect_raw now raw out lineage db))"
proof (cases "first_match (raw_match raw) (cd_raw db)")
  case (Some existing)
  have "existing \<in> set (cd_raw db)" "raw_key existing = raw_key raw"
    using first_match_Some [OF Some] by (simp_all add: raw_match_def raw_key_def)
  note rec = record_failure_inv [OF ok this, of now lineage]
  show ?thesis using ok rec Some unfolding persist_connect_raw_def by (simp split: if_splits)
next
  case None
  have fresh: "\<forall>x \<in> set (cd_raw db). raw_key x \<noteq> raw_key (raw\<lparr>cr_created_at := now\<rparr>)"
    using None unfolding first_match_None by (simp add: raw_match_def raw_key_def)
  have ann: "announces (raw\<lparr>cr_created_at := now\<rparr>) (outbox_row now raw out)"
    using out by (simp add: announces_def outbox_row_def)
  have "intake_ok (db\<lparr>cd_raw := cd_raw db @ [raw\<lparr>cr_created_at := now\<rparr>], cd_outbox := cd_outbox db @ [outbox_row now raw out]\<rparr>)"
    if "outbox_row_ok db (outbox_row now raw out)"
    by (rule intake_ok_insert [OF ok fresh ann]) (use that in \<open>simp add: outbox_row_ok_def\<close>)
  then show ?thesis using ok None unfolding persist_connect_raw_def Let_def by simp
qed

lemma announces_event: "announces (raw_of e) (outbox_of now topic e)"
  by (simp add: announces_def raw_of_def outbox_of_def outbox_id_def)

lemma process_connect_inv: "intake_ok db \<Longrightarrow> intake_ok (snd (process_connect now topic m db))"
  unfolding process_connect_def using persist_connect_raw_inv [OF _ announces_event] by (simp split: sum.split)

text \<open>A resolution moves one failure and writes its audit row.\<close>

lemma failure_ok_resolved:
  assumes f: "failure_ok db f" "cf_resolved_at f = None" "cf_tenant_id f = au_tenant_id row" "cf_failure_id f = au_failure_id row"
    and row: "row = \<lparr>au_tenant_id = au_tenant_id row, au_failure_id = au_failure_id row, au_previous_status = ''open'',
      au_resolution_status = status, au_actor = actor, au_reason = reason, au_occurred_at = t\<rparr>"
    and st: "status \<in> set resolved_statuses"
  shows "failure_ok (db\<lparr>cd_audit := cd_audit db @ [row]\<rparr>) (resolved_row status actor reason t f)"
proof -
  let ?f = "resolved_row status actor reason t f"
  have same: "cf_failure_id ?f = cf_failure_id f" "cf_tenant_id ?f = cf_tenant_id f" "cf_ingress_event_id ?f = cf_ingress_event_id f"
      "cf_incoming_hash ?f = cf_incoming_hash f" "cf_existing_hash ?f = cf_existing_hash f" "cf_occurrence_count ?f = cf_occurrence_count f"
      "cf_resolution_status ?f = status" "cf_resolved_at ?f = Some t" "status \<noteq> ''open''"
    using st by (auto simp: resolved_row_def resolved_statuses_def)
  have "filter (\<lambda>a. au_failure_id a = cf_failure_id f) (cd_audit db) = []"
    using failure_ok_audit [OF f(1)] f(2) by (simp add: audit_of_def)
  moreover have "audit_of ?f = [row]" using f(3,4) row by (simp add: audit_of_def resolved_row_def)
  ultimately have "filter (\<lambda>a. au_failure_id a = cf_failure_id ?f) (cd_audit db @ [row]) = audit_of ?f"
    using f(4) unfolding same by simp
  then show ?thesis using f(1) st unfolding failure_ok_def same by (auto simp: same)
qed

lemma resolve_failure_inv:
  assumes ok: "intake_ok db"
  shows "intake_ok (snd (resolve_failure tenant fid status actor reason t db))"
proof -
  define here where "here = (\<lambda>f :: failure_record. cf_tenant_id f = tenant \<and> cf_failure_id f = fid)"
  define g where "g = (\<lambda>f. if here f then resolved_row status actor reason t f else f)"
  define row where "row = \<lparr>au_tenant_id = tenant, au_failure_id = fid, au_previous_status = ''open'',
    au_resolution_status = status, au_actor = actor, au_reason = reason, au_occurred_at = t\<rparr>"
  have move: "intake_ok (db\<lparr>cd_failures := map g (cd_failures db), cd_audit := cd_audit db @ [row]\<rparr>)"
    if f: "f \<in> set (cd_failures db)" "here f" "cf_resolution_status f = ''open''" and r: "resolution_ok status actor reason" for f
  proof (rule intake_ok_failures [OF ok])
    have open_none: "cf_resolved_at f = None" "failure_ok db f" using ok f(1,3) unfolding intake_ok_def failure_ok_def by auto
    have st: "status \<in> set resolved_statuses" "status \<noteq> ''open''"
      using r by (auto simp: resolution_ok_def resolved_statuses_def)
    fix h assume h: "h \<in> set (cd_failures db)"
    show "cf_failure_id (g h) = cf_failure_id h" by (simp add: g_def resolved_row_def)
    have okh: "failure_ok db h" using ok h unfolding intake_ok_def by blast
    show "failure_ok (db\<lparr>cd_audit := cd_audit db @ [row]\<rparr>) (g h)"
    proof (cases "cf_failure_id h = fid")
      case True
      have "h = f" using distinct_map_eq [of cf_failure_id "cd_failures db" h f] ok h f True unfolding intake_ok_def here_def by simp
      then show ?thesis
        using failure_ok_resolved [OF open_none(2,1), of row status actor reason t] f(2) st(1) by (simp add: g_def here_def row_def)
    next
      case False
      then have "g h = h" by (simp add: g_def here_def)
      moreover have "failure_ok (db\<lparr>cd_audit := cd_audit db @ [row]\<rparr>) h"
        using okh by (rule failure_ok_frame) (use False in \<open>simp_all add: row_def\<close>)
      ultimately show ?thesis by simp
    qed
  next
    show "\<forall>a \<in> set (cd_audit db @ [row]). \<exists>f \<in> set (cd_failures db). cf_failure_id f = au_failure_id a"
      using ok f(1,2) unfolding intake_ok_def row_def here_def by auto
  qed
  show ?thesis
    using ok move first_match_Some [of here "cd_failures db"]
    unfolding resolve_failure_def Let_def here_def [symmetric] g_def [symmetric] row_def [symmetric]
    by (auto split: option.split if_splits)
qed

text \<open>The outbox command changes the delivery columns only.\<close>

lemma update_outbox_inv:
  assumes ok: "intake_ok db"
    and g: "\<And>x. co_outbox_id (g x) = co_outbox_id x" "\<And>r x. announces r (g x) = announces r x"
  shows "intake_ok (snd (update_outbox oid g db))"
proof -
  define up where "up = (\<lambda>x. if co_outbox_id x = oid \<and> co_published_at x = None then g x else x)"
  have keeps: "co_outbox_id (up x) = co_outbox_id x" "announces r (up x) = announces r x" for r x
    using g by (simp_all add: up_def)
  have "list_all2 announces (cd_raw db) (map up (cd_outbox db))"
    using ok unfolding intake_ok_def list_all2_map2 keeps by blast
  moreover have "map co_outbox_id (map up (cd_outbox db)) = map co_outbox_id (cd_outbox db)" by (simp add: keeps)
  moreover have "failure_ok (db\<lparr>cd_outbox := xs\<rparr>) f = failure_ok db f" for xs f by (simp add: failure_ok_def)
  ultimately have "intake_ok (db\<lparr>cd_outbox := map up (cd_outbox db)\<rparr>)"
    using ok unfolding intake_ok_def by (simp del: map_map)
  then show ?thesis using ok unfolding update_outbox_def Let_def up_def by simp
qed

lemma connect_step_inv:
  assumes "intake_ok db" "connect_step db db'"
  shows "intake_ok db'"
  using assms(2)
proof cases
  case (publish oid t)
  then show ?thesis using assms(1) by (simp add: mark_outbox_published_def update_outbox_inv announces_def)
next
  case (attempt oid)
  then show ?thesis using assms(1) by (simp add: mark_outbox_attempt_def update_outbox_inv announces_def)
qed (use assms(1) process_connect_inv resolve_failure_inv in auto)

interpretation intake: transition_system connect_step intake_ok
  by unfold_locales (rule connect_step_inv)

end
