(* ===== verification/GoStruct.thy ===== *)
theory GoStruct imports GoJson begin

text \<open>
  Structs on the wire: times that print and parse back, and the nullable slices and maps of
  \<open>encoding/json\<close>. A nil slice or map is \<open>None\<close>; it encodes as \<open>null\<close>.
\<close>

section \<open>A printed time parses back\<close>

lemma year_yday_leap:
  assumes "year_yday n = (y, yd)" "yd = 365"
  shows "leap y"
proof -
  define d1 where "d1 = (n + 719162) mod 146097"
  define n400 where "n400 = (n + 719162) div 146097"
  define n100 where "n100 = min 3 (d1 div 36524)"
  define d2 where "d2 = d1 - 36524 * n100"
  define n4 where "n4 = d2 div 1461"
  define d3 where "d3 = d2 mod 1461"
  define n1 where "n1 = min 3 (d3 div 365)"
  have "year_yday n = (400 * n400 + 100 * n100 + 4 * n4 + n1 + 1, d3 - 365 * n1)"
    by (simp only: d1_def n400_def n100_def d2_def n4_def d3_def n1_def year_yday_def Let_def)
  then have y: "y = 400 * n400 + 100 * n100 + 4 * n4 + n1 + 1" and d: "d3 - 365 * n1 = 365" using assms by simp_all
  have d1: "0 \<le> d1" "d1 < 146097" by (simp_all add: d1_def)
  have n100: "0 \<le> n100" "n100 \<le> 3" using d1 by (auto simp: n100_def)
  have d2: "0 \<le> d2" "d2 \<le> 36524" "d2 = 36524 \<longrightarrow> n100 = 3"
    using d1 minus_div_mult_eq_mod [of d1 36524] pos_mod_bound [of 36524 d1] pos_mod_sign [of 36524 d1]
    unfolding d2_def n100_def by (auto simp: min_def not_le)
  have n4: "0 \<le> n4" "n4 \<le> 24" using d2 by (auto simp: n4_def)
  have d3: "0 \<le> d3" "d3 < 1461" by (simp_all add: d3_def)
  have n1: "n1 = 3" "d3 = 1460"
    using d d3 minus_div_mult_eq_mod [of d3 365] pos_mod_bound [of 365 d3] pos_mod_sign [of 365 d3]
    unfolding n1_def by (auto simp: min_def not_le split: if_splits)
  have "d2 = 1461 * n4 + 1460" using n1(2) mult_div_mod_eq [of 1461 d2] by (simp add: n4_def d3_def)
  then have c: "n4 = 24 \<Longrightarrow> n100 = 3" using d2 by simp
  have y': "y = 4 * (100 * n400 + 25 * n100 + n4 + 1)" using y n1(1) by simp
  show ?thesis
  proof (cases "n4 = 24")
    case True
    then have "y = 400 * (n400 + 1)" using y n1(1) c by simp
    then show ?thesis by (simp add: leap_def)
  next
    case False
    have "y = (4 * n4 + 4) + 100 * (4 * n400 + n100)" using y n1(1) by simp
    then have "y mod 100 = (4 * n4 + 4) mod 100" by (simp only: mod_mult_self2)
    also have "\<dots> = 4 * n4 + 4" using n4 False by (intro mod_pos_pos_trivial) simp_all
    finally have "y mod 100 = 4 * n4 + 4" .
    then show ?thesis using y' n4 by (simp add: leap_def)
  qed
qed

lemma month_day_len:
  assumes "month_day lp yd = (m, d)" "0 \<le> yd" "yd < 365 + (if lp then 1 else 0)"
  shows "1 \<le> d \<and> d \<le> (if m = 2 then (if lp then 29 else 28) else if m \<in> {4, 6, 9, 11} then 30 else 31)"
  using assms by (auto simp: month_day_def month_starts_def Let_def split: if_splits)

lemma civil_valid:
  assumes "civil n = (y, m, d)"
  shows "1 \<le> m" "m \<le> 12" "1 \<le> d" "d \<le> month_len y m" "days_of_civil y m d = n"
proof -
  obtain yd where 1: "year_yday n = (y, yd)" and 2: "month_day (leap y) yd = (m, d)"
    using assms by (auto simp: civil_def Let_def split: prod.splits)
  have "yd < 365 + (if leap y then 1 else 0)"
    using year_yday_days(3) [OF 1] year_yday_leap [OF 1] by (cases "yd = 365") auto
  then show "1 \<le> d" "d \<le> month_len y m"
    using month_day_len [OF 2 year_yday_days(2) [OF 1]] by (auto simp: month_len_def)
  show "1 \<le> m" "m \<le> 12" using civil_bounds [OF assms] by simp_all
  show "days_of_civil y m d = n" by (rule civil_days [OF assms])
qed

lemma digit_char [simp]: "0 \<le> (n :: int) \<Longrightarrow> n \<le> 9 \<Longrightarrow> is_digit (char_of (48 + n))"
  by (simp add: is_digit_def code_of_char_of)

lemma pad_digits_digits: "list_all is_digit (pad_digits w n)"
  by (induction w arbitrary: n) (auto simp: pos_mod_bound [of 10, simplified])

declare pad_digits.simps [simp del]

lemma num_at_pad:
  assumes "0 \<le> n" "n < 10 ^ w" "length p = i"
  shows "num_at (p @ pad_digits w n @ r) i w = Some n"
  using assms by (simp add: num_at_def pad_digits_digits digits_val_pad)

lemma char_at_mid: "length p = i \<Longrightarrow> char_at (p @ c # r) i d \<longleftrightarrow> c = d"
  by (auto simp: char_at_def)

lemma strip_zeros_digits: "list_all is_digit s \<Longrightarrow> list_all is_digit (strip_zeros s)"
  by (auto simp: list_all_iff dest: set_dropWhileD)

lemma strip_zeros_pad: "strip_zeros s @ replicate (length s - length (strip_zeros s)) (CHR ''0'') = s"
proof -
  let ?P = "\<lambda>c. c = CHR ''0''"
  have "takeWhile ?P (rev s) = replicate (length (takeWhile ?P (rev s))) (CHR ''0'')"
    by (metis (full_types) replicate_length_same set_takeWhileD)
  moreover have "s = rev (dropWhile ?P (rev s)) @ rev (takeWhile ?P (rev s))"
    by (metis rev_append rev_rev_ident takeWhile_dropWhile_id)
  moreover have "length (takeWhile ?P (rev s)) = length s - length (dropWhile ?P (rev s))"
    using takeWhile_dropWhile_id [of ?P "rev s"] by (metis add_diff_cancel_right' length_append length_rev)
  ultimately show ?thesis by (metis length_rev rev_replicate strip_zeros.simps)
qed

lemma digits_val_zeros: "digits_val (replicate n (CHR ''0'')) = 0"
  by (induction n) (simp_all add: digits_val_def dig_def code_of_def)

lemma pad_digits_two: "pad_digits 2 n = [char_of (48 + n div 10 mod 10), char_of (48 + n mod 10)]"
  by (simp add: numeral_2_eq_2 pad_digits.simps)

lemma parse_frac_fmt:
  assumes "0 \<le> ns" "ns < second"
  defines "f \<equiv> strip_zeros (pad_digits 9 ns)"
  shows "parse_frac b ((if f = [] then [] else ''.'' @ f) @ ''Z'') = (ns, ''Z'')"
proof (cases "f = []")
  case True
  have "pad_digits 9 ns = replicate 9 (CHR ''0'')"
    using strip_zeros_pad [of "pad_digits 9 ns"] True unfolding f_def by (simp del: strip_zeros.simps)
  then have "digits_val (pad_digits 9 ns) = 0" by (simp only: digits_val_zeros)
  then have "ns = 0" using assms(1,2) unfolding digits_val_pad by (simp add: second_def)
  then show ?thesis using True by (simp add: parse_frac_def Let_def)
next
  case False
  have d: "list_all is_digit f" unfolding f_def by (intro strip_zeros_digits pad_digits_digits)
  have z: "\<not> is_digit (CHR ''Z'')" by code_simp
  have t: "takeWhile is_digit (f @ ''Z'') = f" "dropWhile is_digit (f @ ''Z'') = ''Z''"
    using d z by (simp_all add: list_all_iff takeWhile_append2 dropWhile_append2)
  have len: "length f \<le> 9" using strip_zeros_pad [of "pad_digits 9 ns"] unfolding f_def
    by (metis length_append length_pad_digits le_add1)
  have "take 9 (f @ replicate 9 (CHR ''0'')) = f @ replicate (9 - length f) (CHR ''0'')" using len by (simp add: min_def)
  also have "\<dots> = pad_digits 9 ns" using strip_zeros_pad [of "pad_digits 9 ns"] unfolding f_def by (simp only: length_pad_digits)
  finally have "take 9 (f @ replicate 9 (CHR ''0'')) = pad_digits 9 ns" .
  then have "digits_val (take 9 (f @ replicate 9 (CHR ''0''))) = ns" using assms(1,2) by (simp only: digits_val_pad) (simp add: second_def)
  then show ?thesis using False t by (simp add: parse_frac_def Let_def)
qed

lemma parse_ymd_fmt:
  assumes "common_year t"
  shows "parse_ymd (fmt_date t @ r) = Some (t div day_ns)"
proof -
  obtain y m d where c: "civil (t div day_ns) = (y, m, d)" by (metis prod_cases3)
  note v = civil_valid [OF c]
  have y: "0 \<le> y" "y < 10 ^ 4" using assms by (simp_all add: common_year_def year_of_def c)
  have l: "month_len y m \<le> 31" by (simp add: month_len_def)
  have md: "0 \<le> m" "m < 10 ^ 2" "0 \<le> d" "d < 10 ^ 2" using v l by simp_all
  let ?s = "fmt_date t @ r"
  have s: "?s = [] @ pad_digits 4 y @ (''-'' @ pad_digits 2 m @ ''-'' @ pad_digits 2 d @ r)"
    by (simp add: fmt_date_def c)
  have 1: "num_at ?s 0 4 = Some y" unfolding s by (rule num_at_pad [OF y]) simp
  have s2: "?s = (pad_digits 4 y @ ''-'') @ pad_digits 2 m @ (''-'' @ pad_digits 2 d @ r)" by (simp add: s)
  have 2: "num_at ?s 5 2 = Some m" unfolding s2 by (rule num_at_pad [OF md(1,2)]) simp
  have s3: "?s = (pad_digits 4 y @ ''-'' @ pad_digits 2 m @ ''-'') @ pad_digits 2 d @ r" by (simp add: s)
  have 3: "num_at ?s 8 2 = Some d" unfolding s3 by (rule num_at_pad [OF md(3,4)]) simp
  have s4: "?s = pad_digits 4 y @ CHR ''-'' # (pad_digits 2 m @ ''-'' @ pad_digits 2 d @ r)" by (simp add: s)
  have 4: "char_at ?s 4 CHR ''-''" unfolding s4 by (subst char_at_mid) simp_all
  have s5: "?s = (pad_digits 4 y @ ''-'' @ pad_digits 2 m) @ CHR ''-'' # (pad_digits 2 d @ r)" by (simp add: s)
  have 5: "char_at ?s 7 CHR ''-''" unfolding s5 by (subst char_at_mid) simp_all
  show ?thesis unfolding parse_ymd_def 1 2 3 using 4 5 v by simp
qed

lemma parse_date_fmt: "common_year t \<Longrightarrow> parse_date (fmt_date t) = Some (midnight t)"
  using parse_ymd_fmt [of t "[]"] by (simp add: parse_date_def midnight_def fmt_date_def case_prod_beta)

lemma length_fmt_date [simp]: "length (fmt_date t) = 10"
  by (simp add: fmt_date_def case_prod_beta)

lemma parse_ts_text:
  assumes "common_year t" "0 \<le> h" "h \<le> 23" "0 \<le> mi" "mi \<le> 59" "0 \<le> se" "se \<le> 59" "parse_frac b tail = (ns, ''Z'')"
    and x: "x = fmt_date t @ ''T'' @ pad_digits 2 h @ '':'' @ pad_digits 2 mi @ '':'' @ pad_digits 2 se @ tail"
  shows "parse_ts b x = Some (t div day_ns * day_ns + (3600 * h + 60 * mi + se) * second + ns)"
proof -
  have lt: "h < 10 ^ 2" "mi < 10 ^ 2" "se < 10 ^ 2" using assms by simp_all
  have x1: "x = (fmt_date t @ ''T'') @ pad_digits 2 h @ ('':'' @ pad_digits 2 mi @ '':'' @ pad_digits 2 se @ tail)" using x by simp
  have 1: "num_at x 11 2 = Some h" unfolding x1 using assms(2) lt(1) by (rule num_at_pad) simp
  have x2: "x = (fmt_date t @ ''T'' @ pad_digits 2 h @ '':'') @ pad_digits 2 mi @ ('':'' @ pad_digits 2 se @ tail)" using x by simp
  have 2: "num_at x 14 2 = Some mi" unfolding x2 using assms(4) lt(2) by (rule num_at_pad) simp
  have x3: "x = (fmt_date t @ ''T'' @ pad_digits 2 h @ '':'' @ pad_digits 2 mi @ '':'') @ pad_digits 2 se @ tail" using x by simp
  have 3: "num_at x 17 2 = Some se" unfolding x3 using assms(6) lt(3) by (rule num_at_pad) simp
  have x4: "x = fmt_date t @ CHR ''T'' # (pad_digits 2 h @ '':'' @ pad_digits 2 mi @ '':'' @ pad_digits 2 se @ tail)" using x by simp
  have 4: "char_at x 10 CHR ''T''" unfolding x4 by (subst char_at_mid) simp_all
  have x5: "x = (fmt_date t @ ''T'' @ pad_digits 2 h) @ CHR '':'' # (pad_digits 2 mi @ '':'' @ pad_digits 2 se @ tail)" using x by simp
  have 5: "char_at x 13 CHR '':''" unfolding x5 by (subst char_at_mid) simp_all
  have x6: "x = (fmt_date t @ ''T'' @ pad_digits 2 h @ '':'' @ pad_digits 2 mi) @ CHR '':'' # (pad_digits 2 se @ tail)" using x by simp
  have 6: "char_at x 16 CHR '':''" unfolding x6 by (subst char_at_mid) simp_all
  have x7: "x = (fmt_date t @ ''T'' @ [char_of (48 + h div 10 mod 10)]) @ char_of (48 + h mod 10) # ('':'' @ pad_digits 2 mi @ '':'' @ pad_digits 2 se @ tail)"
    using x pad_digits_two [of h] by simp
  have "char_at x 12 CHR '':'' \<longleftrightarrow> char_of (48 + h mod 10) = (CHR '':'')" unfolding x7 by (subst char_at_mid) simp_all
  moreover have "is_digit (char_of (48 + h mod 10))" by (rule digit_char) (simp_all add: pos_mod_bound [of 10, simplified])
  moreover have "\<not> is_digit (CHR '':'')" by code_simp
  ultimately have 7: "\<not> char_at x 12 CHR '':''" by metis
  have 8: "drop 19 x = tail" using x by simp
  have 9: "parse_ymd x = Some (t div day_ns)" unfolding x by (rule parse_ymd_fmt [OF assms(1)])
  show ?thesis
    unfolding parse_ts_def Let_def using 7 assms(3,5,7) by (simp add: 1 2 3 4 5 6 8 9 assms(8) parse_zone_def)
qed

lemma parse_ts_fmt:
  assumes "common_year t"
  shows "parse_ts b (fmt_rfc3339nano t) = Some t"
proof -
  define s where "s = t mod day_ns div second"
  define ns where "ns = t mod second"
  define f where "f = strip_zeros (pad_digits 9 ns)"
  have "0 \<le> t mod day_ns" "t mod day_ns < day_ns" by (simp_all add: day_ns_def)
  moreover have "0 < second" "day_ns = 86400 * second" by (simp_all add: second_def day_ns_def)
  moreover have "s * second + t mod day_ns mod second = t mod day_ns" unfolding s_def by (rule div_mult_mod_eq)
  moreover have "0 \<le> t mod day_ns mod second" using \<open>0 < second\<close> by (rule pos_mod_sign)
  ultimately have "s * second < 86400 * second" "0 \<le> s" unfolding s_def by (linarith, simp add: pos_imp_zdiv_nonneg_iff)
  then have s: "0 \<le> s" "s < 86400" using \<open>0 < second\<close> by simp_all
  have ns: "0 \<le> ns" "ns < second" unfolding ns_def using \<open>0 < second\<close> by simp_all
  have "parse_ts b (fmt_rfc3339nano t)
      = Some (t div day_ns * day_ns + (3600 * (s div 3600) + 60 * (s div 60 mod 60) + s mod 60) * second + ns)"
  proof (rule parse_ts_text [OF assms])
    show "parse_frac b ((if f = [] then [] else ''.'' @ f) @ ''Z'') = (ns, ''Z'')" unfolding f_def by (rule parse_frac_fmt [OF ns])
    show "fmt_rfc3339nano t = fmt_date t @ ''T'' @ pad_digits 2 (s div 3600) @ '':'' @ pad_digits 2 (s div 60 mod 60) @ '':''
        @ pad_digits 2 (s mod 60) @ (if f = [] then [] else ''.'' @ f) @ ''Z''"
      unfolding fmt_rfc3339nano_def fmt_clock_def Let_def s_def ns_def f_def by (simp only: append_assoc)
  qed (use s in \<open>auto simp: pos_imp_zdiv_nonneg_iff\<close>)
  moreover have "3600 * (s div 3600) + 60 * (s div 60 mod 60) + s mod 60 = s"
  proof -
    have "s div 3600 = s div 60 div 60" using zdiv_zmult2_eq [of 60 s 60] by simp
    then show ?thesis using mult_div_mod_eq [of 60 s] mult_div_mod_eq [of 60 "s div 60"] by linarith
  qed
  moreover have "t div day_ns * day_ns + s * second + ns = t"
  proof -
    have "t mod day_ns = s * second + t mod day_ns mod second" by (simp add: s_def)
    moreover have "t mod day_ns mod second = ns" unfolding ns_def
      by (rule mod_mod_cancel) (simp add: day_ns_def second_def)
    ultimately show ?thesis using div_mult_mod_eq [of t day_ns] by linarith
  qed
  ultimately show ?thesis by simp
qed

declare pad_digits.simps [simp]

section \<open>Slices and maps\<close>

type_synonym objs = "obj option list option"

definition json_map :: "obj option \<Rightarrow> json" where
  "json_map m = (case m of None \<Rightarrow> JNull | Some x \<Rightarrow> JObj x)"

definition json_objs :: "objs \<Rightarrow> json" where
  "json_objs v = (case v of None \<Rightarrow> JNull | Some xs \<Rightarrow> JArr (map json_map xs))"

definition json_strs :: "string list option \<Rightarrow> json" where
  "json_strs v = (case v of None \<Rightarrow> JNull | Some xs \<Rightarrow> JArr (map JStr xs))"

definition json_time :: "time \<Rightarrow> json" where
  "json_time t = JStr (fmt_rfc3339nano t)"

text \<open>The fields of a struct in their order; one that \<open>omitempty\<close> leaves out has no value.\<close>

type_synonym fields = "(string \<times> json option) list"

definition omit_empty :: "string \<Rightarrow> json option" where
  "omit_empty s = (if s = [] then None else Some (JStr s))"

definition struct_obj :: "fields \<Rightarrow> obj" where
  "struct_obj fs = List.map_filter (\<lambda>(k, v). map_option (Pair k) v) fs"

text \<open>Decoding fails on a value of another JSON type; \<open>null\<close> and a missing key leave nil.\<close>

definition dec_map :: "json option \<Rightarrow> obj option option" where
  "dec_map j = (case j of None \<Rightarrow> Some None | Some JNull \<Rightarrow> Some None | Some (JObj m) \<Rightarrow> Some (Some m) | _ \<Rightarrow> None)"

fun dec_all :: "(json \<Rightarrow> 'a option) \<Rightarrow> json list \<Rightarrow> 'a list option" where
  "dec_all f [] = Some []"
| "dec_all f (x # xs) = (case f x of None \<Rightarrow> None | Some y \<Rightarrow> map_option (\<lambda>ys. y # ys) (dec_all f xs))"

definition dec_objs :: "json option \<Rightarrow> objs option" where
  "dec_objs j = (case j of None \<Rightarrow> Some None | Some JNull \<Rightarrow> Some None
     | Some (JArr xs) \<Rightarrow> map_option Some (dec_all (\<lambda>x. dec_map (Some x)) xs) | _ \<Rightarrow> None)"

definition dec_strs :: "json option \<Rightarrow> string list option option" where
  "dec_strs j = (case j of None \<Rightarrow> Some None | Some JNull \<Rightarrow> Some None
     | Some (JArr xs) \<Rightarrow> map_option Some (dec_all (\<lambda>x. dec_str (Some x)) xs) | _ \<Rightarrow> None)"

definition wire_map :: "obj \<Rightarrow> obj" where
  "wire_map = map (\<lambda>(k, v). (k, wire v))"

lemma dec_all_map: "(\<And>x. x \<in> set xs \<Longrightarrow> f (g x) = Some (h x)) \<Longrightarrow> dec_all f (map g xs) = Some (map h xs)"
  by (induction xs) auto

lemma wire_objs: "wire (json_map m) = json_map (map_option wire_map m)"
  "wire (json_objs v) = json_objs (map_option (map (map_option wire_map)) v)" "wire (json_strs s) = json_strs s" "wire (json_time t) = json_time t"
  by (auto simp: json_map_def json_objs_def json_strs_def json_time_def wire_map_def split: option.splits)

lemma dec_wire [simp]:
  "dec_map (Some (json_map m)) = Some m" "dec_objs (Some (json_objs v)) = Some v" "dec_strs (Some (json_strs s)) = Some s"
  "common_year t \<Longrightarrow> dec_time (Some (json_time t)) = Some t"
proof -
  show 1: "dec_map (Some (json_map m)) = Some m" for m by (cases m) (simp_all add: dec_map_def json_map_def)
  show "dec_objs (Some (json_objs v)) = Some v"
    by (cases v) (simp_all add: dec_objs_def json_objs_def dec_all_map [where h = id] 1)
  show "dec_strs (Some (json_strs s)) = Some s"
    by (cases s) (simp_all add: dec_strs_def json_strs_def dec_all_map [where h = id])
  show "common_year t \<Longrightarrow> dec_time (Some (json_time t)) = Some t" by (simp add: dec_time_def json_time_def parse_ts_fmt)
qed

section \<open>Structs\<close>

definition plain_fields :: "string list \<Rightarrow> bool" where
  "plain_fields ks \<longleftrightarrow> distinct ks \<and> list_all (\<lambda>k. to_lower k = k) ks"

lemma map_filter_simps2 [simp]: "struct_obj [] = []" "struct_obj ((k, None) # fs) = struct_obj fs"
  "struct_obj ((k, Some v) # fs) = (k, v) # struct_obj fs"
  by (simp_all add: struct_obj_def List.map_filter_simps)

lemma struct_obj_keys: "fst ` set (struct_obj fs) \<subseteq> fst ` set fs"
proof (induction fs)
  case (Cons f fs)
  then show ?case by (cases f; cases "snd f") auto
qed simp

lemma ofield_plain:
  assumes "\<forall>k \<in> fst ` set m. to_lower k = k" "distinct (map fst m)" "to_lower name = name"
  shows "ofield m name = oget m name"
proof (cases "oget m name")
  case None
  then have "\<forall>(k, v) \<in> set (rev m). to_lower k \<noteq> to_lower name"
    using assms by (force simp: oget_def map_of_eq_None_iff)
  then show ?thesis using None by (simp add: ofield_def first_match_None case_prod_beta)
next
  case (Some v)
  then have "(name, v) \<in> set m" by (simp add: oget_def map_of_SomeD)
  moreover have "k = name" if "(k, w) \<in> set m" "to_lower k = to_lower name" for k w
    using that assms by force
  ultimately have "\<exists>p. first_match (\<lambda>(k, v). to_lower k = to_lower name) (rev m) = Some p"
    using first_match_None [of "\<lambda>(k, v). to_lower k = to_lower name" "rev m"] by (cases "first_match (\<lambda>(k, v). to_lower k = to_lower name) (rev m)") auto
  then obtain k w where f: "first_match (\<lambda>(k, v). to_lower k = to_lower name) (rev m) = Some (k, w)" by (metis surj_pair)
  then have "to_lower k = to_lower name" "(k, w) \<in> set m" using first_match_Some [OF f] by auto
  then have "k = name \<and> (name, w) \<in> set m" using assms by force
  then have "w = v" using Some assms(2) by (metis map_of_is_SomeI oget_def option.inject)
  then show ?thesis using f Some by (simp add: ofield_def)
qed

text \<open>Reading a field back from an encoded struct.\<close>

lemma ofield_struct:
  assumes "plain_fields (map fst fs)" "map_of fs name = Some v"
  shows "ofield (wire_map (struct_obj fs)) name = map_option wire v"
proof -
  have k: "fst ` set (wire_map (struct_obj fs)) \<subseteq> fst ` set fs"
    using struct_obj_keys [of fs] by (force simp: wire_map_def)
  have d: "distinct (map fst (struct_obj fs))" if "distinct (map fst fs)" for fs
    using that
  proof (induction fs)
    case (Cons f fs)
    have "fst f \<notin> fst ` set (struct_obj fs)" using Cons.prems struct_obj_keys [of fs] by auto
    then show ?case using Cons by (cases f; cases "snd f") auto
  qed simp
  have o: "oget (struct_obj fs) name = v" if "distinct (map fst fs)" "map_of fs name = Some v" for fs
    using that
  proof (induction fs)
    case (Cons f fs)
    show ?case
    proof (cases "fst f = name")
      case True
      then have "name \<notin> fst ` set (struct_obj fs)" using Cons.prems struct_obj_keys [of fs] by auto
      then have "map_of (struct_obj fs) name = None" by (simp add: map_of_eq_None_iff)
      then show ?thesis using Cons.prems True by (cases f; cases "snd f") (auto simp: oget_def)
    next
      case False
      then show ?thesis using Cons by (cases f; cases "snd f") (auto simp: oget_def)
    qed
  qed simp
  have "map fst (wire_map m) = map fst m" for m by (simp add: wire_map_def case_prod_beta comp_def)
  moreover have "to_lower name = name"
    using assms by (auto simp: plain_fields_def list_all_iff dest!: map_of_SomeD)
  ultimately have "ofield (wire_map (struct_obj fs)) name = oget (wire_map (struct_obj fs)) name"
    using k d assms(1) by (intro ofield_plain) (force simp: plain_fields_def list_all_iff)+
  also have "\<dots> = map_option wire v" using o assms by (simp add: wire_map_def oget_wire plain_fields_def)
  finally show ?thesis .
qed

lemma struct_known: "list_all (\<lambda>(k, v). k \<in> set ks) (wire_map (struct_obj fs))" if "set (map fst fs) \<subseteq> set ks"
  using that struct_obj_keys [of fs] by (force simp: wire_map_def list_all_iff)

end
