(* ===== verification/Normalization.thy ===== *)
theory Normalization imports CyberIntake GoStruct StorageRecords begin

text \<open>
  The normalizer: \<open>internal/normalization/processor.go\<close> (from a raw event to a normalized one,
  its publication and its ledger row), \<open>appmeta.Normalize\<close>, and the loops of the commands
  \<open>normalizer\<close> and \<open>cyberops-normalizer\<close>. The registry of definitions and the ledger are
  parameters, as they are interfaces of the processor.
\<close>

section \<open>Events\<close>

record norm_event =
  ne_tenant_id :: string
  ne_source_id :: string
  ne_app_id :: string
  ne_domain :: string
  ne_use_case :: string
  ne_source_domain :: string
  ne_source_adapter :: string
  ne_ingestion_mode :: string
  ne_dataset :: string
  ne_event_id :: string
  ne_event_type :: string
  ne_schema_id :: string
  ne_schema_version :: string
  ne_observation_time :: time
  ne_effective_time :: time
  ne_processing_time :: time
  ne_occurred_at :: time
  ne_observed_at :: time
  ne_payload :: "obj option"
  ne_entities :: objs
  ne_confidence :: f64
  ne_metadata :: "obj option"
  ne_evidence :: objs
  ne_correlation_id :: string
  ne_idempotency_key :: string
  ne_trace_id :: string
  ne_causation_id :: string
  ne_replay_job_id :: string

record app_metadata =
  am_app_id :: string
  am_domain :: string
  am_use_case :: string

definition app_normalize :: "string \<Rightarrow> string \<Rightarrow> string \<Rightarrow> string \<Rightarrow> app_metadata" where
  "app_normalize app domain use_case fallback =
     \<lparr>am_app_id = (if blank app then ''console'' else trim_space app),
      am_domain = (if blank domain then trim_space fallback else trim_space domain),
      am_use_case = (if blank use_case then ''general'' else trim_space use_case)\<rparr>"

section \<open>Reading the raw event\<close>

definition first_string :: "obj \<Rightarrow> string \<Rightarrow> string list \<Rightarrow> string" where
  "first_string raw name fallbacks =
     (let v = str_of (oget raw name) in if \<not> blank v then trim_space v else first_non_blank fallbacks)"

definition required_text :: "obj \<Rightarrow> string \<Rightarrow> string res" where
  "required_text raw name =
     (let v = trim_space (str_of (oget raw name)) in if v = [] then Inl (Err (''raw event '' @ name @ '' is required'')) else Inr v)"

definition event_time :: "obj \<Rightarrow> string \<Rightarrow> time \<Rightarrow> time res" where
  "event_time raw name fallback =
     (let v = str_of (oget raw name) in
      if blank v then (if fallback = zero_time then Inl (Err (''raw event '' @ name @ '' is required'')) else Inr fallback)
      else (case parse_ts True v of None \<Rightarrow> Inl (Err (''raw event '' @ name @ '' must be RFC3339'')) | Some t \<Rightarrow> Inr t))"

definition object_array :: "obj \<Rightarrow> string \<Rightarrow> obj list option" where
  "object_array raw name =
     (case oget raw name of Some (JArr xs) \<Rightarrow> Some (List.map_filter (\<lambda>x. obj_of (Some x)) xs) | _ \<Rightarrow> None)"

definition entity_ref :: "obj \<Rightarrow> obj option" where
  "entity_ref hint =
     (let kind = first_string hint ''type'' [first_string hint ''entity_type'' []];
          ext = first_string hint ''external_id'' [first_string hint ''entity_id'' []]
      in if kind = [] \<or> ext = [] then None
         else Some ([(''type'', JStr kind), (''id'', JStr (kind @ '':'' @ ext)), (''external_id'', JStr ext)]
           @ (case num_of (oget hint ''confidence'') of None \<Rightarrow> [] | Some c \<Rightarrow> [(''confidence'', JNum c)])
           @ (case obj_of (oget hint ''metadata'') of None \<Rightarrow> [] | Some m \<Rightarrow> [(''metadata'', JObj m)])))"

definition entity_refs :: "obj \<Rightarrow> obj list" where
  "entity_refs raw =
     (case object_array raw ''entities'' of
        Some xs \<Rightarrow> xs
      | None \<Rightarrow> List.map_filter entity_ref (case object_array raw ''entity_hints'' of None \<Rightarrow> [] | Some hs \<Rightarrow> hs))"

definition ingestion_mode_of :: "string \<Rightarrow> string" where
  "ingestion_mode_of v =
     (let s = trim_space v in
      if s \<in> {[], ''push'', ''event''} then ''push_event'' else if s \<in> {''stream'', ''websocket''} then ''websocket_stream_future'' else s)"

definition source_domains :: "string list" where
  "source_domains = [''market_data'', ''crm'', ''security'', ''operations'', ''iot'', ''procurement'', ''custom'']"

definition ingestion_modes :: "string list" where
  "ingestion_modes = [''push_event'', ''scheduled_pull'', ''bulk_file'', ''replay'', ''websocket_stream_future'']"

section \<open>Payloads of market data\<close>

text \<open>Numbers of a payload: \<open>float64\<close> from JSON, or \<open>int64\<close> where the code stored one.\<close>

definition payload_float :: "obj \<Rightarrow> string \<Rightarrow> f64 option" where
  "payload_float m name = (case oget m name of Some (JNum x) \<Rightarrow> Some x | Some (JInt i) \<Rightarrow> Some (f_of_int i) | _ \<Rightarrow> None)"

definition positive_float :: "obj \<Rightarrow> string \<Rightarrow> f64 option" where
  "positive_float m name = (case payload_float m name of Some x \<Rightarrow> if flt (Fin 0) x then Some x else None | None \<Rightarrow> None)"

definition feature_int :: "obj \<Rightarrow> string \<Rightarrow> int option" where
  "feature_int m name =
     (case oget m name of
        Some (JNum x) \<Rightarrow> if feq x (f_of_int (f_to_int x)) then Some (f_to_int x) else None
      | Some (JInt i) \<Rightarrow> Some i
      | _ \<Rightarrow> None)"

definition payload_string :: "obj \<Rightarrow> string \<Rightarrow> string list \<Rightarrow> string" where
  "payload_string = first_string"

definition round_feature :: "f64 \<Rightarrow> f64 \<Rightarrow> f64" where
  "round_feature v factor = fdiv (fround (fmul v factor)) factor"

definition round_pct :: "f64 \<Rightarrow> f64" where
  "round_pct v = round_feature (fmul v (Fin 100)) (Fin 10000)"

definition days_to_expiration :: "obj \<Rightarrow> int option" where
  "days_to_expiration m =
     (let e = payload_string m ''expiration_date'' []; o1 = payload_string m ''observation_date'' [] in
      if e = [] \<or> o1 = [] then None
      else (case (parse_date e, parse_date o1) of
              (Some te, Some t0) \<Rightarrow> Some (f_to_int (fdiv (hours (sub_dur te t0)) (Fin 24)))
            | _ \<Rightarrow> None))"

definition feature_if :: "string \<Rightarrow> json option \<Rightarrow> obj" where
  "feature_if k v = (case v of None \<Rightarrow> [] | Some j \<Rightarrow> [(k, j)])"

definition change_of :: "f64 option \<Rightarrow> f64 option \<Rightarrow> json option" where
  "change_of x base = (case (x, base) of (Some a, Some b) \<Rightarrow> Some (JNum (round_pct (fdiv (fsub a b) b))) | _ \<Rightarrow> None)"

definition daily_features :: "obj \<Rightarrow> obj" where
  "daily_features m =
     (let op = positive_float m ''open''; hi = payload_float m ''high''; lo = payload_float m ''low''; cl = payload_float m ''close'';
          vw = positive_float m ''vwap''; pc = positive_float m ''previous_close''; vol = feature_int m ''volume''; oi = feature_int m ''open_interest''
      in feature_if ''open_close_move_pct'' (change_of cl op)
       @ feature_if ''intraday_range_pct''
           (case (op, hi, lo) of (Some a, Some h, Some l) \<Rightarrow> Some (JNum (round_pct (fdiv (fsub h l) a))) | _ \<Rightarrow> None)
       @ feature_if ''vwap_distance_pct'' (change_of cl vw)
       @ feature_if ''daily_return_pct'' (change_of cl pc)
       @ feature_if ''volume'' (map_option JInt vol)
       @ feature_if ''open_interest'' (map_option JInt oi)
       @ feature_if ''volume_open_interest_ratio''
           (case (vol, oi) of
              (Some v, Some i) \<Rightarrow> if 0 < i then Some (JNum (round_feature (fdiv (f_of_int v) (f_of_int i)) (Fin 1000000))) else None
            | _ \<Rightarrow> None)
       @ feature_if ''days_to_expiration'' (map_option JInt (days_to_expiration m)))"

definition with_features :: "obj \<Rightarrow> obj" where
  "with_features m = (let fs = daily_features m in if fs = [] then m else oput ''features'' (JObj fs) m)"

definition optional_float :: "obj \<Rightarrow> string \<Rightarrow> json option res" where
  "optional_float m name =
     (if oget m name = None then Inr None
      else (case payload_float m name of
              Some x \<Rightarrow> if flt x (Fin 0) then Inl (Err (name @ '' must be a non-negative number'')) else Inr (Some (JNum x))
            | None \<Rightarrow> Inl (Err (name @ '' must be a non-negative number''))))"

definition optional_int :: "obj \<Rightarrow> string \<Rightarrow> json option res" where
  "optional_int m name =
     (case oget m name of
        None \<Rightarrow> Inr None
      | Some (JNum x) \<Rightarrow> if flt x (Fin 0) \<or> \<not> feq x (f_of_int (f_to_int x)) then Inl (Err (name @ '' must be a non-negative integer'')) else Inr (Some (JInt (f_to_int x)))
      | Some (JInt i) \<Rightarrow> if i < 0 then Inl (Err (name @ '' must be a non-negative integer'')) else Inr (Some (JInt i))
      | _ \<Rightarrow> Inl (Err (name @ '' must be a non-negative integer'')))"

fun optional_fields :: "(string \<Rightarrow> json option res) \<Rightarrow> string list \<Rightarrow> obj \<Rightarrow> obj res" where
  "optional_fields f [] acc = Inr acc"
| "optional_fields f (k # ks) acc = bind_res (f k) (\<lambda>v. optional_fields f ks (case v of None \<Rightarrow> acc | Some j \<Rightarrow> oput k j acc))"

definition normalize_option :: "obj \<Rightarrow> obj res" where
  "normalize_option m =
     (let ticker = payload_string m ''option_ticker'' []; under = to_upper (payload_string m ''underlying_symbol'' []);
          ct = to_lower (payload_string m ''contract_type'' []); ex = payload_string m ''expiration_date'' [];
          ob = payload_string m ''observation_date'' []
      in if ticker = [] then Inl (Err ''option_ticker is required'')
         else if under = [] then Inl (Err ''underlying_symbol is required'')
         else if ct \<notin> {''call'', ''put''} then Inl (Err ''contract_type is unsupported'')
         else if parse_date ex = None then Inl (Err ''expiration_date must be YYYY-MM-DD'')
         else if parse_date ob = None then Inl (Err ''observation_date must be YYYY-MM-DD'')
         else (case positive_float m ''strike_price'' of
             None \<Rightarrow> Inl (Err ''strike_price must be greater than zero'')
           | Some strike \<Rightarrow>
             bind_res (optional_fields (optional_float m) [''open'', ''high'', ''low'', ''close'', ''vwap'']
                 [(''provider'', JStr (payload_string m ''provider'' [''massive''])), (''dataset'', JStr ''options_contracts_daily''),
                  (''provider_contract_id'', JStr (payload_string m ''provider_contract_id'' [])), (''option_ticker'', JStr ticker),
                  (''underlying_symbol'', JStr under), (''contract_type'', JStr ct), (''expiration_date'', JStr ex), (''strike_price'', JNum strike),
                  (''observation_date'', JStr ob), (''asset_type'', JStr ''option_contract'')]) (\<lambda>m1.
               bind_res (optional_fields (optional_int m) [''volume'', ''open_interest''] m1) (\<lambda>m2.
                 Inr (with_features (case obj_of (oget m ''raw'') of None \<Rightarrow> m2 | Some r \<Rightarrow> oput ''raw'' (JObj r) m2))))))"

definition normalize_payload :: "obj \<Rightarrow> obj \<Rightarrow> (obj \<times> string) res" where
  "normalize_payload raw payload =
     (if first_string raw ''app_id'' [] \<noteq> ''marketops'' \<or> first_string raw ''source_adapter'' [] \<noteq> ''market_data.massive'' then Inr (payload, ''identity_v1'')
      else if first_string raw ''dataset'' [] = ''options_contracts_daily'' then
        bind_res (normalize_option payload) (\<lambda>m. Inr (m, ''marketops_massive_option_contract_daily_v1''))
      else if first_string raw ''dataset'' [] = ''equity_eod_prices'' then Inr (with_features payload, ''marketops_massive_equity_eod_features_v1'')
      else Inr (payload, ''identity_v1''))"

section \<open>BuildEvent\<close>

definition norm_schema_id :: string where
  "norm_schema_id = ''signalops.normalized_signal_event.v1''"

definition default_evidence :: "consumed_message \<Rightarrow> string \<Rightarrow> obj list" where
  "default_evidence m event_id =
     [[(''type'', JStr ''raw_event''), (''ref'', JStr event_id),
       (''metadata'', JObj [(''topic'', JStr (bm_topic m)), (''partition'', JInt (cm_partition m)), (''offset'', JInt (cm_offset m))])]]"

text \<open>The event once its times and its payload are known.\<close>

definition norm_event_of ::
  "consumed_message \<Rightarrow> time \<Rightarrow> obj \<Rightarrow> (string \<times> string \<times> string \<times> string \<times> string \<times> string) \<Rightarrow> (time \<times> time \<times> time \<times> time \<times> time)
   \<Rightarrow> obj \<times> string \<Rightarrow> norm_event res" where
  "norm_event_of m now raw ids ts pay =
     (case (ids, ts, pay) of ((tenant, source, domain, adapter, dataset, event_id), (observation, processing, effective, occurred, observed), (payload, strategy)) \<Rightarrow>
        (let evidence = (case object_array raw ''evidence'' of None \<Rightarrow> default_evidence m event_id | Some xs \<Rightarrow> xs);
             metadata = oput ''normalization'' (JObj [(''strategy'', JStr strategy), (''normalized_at'', JStr (fmt_rfc3339nano now))]) (sub_object raw ''metadata'');
             confidence = (case num_of (oget raw ''confidence'') of None \<Rightarrow> Fin 1 | Some c \<Rightarrow> c);
             app = app_normalize (first_string raw ''app_id'' []) (first_string raw ''domain'' []) (first_string raw ''use_case'' []) domain;
             mode = ingestion_mode_of (first_string raw ''ingestion_mode'' [''push_event''])
         in if flt confidence (Fin 0) \<or> flt (Fin 1) confidence then Inl (Err ''confidence must be between 0 and 1'')
            else if mode \<notin> set ingestion_modes then Inl (Err ''raw event ingestion_mode is unsupported'')
            else Inr \<lparr>ne_tenant_id = tenant, ne_source_id = source, ne_app_id = am_app_id app, ne_domain = am_domain app, ne_use_case = am_use_case app,
              ne_source_domain = domain, ne_source_adapter = adapter, ne_ingestion_mode = mode, ne_dataset = dataset, ne_event_id = event_id,
              ne_event_type = first_string raw ''event_type'' [dataset @ ''.normalized''], ne_schema_id = norm_schema_id, ne_schema_version = ''1'',
              ne_observation_time = observation, ne_effective_time = effective, ne_processing_time = processing, ne_occurred_at = occurred,
              ne_observed_at = observed, ne_payload = Some payload, ne_entities = Some (map Some (entity_refs raw)), ne_confidence = confidence,
              ne_metadata = Some metadata, ne_evidence = Some (map Some evidence),
              ne_correlation_id = first_string raw ''correlation_id'' [bm_correlation_id m, event_id],
              ne_idempotency_key = first_string raw ''idempotency_key'' [event_id], ne_trace_id = first_string raw ''trace_id'' [bm_trace_id m],
              ne_causation_id = first_string raw ''causation_id'' [bm_causation_id m, event_id],
              ne_replay_job_id = first_string raw ''replay_job_id'' []\<rparr>))"

definition build_times :: "obj \<Rightarrow> time \<Rightarrow> (time \<times> time \<times> time \<times> time \<times> time) res" where
  "build_times raw now =
     bind_res (event_time raw ''observation_time'' zero_time) (\<lambda>observation.
     bind_res (event_time raw ''processing_time'' now) (\<lambda>processing.
     bind_res (event_time raw ''effective_time'' observation) (\<lambda>effective.
     bind_res (event_time raw ''occurred_at'' observation) (\<lambda>occurred.
     bind_res (event_time raw ''observed_at'' observation) (\<lambda>observed.
       Inr (observation, processing, effective, occurred, observed))))))"

definition build_event :: "consumed_message \<Rightarrow> time \<Rightarrow> norm_event res" where
  "build_event m now =
     (case decode_obj (bm_value m) of
        None \<Rightarrow> Inl (Err ''decode raw event'')
      | Some raw \<Rightarrow>
        bind_res (required_text raw ''tenant_id'') (\<lambda>tenant.
        bind_res (required_text raw ''source_id'') (\<lambda>source.
        bind_res (required_text raw ''source_domain'') (\<lambda>domain.
          if domain \<notin> set source_domains then Inl (Err ''raw event source_domain is unsupported'')
          else
            bind_res (required_text raw ''source_adapter'') (\<lambda>adapter.
            bind_res (required_text raw ''dataset'') (\<lambda>dataset.
            bind_res (required_text raw ''event_id'') (\<lambda>event_id.
            bind_res (build_times raw now) (\<lambda>ts.
              (case (case obj_of (oget raw ''normalized_payload'') of Some p \<Rightarrow> Some p | None \<Rightarrow> obj_of (oget raw ''payload'')) of
                 None \<Rightarrow> Inl (Err ''raw event payload is required'')
               | Some payload \<Rightarrow>
                 bind_res (normalize_payload raw payload) (norm_event_of m now raw (tenant, source, domain, adapter, dataset, event_id) ts)))))))))) "

section \<open>The event on the wire\<close>

definition norm_times :: "norm_event \<Rightarrow> time list" where
  "norm_times e = [ne_observation_time e, ne_effective_time e, ne_processing_time e, ne_occurred_at e, ne_observed_at e]"

definition norm_fields_of :: "norm_event \<Rightarrow> fields" where
  "norm_fields_of e =
     [(''tenant_id'', Some (JStr (ne_tenant_id e))), (''source_id'', Some (JStr (ne_source_id e))), (''app_id'', omit_empty (ne_app_id e)),
      (''domain'', omit_empty (ne_domain e)), (''use_case'', omit_empty (ne_use_case e)), (''source_domain'', Some (JStr (ne_source_domain e))),
      (''source_adapter'', Some (JStr (ne_source_adapter e))), (''ingestion_mode'', Some (JStr (ne_ingestion_mode e))),
      (''dataset'', Some (JStr (ne_dataset e))), (''event_id'', Some (JStr (ne_event_id e))), (''event_type'', Some (JStr (ne_event_type e))),
      (''schema_id'', Some (JStr (ne_schema_id e))), (''schema_version'', Some (JStr (ne_schema_version e))),
      (''observation_time'', Some (json_time (ne_observation_time e))), (''effective_time'', Some (json_time (ne_effective_time e))),
      (''processing_time'', Some (json_time (ne_processing_time e))), (''occurred_at'', Some (json_time (ne_occurred_at e))),
      (''observed_at'', Some (json_time (ne_observed_at e))), (''normalized_payload'', Some (json_map (ne_payload e))),
      (''entities'', Some (json_objs (ne_entities e))), (''confidence'', Some (JNum (ne_confidence e))),
      (''metadata'', Some (json_map (ne_metadata e))), (''evidence'', Some (json_objs (ne_evidence e))),
      (''correlation_id'', Some (JStr (ne_correlation_id e))), (''idempotency_key'', Some (JStr (ne_idempotency_key e))),
      (''trace_id'', omit_empty (ne_trace_id e)), (''causation_id'', omit_empty (ne_causation_id e)),
      (''replay_job_id'', omit_empty (ne_replay_job_id e))]"

definition norm_obj :: "norm_event \<Rightarrow> obj" where
  "norm_obj e = struct_obj (norm_fields_of e)"

text \<open>A time of another year than 0 to 9999 does not encode.\<close>

definition norm_doc :: "norm_event \<Rightarrow> doc" where
  "norm_doc e = (if list_all common_year (norm_times e) then marshal (JObj (norm_obj e)) else NoBytes)"

definition decode_norm :: "doc \<Rightarrow> norm_event option" where
  "decode_norm d = do {
     m \<leftarrow> decode_obj d;
     tenant \<leftarrow> dec_str (ofield m ''tenant_id''); source \<leftarrow> dec_str (ofield m ''source_id''); app \<leftarrow> dec_str (ofield m ''app_id'');
     domain \<leftarrow> dec_str (ofield m ''domain''); use_case \<leftarrow> dec_str (ofield m ''use_case''); sdomain \<leftarrow> dec_str (ofield m ''source_domain'');
     adapter \<leftarrow> dec_str (ofield m ''source_adapter''); mode \<leftarrow> dec_str (ofield m ''ingestion_mode''); dataset \<leftarrow> dec_str (ofield m ''dataset'');
     event_id \<leftarrow> dec_str (ofield m ''event_id''); event_type \<leftarrow> dec_str (ofield m ''event_type''); sid \<leftarrow> dec_str (ofield m ''schema_id'');
     sversion \<leftarrow> dec_str (ofield m ''schema_version''); observation \<leftarrow> dec_time (ofield m ''observation_time'');
     effective \<leftarrow> dec_time (ofield m ''effective_time''); processing \<leftarrow> dec_time (ofield m ''processing_time'');
     occurred \<leftarrow> dec_time (ofield m ''occurred_at''); observed \<leftarrow> dec_time (ofield m ''observed_at'');
     payload \<leftarrow> dec_map (ofield m ''normalized_payload''); entities \<leftarrow> dec_objs (ofield m ''entities''); confidence \<leftarrow> dec_num (ofield m ''confidence'');
     metadata \<leftarrow> dec_map (ofield m ''metadata''); evidence \<leftarrow> dec_objs (ofield m ''evidence''); correlation \<leftarrow> dec_str (ofield m ''correlation_id'');
     idem \<leftarrow> dec_str (ofield m ''idempotency_key''); trace \<leftarrow> dec_str (ofield m ''trace_id''); causation \<leftarrow> dec_str (ofield m ''causation_id'');
     replay \<leftarrow> dec_str (ofield m ''replay_job_id'');
     Some \<lparr>ne_tenant_id = tenant, ne_source_id = source, ne_app_id = app, ne_domain = domain, ne_use_case = use_case, ne_source_domain = sdomain,
       ne_source_adapter = adapter, ne_ingestion_mode = mode, ne_dataset = dataset, ne_event_id = event_id, ne_event_type = event_type, ne_schema_id = sid,
       ne_schema_version = sversion, ne_observation_time = observation, ne_effective_time = effective, ne_processing_time = processing,
       ne_occurred_at = occurred, ne_observed_at = observed, ne_payload = payload, ne_entities = entities, ne_confidence = confidence,
       ne_metadata = metadata, ne_evidence = evidence, ne_correlation_id = correlation, ne_idempotency_key = idem, ne_trace_id = trace,
       ne_causation_id = causation, ne_replay_job_id = replay\<rparr> }"

section \<open>Processing\<close>

record publish_result =
  pb_topic :: string
  pb_partition :: int
  pb_offset :: int

text \<open>What the registry of definitions says of a raw event.\<close>

datatype registry_verdict = Registered | Unregistered go_error | Registry_failed go_error

record 'w normalizer =
  nz_pub :: "'w \<Rightarrow> broker_message \<Rightarrow> publish_result option \<times> 'w"
  nz_upsert :: "'w \<Rightarrow> ledger_event \<Rightarrow> bool \<times> 'w"
  nz_validator :: "(doc \<Rightarrow> 'w \<Rightarrow> registry_verdict) option"
  nz_output_topic :: string
  nz_clock :: "'w \<Rightarrow> time"

definition norm_ledger :: "norm_event \<Rightarrow> doc \<Rightarrow> consumed_message \<Rightarrow> publish_result \<Rightarrow> ledger_event" where
  "norm_ledger e value m r =
     \<lparr>n_event_id = ne_event_id e, n_tenant_id = ne_tenant_id e, n_source_id = ne_source_id e, n_app_id = ne_app_id e, n_domain = ne_domain e,
      n_use_case = ne_use_case e, n_source_adapter = ne_source_adapter e, n_dataset = ne_dataset e, n_idempotency_key = ne_idempotency_key e,
      n_schema_id = ne_schema_id e, n_schema_version = ne_schema_version e, n_observation_time = ne_observation_time e,
      n_processing_time = ne_processing_time e, n_confidence = ne_confidence e, n_raw_topic = bm_topic m, n_raw_partition = cm_partition m,
      n_raw_offset = cm_offset m, n_normalized_topic = pb_topic r, n_normalized_partition = pb_partition r, n_normalized_offset = pb_offset r,
      n_normalized_payload = marshal (json_map (ne_payload e)), n_entities = marshal (json_objs (ne_entities e)),
      n_evidence = marshal (json_objs (ne_evidence e)), n_metadata = marshal (json_map (ne_metadata e)), n_event_json = value,
      n_created_at = zero_time, n_updated_at = zero_time\<rparr>"

definition norm_message :: "'w normalizer \<Rightarrow> time \<Rightarrow> norm_event \<Rightarrow> doc \<Rightarrow> consumed_message \<Rightarrow> broker_message" where
  "norm_message nz now e value m =
     \<lparr>bm_topic = nz_output_topic nz, bm_key = ne_idempotency_key e, bm_value = value,
      bm_headers = [(''content_type'', ''application/json''), (''signalops_schema_id'', norm_schema_id), (''signalops_event_id'', ne_event_id e),
        (''signalops_idempotency'', ne_idempotency_key e), (''signalops_source_topic'', bm_topic m),
        (''signalops_source_partition'', itoa (cm_partition m)), (''signalops_source_offset'', itoa (cm_offset m))],
      bm_correlation_id = ne_correlation_id e, bm_causation_id = ne_causation_id e, bm_trace_id = ne_trace_id e, bm_published_at = now\<rparr>"

definition normalize_process :: "'w normalizer \<Rightarrow> consumed_message \<Rightarrow> 'w \<Rightarrow> (process_error + ledger_event) \<times> 'w" where
  "normalize_process nz m w =
     (if blank (nz_output_topic nz) then (Inl (Process_failed (Err ''normalizer is not fully configured'')), w)
      else
        (case (case nz_validator nz of None \<Rightarrow> Registered | Some v \<Rightarrow> v (bm_value m) w) of
           Unregistered e \<Rightarrow> (Inl (Invalid_event e), w)
         | Registry_failed e \<Rightarrow> (Inl (Process_failed e), w)
         | Registered \<Rightarrow>
           (case build_event m (nz_clock nz w) of
              Inl e \<Rightarrow> (Inl (Invalid_event e), w)
            | Inr e \<Rightarrow>
              if norm_doc e = NoBytes then (Inl (Process_failed (Err ''marshal normalized event'')), w)
              else
                (case nz_pub nz w (norm_message nz (nz_clock nz w) e (norm_doc e) m) of
                   (None, w1) \<Rightarrow> (Inl (Process_failed (Err ''publish normalized event'')), w1)
                 | (Some r, w1) \<Rightarrow>
                   (case nz_upsert nz w1 (norm_ledger e (norm_doc e) m r) of
                      (False, w2) \<Rightarrow> (Inl (Process_failed (Err ''upsert normalized event'')), w2)
                    | (True, w2) \<Rightarrow> (Inr (norm_ledger e (norm_doc e) m r), w2))))))"

section \<open>The commands\<close>

text \<open>
  The loop bodies of both commands; \<open>pc\<close> holds the broker, the clock and the dead-letter
  topic as for the persister. The \<open>normalizer\<close> leaves Connect events to the other one.
\<close>

definition cyberops_normalizer_step :: "'w persister \<Rightarrow> 'w normalizer \<Rightarrow> consumed_message \<Rightarrow> 'w \<Rightarrow> bool \<times> 'w" where
  "cyberops_normalizer_step pc nz m w =
     (case normalize_process nz m w of
        (Inl (Invalid_event e), w1) \<Rightarrow>
          (case pc_pub pc w1 (invalid_event_message (pc_b64 pc) (pc_clock pc w1) (pc_dlq pc) m e) of
             (False, w2) \<Rightarrow> (False, w2)
           | (True, w2) \<Rightarrow> pc_commit pc w2 m)
      | (Inl (Process_failed e), w1) \<Rightarrow> (True, pc_wait pc w1)
      | (Inr r, w1) \<Rightarrow> pc_commit pc w1 m)"

definition normalizer_step :: "'w persister \<Rightarrow> 'w normalizer \<Rightarrow> consumed_message \<Rightarrow> 'w \<Rightarrow> bool \<times> 'w" where
  "normalizer_step pc nz m w =
     (if is_candidate (bm_value m) (bm_headers m) then pc_commit pc w m else cyberops_normalizer_step pc nz m w)"

fun normalizer_run :: "(consumed_message \<Rightarrow> 'w \<Rightarrow> bool \<times> 'w) \<Rightarrow> consumed_message list \<Rightarrow> 'w \<Rightarrow> bool \<times> 'w" where
  "normalizer_run step [] w = (True, w)"
| "normalizer_run step (m # ms) w = (case step m w of (False, w1) \<Rightarrow> (False, w1) | (True, w1) \<Rightarrow> normalizer_run step ms w1)"

end
