(* ===== verification/Signals.thy ===== *)
theory Signals imports CyberIntake GoStruct StorageRecords Normalization begin

text \<open>
  The signal persister: \<open>internal/signals/processor.go\<close> (decoding and checking a signal, its
  ledger row, the insight and the alert derived from it) and the loop of the command
  \<open>signal-persister\<close>. The repository is the interface the processor takes, with its optional
  policy operation.
\<close>

section \<open>Data\<close>

record signal_event =
  sv_signal_id :: string
  sv_tenant_id :: string
  sv_source_id :: string
  sv_app_id :: string
  sv_domain :: string
  sv_use_case :: string
  sv_source_domain :: string
  sv_source_adapter :: string
  sv_ingestion_mode :: string
  sv_dataset :: string
  sv_event_ids :: "string list option"
  sv_artifact_ids :: "string list option"
  sv_signal_type :: string
  sv_detector_id :: string
  sv_detector_version :: string
  sv_model_version :: string
  sv_timestamp :: time
  sv_observation_time :: time
  sv_effective_time :: time
  sv_processing_time :: time
  sv_window_start :: time
  sv_window_end :: time
  sv_confidence :: f64
  sv_severity :: string
  sv_entities :: objs
  sv_supporting_metrics :: "obj option"
  sv_insight_title :: string
  sv_insight_summary :: string
  sv_graph_targets :: objs
  sv_semantic_evidence :: objs
  sv_evidence :: objs
  sv_recommendation :: doc
  sv_correlation_id :: string
  sv_trace_id :: string
  sv_causation_id :: string
  sv_replay_job_id :: string

record alert_record =
  alr_alert_id :: string
  alr_tenant_id :: string
  alr_source_id :: string
  alr_app_id :: string
  alr_domain :: string
  alr_use_case :: string
  alr_source_domain :: string
  alr_source_adapter :: string
  alr_dataset :: string
  alr_signal_id :: string
  alr_detector_id :: string
  alr_alert_type :: string
  alr_severity :: string
  alr_status :: string
  alr_title :: string
  alr_summary :: string
  alr_confidence :: f64
  alr_event_ids :: "string list"
  alr_entities :: doc
  alr_evidence :: doc
  alr_recommendation :: doc
  alr_correlation_id :: string
  alr_first_observed_at :: time
  alr_last_observed_at :: time
  alr_metadata :: doc

record insight_record =
  isr_insight_id :: string
  isr_tenant_id :: string
  isr_source_id :: string
  isr_app_id :: string
  isr_domain :: string
  isr_use_case :: string
  isr_source_domain :: string
  isr_source_adapter :: string
  isr_dataset :: string
  isr_signal_id :: string
  isr_detector_id :: string
  isr_insight_type :: string
  isr_status :: string
  isr_title :: string
  isr_summary :: string
  isr_confidence :: f64
  isr_severity :: string
  isr_event_ids :: "string list"
  isr_entities :: doc
  isr_supporting_metrics :: doc
  isr_semantic_evidence :: doc
  isr_recommendation :: doc
  isr_correlation_id :: string
  isr_observed_at :: time
  isr_metadata :: doc

section \<open>The signal on the wire\<close>

definition raw_json :: "doc \<Rightarrow> json" where
  "raw_json d = (case d of Doc j \<Rightarrow> j | _ \<Rightarrow> JNull)"

definition signal_times :: "signal_event \<Rightarrow> time list" where
  "signal_times e = [sv_timestamp e, sv_observation_time e, sv_effective_time e, sv_processing_time e, sv_window_start e, sv_window_end e]"

definition signal_fields_of :: "signal_event \<Rightarrow> fields" where
  "signal_fields_of e =
     [(''signal_id'', Some (JStr (sv_signal_id e))), (''tenant_id'', Some (JStr (sv_tenant_id e))), (''source_id'', Some (JStr (sv_source_id e))),
      (''app_id'', omit_empty (sv_app_id e)), (''domain'', omit_empty (sv_domain e)), (''use_case'', omit_empty (sv_use_case e)),
      (''source_domain'', Some (JStr (sv_source_domain e))), (''source_adapter'', Some (JStr (sv_source_adapter e))),
      (''ingestion_mode'', Some (JStr (sv_ingestion_mode e))), (''dataset'', Some (JStr (sv_dataset e))),
      (''event_ids'', Some (json_strs (sv_event_ids e))), (''artifact_ids'', Some (json_strs (sv_artifact_ids e))),
      (''signal_type'', Some (JStr (sv_signal_type e))), (''detector_id'', Some (JStr (sv_detector_id e))),
      (''detector_version'', Some (JStr (sv_detector_version e))), (''model_version'', Some (JStr (sv_model_version e))),
      (''timestamp'', Some (json_time (sv_timestamp e))), (''observation_time'', Some (json_time (sv_observation_time e))),
      (''effective_time'', Some (json_time (sv_effective_time e))), (''processing_time'', Some (json_time (sv_processing_time e))),
      (''window_start'', Some (json_time (sv_window_start e))), (''window_end'', Some (json_time (sv_window_end e))),
      (''confidence'', Some (JNum (sv_confidence e))), (''severity'', Some (JStr (sv_severity e))), (''entities'', Some (json_objs (sv_entities e))),
      (''supporting_metrics'', Some (json_map (sv_supporting_metrics e))), (''insight_title'', omit_empty (sv_insight_title e)),
      (''insight_summary'', omit_empty (sv_insight_summary e)), (''graph_targets'', Some (json_objs (sv_graph_targets e))),
      (''semantic_evidence'', Some (json_objs (sv_semantic_evidence e))), (''evidence'', Some (json_objs (sv_evidence e))),
      (''recommendation'', Some (raw_json (sv_recommendation e))), (''correlation_id'', Some (JStr (sv_correlation_id e))),
      (''trace_id'', omit_empty (sv_trace_id e)), (''causation_id'', omit_empty (sv_causation_id e)),
      (''replay_job_id'', omit_empty (sv_replay_job_id e))]"

definition signal_obj :: "signal_event \<Rightarrow> obj" where
  "signal_obj e = struct_obj (signal_fields_of e)"

text \<open>\<open>json.Marshal\<close> fails on a time outside the years 0 to 9999 and on a raw message that is no JSON text; a nil one encodes as \<open>null\<close>.\<close>

definition signal_doc :: "signal_event \<Rightarrow> doc" where
  "signal_doc e = (if list_all common_year (signal_times e) \<and> sv_recommendation e \<noteq> BadBytes then marshal (JObj (signal_obj e)) else NoBytes)"

definition signal_fields :: "string list" where
  "signal_fields =
     [''signal_id'', ''tenant_id'', ''source_id'', ''app_id'', ''domain'', ''use_case'', ''source_domain'', ''source_adapter'', ''ingestion_mode'', ''dataset'',
      ''event_ids'', ''artifact_ids'', ''signal_type'', ''detector_id'', ''detector_version'', ''model_version'', ''timestamp'', ''observation_time'',
      ''effective_time'', ''processing_time'', ''window_start'', ''window_end'', ''confidence'', ''severity'', ''entities'', ''supporting_metrics'',
      ''insight_title'', ''insight_summary'', ''graph_targets'', ''semantic_evidence'', ''evidence'', ''recommendation'', ''correlation_id'', ''trace_id'',
      ''causation_id'', ''replay_job_id'']"

definition decode_signal :: "doc \<Rightarrow> signal_event option" where
  "decode_signal d = do {
     m \<leftarrow> decode_obj d;
     (if list_all (\<lambda>(k, v). \<exists>f \<in> set signal_fields. fold_eq k f) m then Some () else None);
     signal_id \<leftarrow> dec_str (ofield m ''signal_id''); tenant \<leftarrow> dec_str (ofield m ''tenant_id''); source \<leftarrow> dec_str (ofield m ''source_id'');
     app \<leftarrow> dec_str (ofield m ''app_id''); domain \<leftarrow> dec_str (ofield m ''domain''); use_case \<leftarrow> dec_str (ofield m ''use_case'');
     sdomain \<leftarrow> dec_str (ofield m ''source_domain''); adapter \<leftarrow> dec_str (ofield m ''source_adapter''); mode \<leftarrow> dec_str (ofield m ''ingestion_mode'');
     dataset \<leftarrow> dec_str (ofield m ''dataset''); event_ids \<leftarrow> dec_strs (ofield m ''event_ids''); artifacts \<leftarrow> dec_strs (ofield m ''artifact_ids'');
     ty \<leftarrow> dec_str (ofield m ''signal_type''); detector \<leftarrow> dec_str (ofield m ''detector_id''); dversion \<leftarrow> dec_str (ofield m ''detector_version'');
     mversion \<leftarrow> dec_str (ofield m ''model_version''); ts \<leftarrow> dec_time (ofield m ''timestamp''); observation \<leftarrow> dec_time (ofield m ''observation_time'');
     effective \<leftarrow> dec_time (ofield m ''effective_time''); processing \<leftarrow> dec_time (ofield m ''processing_time'');
     wstart \<leftarrow> dec_time (ofield m ''window_start''); wend \<leftarrow> dec_time (ofield m ''window_end''); confidence \<leftarrow> dec_num (ofield m ''confidence'');
     severity \<leftarrow> dec_str (ofield m ''severity''); entities \<leftarrow> dec_objs (ofield m ''entities''); metrics \<leftarrow> dec_map (ofield m ''supporting_metrics'');
     title \<leftarrow> dec_str (ofield m ''insight_title''); summary \<leftarrow> dec_str (ofield m ''insight_summary''); graph \<leftarrow> dec_objs (ofield m ''graph_targets'');
     semantic \<leftarrow> dec_objs (ofield m ''semantic_evidence''); evidence \<leftarrow> dec_objs (ofield m ''evidence'');
     correlation \<leftarrow> dec_str (ofield m ''correlation_id''); trace \<leftarrow> dec_str (ofield m ''trace_id''); causation \<leftarrow> dec_str (ofield m ''causation_id'');
     replay \<leftarrow> dec_str (ofield m ''replay_job_id'');
     Some \<lparr>sv_signal_id = signal_id, sv_tenant_id = tenant, sv_source_id = source, sv_app_id = app, sv_domain = domain, sv_use_case = use_case,
       sv_source_domain = sdomain, sv_source_adapter = adapter, sv_ingestion_mode = mode, sv_dataset = dataset, sv_event_ids = event_ids,
       sv_artifact_ids = artifacts, sv_signal_type = ty, sv_detector_id = detector, sv_detector_version = dversion, sv_model_version = mversion,
       sv_timestamp = ts, sv_observation_time = observation, sv_effective_time = effective, sv_processing_time = processing, sv_window_start = wstart,
       sv_window_end = wend, sv_confidence = confidence, sv_severity = severity, sv_entities = entities, sv_supporting_metrics = metrics,
       sv_insight_title = title, sv_insight_summary = summary, sv_graph_targets = graph, sv_semantic_evidence = semantic, sv_evidence = evidence,
       sv_recommendation = dec_raw (ofield m ''recommendation''), sv_correlation_id = correlation, sv_trace_id = trace, sv_causation_id = causation,
       sv_replay_job_id = replay\<rparr> }"

section \<open>DecodeEvent\<close>

definition required_signal_texts :: "signal_event \<Rightarrow> string list" where
  "required_signal_texts e =
     [sv_signal_id e, sv_tenant_id e, sv_source_id e, sv_source_domain e, sv_source_adapter e, sv_ingestion_mode e, sv_dataset e, sv_signal_type e,
      sv_detector_id e, sv_detector_version e, sv_model_version e, sv_correlation_id e]"

definition nil_list :: "'a list option \<Rightarrow> 'a list" where
  "nil_list v = (case v of None \<Rightarrow> [] | Some xs \<Rightarrow> xs)"

definition severities :: "string list" where
  "severities = [''info'', ''low'', ''medium'', ''high'', ''critical'']"

definition has_empty :: "string list \<Rightarrow> bool" where
  "has_empty vs \<longleftrightarrow> list_ex (\<lambda>v. blank v) vs"

text \<open>The checks in the order of the code; which of several empty fields the error names is left to Go's map order.\<close>

definition check_signal :: "signal_event \<Rightarrow> go_error option" where
  "check_signal e =
     (if has_empty (required_signal_texts e) then Some (Err ''signal event field is required'')
      else if nil_list (sv_event_ids e) = [] \<or> has_empty (nil_list (sv_event_ids e)) then Some (Err ''signal event event_ids must contain non-empty values'')
      else if has_empty (nil_list (sv_artifact_ids e)) then Some (Err ''signal event artifact_ids must contain non-empty values'')
      else if sv_source_domain e \<notin> set source_domains then Some (Err ''signal event source_domain is unsupported'')
      else if sv_ingestion_mode e \<notin> set ingestion_modes then Some (Err ''signal event ingestion_mode is unsupported'')
      else if sv_severity e \<notin> set severities then Some (Err ''signal event severity is unsupported'')
      else if flt (sv_confidence e) (Fin 0) \<or> flt (Fin 1) (sv_confidence e) then Some (Err ''signal event confidence must be between 0 and 1'')
      else if list_ex (\<lambda>t. t = zero_time) (signal_times e) then Some (Err ''signal event time is required'')
      else (case sv_recommendation e of
              Doc JNull \<Rightarrow> None | Doc (JObj m) \<Rightarrow> None
            | NoBytes \<Rightarrow> Some (Err ''signal event recommendation is required'')
            | _ \<Rightarrow> Some (Err ''signal event recommendation must be an object or null'')))"

definition decode_signal_event :: "doc \<Rightarrow> signal_event res" where
  "decode_signal_event d =
     (case decode_signal d of
        None \<Rightarrow> Inl (Err ''decode signal event'')
      | Some e \<Rightarrow> (case check_signal e of Some err \<Rightarrow> Inl err | None \<Rightarrow> Inr e))"

section \<open>Records\<close>

definition with_presentation :: "obj option \<Rightarrow> string \<Rightarrow> string \<Rightarrow> obj option" where
  "with_presentation metrics title summary =
     (if blank title \<and> blank summary then metrics
      else Some (oput ''signalops_presentation'' (JObj [(''title'', JStr (trim_space title)), (''summary'', JStr (trim_space summary))])
                   (case metrics of None \<Rightarrow> [] | Some m \<Rightarrow> m)))"

definition insight_presentation :: "doc \<Rightarrow> string \<times> string" where
  "insight_presentation metrics =
     (case decode_obj metrics of
        None \<Rightarrow> ([], [])
      | Some m \<Rightarrow>
        (case obj_of (oget m ''signalops_presentation'') of
           None \<Rightarrow> ([], [])
         | Some p \<Rightarrow> (str_of (ofield p ''title''), str_of (ofield p ''summary''))))"

definition signal_record :: "signal_event \<Rightarrow> consumed_message \<Rightarrow> signal_ledger res" where
  "signal_record e m =
     (let entities = marshal (json_objs (sv_entities e));
          metrics = marshal (json_map (with_presentation (sv_supporting_metrics e) (sv_insight_title e) (sv_insight_summary e)));
          graph = marshal (json_objs (sv_graph_targets e)); semantic = marshal (json_objs (sv_semantic_evidence e));
          evidence = marshal (json_objs (sv_evidence e));
          app = app_normalize (sv_app_id e) (sv_domain e) (sv_use_case e) (sv_source_domain e)
      in if NoBytes \<in> {entities, metrics, graph, semantic, evidence} then Inl (Err ''marshal signal'')
         else Inr \<lparr>sl_signal_id = sv_signal_id e, sl_tenant_id = sv_tenant_id e, sl_source_id = sv_source_id e, sl_app_id = am_app_id app,
           sl_domain = am_domain app, sl_use_case = am_use_case app, sl_source_domain = sv_source_domain e, sl_source_adapter = sv_source_adapter e,
           sl_ingestion_mode = sv_ingestion_mode e, sl_dataset = sv_dataset e, sl_event_ids = nil_list (sv_event_ids e),
           sl_artifact_ids = nil_list (sv_artifact_ids e), sl_signal_type = sv_signal_type e, sl_detector_id = sv_detector_id e,
           sl_detector_version = sv_detector_version e, sl_model_version = sv_model_version e, sl_signal_time = sv_timestamp e,
           sl_observation_time = sv_observation_time e, sl_effective_time = sv_effective_time e, sl_processing_time = sv_processing_time e,
           sl_window_start = sv_window_start e, sl_window_end = sv_window_end e, sl_confidence = sv_confidence e, sl_severity = sv_severity e,
           sl_entities = entities, sl_supporting_metrics = metrics, sl_graph_targets = graph, sl_semantic_evidence = semantic, sl_evidence = evidence,
           sl_recommendation = sv_recommendation e, sl_correlation_id = sv_correlation_id e, sl_trace_id = sv_trace_id e,
           sl_causation_id = sv_causation_id e, sl_replay_job_id = sv_replay_job_id e, sl_broker_topic = bm_topic m,
           sl_broker_partition = cm_partition m, sl_broker_offset = cm_offset m, sl_event = bm_value m, sl_created_at = zero_time,
           sl_updated_at = zero_time\<rparr>)"

definition alert_severity :: "string \<Rightarrow> bool" where
  "alert_severity s \<longleftrightarrow> s \<in> {''medium'', ''high'', ''critical''}"

definition title_word :: "string \<Rightarrow> string" where
  "title_word s = (case s of [] \<Rightarrow> [] | c # cs \<Rightarrow> upper_char c # cs)"

definition lifecycle_metadata :: "signal_ledger \<Rightarrow> doc" where
  "lifecycle_metadata r =
     marshal (JObj [(''derived_from'', JStr ''signal_ledger''), (''signal_type'', JStr (sl_signal_type r)), (''detector_id'', JStr (sl_detector_id r))])"

definition insight_of :: "signal_ledger \<Rightarrow> insight_record" where
  "insight_of r =
     (let (ptitle, psummary) = insight_presentation (sl_supporting_metrics r);
          title0 = sl_severity r @ '' signal from '' @ sl_detector_id r;
          summary0 = ''Detector '' @ sl_detector_id r @ '' emitted a '' @ sl_severity r @ '' '' @ sl_signal_type r @ '' signal for '' @ sl_dataset r @ ''.'';
          title = (if ptitle \<noteq> [] then ptitle else title0);
          summary = (if ptitle \<noteq> [] \<and> psummary \<noteq> [] then psummary else summary0)
      in \<lparr>isr_insight_id = ''insight:'' @ sl_signal_id r, isr_tenant_id = sl_tenant_id r, isr_source_id = sl_source_id r, isr_app_id = sl_app_id r,
          isr_domain = sl_domain r, isr_use_case = sl_use_case r, isr_source_domain = sl_source_domain r, isr_source_adapter = sl_source_adapter r,
          isr_dataset = sl_dataset r, isr_signal_id = sl_signal_id r, isr_detector_id = sl_detector_id r, isr_insight_type = sl_signal_type r,
          isr_status = ''active'', isr_title = title, isr_summary = summary, isr_confidence = sl_confidence r, isr_severity = sl_severity r,
          isr_event_ids = sl_event_ids r, isr_entities = sl_entities r, isr_supporting_metrics = sl_supporting_metrics r,
          isr_semantic_evidence = sl_semantic_evidence r, isr_recommendation = sl_recommendation r, isr_correlation_id = sl_correlation_id r,
          isr_observed_at = sl_signal_time r, isr_metadata = lifecycle_metadata r\<rparr>)"

definition alert_of :: "signal_ledger \<Rightarrow> alert_record" where
  "alert_of r =
     \<lparr>alr_alert_id = ''alert:'' @ sl_signal_id r, alr_tenant_id = sl_tenant_id r, alr_source_id = sl_source_id r, alr_app_id = sl_app_id r,
      alr_domain = sl_domain r, alr_use_case = sl_use_case r, alr_source_domain = sl_source_domain r, alr_source_adapter = sl_source_adapter r,
      alr_dataset = sl_dataset r, alr_signal_id = sl_signal_id r, alr_detector_id = sl_detector_id r, alr_alert_type = sl_signal_type r,
      alr_severity = sl_severity r, alr_status = ''open'', alr_title = title_word (sl_severity r) @ '' '' @ sl_signal_type r @ '' alert'',
      alr_summary = ''Detector '' @ sl_detector_id r @ '' emitted a '' @ sl_severity r @ '' signal for '' @ sl_dataset r @ ''.'',
      alr_confidence = sl_confidence r, alr_event_ids = sl_event_ids r, alr_entities = sl_entities r, alr_evidence = sl_evidence r,
      alr_recommendation = sl_recommendation r, alr_correlation_id = sl_correlation_id r, alr_first_observed_at = sl_signal_time r,
      alr_last_observed_at = sl_signal_time r, alr_metadata = lifecycle_metadata r\<rparr>"

definition lifecycle_records :: "signal_ledger \<Rightarrow> alert_record list \<times> insight_record list" where
  "lifecycle_records r = (if alert_severity (sl_severity r) then [alert_of r] else [], [insight_of r])"

section \<open>Processing\<close>

record 'w signal_store =
  ss_persist :: "'w \<Rightarrow> signal_ledger \<Rightarrow> alert_record list \<Rightarrow> insight_record list \<Rightarrow> bool \<times> 'w"
  ss_policy :: "('w \<Rightarrow> signal_ledger \<Rightarrow> alert_record list \<Rightarrow> insight_record list \<Rightarrow> bool option \<times> 'w) option"

definition signal_process :: "'w signal_store \<Rightarrow> consumed_message \<Rightarrow> 'w \<Rightarrow> (process_error + signal_ledger) \<times> 'w" where
  "signal_process ss m w =
     (case decode_signal_event (bm_value m) of
        Inl e \<Rightarrow> (Inl (Invalid_event e), w)
      | Inr e \<Rightarrow>
        (case signal_record e m of
           Inl err \<Rightarrow> (Inl (Invalid_event err), w)
         | Inr r \<Rightarrow>
           (let (alerts, insights) = lifecycle_records r;
                generic = (\<lambda>w. case ss_persist ss w r alerts insights of
                  (False, w1) \<Rightarrow> (Inl (Process_failed (Err ''persist signal lifecycle'')), w1) | (True, w1) \<Rightarrow> (Inr r, w1))
            in case ss_policy ss of
                 None \<Rightarrow> generic w
               | Some policy \<Rightarrow>
                 (case policy w r alerts insights of
                    (None, w1) \<Rightarrow> (Inl (Process_failed (Err ''persist policy lifecycle'')), w1)
                  | (Some True, w1) \<Rightarrow> (Inr r, w1)
                  | (Some False, w1) \<Rightarrow> generic w1))))"

definition invalid_signal_message :: "(doc \<Rightarrow> string) \<Rightarrow> time \<Rightarrow> string \<Rightarrow> consumed_message \<Rightarrow> go_error \<Rightarrow> broker_message" where
  "invalid_signal_message b64 now topic m e =
     \<lparr>bm_topic = topic, bm_key = bm_key m,
      bm_value = marshal (JObj
        [(''schema_id'', JStr ''signalops.dlq.signal_persistence.v1''), (''failed_at'', JStr (fmt_rfc3339nano now)),
         (''error_type'', JStr ''InvalidSignalEvent''), (''error_message'', JStr (error_text e)),
         (''source'', JObj [(''topic'', JStr (bm_topic m)), (''partition'', JInt (cm_partition m)), (''offset'', JInt (cm_offset m)),
            (''key'', JStr (bm_key m)), (''headers'', JObj (map (\<lambda>(k, v). (k, JStr v)) (bm_headers m))), (''value_base64'', JStr (b64 (bm_value m)))])]),
      bm_headers = [(''content_type'', ''application/json''), (''signalops_dlq_reason'', ''InvalidSignalEvent''),
        (''signalops_source_topic'', bm_topic m), (''signalops_source_partition'', itoa (cm_partition m)),
        (''signalops_source_offset'', itoa (cm_offset m))],
      bm_correlation_id = bm_correlation_id m, bm_causation_id = [], bm_trace_id = [], bm_published_at = zero_time\<rparr>"

definition signal_persister_step :: "'w persister \<Rightarrow> 'w signal_store \<Rightarrow> consumed_message \<Rightarrow> 'w \<Rightarrow> bool \<times> 'w" where
  "signal_persister_step pc ss m w =
     (case signal_process ss m w of
        (Inl (Invalid_event e), w1) \<Rightarrow>
          (case pc_pub pc w1 (invalid_signal_message (pc_b64 pc) (pc_clock pc w1) (pc_dlq pc) m e) of
             (False, w2) \<Rightarrow> (False, w2)
           | (True, w2) \<Rightarrow> pc_commit pc w2 m)
      | (Inl (Process_failed e), w1) \<Rightarrow> (True, pc_wait pc w1)
      | (Inr r, w1) \<Rightarrow> pc_commit pc w1 m)"

end
