(* ===== verification/NetAddr.thy ===== *)
theory NetAddr imports GoText begin

text \<open>
  Package \<open>net/netip\<close> as the code uses it: \<open>ParseAddr\<close>, \<open>ParsePrefix\<close>, \<open>Masked\<close>, \<open>Contains\<close>
  and the classes of addresses. An IPv4 address is its 32-bit number, an IPv6 address its
  128-bit number with a zone; an IPv4-mapped IPv6 address stays an IPv6 address and is
  unmapped by the classification.
\<close>

datatype ip_addr = V4 int | V6 int string

section \<open>Addresses\<close>

definition octet :: "string \<Rightarrow> int option" where
  "octet s =
     (if s \<noteq> [] \<and> list_all is_digit s \<and> (length s = 1 \<or> hd s \<noteq> CHR ''0'') \<and> digits_val s \<le> 255 then Some (digits_val s) else None)"

definition parse_v4 :: "string \<Rightarrow> int option" where
  "parse_v4 s =
     (case map octet (split_on (CHR ''.'') s) of
        [Some a, Some b, Some c, Some d] \<Rightarrow> Some (((a * 256 + b) * 256 + c) * 256 + d)
      | _ \<Rightarrow> None)"

definition hex_char :: "char \<Rightarrow> bool" where
  "hex_char c \<longleftrightarrow> is_digit c \<or> 97 \<le> code_of c \<and> code_of c \<le> 102 \<or> 65 \<le> code_of c \<and> code_of c \<le> 70"

definition hex_value :: "char \<Rightarrow> int" where
  "hex_value c = (if is_digit c then code_of c - 48 else if 97 \<le> code_of c then code_of c - 87 else code_of c - 55)"

definition hex_group :: "string \<Rightarrow> int" where
  "hex_group s = foldl (\<lambda>n c. 16 * n + hex_value c) 0 s"

text \<open>
  The groups of an IPv6 address from \<open>s\<close> on: those read so far and the position of \<open>::\<close>
  among them. The last two may be written as an IPv4 address.
\<close>

function v6_groups :: "string \<Rightarrow> int list \<Rightarrow> nat option \<Rightarrow> (int list \<times> nat option) option" where
  "v6_groups s gs e =
     (if 8 \<le> length gs then (if s = [] then Some (gs, e) else None)
      else
        (let ds = takeWhile hex_char s; g = gs @ [hex_group ds] in
         if ds = [] \<or> 4 < length ds then None
         else
           (case dropWhile hex_char s of
              [] \<Rightarrow> Some (g, e)
            | c # cs \<Rightarrow>
                if c = CHR ''.'' then
                  (if e = None \<and> length gs \<noteq> 6 \<or> 8 < length gs + 2 then None
                   else map_option (\<lambda>n. (gs @ [n div 65536, n mod 65536], e)) (parse_v4 s))
                else if c \<noteq> CHR '':'' \<or> cs = [] then None
                else if hd cs = CHR '':'' then
                  (if e \<noteq> None then None
                   else if tl cs = [] then Some (g, Some (length g))
                   else v6_groups (tl cs) g (Some (length g)))
                else v6_groups cs g e)))"
  by pat_completeness auto
termination by (relation "measure (\<lambda>(s, gs, e). 8 - length gs)") auto

declare v6_groups.simps [simp del]

definition expand :: "int list \<times> nat option \<Rightarrow> int list option" where
  "expand r =
     (case r of
        (gs, Some k) \<Rightarrow> if length gs < 8 then Some (take k gs @ replicate (8 - length gs) 0 @ drop k gs) else None
      | (gs, None) \<Rightarrow> if length gs < 8 then None else Some gs)"

definition v6_number :: "int list \<Rightarrow> int" where
  "v6_number gs = foldl (\<lambda>n g. 65536 * n + g) 0 gs"

definition parse_v6 :: "string \<Rightarrow> ip_addr option" where
  "parse_v6 s0 =
     (let s1 = takeWhile (\<lambda>c. c \<noteq> CHR ''%'') s0; r = dropWhile (\<lambda>c. c \<noteq> CHR ''%'') s0; zone = drop 1 r in
      if r \<noteq> [] \<and> zone = [] then None
      else if s1 = ''::'' then Some (V6 0 zone)
      else
        (let (s, e) = (if take 2 s1 = ''::'' then (drop 2 s1, Some 0) else (s1, None)) in
         case v6_groups s [] e of
           None \<Rightarrow> None
         | Some x \<Rightarrow> map_option (\<lambda>gs. V6 (v6_number gs) zone) (expand x)))"

definition parse_addr :: "string \<Rightarrow> ip_addr option" where
  "parse_addr s =
     (case first_match (\<lambda>c. c = CHR ''.'' \<or> c = CHR '':'' \<or> c = CHR ''%'') s of
        Some c \<Rightarrow> if c = CHR ''.'' then map_option V4 (parse_v4 s) else if c = CHR '':'' then parse_v6 s else None
      | None \<Rightarrow> None)"

section \<open>Classes\<close>

definition unmap :: "ip_addr \<Rightarrow> ip_addr" where
  "unmap a = (case a of V6 n z \<Rightarrow> if n div 2 ^ 32 = 65535 then V4 (n mod 2 ^ 32) else a | V4 n \<Rightarrow> a)"

definition is_private :: "ip_addr \<Rightarrow> bool" where
  "is_private a \<longleftrightarrow>
     (case unmap a of
        V4 n \<Rightarrow> n div 2 ^ 24 = 10 \<or> n div 2 ^ 20 = 172 * 16 + 1 \<or> n div 2 ^ 16 = 192 * 256 + 168
      | V6 n z \<Rightarrow> n div 2 ^ 121 = 126)"

definition is_loopback :: "ip_addr \<Rightarrow> bool" where
  "is_loopback a \<longleftrightarrow> (case unmap a of V4 n \<Rightarrow> n div 2 ^ 24 = 127 | V6 n z \<Rightarrow> n = 1)"

definition is_link_local_unicast :: "ip_addr \<Rightarrow> bool" where
  "is_link_local_unicast a \<longleftrightarrow> (case unmap a of V4 n \<Rightarrow> n div 2 ^ 16 = 169 * 256 + 254 | V6 n z \<Rightarrow> n div 2 ^ 118 = 1018)"

definition is_link_local_multicast :: "ip_addr \<Rightarrow> bool" where
  "is_link_local_multicast a \<longleftrightarrow>
     (case unmap a of V4 n \<Rightarrow> n div 2 ^ 8 = 224 * 2 ^ 16 | V6 n z \<Rightarrow> n div 2 ^ 120 = 255 \<and> n div 2 ^ 112 mod 16 = 2)"

definition is_multicast :: "ip_addr \<Rightarrow> bool" where
  "is_multicast a \<longleftrightarrow> (case unmap a of V4 n \<Rightarrow> n div 2 ^ 28 = 14 | V6 n z \<Rightarrow> n div 2 ^ 120 = 255)"

definition is_unspecified :: "ip_addr \<Rightarrow> bool" where
  "is_unspecified a \<longleftrightarrow> a = V4 0 \<or> a = V6 0 []"

section \<open>Prefixes\<close>

type_synonym ip_prefix = "ip_addr \<times> int"

definition addr_bits :: "ip_addr \<Rightarrow> int" where
  "addr_bits a = (case a of V4 _ \<Rightarrow> 32 | V6 _ _ \<Rightarrow> 128)"

definition addr_number :: "ip_addr \<Rightarrow> int" where
  "addr_number a = (case a of V4 n \<Rightarrow> n | V6 n _ \<Rightarrow> n)"

definition addr_zone :: "ip_addr \<Rightarrow> string" where
  "addr_zone a = (case a of V4 _ \<Rightarrow> [] | V6 _ z \<Rightarrow> z)"

definition prefix_bits :: "string \<Rightarrow> int option" where
  "prefix_bits s = (if 1 < length s \<and> (\<not> is_digit (hd s) \<or> hd s = CHR ''0'') then None else atoi s)"

definition parse_prefix :: "string \<Rightarrow> ip_prefix option" where
  "parse_prefix s =
     (let r = rev s; bits = rev (takeWhile (\<lambda>c. c \<noteq> CHR ''/'') r); front = rev (drop 1 (dropWhile (\<lambda>c. c \<noteq> CHR ''/'') r)) in
      if CHR ''/'' \<notin> set s then None
      else
        (case (parse_addr front, prefix_bits bits) of
           (Some a, Some b) \<Rightarrow> if addr_zone a = [] \<and> 0 \<le> b \<and> b \<le> addr_bits a then Some (a, b) else None
         | _ \<Rightarrow> None))"

definition masked :: "ip_prefix \<Rightarrow> ip_prefix" where
  "masked p =
     (case p of
        (V4 n, b) \<Rightarrow> (V4 (n div 2 ^ nat (32 - b) * 2 ^ nat (32 - b)), b)
      | (V6 n z, b) \<Rightarrow> (V6 (n div 2 ^ nat (128 - b) * 2 ^ nat (128 - b)) [], b))"

definition prefix_contains :: "ip_prefix \<Rightarrow> ip_addr \<Rightarrow> bool" where
  "prefix_contains p a \<longleftrightarrow>
     (case p of (q, b) \<Rightarrow>
        addr_zone a = [] \<and> addr_bits q = addr_bits a
        \<and> addr_number q div 2 ^ nat (addr_bits q - b) = addr_number a div 2 ^ nat (addr_bits q - b))"

lemma masked_contains: "prefix_contains (masked p) a = prefix_contains p a"
  by (auto simp: masked_def prefix_contains_def addr_bits_def addr_number_def split: prod.splits ip_addr.splits)

end
