(* ===== verification/CyberDetect.thy ===== *)
theory CyberDetect imports Normalization Signals NetAddr begin

text \<open>
  Detection on firewall logs: \<open>internal/cyberops/detection\<close> (the filterlog parser, the public
  exposure signals and the learned behaviour of devices) and the loop of the command
  \<open>cyberops-detector\<close>. The publisher, the clock and the lookup of a tenant's networks are the
  world's; the learned states are a map in memory, rebuilt from the records of a topic.
\<close>

section \<open>Firewall log lines\<close>

record firewall_event =
  fw_action :: string
  fw_protocol :: string
  fw_source_ip :: string
  fw_destination_ip :: string
  fw_destination_port :: int

definition fold_token :: "string \<Rightarrow> string" where
  "fold_token v = to_lower (trim_space v)"

definition is_action :: "string \<Rightarrow> bool" where
  "is_action v \<longleftrightarrow> fold_token v \<in> {''pass'', ''allow'', ''block'', ''deny''}"

definition is_protocol :: "string \<Rightarrow> bool" where
  "is_protocol v \<longleftrightarrow> fold_token v \<in> {''tcp'', ''udp''}"

definition parse_filterlog :: "string \<Rightarrow> firewall_event option" where
  "parse_filterlog message =
     (let parts = split_on (CHR '','') message in
      case index_of is_action parts of
        None \<Rightarrow> None
      | Some a \<Rightarrow>
        (case index_of is_protocol (drop (a + 1) parts) of
           None \<Rightarrow> None
         | Some k \<Rightarrow>
           (let p = a + 1 + k in
            if length parts \<le> p + 5 then None
            else
              (let source = trim_space (parts ! (p + 2)); destination = trim_space (parts ! (p + 3)) in
               case atoi (trim_space (parts ! (p + 5))) of
                 None \<Rightarrow> None
               | Some port \<Rightarrow>
                 if port < 1 \<or> 65535 < port \<or> parse_addr source = None \<or> parse_addr destination = None then None
                 else Some \<lparr>fw_action = fold_token (parts ! a), fw_protocol = fold_token (parts ! p), fw_source_ip = source,
                   fw_destination_ip = destination, fw_destination_port = port\<rparr>))))"

definition is_public_routable :: "string \<Rightarrow> bool" where
  "is_public_routable v =
     (case parse_addr (trim_space v) of
        None \<Rightarrow> False
      | Some a \<Rightarrow> \<not> is_private a \<and> \<not> is_loopback a \<and> \<not> is_link_local_unicast a \<and> \<not> is_link_local_multicast a
          \<and> \<not> is_multicast a \<and> \<not> is_unspecified a)"

section \<open>States\<close>

record exposure_state =
  xs_first_observed :: time
  xs_signal_emitted :: bool

type_synonym states = "string \<Rightarrow> exposure_state option"

definition state_doc :: "exposure_state \<Rightarrow> doc" where
  "state_doc s =
     (if common_year (xs_first_observed s)
      then marshal (JObj [(''first_observed'', json_time (xs_first_observed s)), (''signal_emitted'', JBool (xs_signal_emitted s))]) else NoBytes)"

definition dec_bool :: "json option \<Rightarrow> bool option" where
  "dec_bool j = (case j of None \<Rightarrow> Some False | Some JNull \<Rightarrow> Some False | Some (JBool b) \<Rightarrow> Some b | _ \<Rightarrow> None)"

definition decode_state :: "doc \<Rightarrow> exposure_state option" where
  "decode_state d = do {
     m \<leftarrow> decode_obj d; t \<leftarrow> dec_time (ofield m ''first_observed''); b \<leftarrow> dec_bool (ofield m ''signal_emitted'');
     Some \<lparr>xs_first_observed = t, xs_signal_emitted = b\<rparr> }"

definition supersedes :: "exposure_state \<Rightarrow> exposure_state \<Rightarrow> bool" where
  "supersedes s old \<longleftrightarrow>
     xs_first_observed s < xs_first_observed old
     \<or> xs_first_observed s = xs_first_observed old \<and> xs_signal_emitted s \<and> \<not> xs_signal_emitted old"

definition restore_state :: "string \<Rightarrow> exposure_state \<Rightarrow> states \<Rightarrow> states" where
  "restore_state key s st =
     (case st key of None \<Rightarrow> st(key \<mapsto> s) | Some old \<Rightarrow> if supersedes s old then st(key \<mapsto> s) else st)"

definition restore :: "string \<Rightarrow> doc \<Rightarrow> states \<Rightarrow> unit res \<times> states" where
  "restore key value st =
     (case decode_state value of None \<Rightarrow> (Inl (Err ''decode state''), st) | Some s \<Rightarrow> (Inr (), restore_state key s st))"

section \<open>Signals\<close>

record 'w detector =
  dt_pub :: "'w \<Rightarrow> broker_message \<Rightarrow> bool \<times> 'w"
  dt_clock :: "'w \<Rightarrow> time"
  dt_cidrs :: "('w \<Rightarrow> string \<Rightarrow> string list res) option"
  dt_signal_topic :: string
  dt_state_topic :: string

definition stable_id :: "string list \<Rightarrow> string" where
  "stable_id parts = ''cybsig_'' @ bar_digest 16 parts"

definition ip_entity :: "string \<Rightarrow> string \<Rightarrow> obj" where
  "ip_entity v role = [(''type'', JStr ''ip''), (''value'', JStr v), (''role'', JStr role)]"

definition detector_signal ::
  "time \<Rightarrow> norm_event \<Rightarrow> firewall_event \<Rightarrow> string \<Rightarrow> string \<Rightarrow> string \<Rightarrow> string list \<Rightarrow> time \<Rightarrow> time \<Rightarrow> obj \<Rightarrow> signal_event" where
  "detector_signal now e fw detector kind severity event_ids start end1 recommendation =
     \<lparr>sv_signal_id = stable_id [detector, kind, ne_tenant_id e, ne_event_id e], sv_tenant_id = ne_tenant_id e, sv_source_id = ne_source_id e,
      sv_app_id = ''cyberops'', sv_domain = ''security'', sv_use_case = ''cyberops'', sv_source_domain = ''security'',
      sv_source_adapter = ne_source_adapter e, sv_ingestion_mode = ne_ingestion_mode e, sv_dataset = ne_dataset e, sv_event_ids = Some event_ids,
      sv_artifact_ids = Some [], sv_signal_type = kind, sv_detector_id = detector, sv_detector_version = ''1.0.0'',
      sv_model_version = ''deterministic-v1'', sv_timestamp = end1, sv_observation_time = ne_observation_time e,
      sv_effective_time = ne_effective_time e, sv_processing_time = now, sv_window_start = start, sv_window_end = end1,
      sv_confidence = rnd (9 / 10), sv_severity = severity,
      sv_entities = Some [Some (ip_entity (fw_source_ip fw) ''source''), Some (ip_entity (fw_destination_ip fw) ''destination'')],
      sv_supporting_metrics = Some recommendation,
      sv_insight_title = ''New public service exposure: '' @ to_upper (fw_protocol fw) @ ''/'' @ itoa (fw_destination_port fw),
      sv_insight_summary = ''First observed allowed connection from public source '' @ fw_source_ip fw @ '' to '' @ fw_destination_ip fw @ '':''
        @ itoa (fw_destination_port fw) @ '' over '' @ to_upper (fw_protocol fw) @ ''.'',
      sv_graph_targets = Some [],
      sv_semantic_evidence = Some [Some [(''parser'', JStr ''opnsense.filterlog.v1''), (''action'', JStr (fw_action fw)),
        (''protocol'', JStr (fw_protocol fw)), (''destination_port'', JInt (fw_destination_port fw))]],
      sv_evidence = Some [Some [(''type'', JStr ''normalized_event''), (''ref'', JStr (ne_event_id e))]],
      sv_recommendation = marshal (JObj recommendation), sv_correlation_id = ne_correlation_id e, sv_trace_id = ne_trace_id e,
      sv_causation_id = ne_event_id e, sv_replay_job_id = []\<rparr>"

definition publish_signal :: "'w detector \<Rightarrow> signal_event \<Rightarrow> 'w \<Rightarrow> unit res \<times> 'w" where
  "publish_signal dt s w =
     (if signal_doc s = NoBytes then (Inl (Err ''marshal signal''), w)
      else
        (case dt_pub dt w \<lparr>bm_topic = dt_signal_topic dt, bm_key = sv_signal_id s, bm_value = signal_doc s, bm_headers = [],
            bm_correlation_id = sv_correlation_id s, bm_causation_id = sv_causation_id s, bm_trace_id = sv_trace_id s, bm_published_at = dt_clock dt w\<rparr> of
           (False, w1) \<Rightarrow> (Inl (Err ''publish signal''), w1)
         | (True, w1) \<Rightarrow> (Inr (), w1)))"

text \<open>A state is published before it is kept, and one that is known stays.\<close>

definition learn :: "string \<Rightarrow> exposure_state \<Rightarrow> states \<Rightarrow> states" where
  "learn key s st = (if st key = None then st(key \<mapsto> s) else st)"

definition persist_state ::
  "'w detector \<Rightarrow> string \<Rightarrow> exposure_state \<Rightarrow> norm_event \<Rightarrow> 'w \<Rightarrow> states \<Rightarrow> unit res \<times> 'w \<times> states" where
  "persist_state dt key s e w st =
     (if dt_state_topic dt = [] then (Inr (), w, learn key s st)
      else
        (case dt_pub dt w \<lparr>bm_topic = dt_state_topic dt, bm_key = key, bm_value = state_doc s, bm_headers = [],
            bm_correlation_id = ne_correlation_id e, bm_causation_id = ne_event_id e, bm_trace_id = ne_trace_id e, bm_published_at = dt_clock dt w\<rparr> of
           (False, w1) \<Rightarrow> (Inl (Err ''publish state''), w1, st)
         | (True, w1) \<Rightarrow> (Inr (), w1, learn key s st)))"

section \<open>Devices\<close>

record device_pair =
  dp_device :: string
  dp_peer :: string
  dp_direction :: string

definition device_key :: "string \<Rightarrow> string \<Rightarrow> string" where
  "device_key tenant device = ''iot:device:'' @ tenant @ ''|'' @ device"

definition peer_key :: "string \<Rightarrow> device_pair \<Rightarrow> string" where
  "peer_key tenant p = ''iot:peer:'' @ tenant @ ''|'' @ dp_device p @ ''|'' @ dp_peer p @ ''|'' @ dp_direction p"

definition path_key :: "string \<Rightarrow> device_pair \<Rightarrow> firewall_event \<Rightarrow> string" where
  "path_key tenant p fw = peer_key tenant p @ ''|'' @ fw_protocol fw @ ''|'' @ itoa (fw_destination_port fw)"

definition learning_period :: int where
  "learning_period = 7 * 24 * hour_ns"

text \<open>The device is known for the learning period and the path is new.\<close>

definition is_mature :: "states \<Rightarrow> string \<Rightarrow> time \<Rightarrow> bool" where
  "is_mature st key t = (case st key of None \<Rightarrow> False | Some s \<Rightarrow> learning_period \<le> sub_dur t (xs_first_observed s))"

definition iot_signal :: "time \<Rightarrow> states \<Rightarrow> norm_event \<Rightarrow> firewall_event \<Rightarrow> device_pair \<Rightarrow> signal_event" where
  "iot_signal now st e fw p =
     (let known = st (peer_key (ne_tenant_id e) p) \<noteq> None;
          kind = (if known then ''cyberops.iot.new_service'' else ''cyberops.iot.new_peer'');
          title = (if known then ''New device service'' else ''New device communication peer'')
      in (detector_signal now e fw ''cyberops.iot.behaviour.v1'' kind ''low'' [ne_event_id e] (ne_occurred_at e) (ne_occurred_at e)
            [(''action'', JStr ''review_device_behaviour_change''), (''device_ip'', JStr (dp_device p)), (''peer_ip'', JStr (dp_peer p)),
             (''direction'', JStr (dp_direction p)), (''baseline_days'', JInt 7)])
          \<lparr>sv_signal_id := stable_id [''iot'', ne_tenant_id e, dp_device p, dp_peer p, dp_direction p, fw_protocol fw, itoa (fw_destination_port fw)],
           sv_insight_title := title,
           sv_insight_summary := ''Device '' @ dp_device p @ '' established a newly observed '' @ dp_direction p @ '' relationship with '' @ dp_peer p
             @ '' over '' @ to_upper (fw_protocol fw) @ ''/'' @ itoa (fw_destination_port fw) @ '' after its seven-day learning period.''\<rparr>)"

text \<open>One pair: learn the device, signal a new path of a mature one, learn the peer and the path.\<close>

definition iot_pair ::
  "'w detector \<Rightarrow> norm_event \<Rightarrow> firewall_event \<Rightarrow> device_pair \<Rightarrow> 'w \<Rightarrow> states \<Rightarrow> unit res \<times> 'w \<times> states" where
  "iot_pair dt e fw p w st =
     (let dkey = device_key (ne_tenant_id e) (dp_device p); pkey = peer_key (ne_tenant_id e) p; xkey = path_key (ne_tenant_id e) p fw;
          first = ne_occurred_at e;
          (r1, w1, st1) = (if st dkey = None then persist_state dt dkey \<lparr>xs_first_observed = first, xs_signal_emitted = False\<rparr> e w st else (Inr (), w, st))
      in case r1 of
           Inl err \<Rightarrow> (Inl err, w1, st1)
         | Inr _ \<Rightarrow>
           (let (r2, w2) = (if is_mature st dkey first \<and> st xkey = None then publish_signal dt (iot_signal (dt_clock dt w1) st e fw p) w1 else (Inr (), w1)) in
            case r2 of
              Inl err \<Rightarrow> (Inl err, w2, st1)
            | Inr _ \<Rightarrow>
              (case persist_state dt pkey \<lparr>xs_first_observed = first, xs_signal_emitted = True\<rparr> e w2 st1 of
                 (Inl err, w3, st3) \<Rightarrow> (Inl err, w3, st3)
               | (Inr _, w3, st3) \<Rightarrow> persist_state dt xkey \<lparr>xs_first_observed = first, xs_signal_emitted = True\<rparr> e w3 st3)))"

fun iot_pairs ::
  "'w detector \<Rightarrow> norm_event \<Rightarrow> firewall_event \<Rightarrow> device_pair list \<Rightarrow> 'w \<Rightarrow> states \<Rightarrow> unit res \<times> 'w \<times> states" where
  "iot_pairs dt e fw [] w st = (Inr (), w, st)"
| "iot_pairs dt e fw (p # ps) w st =
     (case iot_pair dt e fw p w st of
        (Inl err, w1, st1) \<Rightarrow> (Inl err, w1, st1)
      | (Inr _, w1, st1) \<Rightarrow> iot_pairs dt e fw ps w1 st1)"

fun parse_networks :: "string list \<Rightarrow> ip_prefix list option" where
  "parse_networks [] = Some []"
| "parse_networks (c # cs) =
     (case parse_prefix (trim_space c) of
        None \<Rightarrow> None | Some p \<Rightarrow> map_option (\<lambda>ps. masked p # ps) (parse_networks cs))"

text \<open>The zero \<open>Addr\<close> of a failed parse lies in no network.\<close>

definition inside :: "ip_prefix list \<Rightarrow> string \<Rightarrow> bool" where
  "inside nets s = (case parse_addr s of None \<Rightarrow> False | Some a \<Rightarrow> list_ex (\<lambda>p. prefix_contains p a) nets)"

definition device_pairs :: "ip_prefix list \<Rightarrow> firewall_event \<Rightarrow> device_pair list" where
  "device_pairs nets fw =
     (let si = inside nets (fw_source_ip fw); di = inside nets (fw_destination_ip fw) in
      (if si then [\<lparr>dp_device = fw_source_ip fw, dp_peer = fw_destination_ip fw, dp_direction = (if di then ''lateral'' else ''egress'')\<rparr>] else [])
      @ (if di then [\<lparr>dp_device = fw_destination_ip fw, dp_peer = fw_source_ip fw, dp_direction = (if si then ''lateral'' else ''ingress'')\<rparr>] else []))"

definition process_iot ::
  "'w detector \<Rightarrow> ('w \<Rightarrow> string \<Rightarrow> string list res) \<Rightarrow> norm_event \<Rightarrow> firewall_event \<Rightarrow> 'w \<Rightarrow> states \<Rightarrow> unit res \<times> 'w \<times> states" where
  "process_iot dt cidrs e fw w st =
     (case cidrs w (ne_tenant_id e) of
        Inl err \<Rightarrow> (Inl err, w, st)
      | Inr cs \<Rightarrow>
        if cs = [] then (Inr (), w, st)
        else
          (case parse_networks cs of
             None \<Rightarrow> (Inl (Err ''parse network''), w, st)
           | Some nets \<Rightarrow> iot_pairs dt e fw (device_pairs nets fw) w st))"

section \<open>Processing\<close>

definition allowed_action :: "firewall_event \<Rightarrow> bool" where
  "allowed_action fw \<longleftrightarrow> fw_action fw = ''pass'' \<or> fw_action fw = ''allow''"

definition public_signal :: "time \<Rightarrow> norm_event \<Rightarrow> firewall_event \<Rightarrow> signal_event" where
  "public_signal now e fw =
     (let t = ne_occurred_at e in
      if allowed_action fw then
        detector_signal now e fw ''cyberops.firewall.allowed_service_exposure.v1'' ''cyberops.firewall.new_public_service_exposure'' ''low'' [ne_event_id e] t t
          [(''action'', JStr ''review_public_service_exposure''), (''destination_ip'', JStr (fw_destination_ip fw)), (''protocol'', JStr (fw_protocol fw)),
           (''destination_port'', JInt (fw_destination_port fw)), (''first_observed_at'', JStr (fmt_rfc3339 t))]
      else
        detector_signal now e fw ''cyberops.firewall.external_deny.v1'' ''cyberops.firewall.external_deny'' ''info'' [ne_event_id e] t t
          [(''action'', JStr ''retain_external_deny_evidence''), (''destination_ip'', JStr (fw_destination_ip fw)), (''protocol'', JStr (fw_protocol fw)),
           (''destination_port'', JInt (fw_destination_port fw))])"

text \<open>The event of a message the detector looks at, with its parsed log line.\<close>

definition firewall_message :: "doc \<Rightarrow> (norm_event \<times> firewall_event) option" where
  "firewall_message d =
     (case decode_norm d of
        None \<Rightarrow> None
      | Some e \<Rightarrow>
        if ne_app_id e \<noteq> ''cyberops'' \<or> ne_dataset e \<noteq> ''cyberops.syslog.raw'' then None
        else map_option (Pair e) (parse_filterlog (string_value_of (case ne_payload e of None \<Rightarrow> [] | Some m \<Rightarrow> m) ''message'')))"

definition detect :: "'w detector \<Rightarrow> doc \<Rightarrow> 'w \<Rightarrow> states \<Rightarrow> unit res \<times> 'w \<times> states" where
  "detect dt d w st =
     (case firewall_message d of
        None \<Rightarrow> (Inr (), w, st)
      | Some (e, fw) \<Rightarrow>
        (case (case dt_cidrs dt of None \<Rightarrow> (Inr (), w, st) | Some cidrs \<Rightarrow> process_iot dt cidrs e fw w st) of
           (Inl err, w1, st1) \<Rightarrow> (Inl err, w1, st1)
         | (Inr _, w1, st1) \<Rightarrow>
           if is_public_routable (fw_source_ip fw) then
             (case publish_signal dt (public_signal (dt_clock dt w1) e fw) w1 of (r, w2) \<Rightarrow> (r, w2, st1))
           else (Inr (), w1, st1)))"

section \<open>The command\<close>

text \<open>
  The loop body: \<open>False\<close> ends the run. Records of the state topic restore states; an event
  whose processing fails is left uncommitted and the loop goes on.
\<close>

definition detector_step :: "'w persister \<Rightarrow> 'w detector \<Rightarrow> consumed_message \<Rightarrow> 'w \<Rightarrow> states \<Rightarrow> bool \<times> 'w \<times> states" where
  "detector_step pc dt m w st =
     (if bm_topic m = dt_state_topic dt then
        (case restore (bm_key m) (bm_value m) st of
           (Inl _, st1) \<Rightarrow> (False, w, st1)
         | (Inr _, st1) \<Rightarrow> (case pc_commit pc w m of (ok, w1) \<Rightarrow> (ok, w1, st1)))
      else
        (case detect dt (bm_value m) w st of
           (Inl _, w1, st1) \<Rightarrow> (True, pc_wait pc w1, st1)
         | (Inr _, w1, st1) \<Rightarrow> (case pc_commit pc w1 m of (ok, w2) \<Rightarrow> (ok, w2, st1))))"

fun detector_run :: "'w persister \<Rightarrow> 'w detector \<Rightarrow> consumed_message list \<Rightarrow> 'w \<Rightarrow> states \<Rightarrow> bool \<times> 'w \<times> states" where
  "detector_run pc dt [] w st = (True, w, st)"
| "detector_run pc dt (m # ms) w st =
     (case detector_step pc dt m w st of
        (False, w1, st1) \<Rightarrow> (False, w1, st1)
      | (True, w1, st1) \<Rightarrow> detector_run pc dt ms w1 st1)"

end
