(* ===== verification/CyberProps.thy ===== *)
theory CyberProps imports CyberIntake begin

text \<open>
  The properties of the CyberOps Connect intake: what an accepted event guarantees, the
  invariant of the tables under every operation, the idempotence of a redelivery, and what
  becomes of a message whose persistence fails.
\<close>

section \<open>Acceptance\<close>

text \<open>What the accepting path of the validation has passed.\<close>

lemma validate_payload_Inr:
  assumes "validate_payload value raw con = Inr e"
  obtains payload occurred observed processing where "obj_of (oget raw ''payload'') = Some payload" "string_value_of payload ''message'' \<noteq> []"
    "parse_time_of raw ''occurred_at'' = Inr occurred" "parse_time_of raw ''effective_time'' = Inr occurred"
    "parse_time_of payload ''occurred_at'' = Inr occurred" "parse_time_of raw ''observed_at'' = Inr observed"
    "parse_time_of raw ''observation_time'' = Inr observed" "parse_time_of raw ''processing_time'' = Inr processing"
    "e = connect_event_of value raw con payload occurred processing"
  using assms unfolding validate_payload_def same_time_def by (auto split: option.splits if_splits)

lemma validate_connect_Inr:
  assumes "validate_connect value = Inr e"
  obtains raw con where "decode_obj value = Some raw" "obj_of (oget (sub_object raw ''metadata'') ''connect'') = Some con"
    "\<forall>k \<in> set required_keys. string_value_of raw k \<noteq> []" "envelope_ok raw" "\<forall>k \<in> set required_connect. string_value_of con k \<noteq> []"
    "identity_ok raw con" "length (string_value_of con ''payload_hash'') = 64" "hex_ok (string_value_of con ''payload_hash'')"
    "string_value_of raw ''source_adapter'' = ''connect:'' @ string_value_of con ''connector_id''" "validate_payload value raw con = Inr e"
  using assms unfolding validate_connect_def by (auto simp: first_match_None split: option.splits if_splits)

lemma validated_is_candidate:
  assumes "validate_connect value = Inr e"
  shows "is_candidate value headers"
  using assms by (cases rule: validate_connect_Inr) (simp add: is_candidate_def envelope_ok_def)

text \<open>
  C21. An accepted message is a candidate; every identifier its envelope carries is the
  ingress identifier of the Connect metadata, the tenant and the producer are the same in
  both, the payload hash is 64 hexadecimal digits, the three occurrence times are one
  instant and the two observation times another, and the event keeps the message as its
  evidence.
\<close>

theorem accepted_event_identified:
  assumes "validate_connect value = Inr e"
  shows "is_candidate value headers \<and> ce_raw e = value \<and> ce_message e \<noteq> [] \<and> ce_tenant_id e \<noteq> [] \<and> ce_ingress_event_id e \<noteq> []
    \<and> length (ce_payload_hash e) = 64 \<and> hex_ok (ce_payload_hash e)
    \<and> (\<exists>raw payload observed. decode_obj value = Some raw \<and> obj_of (oget (sub_object raw ''metadata'') ''connect'') = Some (ce_metadata e)
        \<and> (\<forall>k \<in> {''event_id'', ''correlation_id'', ''causation_id'', ''idempotency_key''}. string_value_of raw k = ce_ingress_event_id e)
        \<and> string_value_of (ce_metadata e) ''ingress_event_id'' = ce_ingress_event_id e
        \<and> ce_correlation_id e = ce_ingress_event_id e \<and> ce_causation_id e = ce_ingress_event_id e
        \<and> string_value_of raw ''tenant_id'' = ce_tenant_id e \<and> string_value_of (ce_metadata e) ''tenant_id'' = ce_tenant_id e
        \<and> string_value_of raw ''source_id'' = ce_source_id e \<and> string_value_of (ce_metadata e) ''producer_id'' = ce_source_id e
        \<and> obj_of (oget raw ''payload'') = Some payload
        \<and> parse_time_of raw ''occurred_at'' = Inr (ce_occurred_at e) \<and> parse_time_of raw ''effective_time'' = Inr (ce_occurred_at e)
        \<and> parse_time_of payload ''occurred_at'' = Inr (ce_occurred_at e) \<and> parse_time_of raw ''processing_time'' = Inr (ce_ingested_at e)
        \<and> parse_time_of raw ''observed_at'' = Inr observed \<and> parse_time_of raw ''observation_time'' = Inr observed)"
  using assms
proof (cases rule: validate_connect_Inr)
  case (1 raw con)
  from 1(10) show ?thesis
  proof (cases rule: validate_payload_Inr)
    case (1 payload occurred observed processing)
    note p = 1 and v = \<open>decode_obj value = Some raw\<close> \<open>envelope_ok raw\<close> \<open>identity_ok raw con\<close>
    have c: "is_candidate value headers" using assms by (rule validated_is_candidate)
    have f: "ce_raw e = value" "ce_message e \<noteq> []" "ce_tenant_id e = string_value_of raw ''tenant_id''" "ce_source_id e = string_value_of raw ''source_id''"
        "ce_ingress_event_id e = string_value_of con ''ingress_event_id''" "ce_payload_hash e = string_value_of con ''payload_hash''"
        "ce_metadata e = con" "ce_occurred_at e = occurred" "ce_ingested_at e = processing" "ce_correlation_id e = ce_ingress_event_id e"
        "ce_causation_id e = ce_ingress_event_id e"
      using p(2) unfolding p(9) by (simp_all add: connect_event_of_def Let_def)
    have n: "string_value_of raw ''tenant_id'' \<noteq> []" "string_value_of con ''ingress_event_id'' \<noteq> []"
      using \<open>\<forall>k \<in> set required_keys. _ k\<close> \<open>\<forall>k \<in> set required_connect. _ k\<close> by (simp_all add: required_keys_def required_connect_def)
    show ?thesis
      using c f(1,2) n v(1) p \<open>obj_of (oget (sub_object raw ''metadata'') ''connect'') = Some con\<close> v(3) \<open>length _ = 64\<close> \<open>hex_ok _\<close>
      unfolding f(3-11) identity_ok_def by simp
  qed
qed

text \<open>The event of the package's test, with any message text.\<close>

definition sample_connect :: obj where
  "sample_connect =
     [(''contract_version'', JStr ''1.0.0''), (''tenant_id'', JStr ''tenant-local''), (''ingress_event_id'', JStr ''ing-1''),
      (''connector_id'', JStr ''opnsense''), (''connector_version'', JStr ''1.0.0''), (''channel_id'', JStr ''channel-1''),
      (''producer_id'', JStr ''firewall-1''), (''protocol_key'', JStr ''syslog-rfc5424''), (''protocol_version'', JStr ''1.0.0''),
      (''mapping_key'', JStr ''rfc5424''), (''mapping_version'', JStr ''1.0.0''), (''dataset_binding_id'', JStr ''binding-1''),
      (''dataset_key'', JStr ''cyberops.syslog.raw''), (''dataset_version'', JStr ''1.0.0''), (''destination'', JStr ''signalops''),
      (''payload_hash_algorithm'', JStr ''sha256''), (''payload_hash'', JStr ''0123456789abcdef0123456789abcdef0123456789abcdef0123456789abcdef''), (''processing_run_id'', JStr ''run-1''),
      (''delivery_id'', JStr ''delivery-1'')]"

definition sample_payload :: "string \<Rightarrow> obj" where
  "sample_payload msg =
     [(''source'', JObj [(''hostname'', JStr ''fw-1''), (''application'', JStr ''filterlog'')]), (''message'', JStr msg),
      (''occurred_at'', JStr ''2026-07-28T01:02:03Z''), (''syslog'', JObj [])]"

definition sample_raw :: "string \<Rightarrow> obj" where
  "sample_raw msg =
     [(''tenant_id'', JStr ''tenant-local''), (''app_id'', JStr ''cyberops''), (''domain'', JStr ''security''),
      (''use_case'', JStr ''cyberops''), (''source_id'', JStr ''firewall-1''), (''source_domain'', JStr ''security''),
      (''source_adapter'', JStr ''connect:opnsense''), (''ingestion_mode'', JStr ''push_event''), (''dataset'', JStr ''cyberops.syslog.raw''),
      (''event_id'', JStr ''ing-1''), (''event_type'', JStr ''cyberops.syslog.raw''), (''schema_id'', JStr ''signalops.raw_signal_event.v1''),
      (''schema_version'', JStr ''1.0.0''), (''observation_time'', JStr ''2026-07-28T01:02:04Z''), (''effective_time'', JStr ''2026-07-28T01:02:03Z''),
      (''processing_time'', JStr ''2026-07-28T01:02:05Z''), (''occurred_at'', JStr ''2026-07-28T01:02:03Z''), (''observed_at'', JStr ''2026-07-28T01:02:04Z''),
      (''correlation_id'', JStr ''ing-1''), (''causation_id'', JStr ''ing-1''), (''idempotency_key'', JStr ''ing-1''),
      (''payload'', JObj (sample_payload msg)), (''metadata'', JObj [(''connect'', JObj sample_connect)])]"

definition sample_event_of :: "string \<Rightarrow> connect_event" where
  "sample_event_of msg =
     connect_event_of (Doc (JObj (sample_raw msg))) (sample_raw msg) sample_connect (sample_payload msg) 1785200523000000000 1785200525000000000"

lemmas sample_text = string_value_of_def oget_def trim_visible visible_def code_of_def

lemma sample_times:
  "parse_ts True ''2026-07-28T01:02:03Z'' = Some 1785200523000000000" "parse_ts True ''2026-07-28T01:02:04Z'' = Some 1785200524000000000"
  "parse_ts True ''2026-07-28T01:02:05Z'' = Some 1785200525000000000"
  by code_simp+

lemma sample_parts:
  "oget (sample_raw msg) ''payload'' = Some (JObj (sample_payload msg))" "sub_object (sample_raw msg) ''metadata'' = [(''connect'', JObj sample_connect)]"
  by (simp_all add: oget_def sample_raw_def sub_object_def obj_of_def)

definition plain_text :: "obj \<Rightarrow> string \<Rightarrow> bool" where
  "plain_text m k \<longleftrightarrow> (case map_of m k of Some (JStr s) \<Rightarrow> s \<noteq> [] \<and> visible (hd s) \<and> visible (last s) | _ \<Rightarrow> False)"

lemma string_value_plain: "plain_text m k \<Longrightarrow> string_value_of m k = str_of (map_of m k) \<and> string_value_of m k \<noteq> []"
  by (auto simp: plain_text_def string_value_of_def oget_def trim_visible split: option.splits json.splits)

lemma sample_plain: "list_all (plain_text (sample_raw msg)) required_keys" "list_all (plain_text sample_connect) required_connect"
  by code_simp+

lemma sample_keys:
  "first_match (\<lambda>k. string_value_of (sample_raw msg) k = []) required_keys = None"
  "first_match (\<lambda>k. string_value_of sample_connect k = []) required_connect = None"
  using sample_plain string_value_plain unfolding first_match_None list_all_iff by blast+

lemma sample_hash: "string_value_of sample_connect ''payload_hash'' = ''0123456789abcdef0123456789abcdef0123456789abcdef0123456789abcdef''"
  by (simp add: sample_text sample_connect_def)

lemma sample_hex: "hex_ok ''0123456789abcdef0123456789abcdef0123456789abcdef0123456789abcdef''"
  by code_simp

lemma sample_identity_ok: "identity_ok (sample_raw msg) sample_connect"
  by (simp add: identity_ok_def) (simp add: sample_text sample_raw_def sample_connect_def)

lemma sample_envelope: "envelope_ok (sample_raw msg)"
  "string_value_of (sample_raw msg) ''source_adapter'' = ''connect:'' @ string_value_of sample_connect ''connector_id''"
  by (simp_all add: envelope_ok_def sample_text sample_raw_def sample_connect_def has_prefix_def)

lemma sample_payload_ok:
  assumes "\<not> blank msg"
  shows "validate_payload value (sample_raw msg) sample_connect =
    Inr (connect_event_of value (sample_raw msg) sample_connect (sample_payload msg) 1785200523000000000 1785200525000000000)"
proof -
  have "string_value_of (sample_payload msg) ''message'' \<noteq> []" using assms by (simp add: string_value_of_def oget_def sample_payload_def)
  moreover have "string_value_of (sample_raw msg) ''occurred_at'' = ''2026-07-28T01:02:03Z''"
      "string_value_of (sample_raw msg) ''effective_time'' = ''2026-07-28T01:02:03Z''" "string_value_of (sample_payload msg) ''occurred_at'' = ''2026-07-28T01:02:03Z''"
      "string_value_of (sample_raw msg) ''observed_at'' = ''2026-07-28T01:02:04Z''" "string_value_of (sample_raw msg) ''observation_time'' = ''2026-07-28T01:02:04Z''"
      "string_value_of (sample_raw msg) ''processing_time'' = ''2026-07-28T01:02:05Z''"
    by (simp_all add: sample_text sample_raw_def sample_payload_def)
  ultimately show ?thesis
    by (simp add: validate_payload_def sample_parts obj_of_def same_time_def parse_time_of_def sample_times)
qed

lemma sample_validates: "\<not> blank msg \<Longrightarrow> validate_connect (Doc (JObj (sample_raw msg))) = Inr (sample_event_of msg)"
  unfolding validate_connect_def decode_obj_Doc option.case sample_keys sample_parts
  by (simp add: sample_envelope sample_identity_ok sample_keys sample_hash sample_hex sample_payload_ok sample_event_of_def oget_def obj_of_def)

lemma sample_not_blank: "\<not> blank ''blocked packet''"
  by (rule visible_not_blank [of "CHR ''b''"]) (simp_all add: visible_def code_of_def)

theorem accepted_event_identified_witness:
  "is_candidate (Doc (JObj (sample_raw ''blocked packet''))) [] \<and> length (ce_payload_hash (sample_event_of ''blocked packet'')) = 64"
  using accepted_event_identified [OF sample_validates [OF sample_not_blank], of "[]"] by blast

section \<open>The tables\<close>

lemma persist_connect_raw_prefix: "prefix (cd_raw db) (cd_raw (snd (persist_connect_raw now raw out lineage db)))"
  by (simp add: persist_connect_raw_def record_failure_def Let_def split: option.split)

lemma connect_step_prefix:
  assumes "connect_step db db'"
  shows "prefix (cd_raw db) (cd_raw db')"
  using assms
proof cases
  case (process now topic m)
  then show ?thesis using persist_connect_raw_prefix by (auto simp: process_connect_def split: sum.split)
qed (simp_all add: resolve_failure_def mark_outbox_published_def mark_outbox_attempt_def update_outbox_def Let_def split: option.split)

lemma connect_steps_prefix: "connect_step\<^sup>*\<^sup>* db db' \<Longrightarrow> prefix (cd_raw db) (cd_raw db')"
  by (induction rule: rtranclp_induct) (auto dest: connect_step_prefix)

text \<open>The two commands are sequences of these steps.\<close>

lemma persister_run_steps: "persister_run pc ms w db = (b, w', db') \<Longrightarrow> connect_step\<^sup>*\<^sup>* db db'"
proof (induction ms arbitrary: w db)
  case Nil
  then show ?case by simp
next
  case (Cons m ms)
  obtain c w1 db1 where p: "persister_step pc m w db = (c, w1, db1)" by (metis prod_cases3)
  have "db1 = snd (process_connect (pc_clock pc w) (pc_topic pc) m db)"
    using p unfolding persister_step_def by (auto split: prod.splits sum.splits process_error.splits bool.splits)
  then have one: "connect_step db db1" using connect_step.process by simp
  show ?case
  proof (cases c)
    case True
    then show ?thesis using Cons.IH [of w1 db1] Cons.prems p one by (simp add: converse_rtranclp_into_rtranclp)
  next
    case False
    then show ?thesis using Cons.prems p one by auto
  qed
qed

lemma flush_outbox_items_steps: "flush_outbox_items pub clock xs w db = (r, w', db') \<Longrightarrow> connect_step\<^sup>*\<^sup>* db db'"
proof (induction xs arbitrary: w db)
  case Nil
  then show ?case by simp
next
  case (Cons x xs)
  show ?case
  proof (cases "decode_headers (co_headers x)")
    case None
    then show ?thesis using Cons.prems by simp
  next
    case (Some hs)
    obtain ok w1 where p: "pub w (outbox_message (clock w) hs x) = (ok, w1)" by fastforce
    show ?thesis
    proof (cases ok)
      case True
      obtain q db1 where m: "mark_outbox_published (co_outbox_id x) (clock w1) db = (q, db1)" by fastforce
      have one: "connect_step db db1" using connect_step.publish [of db "co_outbox_id x" "clock w1"] m by simp
      show ?thesis
        using Cons.prems Cons.IH [of w1 db1] Some p m True one by (cases q) (auto intro: converse_rtranclp_into_rtranclp)
    next
      case False
      then show ?thesis
        using Cons.prems Cons.IH [of w1] Some p connect_step.attempt [of db "co_outbox_id x"] by (auto intro: converse_rtranclp_into_rtranclp)
    qed
  qed
qed

text \<open>
  C22. Under any sequence of messages processed, failures resolved and outbox rows
  published or attempted: raw events are only ever appended, with distinct tenant and ingress
  identifiers; each has exactly one outbox row, in the same order and carrying its message;
  outbox identifiers are distinct; and an integrity failure names a stored event by its key
  and hash, is open exactly as long as it has no resolution time, and has exactly the audit
  row that repeats its resolution.
\<close>

theorem intake_invariant:
  assumes "connect_step\<^sup>*\<^sup>* db db'" "intake_ok db"
  shows "prefix (cd_raw db) (cd_raw db') \<and> distinct (map (\<lambda>r. (cr_tenant_id r, cr_ingress_event_id r)) (cd_raw db'))
    \<and> list_all2 announces (cd_raw db') (cd_outbox db') \<and> distinct (map co_outbox_id (cd_outbox db'))
    \<and> (\<forall>f \<in> set (cd_failures db'). 1 \<le> cf_occurrence_count f
        \<and> (\<exists>r \<in> set (cd_raw db'). cr_tenant_id r = cf_tenant_id f \<and> cr_ingress_event_id r = cf_ingress_event_id f \<and> cr_payload_hash r = cf_existing_hash f)
        \<and> (cf_resolution_status f = ''open'' \<longleftrightarrow> cf_resolved_at f = None)
        \<and> filter (\<lambda>a. au_failure_id a = cf_failure_id f) (cd_audit db') = audit_of f)"
proof -
  have ok: "intake_ok db'" using intake.reach_inv [OF assms] .
  have key: "map raw_key (cd_raw db') = map (\<lambda>r. (cr_tenant_id r, cr_ingress_event_id r)) (cd_raw db')" by (simp add: raw_key_def)
  have "1 \<le> cf_occurrence_count f
        \<and> (\<exists>r \<in> set (cd_raw db'). cr_tenant_id r = cf_tenant_id f \<and> cr_ingress_event_id r = cf_ingress_event_id f \<and> cr_payload_hash r = cf_existing_hash f)
        \<and> (cf_resolution_status f = ''open'' \<longleftrightarrow> cf_resolved_at f = None)
        \<and> filter (\<lambda>a. au_failure_id a = cf_failure_id f) (cd_audit db') = audit_of f" if "f \<in> set (cd_failures db')" for f
  proof (intro conjI)
    have f: "failure_ok db' f" using ok that unfolding intake_ok_def by (elim conjE bspec)
    show "1 \<le> cf_occurrence_count f" "cf_resolution_status f = ''open'' \<longleftrightarrow> cf_resolved_at f = None"
      using f unfolding failure_ok_def by blast+
    show "filter (\<lambda>a. au_failure_id a = cf_failure_id f) (cd_audit db') = audit_of f" using f by (rule failure_ok_audit)
    have "\<exists>r \<in> set (cd_raw db'). raw_key r = (cf_tenant_id f, cf_ingress_event_id f) \<and> cr_payload_hash r = cf_existing_hash f"
      using f unfolding failure_ok_def by (elim conjE)
    then show "\<exists>r \<in> set (cd_raw db'). cr_tenant_id r = cf_tenant_id f \<and> cr_ingress_event_id r = cf_ingress_event_id f \<and> cr_payload_hash r = cf_existing_hash f"
      unfolding raw_key_def prod.inject by blast
  qed
  moreover have "distinct (map raw_key (cd_raw db'))" "list_all2 announces (cd_raw db') (cd_outbox db')" "distinct (map co_outbox_id (cd_outbox db'))"
    using ok unfolding intake_ok_def by blast+
  ultimately show ?thesis using connect_steps_prefix [OF assms(1)] unfolding key by (intro conjI ballI) (assumption | blast)+
qed

definition empty_tables :: connect_db where
  "empty_tables = \<lparr>cd_raw = [], cd_failures = [], cd_outbox = [], cd_audit = []\<rparr>"

lemma empty_tables_ok: "intake_ok empty_tables"
  by (simp add: intake_ok_def empty_tables_def)

theorem intake_invariant_witness:
  "\<forall>now m m'. list_all2 announces (cd_raw (snd (process_connect now ''t'' m' (snd (process_connect now ''t'' m empty_tables)))))
     (cd_outbox (snd (process_connect now ''t'' m' (snd (process_connect now ''t'' m empty_tables)))))"
proof -
  have "connect_step\<^sup>*\<^sup>* empty_tables (snd (process_connect now ''t'' m' (snd (process_connect now ''t'' m empty_tables))))" for now m m'
    by (meson connect_step.process r_into_rtranclp rtranclp.rtrancl_into_rtrancl)
  from intake_invariant [OF this empty_tables_ok] show ?thesis by blast
qed

section \<open>Redelivery\<close>

lemma immutable_keys_wire: "immutable_keys (map (\<lambda>(k, v). (k, wire v)) m) = map (\<lambda>(k, v). (k, wire v)) (immutable_keys m)"
  by (induction m) (auto simp: immutable_keys_def)

lemma immutable_keys_idem: "immutable_keys (immutable_keys m) = immutable_keys m"
  by (simp add: immutable_keys_def)

text \<open>The lineage of an event is that of the metadata stored with it.\<close>

lemma stored_lineage:
  assumes "pg_json (marshal (JObj m))"
  shows "same_lineage (marshal (JObj m)) (marshal (JObj (immutable_keys m)))"
proof -
  have m: "list_all (\<lambda>(k, v). marshalable v) m" using assms by (auto simp: pg_json_def marshal_def split: if_splits)
  then have "list_all (\<lambda>(k, v). marshalable v) (immutable_keys m)" by (auto simp: immutable_keys_def list_all_iff)
  then show ?thesis
    using m by (simp add: same_lineage_def canonical_lineage_def marshal_def immutable_keys_wire immutable_keys_idem)
qed

lemma validated_event_parts:
  assumes "validate_connect value = Inr e"
  shows "ce_lineage e = marshal (JObj (immutable_keys (ce_metadata e))) \<and> ce_raw e = value \<and> value \<noteq> NoBytes
    \<and> \<not> blank (ce_tenant_id e) \<and> \<not> blank (ce_ingress_event_id e)"
  using assms
proof (cases rule: validate_connect_Inr)
  case (1 raw con)
  have ids: "string_value_of raw ''tenant_id'' \<noteq> []" "string_value_of con ''ingress_event_id'' \<noteq> []"
    using 1(3,5) by (simp_all add: required_keys_def required_connect_def)
  have tr: "trim_space (string_value_of x k) = string_value_of x k" for x k by (simp add: string_value_of_def)
  from 1(10) show ?thesis
    by (cases rule: validate_payload_Inr) (use ids 1(1) in \<open>auto simp: connect_event_of_def Let_def tr\<close>)
qed

lemma map_sum_Inr_iff: "map_sum f id x = Inr y \<longleftrightarrow> x = Inr y"
  by (cases x) simp_all

text \<open>What a message that was stored, or found stored, leaves in the tables.\<close>

definition stored_event :: "connect_event \<Rightarrow> connect_db \<Rightarrow> bool" where
  "stored_event e db \<longleftrightarrow>
     (\<exists>x \<in> set (cd_raw db). raw_key x = (ce_tenant_id e, ce_ingress_event_id e) \<and> cr_payload_hash x = ce_payload_hash e
        \<and> same_lineage (cr_connect_metadata x) (ce_lineage e))"

lemma process_connect_stores:
  assumes v: "validate_connect (bm_value m) = Inr e" and p: "process_connect now topic m db = (Inr r, db')"
    and r: "\<not> pr_ignored r" "\<not> pr_integrity_failure r"
  shows "stored_event e db'"
proof -
  have "\<exists>q. persist_connect_raw now (raw_of e) (outbox_of now topic e) (ce_lineage e) db = (Inr q, db') \<and> r = q"
    using p r v unfolding process_connect_def
    by (cases "persist_connect_raw now (raw_of e) (outbox_of now topic e) (ce_lineage e) db")
      (auto split: if_splits simp: map_sum_Inr_iff)
  then have p2: "persist_connect_raw now (raw_of e) (outbox_of now topic e) (ce_lineage e) db = (Inr r, db')" by blast
  then have row: "raw_row_ok (raw_of e)" unfolding persist_connect_raw_def by (auto split: if_splits)
  show ?thesis
  proof (cases "first_match (raw_match (raw_of e)) (cd_raw db)")
    case None
    have "raw_of e\<lparr>cr_created_at := now\<rparr> \<in> set (cd_raw db')"
      using p2 None unfolding persist_connect_raw_def Let_def by (auto split: if_splits)
    moreover have "same_lineage (cr_connect_metadata (raw_of e)) (ce_lineage e)"
      using row stored_lineage validated_event_parts [OF v] by (simp add: raw_row_ok_def raw_of_def)
    ultimately show ?thesis unfolding stored_event_def by (intro bexI) (auto simp: raw_key_def raw_of_def)
  next
    case (Some x)
    have "cr_payload_hash x = cr_payload_hash (raw_of e) \<and> same_lineage (cr_connect_metadata x) (ce_lineage e) \<and> db' = db"
      using p2 Some r unfolding persist_connect_raw_def record_failure_def Let_def by (auto split: if_splits)
    then show ?thesis using first_match_Some [OF Some] unfolding stored_event_def
      by (intro bexI [of _ x]) (auto simp: raw_match_def raw_key_def raw_of_def)
  qed
qed

lemma stored_event_stays: "connect_step\<^sup>*\<^sup>* db db' \<Longrightarrow> stored_event e db \<Longrightarrow> stored_event e db'"
  unfolding stored_event_def using connect_steps_prefix set_mono_prefix by blast

text \<open>
  C23. Delivery is idempotent: once a message has been processed without an error or an
  integrity failure, then whatever the intake does in between, any message accepted with the
  same tenant, ingress identifier, payload hash and immutable lineage (a redelivery, possibly
  under another run or delivery identifier) is reported as a duplicate and changes nothing.
\<close>

theorem redelivery_is_duplicate:
  assumes "intake_ok db" "validate_connect (bm_value m) = Inr e" "process_connect now topic m db = (Inr r, db1)"
    and "\<not> pr_ignored r" "\<not> pr_integrity_failure r" "connect_step\<^sup>*\<^sup>* db1 db2"
    and "validate_connect (bm_value m') = Inr e'" "raw_row_ok (raw_of e')" "topic' \<noteq> []"
    and "ce_tenant_id e' = ce_tenant_id e" "ce_ingress_event_id e' = ce_ingress_event_id e" "ce_payload_hash e' = ce_payload_hash e"
    and "ce_lineage e' = ce_lineage e"
  shows "process_connect now' topic' m' db2 = (Inr \<lparr>pr_ignored = False, pr_duplicate = True, pr_integrity_failure = False\<rparr>, db2)"
proof -
  have "stored_event e db2"
    by (rule stored_event_stays [OF assms(6) process_connect_stores [OF assms(2-5)]])
  then obtain x where x: "x \<in> set (cd_raw db2)" "raw_match (raw_of e') x" "cr_payload_hash x = cr_payload_hash (raw_of e')"
      "same_lineage (cr_connect_metadata x) (ce_lineage e')"
    using assms(10-13) unfolding stored_event_def by (auto simp: raw_match_def raw_key_def raw_of_def)
  have "connect_step\<^sup>*\<^sup>* db db1" using connect_step.process [of db now topic m] assms(3) by auto
  then have "intake_ok db2" using intake.reach_inv assms(1,6) by blast
  then have keys: "distinct (map raw_key (cd_raw db2))" unfolding intake_ok_def by (elim conjE)
  obtain y where y: "first_match (raw_match (raw_of e')) (cd_raw db2) = Some y"
    using x(1,2) first_match_None by fastforce
  have "y = x"
    by (rule distinct_map_eq [OF keys _ x(1)]) (use first_match_Some [OF y] x(2) in \<open>simp_all add: raw_match_def raw_key_def\<close>)
  moreover have "\<not> blank (cr_tenant_id (raw_of e'))" "\<not> blank (cr_ingress_event_id (raw_of e'))"
      "cr_raw_event (raw_of e') \<noteq> NoBytes" "cr_connect_metadata (raw_of e') \<noteq> NoBytes"
    using validated_event_parts [OF assms(7)] assms(8) by (auto simp: raw_of_def raw_row_ok_def pg_json_def)
  ultimately have "persist_connect_raw now' (raw_of e') out (ce_lineage e') db2
      = (Inr \<lparr>pr_ignored = False, pr_duplicate = True, pr_integrity_failure = False\<rparr>, db2)" for out
    using y x(3,4) assms(8) by (simp add: persist_connect_raw_def)
  moreover have "is_candidate (bm_value m') (bm_headers m')"
    using assms(7) by (rule validated_is_candidate)
  ultimately show ?thesis using assms(7,9) by (simp add: process_connect_def)
qed

text \<open>A concrete delivery.\<close>

definition sample_delivery :: "string \<Rightarrow> int \<Rightarrow> consumed_message" where
  "sample_delivery msg off =
     \<lparr>bm_topic = ''signalops.local.raw.v1'', bm_key = ''ing-1'', bm_value = Doc (JObj (sample_raw msg)), bm_headers = [],
      bm_correlation_id = [], bm_causation_id = [], bm_trace_id = [], bm_published_at = 0, cm_partition = 0, cm_offset = off\<rparr>"

lemma sample_json_storable: "list_all (\<lambda>(k, v). marshalable v) sample_connect" "nul_free (wire (JObj sample_connect))"
    "nul_free (JObj (sample_raw ''blocked packet''))"
  by code_simp+

lemma sample_values:
  "string_value_of (sample_raw msg) ''tenant_id'' = ''tenant-local''" "string_value_of (sample_raw msg) ''source_id'' = ''firewall-1''"
  "string_value_of (sample_raw msg) ''trace_id'' = []" "string_value_of sample_connect ''ingress_event_id'' = ''ing-1''"
  by (simp_all add: sample_text sample_raw_def sample_connect_def)

lemma sample_sources:
  "sub_object (sample_payload msg) ''source'' = [(''hostname'', JStr ''fw-1''), (''application'', JStr ''filterlog'')]"
  "sub_object (sample_payload msg) ''syslog'' = []"
  "string_value_of [(''hostname'', JStr ''fw-1''), (''application'', JStr ''filterlog'')] ''hostname'' = ''fw-1''"
  "string_value_of [(''hostname'', JStr ''fw-1''), (''application'', JStr ''filterlog'')] ''application'' = ''filterlog''"
  by (simp_all add: sub_object_def oget_def sample_payload_def obj_of_def sample_text)

lemma sample_trace: "trim_space ''trc_ing-1'' = ''trc_ing-1''"
  by (rule trim_visible) (simp_all add: visible_def code_of_def)

lemma sample_fields:
  "ce_tenant_id (sample_event_of msg) = ''tenant-local''" "ce_ingress_event_id (sample_event_of msg) = ''ing-1''"
  "ce_source_id (sample_event_of msg) = ''firewall-1''" "ce_metadata (sample_event_of msg) = sample_connect"
  "ce_raw (sample_event_of msg) = Doc (JObj (sample_raw msg))" "ce_message (sample_event_of msg) = trim_space msg"
  "ce_hostname (sample_event_of msg) = ''fw-1''" "ce_application (sample_event_of msg) = ''filterlog''"
  "ce_severity (sample_event_of msg) = None" "ce_facility (sample_event_of msg) = None"
  "ce_correlation_id (sample_event_of msg) = ''ing-1''" "ce_causation_id (sample_event_of msg) = ''ing-1''"
  "ce_trace_id (sample_event_of msg) = ''trc_ing-1''"
  unfolding sample_event_of_def connect_event_of_def Let_def sample_values sample_sources
  by (simp_all add: first_value_def sample_values sample_trace int_value_def num_of_def oget_def)
    (simp_all add: string_value_of_def oget_def sample_payload_def)

lemma sample_payload_hash:
  "ce_payload_hash (sample_event_of msg) = ''0123456789abcdef0123456789abcdef0123456789abcdef0123456789abcdef''"
  by (simp add: sample_event_of_def connect_event_of_def Let_def sample_hash)

lemma sample_row_ok: "raw_row_ok (raw_of (sample_event_of ''blocked packet''))"
proof -
  have "trim_space ''blocked packet'' = ''blocked packet''" by (rule trim_visible) (simp_all add: visible_def code_of_def)
  moreover have "pg_json (marshal (JObj sample_connect))" using sample_json_storable by (simp add: pg_json_def marshal_def)
  moreover have "pg_json (Doc (JObj (sample_raw ''blocked packet'')))" using sample_json_storable(3) by (simp add: pg_json_def)
  ultimately show ?thesis
    by (simp add: raw_row_ok_def raw_of_def sample_fields sample_payload_hash pg_text_def pg_int_def)
qed

lemma outbox_id_text: "pg_text (outbox_id e)"
proof -
  have "CHR 0x00 \<notin> set (take n (hex_encode s))" for n s
    using nul_notin_hex [of s] by (blast dest: in_set_takeD)
  then show ?thesis by (simp add: pg_text_def outbox_id_def bar_digest_def)
qed

lemma sample_outbox_ok: "outbox_row_ok empty_tables (outbox_row now (raw_of (sample_event_of msg)) (outbox_of now ''accepted'' (sample_event_of msg)))"
proof -
  have d: "string_value_of sample_connect ''delivery_id'' = ''delivery-1''" by (simp add: sample_text sample_connect_def)
  have h: "pg_json (headers_of (sample_event_of msg))" by (simp add: pg_json_def headers_of_def marshal_def sample_fields d)
  then have "headers_of (sample_event_of msg) \<noteq> NoBytes" by (auto simp: pg_json_def)
  then show ?thesis using h outbox_id_text
    by (simp add: outbox_row_ok_def outbox_row_def outbox_of_def sample_fields empty_tables_def) (simp add: pg_text_def)
qed

lemma sample_processed:
  "\<exists>db'. process_connect now ''accepted'' (sample_delivery ''blocked packet'' off) empty_tables
     = (Inr \<lparr>pr_ignored = False, pr_duplicate = False, pr_integrity_failure = False\<rparr>, db')"
proof -
  note v = sample_validates [OF sample_not_blank]
  let ?e = "sample_event_of ''blocked packet''"
  have b: "\<not> blank (cr_tenant_id (raw_of ?e))" "\<not> blank (cr_ingress_event_id (raw_of ?e))" "cr_raw_event (raw_of ?e) \<noteq> NoBytes"
      "cr_connect_metadata (raw_of ?e) \<noteq> NoBytes"
    using validated_event_parts [OF v] sample_row_ok by (auto simp: raw_of_def raw_row_ok_def pg_json_def)
  have n: "first_match P (cd_raw empty_tables) = None" for P by (simp add: empty_tables_def)
  show ?thesis
    unfolding process_connect_def persist_connect_raw_def
    using v b n sample_row_ok sample_outbox_ok [of now "''blocked packet''"] validated_is_candidate [OF v, of "[]"]
    by (simp add: sample_delivery_def)
qed

theorem redelivery_is_duplicate_witness:
  "\<exists>db'. process_connect 5 ''accepted'' (sample_delivery ''blocked packet'' 1) empty_tables
       = (Inr \<lparr>pr_ignored = False, pr_duplicate = False, pr_integrity_failure = False\<rparr>, db')
     \<and> process_connect 9 ''accepted'' (sample_delivery ''blocked packet'' 7) db'
       = (Inr \<lparr>pr_ignored = False, pr_duplicate = True, pr_integrity_failure = False\<rparr>, db')"
proof -
  have v: "validate_connect (bm_value (sample_delivery ''blocked packet'' off)) = Inr (sample_event_of ''blocked packet'')" for off
    using sample_validates [OF sample_not_blank] by (simp add: sample_delivery_def)
  obtain db' where p: "process_connect 5 ''accepted'' (sample_delivery ''blocked packet'' 1) empty_tables
      = (Inr \<lparr>pr_ignored = False, pr_duplicate = False, pr_integrity_failure = False\<rparr>, db')"
    using sample_processed by blast
  have "process_connect 9 ''accepted'' (sample_delivery ''blocked packet'' 7) db'
      = (Inr \<lparr>pr_ignored = False, pr_duplicate = True, pr_integrity_failure = False\<rparr>, db')"
    by (rule redelivery_is_duplicate [OF empty_tables_ok v p _ _ rtranclp.rtrancl_refl v sample_row_ok]) simp_all
  then show ?thesis using p by blast
qed

section \<open>Messages whose persistence fails\<close>

text \<open>An accepted message whose row PostgreSQL refuses, for example for a NUL in its text.\<close>

definition unstorable :: "consumed_message \<Rightarrow> bool" where
  "unstorable m \<longleftrightarrow> (\<exists>e. validate_connect (bm_value m) = Inr e \<and> \<not> raw_row_ok (raw_of e))"

lemma unstorable_fails:
  assumes "unstorable m" "topic \<noteq> []"
  shows "\<exists>err. process_connect now topic m db = (Inl (Process_failed err), db)"
proof -
  obtain e where e: "validate_connect (bm_value m) = Inr e" "\<not> raw_row_ok (raw_of e)" using assms(1) by (auto simp: unstorable_def)
  then show ?thesis
    using assms(2) validated_is_candidate [OF e(1)] by (simp add: process_connect_def persist_connect_raw_def)
qed

text \<open>
  The persister does not stop at a message it cannot store: a run over unstorable
  messages followed by others is the run over the others, a wait later for each, so the
  tables and the broker keep no trace of them; and as committing a message moves the offset
  of its partition behind it, the first later message that is processed moves the offset
  past the failed ones, which are never delivered again.
\<close>

theorem failed_messages_are_skipped:
  fixes committed :: "'w \<Rightarrow> string \<Rightarrow> int \<Rightarrow> int"
  assumes commit: "\<And>w m w'. pc_commit pc w m = (True, w') \<Longrightarrow> committed w' (bm_topic m) (cm_partition m) = cm_offset m + 1"
    and fs: "\<forall>f \<in> set fs. unstorable f" "pc_topic pc \<noteq> []"
  shows "persister_run pc (fs @ ms) w db = persister_run pc ms ((pc_wait pc ^^ length fs) w) db
    \<and> (\<forall>m r db' w' f. process_connect (pc_clock pc ((pc_wait pc ^^ length fs) w)) (pc_topic pc) m db = (Inr r, db')
          \<and> pc_commit pc ((pc_wait pc ^^ length fs) w) m = (True, w')
          \<and> f \<in> set fs \<and> bm_topic f = bm_topic m \<and> cm_partition f = cm_partition m \<and> cm_offset f < cm_offset m
        \<longrightarrow> persister_run pc (fs @ [m]) w db = (True, w', db') \<and> cm_offset f < committed w' (bm_topic f) (cm_partition f))"
proof -
  have run: "persister_run pc (fs @ ms) w db = persister_run pc ms ((pc_wait pc ^^ length fs) w) db" for ms
    using fs(1)
  proof (induction fs arbitrary: w)
    case Nil
    then show ?case by simp
  next
    case (Cons f fs)
    obtain err where "process_connect (pc_clock pc w) (pc_topic pc) f db = (Inl (Process_failed err), db)"
      using unstorable_fails Cons.prems fs(2) by (metis list.set_intros(1))
    then show ?case using Cons by (simp add: persister_step_def funpow_swap1)
  qed
  have one: "persister_run pc [m] v db = (True, w', db')"
    if "process_connect (pc_clock pc v) (pc_topic pc) m db = (Inr r, db')" "pc_commit pc v m = (True, w')" for m r db' w' v
    using that by (simp add: persister_step_def)
  show ?thesis using run [of ms] run [of "[_]"] one commit by fastforce
qed

text \<open>A group whose offset is all the world, and a message with a NUL before one that is no candidate.\<close>

definition offset_world :: "(string \<Rightarrow> int \<Rightarrow> int) persister" where
  "offset_world =
     \<lparr>pc_pub = (\<lambda>w m. (True, w)), pc_commit = (\<lambda>w m. (True, \<lambda>t p. if t = bm_topic m \<and> p = cm_partition m then cm_offset m + 1 else w t p)),
      pc_wait = id, pc_clock = (\<lambda>w. 0), pc_b64 = (\<lambda>d. []), pc_topic = ''accepted'', pc_dlq = ''dlq''\<rparr>"

lemma nul_unstorable: "unstorable (sample_delivery [CHR ''a'', CHR 0x00, CHR ''b''] off)"
proof -
  have t: "trim_space [CHR ''a'', CHR 0x00, CHR ''b''] = [CHR ''a'', CHR 0x00, CHR ''b'']"
    by (rule trim_visible) (simp_all add: visible_def code_of_def)
  then have v: "validate_connect (bm_value (sample_delivery [CHR ''a'', CHR 0x00, CHR ''b''] off)) = Inr (sample_event_of [CHR ''a'', CHR 0x00, CHR ''b''])"
    using sample_validates [of "[CHR ''a'', CHR 0x00, CHR ''b'']"] by (simp add: sample_delivery_def)
  moreover have "\<not> raw_row_ok (raw_of (sample_event_of [CHR ''a'', CHR 0x00, CHR ''b'']))"
    by (simp add: raw_row_ok_def raw_of_def sample_fields t pg_text_def)
  ultimately show ?thesis unfolding unstorable_def by blast
qed

theorem failed_messages_are_skipped_witness:
  "\<exists>w'. persister_run offset_world
       ([sample_delivery [CHR ''a'', CHR 0x00, CHR ''b''] 3] @ [(sample_delivery [] 4)\<lparr>bm_value := Doc (JObj [])\<rparr>]) (\<lambda>t p. 3) empty_tables
       = (True, w', empty_tables)
     \<and> 3 < w' ''signalops.local.raw.v1'' 0"
proof -
  let ?f = "sample_delivery [CHR ''a'', CHR 0x00, CHR ''b''] 3" and ?m = "(sample_delivery [] 4)\<lparr>bm_value := Doc (JObj [])\<rparr>"
  have "process_connect 0 ''accepted'' ?m empty_tables = (Inr \<lparr>pr_ignored = True, pr_duplicate = False, pr_integrity_failure = False\<rparr>, empty_tables)"
    by (simp add: process_connect_def is_candidate_def sample_delivery_def string_value_of_def has_prefix_def sub_object_def obj_of_def oget_def)
  moreover have "pc_wait offset_world ^^ length [?f] = id" "pc_clock offset_world = (\<lambda>w. 0)" "pc_topic offset_world = ''accepted''"
      "pc_commit offset_world w m = (True, \<lambda>t p. if t = bm_topic m \<and> p = cm_partition m then cm_offset m + 1 else w t p)" for w m
    by (simp_all add: offset_world_def)
  moreover have "\<forall>f \<in> set [?f]. unstorable f" using nul_unstorable by simp
  moreover have "?f \<in> set [?f] \<and> bm_topic ?f = bm_topic ?m \<and> cm_partition ?f = cm_partition ?m \<and> cm_offset ?f < cm_offset ?m"
      "cm_offset ?f = 3" "bm_topic ?f = ''signalops.local.raw.v1''" "cm_partition ?f = 0"
    by (simp_all add: sample_delivery_def)
  ultimately show ?thesis
    using failed_messages_are_skipped [of offset_world "\<lambda>w. w" "[?f]" "[]" "\<lambda>t p. 3" empty_tables] by (simp only: id_apply) fastforce
qed

end
