(* ===== verification/CyberPipeline.thy ===== *)
theory CyberPipeline imports CyberDetect CyberProps begin

text \<open>
  The CyberOps pipeline from an accepted Connect event to the insight of the signal persister:
  what one stage writes the next one reads.
\<close>

section \<open>Events on the wire\<close>

text \<open>What a reader decodes: numbers in free-form objects have become \<open>float64\<close>.\<close>

definition norm_wire :: "norm_event \<Rightarrow> norm_event" where
  "norm_wire e = e\<lparr>ne_payload := map_option wire_map (ne_payload e), ne_entities := map_option (map (map_option wire_map)) (ne_entities e),
     ne_metadata := map_option wire_map (ne_metadata e), ne_evidence := map_option (map (map_option wire_map)) (ne_evidence e)\<rparr>"

definition signal_wire :: "signal_event \<Rightarrow> signal_event" where
  "signal_wire s = s\<lparr>sv_entities := map_option (map (map_option wire_map)) (sv_entities s),
     sv_supporting_metrics := map_option wire_map (sv_supporting_metrics s),
     sv_graph_targets := map_option (map (map_option wire_map)) (sv_graph_targets s),
     sv_semantic_evidence := map_option (map (map_option wire_map)) (sv_semantic_evidence s),
     sv_evidence := map_option (map (map_option wire_map)) (sv_evidence s), sv_recommendation := Doc (wire (raw_json (sv_recommendation s)))\<rparr>"

lemma norm_fields_plain: "plain_fields (map fst (norm_fields_of e))"
  by (simp add: norm_fields_of_def plain_fields_def) code_simp

lemma signal_fields_plain: "plain_fields (map fst (signal_fields_of e))"
  by (simp add: signal_fields_of_def plain_fields_def) code_simp

lemmas norm_field = ofield_struct [OF norm_fields_plain]
lemmas signal_field = ofield_struct [OF signal_fields_plain]

lemma norm_lookup:
  "map_of (norm_fields_of e) ''tenant_id'' = Some (Some (JStr (ne_tenant_id e)))"
  "map_of (norm_fields_of e) ''source_id'' = Some (Some (JStr (ne_source_id e)))"
  "map_of (norm_fields_of e) ''app_id'' = Some (omit_empty (ne_app_id e))" "map_of (norm_fields_of e) ''domain'' = Some (omit_empty (ne_domain e))"
  "map_of (norm_fields_of e) ''use_case'' = Some (omit_empty (ne_use_case e))"
  "map_of (norm_fields_of e) ''source_domain'' = Some (Some (JStr (ne_source_domain e)))"
  "map_of (norm_fields_of e) ''source_adapter'' = Some (Some (JStr (ne_source_adapter e)))"
  "map_of (norm_fields_of e) ''ingestion_mode'' = Some (Some (JStr (ne_ingestion_mode e)))"
  "map_of (norm_fields_of e) ''dataset'' = Some (Some (JStr (ne_dataset e)))"
  "map_of (norm_fields_of e) ''event_id'' = Some (Some (JStr (ne_event_id e)))"
  "map_of (norm_fields_of e) ''event_type'' = Some (Some (JStr (ne_event_type e)))"
  "map_of (norm_fields_of e) ''schema_id'' = Some (Some (JStr (ne_schema_id e)))"
  "map_of (norm_fields_of e) ''schema_version'' = Some (Some (JStr (ne_schema_version e)))"
  "map_of (norm_fields_of e) ''observation_time'' = Some (Some (json_time (ne_observation_time e)))"
  "map_of (norm_fields_of e) ''effective_time'' = Some (Some (json_time (ne_effective_time e)))"
  "map_of (norm_fields_of e) ''processing_time'' = Some (Some (json_time (ne_processing_time e)))"
  "map_of (norm_fields_of e) ''occurred_at'' = Some (Some (json_time (ne_occurred_at e)))"
  "map_of (norm_fields_of e) ''observed_at'' = Some (Some (json_time (ne_observed_at e)))"
  "map_of (norm_fields_of e) ''normalized_payload'' = Some (Some (json_map (ne_payload e)))"
  "map_of (norm_fields_of e) ''entities'' = Some (Some (json_objs (ne_entities e)))"
  "map_of (norm_fields_of e) ''confidence'' = Some (Some (JNum (ne_confidence e)))"
  "map_of (norm_fields_of e) ''metadata'' = Some (Some (json_map (ne_metadata e)))"
  "map_of (norm_fields_of e) ''evidence'' = Some (Some (json_objs (ne_evidence e)))"
  "map_of (norm_fields_of e) ''correlation_id'' = Some (Some (JStr (ne_correlation_id e)))"
  "map_of (norm_fields_of e) ''idempotency_key'' = Some (Some (JStr (ne_idempotency_key e)))"
  "map_of (norm_fields_of e) ''trace_id'' = Some (omit_empty (ne_trace_id e))"
  "map_of (norm_fields_of e) ''causation_id'' = Some (omit_empty (ne_causation_id e))"
  "map_of (norm_fields_of e) ''replay_job_id'' = Some (omit_empty (ne_replay_job_id e))"
  by (simp_all add: norm_fields_of_def)

lemmas norm_read = norm_lookup [THEN norm_field]

lemma signal_lookup:
  "map_of (signal_fields_of e) ''signal_id'' = Some (Some (JStr (sv_signal_id e)))"
  "map_of (signal_fields_of e) ''tenant_id'' = Some (Some (JStr (sv_tenant_id e)))"
  "map_of (signal_fields_of e) ''source_id'' = Some (Some (JStr (sv_source_id e)))"
  "map_of (signal_fields_of e) ''app_id'' = Some (omit_empty (sv_app_id e))"
  "map_of (signal_fields_of e) ''domain'' = Some (omit_empty (sv_domain e))"
  "map_of (signal_fields_of e) ''use_case'' = Some (omit_empty (sv_use_case e))"
  "map_of (signal_fields_of e) ''source_domain'' = Some (Some (JStr (sv_source_domain e)))"
  "map_of (signal_fields_of e) ''source_adapter'' = Some (Some (JStr (sv_source_adapter e)))"
  "map_of (signal_fields_of e) ''ingestion_mode'' = Some (Some (JStr (sv_ingestion_mode e)))"
  "map_of (signal_fields_of e) ''dataset'' = Some (Some (JStr (sv_dataset e)))"
  "map_of (signal_fields_of e) ''event_ids'' = Some (Some (json_strs (sv_event_ids e)))"
  "map_of (signal_fields_of e) ''artifact_ids'' = Some (Some (json_strs (sv_artifact_ids e)))"
  "map_of (signal_fields_of e) ''signal_type'' = Some (Some (JStr (sv_signal_type e)))"
  "map_of (signal_fields_of e) ''detector_id'' = Some (Some (JStr (sv_detector_id e)))"
  "map_of (signal_fields_of e) ''detector_version'' = Some (Some (JStr (sv_detector_version e)))"
  "map_of (signal_fields_of e) ''model_version'' = Some (Some (JStr (sv_model_version e)))"
  "map_of (signal_fields_of e) ''timestamp'' = Some (Some (json_time (sv_timestamp e)))"
  "map_of (signal_fields_of e) ''observation_time'' = Some (Some (json_time (sv_observation_time e)))"
  "map_of (signal_fields_of e) ''effective_time'' = Some (Some (json_time (sv_effective_time e)))"
  "map_of (signal_fields_of e) ''processing_time'' = Some (Some (json_time (sv_processing_time e)))"
  "map_of (signal_fields_of e) ''window_start'' = Some (Some (json_time (sv_window_start e)))"
  "map_of (signal_fields_of e) ''window_end'' = Some (Some (json_time (sv_window_end e)))"
  "map_of (signal_fields_of e) ''confidence'' = Some (Some (JNum (sv_confidence e)))"
  "map_of (signal_fields_of e) ''severity'' = Some (Some (JStr (sv_severity e)))"
  "map_of (signal_fields_of e) ''entities'' = Some (Some (json_objs (sv_entities e)))"
  "map_of (signal_fields_of e) ''supporting_metrics'' = Some (Some (json_map (sv_supporting_metrics e)))"
  "map_of (signal_fields_of e) ''insight_title'' = Some (omit_empty (sv_insight_title e))"
  "map_of (signal_fields_of e) ''insight_summary'' = Some (omit_empty (sv_insight_summary e))"
  "map_of (signal_fields_of e) ''graph_targets'' = Some (Some (json_objs (sv_graph_targets e)))"
  "map_of (signal_fields_of e) ''semantic_evidence'' = Some (Some (json_objs (sv_semantic_evidence e)))"
  "map_of (signal_fields_of e) ''evidence'' = Some (Some (json_objs (sv_evidence e)))"
  "map_of (signal_fields_of e) ''recommendation'' = Some (Some (raw_json (sv_recommendation e)))"
  "map_of (signal_fields_of e) ''correlation_id'' = Some (Some (JStr (sv_correlation_id e)))"
  "map_of (signal_fields_of e) ''trace_id'' = Some (omit_empty (sv_trace_id e))"
  "map_of (signal_fields_of e) ''causation_id'' = Some (omit_empty (sv_causation_id e))"
  "map_of (signal_fields_of e) ''replay_job_id'' = Some (omit_empty (sv_replay_job_id e))"
  by (simp_all add: signal_fields_of_def)

lemmas signal_read = signal_lookup [THEN signal_field]

lemma dec_omit [simp]: "dec_str (map_option wire (omit_empty s)) = Some s"
  by (simp add: omit_empty_def)

lemma decode_norm_doc:
  assumes "norm_doc e \<noteq> NoBytes"
  shows "decode_norm (norm_doc e) = Some (norm_wire e)"
proof -
  have t: "\<forall>t \<in> set (norm_times e). common_year t" and "marshalable (JObj (norm_obj e))"
    using assms by (auto simp: norm_doc_def marshal_def list_all_iff split: if_splits)
  then have d: "decode_obj (norm_doc e) = Some (wire_map (struct_obj (norm_fields_of e)))"
    by (simp add: norm_doc_def marshal_def norm_obj_def wire_map_def list_all_iff)
  show ?thesis
    using t unfolding decode_norm_def d
    by (simp add: norm_read norm_times_def wire_objs norm_wire_def)
qed

lemma fold_eq_refl [simp]: "fold_eq k k"
  by (simp add: fold_eq_iff)

lemma decode_signal_doc:
  assumes "signal_doc s \<noteq> NoBytes"
  shows "decode_signal (signal_doc s) = Some (signal_wire s)"
proof -
  have t: "\<forall>t \<in> set (signal_times s). common_year t" and "marshalable (JObj (signal_obj s))"
    using assms by (auto simp: signal_doc_def marshal_def list_all_iff split: if_splits)
  moreover have "sv_recommendation s \<noteq> BadBytes" using assms by (auto simp: signal_doc_def split: if_splits)
  ultimately have d: "decode_obj (signal_doc s) = Some (wire_map (struct_obj (signal_fields_of s)))"
    by (simp add: signal_doc_def marshal_def signal_obj_def wire_map_def list_all_iff)
  have "set (map fst (signal_fields_of s)) \<subseteq> set signal_fields" by (simp add: signal_fields_of_def signal_fields_def)
  then have "list_all (\<lambda>(k, v). k \<in> set signal_fields) (wire_map (struct_obj (signal_fields_of s)))" by (rule struct_known)
  then have k: "list_all (\<lambda>(k, v). \<exists>f \<in> set signal_fields. fold_eq k f) (wire_map (struct_obj (signal_fields_of s)))"
    by (rule list.pred_mono_strong) (clarsimp, metis fold_eq_refl)
  show ?thesis
    using t unfolding decode_signal_def d
    by (simp add: k signal_read signal_times_def wire_objs signal_wire_def dec_raw_def)
qed

section \<open>From Connect to the normalizer\<close>

text \<open>A text without white space around it, which trimming and not trimming read alike.\<close>

definition unpadded :: "obj \<Rightarrow> string \<Rightarrow> bool" where
  "unpadded m k \<longleftrightarrow> trim_space (str_of (oget m k)) = str_of (oget m k)"

definition normalizer_times :: "string list" where
  "normalizer_times = [''observation_time'', ''processing_time'', ''effective_time'', ''occurred_at'', ''observed_at'']"

lemma parse_ts_Nil [simp]: "parse_ts b [] = None"
  by (simp add: parse_ts_def parse_ymd_def num_at_def Let_def)

lemma event_time_unpadded:
  assumes "parse_time_of raw k = Inr t" "unpadded raw k"
  shows "event_time raw k fb = Inr t"
proof -
  have p: "parse_ts True (str_of (oget raw k)) = Some t"
    using assms by (auto simp: parse_time_of_def string_value_of_def unpadded_def split: option.splits)
  then have "\<not> blank (str_of (oget raw k))" using assms(2) by (auto simp: unpadded_def)
  then show ?thesis using p by (simp add: event_time_def Let_def)
qed

lemma first_string_value: "string_value_of raw k \<noteq> [] \<Longrightarrow> first_string raw k fs = string_value_of raw k"
  by (simp add: first_string_def string_value_of_def Let_def)

lemma required_value: "string_value_of raw k \<noteq> [] \<Longrightarrow> required_text raw k = Inr (string_value_of raw k)"
  by (simp add: required_text_def string_value_of_def Let_def)

text \<open>What is left for the normalizer to refuse: padded times, a confidence out of range. A second payload it prefers.\<close>

definition normalizable :: "obj \<Rightarrow> bool" where
  "normalizable raw \<longleftrightarrow> list_all (unpadded raw) normalizer_times
     \<and> (case num_of (oget raw ''confidence'') of None \<Rightarrow> True | Some c \<Rightarrow> \<not> flt c (Fin 0) \<and> \<not> flt (Fin 1) c)"

definition preferred_payload :: "obj \<Rightarrow> obj option" where
  "preferred_payload raw = (case obj_of (oget raw ''normalized_payload'') of Some p \<Rightarrow> Some p | None \<Rightarrow> obj_of (oget raw ''payload''))"

lemma accepted_normalizes:
  assumes v: "validate_connect (bm_value m) = Inr c" and raw: "decode_obj (bm_value m) = Some raw" "normalizable raw"
  obtains e where "build_event m now = Inr e" "ne_tenant_id e = ce_tenant_id c" "ne_source_id e = ce_source_id c" "ne_app_id e = ''cyberops''"
    "ne_source_domain e = ''security''" "ne_source_adapter e = string_value_of raw ''source_adapter''" "ne_ingestion_mode e = ''push_event''"
    "ne_dataset e = ''cyberops.syslog.raw''" "ne_event_id e = ce_ingress_event_id c" "ne_correlation_id e = ce_ingress_event_id c"
    "ne_idempotency_key e = ce_ingress_event_id c" "ne_occurred_at e = ce_occurred_at c" "ne_effective_time e = ce_occurred_at c"
    "ne_processing_time e = ce_ingested_at c" "ne_observation_time e = ne_observed_at e" "parse_time_of raw ''observed_at'' = Inr (ne_observed_at e)"
    "ne_payload e = preferred_payload raw" "string_value_of (the (obj_of (oget raw ''payload''))) ''message'' = ce_message c"
  using v
proof (cases rule: validate_connect_Inr)
  case (1 raw' con)
  then have r: "raw' = raw" using raw by simp
  from 1(10) show ?thesis
  proof (cases rule: validate_payload_Inr)
    case p: (1 payload occurred observed processing)
    note q = 1 [unfolded r] and p = p [unfolded r]
    have keys: "string_value_of raw ''tenant_id'' \<noteq> []" "string_value_of raw ''source_id'' \<noteq> []" "string_value_of raw ''source_domain'' \<noteq> []"
        "string_value_of raw ''source_adapter'' \<noteq> []" "string_value_of raw ''dataset'' \<noteq> []" "string_value_of raw ''event_id'' \<noteq> []"
        "string_value_of raw ''app_id'' \<noteq> []" "string_value_of raw ''ingestion_mode'' \<noteq> []" "string_value_of raw ''correlation_id'' \<noteq> []"
        "string_value_of raw ''idempotency_key'' \<noteq> []"
      using q(3,4) by (simp_all add: required_keys_def envelope_ok_def)
    have env: "string_value_of raw ''app_id'' = ''cyberops''" "string_value_of raw ''source_domain'' = ''security''"
        "string_value_of raw ''ingestion_mode'' = ''push_event''" "string_value_of raw ''dataset'' = ''cyberops.syslog.raw''"
      using q(4) by (simp_all add: envelope_ok_def)
    have ing: "string_value_of raw k = ce_ingress_event_id c" if "k \<in> {''event_id'', ''correlation_id'', ''idempotency_key''}" for k
      using q(6) that unfolding p(9) by (auto simp: identity_ok_def connect_event_of_def Let_def)
    have t: "event_time raw k fb = Inr x" if "k \<in> set normalizer_times" "parse_time_of raw k = Inr x" for k x fb
      using raw(2) that by (intro event_time_unpadded) (simp_all add: normalizable_def list_all_iff)
    have times: "build_times raw now = Inr (observed, processing, occurred, occurred, observed)"
      using t [OF _ p(3)] t [OF _ p(4)] t [OF _ p(6)] t [OF _ p(7)] t [OF _ p(8)] by (simp add: build_times_def normalizer_times_def)
    define q where "q = (case obj_of (oget raw ''normalized_payload'') of Some p \<Rightarrow> p | None \<Rightarrow> payload)"
    have pq: "(case obj_of (oget raw ''normalized_payload'') of Some p \<Rightarrow> Some p | None \<Rightarrow> obj_of (oget raw ''payload'')) = Some q"
      using p(1) by (simp add: q_def split: option.splits)
    have pay: "normalize_payload raw q = Inr (q, ''identity_v1'')"
      using first_string_value [OF keys(7)] env(1) by (simp add: normalize_payload_def)
    have mode: "ingestion_mode_of (first_string raw ''ingestion_mode'' [''push_event'']) = ''push_event''"
      using first_string_value [OF keys(8)] env(3) trim_visible [of "''push_event''"] by (simp add: ingestion_mode_of_def visible_def code_of_def)
    have am: "am_app_id (app_normalize (first_string raw ''app_id'' []) x y z) = ''cyberops''" for x y z
      using first_string_value [OF keys(7)] env(1) trim_visible [of "''cyberops''"] by (simp add: app_normalize_def visible_def code_of_def)
    have conf: "\<not> (flt (case num_of (oget raw ''confidence'') of None \<Rightarrow> Fin 1 | Some c \<Rightarrow> c) (Fin 0)
        \<or> flt (Fin 1) (case num_of (oget raw ''confidence'') of None \<Rightarrow> Fin 1 | Some c \<Rightarrow> c))"
      using raw(2) by (auto simp: normalizable_def flt_def split: option.splits)
    have dom: "''security'' \<in> set source_domains" "''push_event'' \<in> set ingestion_modes" by (simp_all add: source_domains_def ingestion_modes_def)
    obtain e where e: "norm_event_of m now raw (string_value_of raw ''tenant_id'', string_value_of raw ''source_id'', ''security'',
          string_value_of raw ''source_adapter'', ''cyberops.syslog.raw'', ce_ingress_event_id c) (observed, processing, occurred, occurred, observed) (q, ''identity_v1'') = Inr e"
        "ne_tenant_id e = string_value_of raw ''tenant_id''" "ne_source_id e = string_value_of raw ''source_id''" "ne_app_id e = ''cyberops''" "ne_source_domain e = ''security''"
        "ne_source_adapter e = string_value_of raw ''source_adapter''" "ne_ingestion_mode e = ''push_event''" "ne_dataset e = ''cyberops.syslog.raw''"
        "ne_event_id e = ce_ingress_event_id c" "ne_correlation_id e = ce_ingress_event_id c" "ne_idempotency_key e = ce_ingress_event_id c" "ne_occurred_at e = occurred"
        "ne_effective_time e = occurred" "ne_processing_time e = processing" "ne_observation_time e = observed" "ne_observed_at e = observed" "ne_payload e = Some q"
      using conf dom first_string_value [OF keys(9)] first_string_value [OF keys(10)] ing
      unfolding norm_event_of_def Let_def prod.case mode am by simp
    have b: "build_event m now = Inr e"
      using e(1) keys env ing pq times pay dom by (simp add: build_event_def raw(1) required_value)
    show ?thesis
      by (rule that [OF b]) (use p e env pq in \<open>simp_all add: connect_event_of_def Let_def preferred_payload_def\<close>)
  qed
qed

lemma accepted_fields:
  assumes "validate_connect value = Inr c" "decode_obj value = Some raw"
  shows "parse_time_of raw ''occurred_at'' = Inr (ce_occurred_at c)" "parse_time_of raw ''processing_time'' = Inr (ce_ingested_at c)"
    "obj_of (oget raw ''payload'') \<noteq> None"
proof -
  have "parse_time_of raw ''occurred_at'' = Inr (ce_occurred_at c) \<and> parse_time_of raw ''processing_time'' = Inr (ce_ingested_at c)
      \<and> obj_of (oget raw ''payload'') \<noteq> None"
    using assms(1)
  proof (cases rule: validate_connect_Inr)
    case (1 raw' con)
    then have r: "raw' = raw" using assms(2) by simp
    from 1(10) show ?thesis
      by (cases rule: validate_payload_Inr) (simp_all add: r connect_event_of_def Let_def)
  qed
  then show "parse_time_of raw ''occurred_at'' = Inr (ce_occurred_at c)" "parse_time_of raw ''processing_time'' = Inr (ce_ingested_at c)"
    "obj_of (oget raw ''payload'') \<noteq> None" by blast+
qed

section \<open>From the detector to the signal persister\<close>

definition signal_source_ok :: "norm_event \<Rightarrow> bool" where
  "signal_source_ok e \<longleftrightarrow>
     \<not> has_empty [ne_tenant_id e, ne_source_id e, ne_source_adapter e, ne_dataset e, ne_event_id e, ne_correlation_id e]
     \<and> ne_ingestion_mode e \<in> set ingestion_modes"

lemma first_string_trimmed [simp]: "trim_space (first_string raw k fs) = first_string raw k fs"
  by (simp add: first_string_def Let_def first_non_blank_trimmed)

lemma first_non_blank_found: "\<not> blank x \<Longrightarrow> x \<in> set xs \<Longrightarrow> first_non_blank xs \<noteq> []"
  by (induction xs) auto

lemma required_text_Inr: "required_text raw k = Inr v \<longleftrightarrow> v = trim_space (str_of (oget raw k)) \<and> v \<noteq> []"
  by (auto simp: required_text_def Let_def)

lemma build_event_Inr:
  assumes "build_event m now = Inr e"
  obtains raw domain adapter dataset event_id tenant source ts pay where "decode_obj (bm_value m) = Some raw" "required_text raw ''tenant_id'' = Inr tenant"
    "required_text raw ''source_id'' = Inr source" "required_text raw ''source_adapter'' = Inr adapter" "required_text raw ''dataset'' = Inr dataset"
    "required_text raw ''event_id'' = Inr event_id" "norm_event_of m now raw (tenant, source, domain, adapter, dataset, event_id) ts pay = Inr e"
proof (cases "decode_obj (bm_value m)")
  case None
  then show ?thesis using assms by (simp add: build_event_def)
next
  case (Some raw)
  let ?p = "case obj_of (oget raw ''normalized_payload'') of Some p \<Rightarrow> Some p | None \<Rightarrow> obj_of (oget raw ''payload'')"
  show ?thesis
  proof (cases ?p)
    case None
    then show ?thesis using assms by (simp add: build_event_def Some split: if_splits)
  next
    case p: (Some payload)
    obtain tenant source domain where 1: "required_text raw ''tenant_id'' = Inr tenant" "required_text raw ''source_id'' = Inr source"
      and d: "(if domain \<notin> set source_domains then Inl (Err ''raw event source_domain is unsupported'')
          else bind_res (required_text raw ''source_adapter'') (\<lambda>adapter. bind_res (required_text raw ''dataset'') (\<lambda>dataset.
            bind_res (required_text raw ''event_id'') (\<lambda>event_id. bind_res (build_times raw now) (\<lambda>ts.
              bind_res (normalize_payload raw payload) (norm_event_of m now raw (tenant, source, domain, adapter, dataset, event_id) ts)))))) = Inr e"
      using assms unfolding build_event_def Some p option.case bind_res_Inr by blast
    have "domain \<in> set source_domains" using d by (rule contrapos_pp) simp
    with d obtain adapter dataset event_id ts pay where "required_text raw ''source_adapter'' = Inr adapter" "required_text raw ''dataset'' = Inr dataset"
        "required_text raw ''event_id'' = Inr event_id" "norm_event_of m now raw (tenant, source, domain, adapter, dataset, event_id) ts pay = Inr e"
      by (simp only: if_False not_not simp_thms bind_res_Inr) blast
    then show ?thesis using 1 Some that by blast
  qed
qed

lemma built_source_ok:
  assumes "build_event m now = Inr e"
  shows "signal_source_ok e"
  using assms
proof (cases rule: build_event_Inr)
  case (1 raw domain adapter dataset event_id tenant source ts pay)
  have ids: "\<not> blank tenant" "\<not> blank source" "\<not> blank adapter" "\<not> blank dataset" "\<not> blank event_id" "trim_space event_id = event_id"
    using 1(2-6) by (auto simp: required_text_Inr)
  obtain a b c d f p s where tp: "ts = (a, b, c, d, f)" "pay = (p, s)" by (metis prod.exhaust)
  have "first_string raw ''correlation_id'' [bm_correlation_id m, event_id] \<noteq> []"
    using ids(5) first_non_blank_found [of event_id "[bm_correlation_id m, event_id]"] by (simp add: first_string_def Let_def)
  then show ?thesis
    using 1(7) ids unfolding norm_event_of_def Let_def tp prod.case
    by (simp add: signal_source_ok_def has_empty_def split: if_splits) auto
qed

text \<open>An event read from JSON encodes again.\<close>

lemma marshalable_oget: "marshalable (JObj m) \<Longrightarrow> oget m k = Some j \<Longrightarrow> marshalable j"
  by (auto simp: oget_def list_all_iff dest!: map_of_SomeD)

lemma in_map_filter: "y \<in> set (List.map_filter f xs) \<longleftrightarrow> (\<exists>x \<in> set xs. f x = Some y)"
  by (induction xs) (auto simp: List.map_filter_simps split: option.splits)

lemma obj_of_Some: "obj_of j = Some m \<longleftrightarrow> j = Some (JObj m)"
  by (auto simp: obj_of_def split: option.splits json.splits)

lemma num_of_Some: "num_of j = Some x \<longleftrightarrow> j = Some (JNum x)"
  by (auto simp: num_of_def split: option.splits json.splits)

lemma object_array_marshalable:
  assumes "marshalable (JObj m)" "object_array m k = Some xs"
  shows "\<forall>x \<in> set xs. marshalable (JObj x)"
proof -
  obtain js where "oget m k = Some (JArr js)" "xs = List.map_filter (\<lambda>x. obj_of (Some x)) js"
    using assms(2) by (auto simp: object_array_def split: option.splits json.splits)
  then show ?thesis
    using marshalable_oget [OF assms(1), of k] by (fastforce simp: in_map_filter list_all_iff obj_of_Some)
qed

lemma entity_ref_marshalable:
  assumes "marshalable (JObj h)" "entity_ref h = Some x"
  shows "marshalable (JObj x)"
  using assms marshalable_oget [OF assms(1)]
  by (fastforce simp: entity_ref_def Let_def num_of_Some obj_of_Some split: if_splits option.splits)

lemma entity_refs_marshalable:
  assumes "marshalable (JObj m)"
  shows "\<forall>x \<in> set (entity_refs m). marshalable (JObj x)"
proof (cases "object_array m ''entities''")
  case None
  have "marshalable (JObj x)" if "entity_ref h = Some x" "object_array m ''entity_hints'' = Some hs" "h \<in> set hs" for h hs x
    using that object_array_marshalable [OF assms] entity_ref_marshalable by blast
  then show ?thesis using None by (auto simp only: entity_refs_def in_map_filter option.case split: option.splits) auto
next
  case (Some xs)
  then show ?thesis using object_array_marshalable [OF assms] by (simp only: entity_refs_def option.case)
qed

lemma built_encodes:
  assumes "build_event m now = Inr e" "decode_obj (bm_value m) = Some raw" "marshalable (JObj raw)" "marshalable (json_map (ne_payload e))"
    and "list_all common_year (norm_times e)"
  shows "norm_doc e \<noteq> NoBytes"
  using assms(1)
proof (cases rule: build_event_Inr)
  case (1 raw' domain adapter dataset event_id tenant source ts pay)
  obtain a b c d f p s where tp: "ts = (a, b, c, d, f)" "pay = (p, s)" by (metis prod.exhaust)
  have r: "raw' = raw" using 1(1) assms(2) by simp
  have "\<forall>x \<in> set (case object_array raw ''evidence'' of None \<Rightarrow> default_evidence m event_id | Some xs \<Rightarrow> xs). marshalable (JObj x)"
    using object_array_marshalable [OF assms(3)] by (auto simp: default_evidence_def split: option.splits)
  moreover have "marshalable (JObj (sub_object raw ''metadata''))"
    using marshalable_oget [OF assms(3), of "''metadata''"] by (auto simp: sub_object_def obj_of_Some split: option.splits)
  moreover have "is_fin c" if "num_of (oget raw ''confidence'') = Some c" for c
    using marshalable_oget [OF assms(3)] that by (fastforce simp: num_of_Some)
  moreover have "ne_evidence e = Some (map Some (case object_array raw ''evidence'' of None \<Rightarrow> default_evidence m event_id | Some xs \<Rightarrow> xs))"
      "ne_metadata e = Some (oput ''normalization'' (JObj [(''strategy'', JStr s), (''normalized_at'', JStr (fmt_rfc3339nano now))]) (sub_object raw ''metadata''))"
      "ne_entities e = Some (map Some (entity_refs raw))" "ne_confidence e = (case num_of (oget raw ''confidence'') of None \<Rightarrow> Fin 1 | Some c \<Rightarrow> c)"
    using 1(7) unfolding norm_event_of_def Let_def tp prod.case r by (simp_all split: if_splits) (drule sym, simp)+
  moreover have "marshalable (JObj (oput k (JObj [(a, JStr x), (b, JStr y)]) q))" if "marshalable (JObj q)" for k a b x y q
    using that by (auto simp: oput_def list_all_iff)
  ultimately have "marshalable (json_objs (ne_evidence e))" "marshalable (json_map (ne_metadata e))" "marshalable (json_objs (ne_entities e))"
      "is_fin (ne_confidence e)"
    using entity_refs_marshalable [OF assms(3)]
    by (simp_all add: json_objs_def json_map_def list_all_iff del: marshalable.simps(3) split: option.splits)
  then show ?thesis
    using assms(4,5) by (simp add: norm_doc_def marshal_def norm_obj_def norm_fields_of_def omit_empty_def json_time_def)
qed

text \<open>The texts and the numbers a recommendation holds.\<close>

definition flat_obj :: "obj \<Rightarrow> bool" where
  "flat_obj m \<longleftrightarrow> list_all (\<lambda>(k, v). case v of JStr _ \<Rightarrow> True | JInt i \<Rightarrow> \<bar>i\<bar> \<le> 2 ^ 53 | _ \<Rightarrow> False) m"

lemma flat_marshal:
  assumes "flat_obj m"
  shows "list_all (\<lambda>(k, v). marshalable v) m" "list_all (\<lambda>(k, v). marshalable v) (wire_map m)"
  using assms by (auto simp: flat_obj_def wire_map_def list_all_iff f_of_int_small split: json.splits)

definition shown_signal :: "time \<Rightarrow> norm_event \<Rightarrow> firewall_event \<Rightarrow> string \<Rightarrow> string \<Rightarrow> string \<Rightarrow> obj \<Rightarrow> string \<Rightarrow> string \<Rightarrow> string \<Rightarrow> signal_event" where
  "shown_signal now e fw detector kind severity rec sid title summary =
     (detector_signal now e fw detector kind severity [ne_event_id e] (ne_occurred_at e) (ne_occurred_at e) rec)
       \<lparr>sv_signal_id := sid, sv_insight_title := title, sv_insight_summary := summary\<rparr>"

lemma confidence_9_10: "is_fin (rnd (9 / 10))" "\<not> flt (rnd (9 / 10)) (Fin 0)" "\<not> flt (Fin 1) (rnd (9 / 10))"
  using rnd_between [of 0 1 "9 / 10"] by (auto simp: between_def fle_def flt_def feq_def is_fin_def rep_def split: f64.splits)

lemma shown_signal_encodes:
  assumes "flat_obj rec" "\<bar>fw_destination_port fw\<bar> \<le> 2 ^ 53"
    and "list_all common_year [ne_occurred_at e, ne_observation_time e, ne_effective_time e, now]"
  shows "signal_doc (shown_signal now e fw detector kind severity rec sid title summary) \<noteq> NoBytes"
  using assms flat_marshal(1) [OF assms(1)] flat_marshal(2) [OF assms(1), unfolded wire_map_def] confidence_9_10(1)
  by (simp add: signal_doc_def shown_signal_def detector_signal_def signal_times_def marshal_def signal_obj_def signal_fields_of_def omit_empty_def
      json_strs_def json_objs_def json_map_def json_time_def ip_entity_def raw_json_def)

lemma ingestion_mode_not_blank: "v \<in> set ingestion_modes \<Longrightarrow> \<not> blank v"
  by (auto simp: ingestion_modes_def trim_visible visible_def code_of_def)

lemma shown_signal_checked:
  assumes "signal_source_ok e" "flat_obj rec" "\<not> blank sid" "\<not> blank kind" "\<not> blank detector" "severity \<in> {''info'', ''low''}"
    and "zero_time \<notin> {ne_occurred_at e, ne_observation_time e, ne_effective_time e, now}"
  shows "check_signal (signal_wire (shown_signal now e fw detector kind severity rec sid title summary)) = None"
proof -
  have "\<not> blank ''security''" "\<not> blank ''1.0.0''" "\<not> blank ''deterministic-v1''" by (simp_all add: trim_visible visible_def code_of_def)
  moreover have "\<not> blank (ne_ingestion_mode e)" using assms(1) ingestion_mode_not_blank by (simp add: signal_source_ok_def)
  moreover have "severity \<in> set severities" "''security'' \<in> set source_domains" using assms(6) by (auto simp: severities_def source_domains_def)
  moreover have "marshal (JObj rec) = Doc (JObj (wire_map rec))" using flat_marshal(1) [OF assms(2)] by (simp add: marshal_def wire_map_def)
  ultimately show ?thesis
    using assms confidence_9_10
    by (simp add: check_signal_def signal_wire_def shown_signal_def detector_signal_def required_signal_texts_def has_empty_def nil_list_def
        signal_times_def signal_source_ok_def raw_json_def)
qed

lemma presentation_keys: "to_lower ''title'' = ''title''" "to_lower ''summary'' = ''summary''"
  by code_simp+

lemma shown_signal_recorded:
  assumes "flat_obj rec" "\<bar>fw_destination_port fw\<bar> \<le> 2 ^ 53" "title \<noteq> []" "trim_space title = title" "trim_space summary = summary" "summary \<noteq> []"
    and s: "s = signal_wire (shown_signal now e fw detector kind severity rec sid title summary)" and sev: "severity \<in> {''info'', ''low''}"
  obtains r i where "signal_record s m = Inr r" "lifecycle_records r = ([], [i])" "isr_insight_id i = ''insight:'' @ sid"
    "isr_tenant_id i = ne_tenant_id e" "isr_event_ids i = [ne_event_id e]" "isr_title i = title" "isr_summary i = summary"
    "isr_insight_type i = kind" "isr_severity i = severity" "isr_observed_at i = ne_occurred_at e" "isr_status i = ''active''" "isr_app_id i = ''cyberops''"
proof -
  define pres where "pres = [(''title'', JStr title), (''summary'', JStr summary)]"
  define metrics where "metrics = oput ''signalops_presentation'' (JObj pres) (wire_map rec)"
  have wm: "list_all (\<lambda>(k, v). marshalable v) metrics"
    using flat_marshal(2) [OF assms(1)] by (auto simp: metrics_def oput_def pres_def list_all_iff)
  have mm: "marshal (JObj metrics) = Doc (JObj (wire_map metrics))" using wm by (simp add: marshal_def wire_map_def)
  have wp: "with_presentation (sv_supporting_metrics s) (sv_insight_title s) (sv_insight_summary s) = Some metrics"
    using assms(3-6) by (simp add: s signal_wire_def shown_signal_def detector_signal_def with_presentation_def metrics_def pres_def)
  have m4: "marshal (json_objs (sv_entities s)) \<noteq> NoBytes" "marshal (json_objs (sv_graph_targets s)) \<noteq> NoBytes"
      "marshal (json_objs (sv_semantic_evidence s)) \<noteq> NoBytes" "marshal (json_objs (sv_evidence s)) \<noteq> NoBytes"
    using assms(2) by (simp_all add: s signal_wire_def shown_signal_def detector_signal_def json_objs_def json_map_def marshal_def ip_entity_def
        wire_map_def f_of_int_small)
  obtain r where r: "signal_record s m = Inr r" "sl_signal_id r = sid" "sl_tenant_id r = ne_tenant_id e" "sl_event_ids r = [ne_event_id e]"
      "sl_severity r = severity" "sl_signal_type r = kind" "sl_signal_time r = ne_occurred_at e" "sl_supporting_metrics r = Doc (JObj (wire_map metrics))"
      "sl_app_id r = ''cyberops''"
    using m4 mm trim_visible [of "''cyberops''"]
    by (simp add: signal_record_def Let_def wp json_map_def)
      (simp add: s signal_wire_def shown_signal_def detector_signal_def nil_list_def app_normalize_def visible_def code_of_def)
  have "oget (wire_map metrics) ''signalops_presentation'' = Some (JObj pres)"
    by (simp add: wire_map_def oget_wire metrics_def) (simp add: pres_def)
  moreover have "ofield pres ''title'' = oget pres ''title''" "ofield pres ''summary'' = oget pres ''summary''"
    by (simp_all add: ofield_plain pres_def presentation_keys)
  ultimately have p: "insight_presentation (sl_supporting_metrics r) = (title, summary)"
    by (simp add: insight_presentation_def r(8) obj_of_def) (simp add: pres_def oget_def)
  have "\<not> alert_severity (sl_severity r)" using sev r(5) by (auto simp: alert_severity_def)
  then have "lifecycle_records r = ([], [insight_of r])" by (simp add: lifecycle_records_def)
  then show ?thesis
    by (rule that [OF r(1)]) (use r p assms(3,6) in \<open>simp_all add: insight_of_def Let_def\<close>)
qed

section \<open>Firewall lines\<close>

lemma parse_filterlog_Some:
  assumes "parse_filterlog msg = Some fw"
  shows "fw_action fw \<in> {''pass'', ''allow'', ''block'', ''deny''}" "fw_protocol fw \<in> {''tcp'', ''udp''}"
    "1 \<le> fw_destination_port fw" "fw_destination_port fw \<le> 65535" "parse_addr (fw_source_ip fw) \<noteq> None" "parse_addr (fw_destination_ip fw) \<noteq> None"
proof -
  let ?parts = "split_on (CHR '','') msg"
  obtain a where a: "index_of is_action ?parts = Some a" using assms by (auto simp: parse_filterlog_def Let_def split: option.splits)
  then obtain k where k: "index_of is_protocol (drop (a + 1) ?parts) = Some k"
    using assms by (auto simp: parse_filterlog_def Let_def split: option.splits)
  have "is_protocol (drop (a + 1) ?parts ! k)" "k < length (drop (a + 1) ?parts)" using index_of_Some [OF k] by simp_all
  then have p: "is_protocol (?parts ! (a + 1 + k))" by simp
  have ac: "is_action (?parts ! a)" using index_of_Some [OF a] by simp
  have "length ?parts > a + 1 + k + 5" "\<exists>port. atoi (trim_space (?parts ! (a + 1 + k + 5))) = Some port"
    using assms a k by (auto simp: parse_filterlog_def Let_def split: option.splits if_splits)
  then obtain port where port: "\<not> length ?parts \<le> a + 1 + k + 5" "atoi (trim_space (?parts ! (a + 1 + k + 5))) = Some port" by auto
  have "(if port < 1 \<or> 65535 < port \<or> parse_addr (trim_space (?parts ! (a + 1 + k + 2))) = None \<or> parse_addr (trim_space (?parts ! (a + 1 + k + 3))) = None then None
      else Some \<lparr>fw_action = fold_token (?parts ! a), fw_protocol = fold_token (?parts ! (a + 1 + k)), fw_source_ip = trim_space (?parts ! (a + 1 + k + 2)),
        fw_destination_ip = trim_space (?parts ! (a + 1 + k + 3)), fw_destination_port = port\<rparr>) = Some fw"
    using assms unfolding parse_filterlog_def Let_def a k port(2) option.case using port(1) by (simp only: if_False)
  then have "fw = \<lparr>fw_action = fold_token (?parts ! a), fw_protocol = fold_token (?parts ! (a + 1 + k)), fw_source_ip = trim_space (?parts ! (a + 1 + k + 2)),
        fw_destination_ip = trim_space (?parts ! (a + 1 + k + 3)), fw_destination_port = port\<rparr>" "1 \<le> port" "port \<le> 65535"
      "parse_addr (trim_space (?parts ! (a + 1 + k + 2))) \<noteq> None" "parse_addr (trim_space (?parts ! (a + 1 + k + 3))) \<noteq> None"
    by (simp_all split: if_splits)
  then show "fw_action fw \<in> {''pass'', ''allow'', ''block'', ''deny''}" "fw_protocol fw \<in> {''tcp'', ''udp''}"
    "1 \<le> fw_destination_port fw" "fw_destination_port fw \<le> 65535" "parse_addr (fw_source_ip fw) \<noteq> None" "parse_addr (fw_destination_ip fw) \<noteq> None"
    using p ac by (simp_all only: firewall_event.simps is_action_def is_protocol_def not_less simp_thms)
qed

lemma firewall_message_Some:
  assumes "norm_doc e0 \<noteq> NoBytes" "firewall_message (norm_doc e0) = Some (e, fw)"
  shows "e = norm_wire e0" "\<exists>msg. parse_filterlog msg = Some fw"
  using assms by (auto simp: firewall_message_def decode_norm_doc split: if_splits option.splits)

lemma firewall_message_of:
  assumes "norm_doc e \<noteq> NoBytes" "ne_app_id e = ''cyberops''" "ne_dataset e = ''cyberops.syslog.raw''" "ne_payload e = Some p"
    and "parse_filterlog (string_value_of p ''message'') = Some fw"
  shows "firewall_message (norm_doc e) = Some (norm_wire e, fw)"
proof -
  have "string_value_of (wire_map p) ''message'' = string_value_of p ''message''"
    unfolding string_value_of_def wire_map_def oget_wire str_of_wire ..
  then show ?thesis using assms by (simp add: firewall_message_def decode_norm_doc norm_wire_def)
qed

section \<open>The detector's signals\<close>

lemma last_int_digits: "last (int_digits n) = char_of (48 + n mod 10)" if "0 \<le> n"
  using that by (subst int_digits.simps) (auto simp: mod_pos_pos_trivial)

lemma itoa_last_visible: "0 \<le> n \<Longrightarrow> itoa n \<noteq> [] \<and> visible (last (itoa n))"
proof -
  assume n: "0 \<le> n"
  have "int_digits n \<noteq> []" by (subst int_digits.simps) simp
  moreover have "is_digit (last (int_digits n))" unfolding last_int_digits [OF n] by (rule digit_char) (simp_all add: pos_mod_bound [of 10, simplified])
  ultimately show ?thesis using n by (simp add: itoa_def visible_def is_digit_def)
qed

lemma stable_id_not_blank: "\<not> blank (stable_id ps)"
  by (rule visible_not_blank [of "CHR ''c''"]) (simp_all add: stable_id_def visible_def code_of_def)

text \<open>Every signal of the detector is a shown signal with a flat recommendation and clean texts.\<close>

definition detector_emits :: "time \<Rightarrow> norm_event \<Rightarrow> firewall_event \<Rightarrow> signal_event \<Rightarrow> bool" where
  "detector_emits now e fw s \<longleftrightarrow> s = public_signal now e fw \<or> (\<exists>st p. s = iot_signal now st e fw p)"

lemma detector_emits_shown:
  assumes "detector_emits now e fw s" "1 \<le> fw_destination_port fw" "fw_destination_port fw \<le> 65535"
  obtains detector kind severity rec sid title summary where "s = shown_signal now e fw detector kind severity rec sid title summary"
    "flat_obj rec" "\<not> blank sid" "\<not> blank kind" "\<not> blank detector" "severity \<in> {''info'', ''low''}"
    "title \<noteq> []" "trim_space title = title" "trim_space summary = summary" "summary \<noteq> []"
proof -
  have d: "\<not> blank ''cyberops.firewall.allowed_service_exposure.v1''" "\<not> blank ''cyberops.firewall.new_public_service_exposure''"
      "\<not> blank ''cyberops.firewall.external_deny.v1''" "\<not> blank ''cyberops.firewall.external_deny''" "\<not> blank ''cyberops.iot.behaviour.v1''"
      "\<not> blank ''cyberops.iot.new_service''" "\<not> blank ''cyberops.iot.new_peer''" "trim_space ''New device service'' = ''New device service''"
      "trim_space ''New device communication peer'' = ''New device communication peer''"
    by (simp_all add: trim_visible visible_def code_of_def)
  have it: "itoa (fw_destination_port fw) \<noteq> []" "visible (last (itoa (fw_destination_port fw)))" using itoa_last_visible assms(2) by simp_all
  define ti where "ti = ''New public service exposure: '' @ to_upper (fw_protocol fw) @ ''/'' @ itoa (fw_destination_port fw)"
  define su where "su = ''First observed allowed connection from public source '' @ fw_source_ip fw @ '' to '' @ fw_destination_ip fw @ '':''
        @ itoa (fw_destination_port fw) @ '' over '' @ to_upper (fw_protocol fw) @ ''.''"
  have plain: "detector_signal now e fw detector kind severity [ne_event_id e] (ne_occurred_at e) (ne_occurred_at e) rec
      = shown_signal now e fw detector kind severity rec (stable_id [detector, kind, ne_tenant_id e, ne_event_id e]) ti su" for detector kind severity rec
    by (simp add: shown_signal_def detector_signal_def ti_def su_def)
  have t: "ti \<noteq> []" "trim_space ti = ti" "su \<noteq> []" "trim_space su = su"
  proof -
    show "trim_space ti = ti" by (rule trim_visible) (use it in \<open>simp_all add: ti_def visible_def code_of_def\<close>)
    show "trim_space su = su" by (rule trim_visible) (simp_all add: su_def visible_def code_of_def)
  qed (simp_all add: ti_def su_def)
  have u: "trim_space (''Device '' @ x @ '' after its seven-day learning period.'') = ''Device '' @ x @ '' after its seven-day learning period.''" for x
    by (rule trim_visible) (simp_all add: visible_def code_of_def)
  from assms(1) consider (allowed) "s = public_signal now e fw" "allowed_action fw" | (denied) "s = public_signal now e fw" "\<not> allowed_action fw"
    | (iot) st p where "s = iot_signal now st e fw p" unfolding detector_emits_def by blast
  then show ?thesis
  proof cases
    case allowed
    have "s = shown_signal now e fw ''cyberops.firewall.allowed_service_exposure.v1'' ''cyberops.firewall.new_public_service_exposure'' ''low''
        [(''action'', JStr ''review_public_service_exposure''), (''destination_ip'', JStr (fw_destination_ip fw)), (''protocol'', JStr (fw_protocol fw)),
         (''destination_port'', JInt (fw_destination_port fw)), (''first_observed_at'', JStr (fmt_rfc3339 (ne_occurred_at e)))]
        (stable_id [''cyberops.firewall.allowed_service_exposure.v1'', ''cyberops.firewall.new_public_service_exposure'', ne_tenant_id e, ne_event_id e]) ti su"
      using allowed by (simp add: public_signal_def Let_def plain)
    then show ?thesis by (rule that) (use assms(2,3) t d in \<open>simp_all add: flat_obj_def stable_id_not_blank\<close>)
  next
    case denied
    have "s = shown_signal now e fw ''cyberops.firewall.external_deny.v1'' ''cyberops.firewall.external_deny'' ''info''
        [(''action'', JStr ''retain_external_deny_evidence''), (''destination_ip'', JStr (fw_destination_ip fw)), (''protocol'', JStr (fw_protocol fw)),
         (''destination_port'', JInt (fw_destination_port fw))]
        (stable_id [''cyberops.firewall.external_deny.v1'', ''cyberops.firewall.external_deny'', ne_tenant_id e, ne_event_id e]) ti su"
      using denied by (simp add: public_signal_def Let_def plain)
    then show ?thesis by (rule that) (use assms(2,3) t d in \<open>simp_all add: flat_obj_def stable_id_not_blank\<close>)
  next
    case iot
    define y where "y = dp_device p @ '' established a newly observed '' @ dp_direction p @ '' relationship with '' @ dp_peer p
             @ '' over '' @ to_upper (fw_protocol fw) @ ''/'' @ itoa (fw_destination_port fw)"
    define known where "known = (st (peer_key (ne_tenant_id e) p) \<noteq> None)"
    have "s = shown_signal now e fw ''cyberops.iot.behaviour.v1'' (if known then ''cyberops.iot.new_service'' else ''cyberops.iot.new_peer'') ''low''
        [(''action'', JStr ''review_device_behaviour_change''), (''device_ip'', JStr (dp_device p)), (''peer_ip'', JStr (dp_peer p)),
         (''direction'', JStr (dp_direction p)), (''baseline_days'', JInt 7)]
        (stable_id [''iot'', ne_tenant_id e, dp_device p, dp_peer p, dp_direction p, fw_protocol fw, itoa (fw_destination_port fw)])
        (if known then ''New device service'' else ''New device communication peer'')
        (''Device '' @ y @ '' after its seven-day learning period.'')"
      by (simp add: iot iot_signal_def Let_def shown_signal_def known_def y_def)
    then show ?thesis by (rule that) (use d u in \<open>simp_all add: flat_obj_def stable_id_not_blank\<close>)
  qed
qed

lemma signal_source_ok_wire: "signal_source_ok (norm_wire e) = signal_source_ok e"
  by (simp add: signal_source_ok_def norm_wire_def)

lemma emitted_signal_accepted:
  assumes "detector_emits now e fw s" "1 \<le> fw_destination_port fw" "fw_destination_port fw \<le> 65535" "signal_source_ok e"
    and t: "list_all common_year [ne_occurred_at e, ne_observation_time e, ne_effective_time e, now]"
      "zero_time \<notin> {ne_occurred_at e, ne_observation_time e, ne_effective_time e, now}"
  shows "\<exists>r i. decode_signal_event (signal_doc s) = Inr (signal_wire s) \<and> signal_record (signal_wire s) m = Inr r \<and> lifecycle_records r = ([], [i])
    \<and> isr_insight_id i = ''insight:'' @ sv_signal_id s \<and> isr_tenant_id i = ne_tenant_id e \<and> isr_event_ids i = [ne_event_id e]
    \<and> isr_title i = sv_insight_title s \<and> isr_summary i = sv_insight_summary s \<and> isr_observed_at i = ne_occurred_at e"
  using assms(1-3)
proof (cases rule: detector_emits_shown)
  case (1 detector kind severity rec sid title summary)
  have port: "\<bar>fw_destination_port fw\<bar> \<le> 2 ^ 53" using assms(2,3) by simp
  have "signal_doc s \<noteq> NoBytes" unfolding 1(1) by (rule shown_signal_encodes [OF 1(2) port t(1)])
  moreover have "check_signal (signal_wire s) = None" unfolding 1(1) by (rule shown_signal_checked [OF assms(4) 1(2-6) t(2)])
  ultimately have d: "decode_signal_event (signal_doc s) = Inr (signal_wire s)" by (simp add: decode_signal_event_def decode_signal_doc)
  have f: "sv_signal_id s = sid" "sv_insight_title s = title" "sv_insight_summary s = summary" by (simp_all add: 1(1) shown_signal_def)
  show ?thesis
    using shown_signal_recorded [OF 1(2) port 1(7-10) arg_cong [OF 1(1), of signal_wire] 1(6), of m] d f by metis
qed

end
