(* ===== verification/DetectorLog.thy ===== *)
theory DetectorLog imports CyberDetect begin

text \<open>
  What a detector leaves behind: the messages it published and the states it learned, through
  one rule per operation that threads an arbitrary predicate on both. On top of it: states
  only grow, a known path is silent, the published state records rebuild the learned states in
  whatever order they are read back, and what a detector does depends on no more than that.
\<close>

section \<open>Publishing and learning\<close>

text \<open>The state records the code may publish for an event, and the signals a pair may raise.\<close>

definition learns :: "norm_event \<Rightarrow> firewall_event \<Rightarrow> device_pair \<Rightarrow> states \<Rightarrow> string \<Rightarrow> exposure_state \<Rightarrow> bool" where
  "learns e fw p st key s \<longleftrightarrow>
     key = device_key (ne_tenant_id e) (dp_device p) \<and> st key = None \<and> s = \<lparr>xs_first_observed = ne_occurred_at e, xs_signal_emitted = False\<rparr>
     \<or> key \<in> {peer_key (ne_tenant_id e) p, path_key (ne_tenant_id e) p fw} \<and> s = \<lparr>xs_first_observed = ne_occurred_at e, xs_signal_emitted = True\<rparr>"

definition deviates :: "norm_event \<Rightarrow> firewall_event \<Rightarrow> device_pair \<Rightarrow> states \<Rightarrow> bool" where
  "deviates e fw p st \<longleftrightarrow>
     is_mature st (device_key (ne_tenant_id e) (dp_device p)) (ne_occurred_at e) \<and> st (path_key (ne_tenant_id e) p fw) = None"

lemma persist_state_cases:
  assumes "persist_state dt key s e w st = (r, w', st')"
  obtains (kept) "r = Inr ()" "st' = learn key s st" | (failed) err where "r = Inl err" "st' = st"
  using assms by (auto simp: persist_state_def split: if_splits prod.splits bool.splits)

text \<open>
  One rule for a pair. The device, when it is new, is learned before the decision; a mature
  device was known before, so the decision can be read off the states at the signal.
\<close>

lemma iot_pair_rule:
  assumes run: "iot_pair dt e fw p w st = (r, w', st')" and start: "I w st"
    and persist: "\<And>key s w st r w' st'. I w st \<Longrightarrow> learns e fw p st key s \<Longrightarrow> persist_state dt key s e w st = (r, w', st') \<Longrightarrow> I w' st'"
    and emit: "\<And>w st r w'. I w st \<Longrightarrow> deviates e fw p st \<Longrightarrow> publish_signal dt (iot_signal (dt_clock dt w) st e fw p) w = (r, w') \<Longrightarrow> I w' st"
  shows "I w' st'"
proof -
  let ?d = "device_key (ne_tenant_id e) (dp_device p)" and ?p = "peer_key (ne_tenant_id e) p" and ?x = "path_key (ne_tenant_id e) p fw"
  let ?new = "\<lparr>xs_first_observed = ne_occurred_at e, xs_signal_emitted = False\<rparr>" and ?seen = "\<lparr>xs_first_observed = ne_occurred_at e, xs_signal_emitted = True\<rparr>"
  obtain r1 w1 st1 where 1: "(if st ?d = None then persist_state dt ?d ?new e w st else (Inr (), w, st)) = (r1, w1, st1)" by (metis prod.exhaust)
  have i1: "I w1 st1" using 1 start persist [OF start, of ?d ?new] by (auto simp: learns_def split: if_splits)
  obtain r2 w2 where 2: "(if is_mature st ?d (ne_occurred_at e) \<and> st ?x = None then publish_signal dt (iot_signal (dt_clock dt w1) st e fw p) w1
      else (Inr (), w1)) = (r2, w2)" by (metis prod.exhaust)
  have i2: "I w2 st1"
  proof (cases "deviates e fw p st")
    case True
    then have "st ?d \<noteq> None" by (auto simp: deviates_def is_mature_def split: option.splits)
    then have "st1 = st" using 1 by auto
    then show ?thesis using True 2 emit [OF i1] by (simp add: deviates_def)
  next
    case False
    then show ?thesis using 2 i1 by (auto simp: deviates_def split: if_splits)
  qed
  have lp: "learns e fw p s ?p ?seen" "learns e fw p s ?x ?seen" for s by (simp_all add: learns_def)
  show ?thesis
    using run i1 i2 unfolding iot_pair_def Let_def 1 prod.case 2
    by (auto split: sum.splits prod.splits dest: persist [OF _ lp(1)] persist [OF _ lp(2)])
qed

lemma iot_pairs_rule:
  assumes "iot_pairs dt e fw ps w st = (r, w', st')" "I w st"
    and "\<And>p key s w st r w' st'. p \<in> set ps \<Longrightarrow> I w st \<Longrightarrow> learns e fw p st key s \<Longrightarrow> persist_state dt key s e w st = (r, w', st') \<Longrightarrow> I w' st'"
    and "\<And>p w st r w'. p \<in> set ps \<Longrightarrow> I w st \<Longrightarrow> deviates e fw p st \<Longrightarrow> publish_signal dt (iot_signal (dt_clock dt w) st e fw p) w = (r, w') \<Longrightarrow> I w' st"
  shows "I w' st'"
  using assms
proof (induction ps arbitrary: w st)
  case (Cons p ps)
  obtain r1 w1 st1 where 1: "iot_pair dt e fw p w st = (r1, w1, st1)" by (metis prod.exhaust)
  have i: "I w1 st1"
    by (rule iot_pair_rule [where I = I, OF 1 Cons.prems(2)]) (rule Cons.prems(3) [OF list.set_intros(1)] Cons.prems(4) [OF list.set_intros(1)], assumption+)+
  show ?case
  proof (cases r1)
    case (Inl err)
    then show ?thesis using Cons.prems(1) i by (simp add: 1)
  next
    case (Inr u)
    show ?thesis
      by (rule Cons.IH [where st = st1 and w = w1, OF _ i])
        (use Cons.prems(1) in \<open>simp add: 1 Inr\<close>, (rule Cons.prems(3) [OF list.set_intros(2)] Cons.prems(4) [OF list.set_intros(2)], assumption+)+)
  qed
qed simp

text \<open>The pairs of an event: a device inside one of the networks of the tenant and its peer.\<close>

definition observed_pair :: "'w detector \<Rightarrow> norm_event \<Rightarrow> firewall_event \<Rightarrow> device_pair \<Rightarrow> bool" where
  "observed_pair dt e fw p \<longleftrightarrow>
     (\<exists>cidrs w cs nets. dt_cidrs dt = Some cidrs \<and> cidrs w (ne_tenant_id e) = Inr cs \<and> parse_networks cs = Some nets \<and> p \<in> set (device_pairs nets fw))"

lemma detect_rule:
  assumes run: "detect dt d w st = (r, w', st')" and start: "I w st"
    and persist: "\<And>e fw p key s w st r w' st'. firewall_message d = Some (e, fw) \<Longrightarrow> observed_pair dt e fw p \<Longrightarrow> I w st \<Longrightarrow> learns e fw p st key s
      \<Longrightarrow> persist_state dt key s e w st = (r, w', st') \<Longrightarrow> I w' st'"
    and emit: "\<And>e fw p w st r w'. firewall_message d = Some (e, fw) \<Longrightarrow> observed_pair dt e fw p \<Longrightarrow> I w st \<Longrightarrow> deviates e fw p st
      \<Longrightarrow> publish_signal dt (iot_signal (dt_clock dt w) st e fw p) w = (r, w') \<Longrightarrow> I w' st"
    and public: "\<And>e fw w st r w'. firewall_message d = Some (e, fw) \<Longrightarrow> is_public_routable (fw_source_ip fw) \<Longrightarrow> I w st
      \<Longrightarrow> publish_signal dt (public_signal (dt_clock dt w) e fw) w = (r, w') \<Longrightarrow> I w' st"
  shows "I w' st'"
proof (cases "firewall_message d")
  case None
  then show ?thesis using run start by (simp add: detect_def)
next
  case (Some a)
  obtain e fw where a: "firewall_message d = Some (e, fw)" using Some by (metis prod.exhaust)
  obtain r1 w1 st1 where 1: "(case dt_cidrs dt of None \<Rightarrow> (Inr (), w, st) | Some cidrs \<Rightarrow> process_iot dt cidrs e fw w st) = (r1, w1, st1)"
    by (metis prod.exhaust)
  have i: "I w1 st1"
  proof (cases "dt_cidrs dt")
    case None
    then show ?thesis using 1 start by simp
  next
    case (Some cidrs)
    then have q: "process_iot dt cidrs e fw w st = (r1, w1, st1)" using 1 by simp
    show ?thesis
    proof (cases "\<exists>cs nets. cidrs w (ne_tenant_id e) = Inr cs \<and> cs \<noteq> [] \<and> parse_networks cs = Some nets")
      case False
      then show ?thesis using q start by (auto simp: process_iot_def split: sum.splits if_splits option.splits)
    next
      case True
      then obtain cs nets where c: "cidrs w (ne_tenant_id e) = Inr cs" "cs \<noteq> []" "parse_networks cs = Some nets" by blast
      then have "iot_pairs dt e fw (device_pairs nets fw) w st = (r1, w1, st1)" using q by (simp add: process_iot_def)
      then show ?thesis
      proof (rule iot_pairs_rule [where I = I, OF _ start])
        fix p
        assume "p \<in> set (device_pairs nets fw)"
        then have o: "observed_pair dt e fw p" using c Some unfolding observed_pair_def by blast
        show "I w' st'" if "I w st" "learns e fw p st key s" "persist_state dt key s e w st = (r, w', st')" for key s w st r w' st'
          by (rule persist [OF a o that])
        show "I w' st" if "I w st" "deviates e fw p st" "publish_signal dt (iot_signal (dt_clock dt w) st e fw p) w = (r, w')" for w st r w'
          by (rule emit [OF a o that])
      qed
    qed
  qed
  show ?thesis
    using run i public [OF a _ i] by (auto simp: detect_def a 1 split: sum.splits if_splits prod.splits)
qed

text \<open>The same for the loop of the command, one message at a time.\<close>

lemma detector_run_rule:
  assumes "detector_run pc dt ms w st = (ok, w', st')" "I w st"
    and "\<And>m s w st. m \<in> set ms \<Longrightarrow> bm_topic m = dt_state_topic dt \<Longrightarrow> decode_state (bm_value m) = Some s \<Longrightarrow> I w st
      \<Longrightarrow> I w (restore_state (bm_key m) s st)"
    and "\<And>m w st r w' st'. m \<in> set ms \<Longrightarrow> bm_topic m \<noteq> dt_state_topic dt \<Longrightarrow> detect dt (bm_value m) w st = (r, w', st') \<Longrightarrow> I w st \<Longrightarrow> I w' st'"
    and "\<And>m w st. I w st \<Longrightarrow> I (snd (pc_commit pc w m)) st" "\<And>w st. I w st \<Longrightarrow> I (pc_wait pc w) st"
  shows "I w' st'"
  using assms(1-4)
proof (induction ms arbitrary: w st)
  case (Cons m ms)
  obtain ok1 w1 st1 where 1: "detector_step pc dt m w st = (ok1, w1, st1)" by (metis prod.exhaust)
  have i: "I w1 st1"
  proof (cases "bm_topic m = dt_state_topic dt")
    case True
    show ?thesis
    proof (cases "decode_state (bm_value m)")
      case None
      then show ?thesis using 1 Cons.prems(2) by (simp add: detector_step_def True restore_def)
    next
      case (Some s)
      then show ?thesis
        using 1 assms(5) [OF Cons.prems(3) [OF list.set_intros(1) True Some Cons.prems(2)], of m]
        by (auto simp: detector_step_def True restore_def split: prod.splits)
    qed
  next
    case False
    obtain r w2 st2 where 2: "detect dt (bm_value m) w st = (r, w2, st2)" by (metis prod.exhaust)
    show ?thesis
      using 1 Cons.prems(4) [OF list.set_intros(1) False 2 Cons.prems(2)] assms(5) [of w2 st2 m] assms(6) [of w2 st2]
      by (auto simp: detector_step_def False 2 split: sum.splits prod.splits)
  qed
  show ?case
  proof (cases ok1)
    case False
    then show ?thesis using Cons.prems(1) i by (simp add: 1)
  next
    case True
    then show ?thesis
      using Cons.prems(1) Cons.prems(3) [OF list.set_intros(2)] Cons.prems(4) [OF list.set_intros(2)] by (intro Cons.IH [OF _ i]) (simp_all add: 1)
  qed
qed simp

section \<open>The log\<close>

text \<open>\<open>lg\<close> reads off the world what was published, in order.\<close>

definition keeps_log :: "'w detector \<Rightarrow> ('w \<Rightarrow> broker_message list) \<Rightarrow> bool" where
  "keeps_log dt lg \<longleftrightarrow> (\<forall>w x. lg (snd (dt_pub dt w x)) = (if fst (dt_pub dt w x) then lg w @ [x] else lg w))"

definition signal_message :: "'w detector \<Rightarrow> signal_event \<Rightarrow> 'w \<Rightarrow> broker_message" where
  "signal_message dt s w =
     \<lparr>bm_topic = dt_signal_topic dt, bm_key = sv_signal_id s, bm_value = signal_doc s, bm_headers = [],
      bm_correlation_id = sv_correlation_id s, bm_causation_id = sv_causation_id s, bm_trace_id = sv_trace_id s, bm_published_at = dt_clock dt w\<rparr>"

definition state_message :: "'w detector \<Rightarrow> string \<Rightarrow> exposure_state \<Rightarrow> norm_event \<Rightarrow> 'w \<Rightarrow> broker_message" where
  "state_message dt key s e w =
     \<lparr>bm_topic = dt_state_topic dt, bm_key = key, bm_value = state_doc s, bm_headers = [],
      bm_correlation_id = ne_correlation_id e, bm_causation_id = ne_event_id e, bm_trace_id = ne_trace_id e, bm_published_at = dt_clock dt w\<rparr>"

lemma keeps_logD: "keeps_log dt lg \<Longrightarrow> dt_pub dt w x = (ok, w') \<Longrightarrow> lg w' = (if ok then lg w @ [x] else lg w)"
  unfolding keeps_log_def by (metis fst_conv snd_conv)

lemma publish_signal_log:
  assumes "keeps_log dt lg" "publish_signal dt s w = (r, w')"
  obtains (sent) "r = Inr ()" "signal_doc s \<noteq> NoBytes" "lg w' = lg w @ [signal_message dt s w]" | (failed) err where "r = Inl err" "lg w' = lg w"
proof (cases "signal_doc s = NoBytes")
  case True
  then show ?thesis using assms(2) by (intro failed) (auto simp: publish_signal_def)
next
  case False
  obtain ok w1 where 1: "dt_pub dt w (signal_message dt s w) = (ok, w1)" by (metis prod.exhaust)
  then show ?thesis
    using assms(2) keeps_logD [OF assms(1) 1] sent failed False by (cases ok) (auto simp: publish_signal_def signal_message_def)
qed

lemma persist_state_log:
  assumes "keeps_log dt lg" "persist_state dt key s e w st = (r, w', st')"
  obtains (kept) "r = Inr ()" "st' = learn key s st" "lg w' = lg w @ (if dt_state_topic dt = [] then [] else [state_message dt key s e w])"
    | (failed) err where "r = Inl err" "st' = st" "lg w' = lg w"
proof (cases "dt_state_topic dt = []")
  case True
  then show ?thesis using assms(2) kept by (simp add: persist_state_def)
next
  case False
  obtain ok w1 where 1: "dt_pub dt w (state_message dt key s e w) = (ok, w1)" by (metis prod.exhaust)
  then show ?thesis
    using assms(2) keeps_logD [OF assms(1) 1] kept failed False by (cases ok) (auto simp: persist_state_def state_message_def)
qed

section \<open>Reading states back\<close>

text \<open>Updates that commute may be applied in any order.\<close>

locale commuting_updates =
  fixes upd :: "'a \<Rightarrow> 's \<Rightarrow> 's"
  assumes commute: "upd a (upd b s) = upd b (upd a s)"
begin

lemma fold_move: "fold upd xs (upd a s) = upd a (fold upd xs s)"
  by (induction xs arbitrary: s) (simp_all add: commute [of _ a])

lemma fold_mset: "mset xs = mset ys \<Longrightarrow> fold upd xs s = fold upd ys s"
proof (induction xs arbitrary: ys s)
  case (Cons x xs)
  then have "x \<in> set ys" by (metis list.set_intros(1) set_mset_mset)
  then obtain us vs where ys: "ys = us @ x # vs" by (metis split_list)
  moreover have "mset xs = mset (us @ vs)" using Cons.prems by (simp add: ys)
  ultimately have "fold upd xs (upd x s) = fold upd (us @ vs) (upd x s)" using Cons.IH by blast
  then show ?case by (simp add: ys fold_move)
qed simp

end

text \<open>A record of the state topic is its key and its value.\<close>

definition restore_record :: "string \<times> doc \<Rightarrow> states \<Rightarrow> states" where
  "restore_record x st = snd (restore (fst x) (snd x) st)"

lemma restore_record_undecoded: "decode_state (snd x) = None \<Longrightarrow> restore_record x st = st"
  by (simp add: restore_record_def restore_def)

lemma restore_record_decoded: "decode_state (snd x) = Some s \<Longrightarrow> restore_record x st = restore_state (fst x) s st"
  by (simp add: restore_record_def restore_def)

lemma restore_state_lookup:
  "restore_state key s st k = (if k = key then (case st key of None \<Rightarrow> Some s | Some old \<Rightarrow> Some (if supersedes s old then s else old)) else st k)"
  by (simp add: restore_state_def split: option.splits)

lemma supersedes_total: "supersedes a b \<or> supersedes b a \<or> a = b"
proof -
  have "a = b" if "xs_first_observed a = xs_first_observed b" "xs_signal_emitted a = xs_signal_emitted b"
    using that by simp
  then show ?thesis unfolding supersedes_def by linarith
qed

lemma supersedes_asym: "supersedes a b \<Longrightarrow> \<not> supersedes b a"
  by (auto simp: supersedes_def)

lemma supersedes_trans: "supersedes a b \<Longrightarrow> supersedes b c \<Longrightarrow> supersedes a c"
  by (auto simp: supersedes_def)

definition older :: "exposure_state \<Rightarrow> exposure_state \<Rightarrow> exposure_state" where
  "older s old = (if supersedes s old then s else old)"

lemma older_swap: "older a b = older b a"
  using supersedes_total [of a b] supersedes_asym [of a b] by (auto simp: older_def)

lemma older_left: "older a (older b c) = older b (older a c)"
  using supersedes_total [of a b] supersedes_total [of a c] supersedes_total [of b c]
  by (auto simp: older_def dest: supersedes_asym supersedes_trans)

lemma restore_state_commute: "restore_state k a (restore_state j b st) = restore_state j b (restore_state k a st)"
proof (rule ext)
  fix i
  show "restore_state k a (restore_state j b st) i = restore_state j b (restore_state k a st) i"
    by (cases "st i") (auto simp: restore_state_lookup older_def [symmetric] older_swap older_left)
qed

interpretation restoring: commuting_updates restore_record
proof
  fix x y :: "string \<times> doc" and st :: states
  show "restore_record x (restore_record y st) = restore_record y (restore_record x st)"
    by (cases "decode_state (snd x)"; cases "decode_state (snd y)")
      (simp_all add: restore_record_undecoded restore_record_decoded restore_state_commute)
qed

lemma restored_known: "fold restore_record xs st k = None \<longleftrightarrow> st k = None \<and> (\<forall>x \<in> set xs. fst x = k \<longrightarrow> decode_state (snd x) = None)"
proof (induction xs arbitrary: st)
  case (Cons x xs)
  then show ?case
    by (cases "decode_state (snd x)") (auto simp: restore_record_undecoded restore_record_decoded restore_state_lookup split: option.splits)
qed simp

lemma restored_from: "fold restore_record xs st k = Some s \<Longrightarrow> st k = Some s \<or> (\<exists>x \<in> set xs. fst x = k \<and> decode_state (snd x) = Some s)"
proof (induction xs arbitrary: st)
  case (Cons x xs)
  then show ?case
    by (cases "decode_state (snd x)") (fastforce simp: restore_record_undecoded restore_record_decoded restore_state_lookup split: option.splits if_splits)+
qed simp

lemma decode_state_doc:
  assumes "common_year (xs_first_observed s)"
  shows "decode_state (state_doc s) = Some s"
proof -
  have l: "to_lower ''first_observed'' = ''first_observed''" "to_lower ''signal_emitted'' = ''signal_emitted''" by code_simp+
  have f: "ofield [(''first_observed'', a), (''signal_emitted'', b)] ''first_observed'' = Some a"
      "ofield [(''first_observed'', a), (''signal_emitted'', b)] ''signal_emitted'' = Some b" for a b
    by (simp_all add: ofield_plain l oget_def)
  show ?thesis
    using assms by (simp add: state_doc_def marshal_def decode_state_def wire_map_def json_time_def f dec_bool_def dec_time_def parse_ts_fmt)
qed

section \<open>What the states decide\<close>

text \<open>
  A detector asks of a peer or a path only whether it is known, and of a device also since
  when. States that agree on that are interchangeable.
\<close>

definition device_id :: "string \<Rightarrow> bool" where
  "device_id k \<longleftrightarrow> take 11 k = ''iot:device:''"

definition agree :: "states \<Rightarrow> states \<Rightarrow> bool" where
  "agree st su \<longleftrightarrow> (\<forall>k. (st k = None) = (su k = None) \<and> (device_id k \<longrightarrow> st k = su k))"

definition same_outcome :: "'r \<times> 'w \<times> states \<Rightarrow> 'r \<times> 'w \<times> states \<Rightarrow> bool" where
  "same_outcome x y \<longleftrightarrow> fst x = fst y \<and> fst (snd x) = fst (snd y) \<and> agree (snd (snd x)) (snd (snd y))"

lemma agree_refl [simp]: "agree st st"
  by (simp add: agree_def)

lemma device_id_device [simp]: "device_id (device_key t d)"
  by (simp add: device_id_def device_key_def)

lemma device_id_peer [simp]: "\<not> device_id (peer_key t p)" "\<not> device_id (path_key t p fw)"
  by (simp_all add: device_id_def peer_key_def path_key_def)

lemma agree_known: "agree st su \<Longrightarrow> (st k = None) = (su k = None)"
  by (simp add: agree_def)

lemma agree_device: "agree st su \<Longrightarrow> st (device_key t d) = su (device_key t d)"
  by (simp add: agree_def)

lemma same_outcome_states: "agree st su \<Longrightarrow> same_outcome (r, w, st) (r, w, su)"
  by (simp add: same_outcome_def)

lemma agree_learn: "agree st su \<Longrightarrow> agree (learn k s st) (learn k s su)"
  by (auto simp: agree_def learn_def)

lemma agree_restore: "agree st su \<Longrightarrow> agree (restore_state k s st) (restore_state k s su)"
  by (auto simp: agree_def restore_state_lookup split: option.splits)

lemma agree_mature: "agree st su \<Longrightarrow> is_mature st (device_key t d) x = is_mature su (device_key t d) x"
  by (simp add: is_mature_def agree_device)

lemma agree_signal: "agree st su \<Longrightarrow> iot_signal now st e fw p = iot_signal now su e fw p"
  unfolding iot_signal_def by (simp only: agree_known)

lemma persist_agree: "agree st su \<Longrightarrow> same_outcome (persist_state dt k s e w st) (persist_state dt k s e w su)"
  by (auto simp: persist_state_def same_outcome_def agree_learn split: prod.splits bool.splits)

lemma same_outcomeE:
  assumes "same_outcome x y"
  obtains r w st su where "x = (r, w, st)" "y = (r, w, su)" "agree st su"
  using assms by (cases x; cases y) (auto simp: same_outcome_def)

lemma iot_pair_agree:
  assumes "agree st su"
  shows "same_outcome (iot_pair dt e fw p w st) (iot_pair dt e fw p w su)"
proof -
  let ?d = "device_key (ne_tenant_id e) (dp_device p)" and ?x = "path_key (ne_tenant_id e) p fw"
  let ?new = "\<lparr>xs_first_observed = ne_occurred_at e, xs_signal_emitted = False\<rparr>" and ?seen = "\<lparr>xs_first_observed = ne_occurred_at e, xs_signal_emitted = True\<rparr>"
  have "same_outcome (if st ?d = None then persist_state dt ?d ?new e w st else (Inr (), w, st))
      (if su ?d = None then persist_state dt ?d ?new e w su else (Inr (), w, su))"
    unfolding agree_known [OF assms, of ?d] by (cases "su ?d = None") (auto intro: persist_agree [OF assms] same_outcome_states [OF assms])
  then obtain r1 w1 st1 su1 where 1: "(if st ?d = None then persist_state dt ?d ?new e w st else (Inr (), w, st)) = (r1, w1, st1)"
      "(if su ?d = None then persist_state dt ?d ?new e w su else (Inr (), w, su)) = (r1, w1, su1)" and a1: "agree st1 su1"
    by (rule same_outcomeE)
  obtain r2 w2 where 2: "(if is_mature st ?d (ne_occurred_at e) \<and> st ?x = None then publish_signal dt (iot_signal (dt_clock dt w1) st e fw p) w1
      else (Inr (), w1)) = (r2, w2)" by (metis prod.exhaust)
  have 3: "(if is_mature su ?d (ne_occurred_at e) \<and> su ?x = None then publish_signal dt (iot_signal (dt_clock dt w1) su e fw p) w1
      else (Inr (), w1)) = (r2, w2)"
    using 2 by (simp only: agree_mature [OF assms] agree_known [OF assms] agree_signal [OF assms])
  obtain r3 w3 st3 su3 where 4: "persist_state dt (peer_key (ne_tenant_id e) p) ?seen e w2 st1 = (r3, w3, st3)"
      "persist_state dt (peer_key (ne_tenant_id e) p) ?seen e w2 su1 = (r3, w3, su3)" and a3: "agree st3 su3"
    using persist_agree [OF a1] by (rule same_outcomeE)
  show ?thesis
    unfolding iot_pair_def Let_def 1 prod.case 2 3 4
    by (auto intro: persist_agree [OF a3] same_outcome_states [OF a1] same_outcome_states [OF a3] split: sum.splits)
qed

lemma iot_pairs_agree: "agree st su \<Longrightarrow> same_outcome (iot_pairs dt e fw ps w st) (iot_pairs dt e fw ps w su)"
proof (induction ps arbitrary: w st su)
  case (Cons p ps)
  obtain r w1 st1 su1 where "iot_pair dt e fw p w st = (r, w1, st1)" "iot_pair dt e fw p w su = (r, w1, su1)" "agree st1 su1"
    using iot_pair_agree [OF Cons.prems] by (rule same_outcomeE)
  then show ?case using Cons.IH by (auto simp: same_outcome_def split: sum.splits)
qed (simp add: same_outcome_def)

lemma detect_agree:
  assumes "agree st su"
  shows "same_outcome (detect dt d w st) (detect dt d w su)"
proof (cases "firewall_message d")
  case None
  then show ?thesis using assms by (simp add: detect_def same_outcome_def)
next
  case (Some a)
  obtain e fw where a: "firewall_message d = Some (e, fw)" using Some by (metis prod.exhaust)
  have "same_outcome (case dt_cidrs dt of None \<Rightarrow> (Inr (), w, st) | Some cidrs \<Rightarrow> process_iot dt cidrs e fw w st)
      (case dt_cidrs dt of None \<Rightarrow> (Inr (), w, su) | Some cidrs \<Rightarrow> process_iot dt cidrs e fw w su)"
    by (auto simp: process_iot_def intro: iot_pairs_agree [OF assms] same_outcome_states [OF assms] split: option.splits sum.splits)
  then obtain r w1 st1 su1 where
      "(case dt_cidrs dt of None \<Rightarrow> (Inr (), w, st) | Some cidrs \<Rightarrow> process_iot dt cidrs e fw w st) = (r, w1, st1)"
      "(case dt_cidrs dt of None \<Rightarrow> (Inr (), w, su) | Some cidrs \<Rightarrow> process_iot dt cidrs e fw w su) = (r, w1, su1)" "agree st1 su1"
    by (rule same_outcomeE)
  then show ?thesis by (simp add: detect_def a same_outcome_def split: sum.splits prod.splits)
qed

lemma detector_run_agree: "agree st su \<Longrightarrow> same_outcome (detector_run pc dt ms w st) (detector_run pc dt ms w su)"
proof (induction ms arbitrary: w st su)
  case (Cons m ms)
  have "same_outcome (detector_step pc dt m w st) (detector_step pc dt m w su)"
  proof (cases "bm_topic m = dt_state_topic dt")
    case True
    then show ?thesis
      using Cons.prems agree_restore [OF Cons.prems] by (simp add: detector_step_def restore_def same_outcome_def split: option.splits prod.splits)
  next
    case False
    obtain r w1 st1 su1 where "detect dt (bm_value m) w st = (r, w1, st1)" "detect dt (bm_value m) w su = (r, w1, su1)" "agree st1 su1"
      using detect_agree [OF Cons.prems] by (rule same_outcomeE)
    then show ?thesis using False by (simp add: detector_step_def same_outcome_def split: sum.splits prod.splits)
  qed
  then obtain ok w1 st1 su1 where "detector_step pc dt m w st = (ok, w1, st1)" "detector_step pc dt m w su = (ok, w1, su1)" "agree st1 su1"
    by (rule same_outcomeE)
  then show ?case using Cons.IH by (auto simp: same_outcome_def split: bool.splits)
qed (simp add: same_outcome_def)

end
