(* ===== verification/PipelineProps.thy ===== *)
theory PipelineProps imports CyberPipeline DetectorLog begin

text \<open>
  The properties of the CyberOps pipeline as a whole: an accepted event reaches the analyst,
  unless a second payload takes its place, and what the detector signals the persister takes.
  At the end the sample detector, event and log line the witnesses run on.
\<close>

section \<open>From the firewall to the analyst\<close>

lemma built_signal_accepted:
  assumes "build_event m0 t0 = Inr e0" "norm_doc e0 \<noteq> NoBytes" "firewall_message (norm_doc e0) = Some (e, fw)" "detector_emits now e fw s"
    and "common_year now" "zero_time \<notin> {ne_occurred_at e0, ne_observation_time e0, ne_effective_time e0, now}"
  shows "\<exists>r i. decode_signal_event (signal_doc s) = Inr (signal_wire s) \<and> signal_record (signal_wire s) m = Inr r \<and> lifecycle_records r = ([], [i])
    \<and> isr_insight_id i = ''insight:'' @ sv_signal_id s \<and> isr_tenant_id i = ne_tenant_id e0 \<and> isr_event_ids i = [ne_event_id e0]
    \<and> isr_title i = sv_insight_title s \<and> isr_summary i = sv_insight_summary s \<and> isr_observed_at i = ne_occurred_at e0"
proof -
  obtain msg where e: "e = norm_wire e0" and p: "parse_filterlog msg = Some fw" using firewall_message_Some [OF assms(2,3)] by blast
  have w: "ne_tenant_id e = ne_tenant_id e0" "ne_event_id e = ne_event_id e0" "ne_occurred_at e = ne_occurred_at e0"
      "ne_observation_time e = ne_observation_time e0" "ne_effective_time e = ne_effective_time e0"
    by (simp_all add: e norm_wire_def)
  have "list_all common_year (norm_times e0)" using assms(2) by (auto simp: norm_doc_def split: if_splits)
  then have "list_all common_year [ne_occurred_at e, ne_observation_time e, ne_effective_time e, now]"
    using assms(5) by (simp add: norm_times_def w)
  moreover have "signal_source_ok e" using built_source_ok [OF assms(1)] by (simp add: e signal_source_ok_wire)
  ultimately show ?thesis
    using emitted_signal_accepted [OF assms(4) parse_filterlog_Some(3,4) [OF p], of m] assms(6) by (simp only: w) blast
qed

lemma accepted_event_reaches_detector:
  assumes c: "validate_connect (bm_value m) = Inr c" "decode_obj (bm_value m) = Some raw" "normalizable raw" "marshalable (JObj raw)"
    and f: "preferred_payload raw = Some p" "parse_filterlog (string_value_of p ''message'') = Some fw"
    and t: "\<forall>k \<in> set normalizer_times. \<exists>x. parse_time_of raw k = Inr x \<and> common_year x \<and> x \<noteq> zero_time"
  obtains e where "build_event m now = Inr e" "norm_doc e \<noteq> NoBytes" "firewall_message (norm_doc e) = Some (norm_wire e, fw)"
    "zero_time \<notin> {ne_occurred_at e, ne_observation_time e, ne_effective_time e}" "ne_tenant_id e = ce_tenant_id c"
    "ne_event_id e = ce_ingress_event_id c" "ne_occurred_at e = ce_occurred_at c"
proof -
  obtain e where b: "build_event m now = Inr e" "ne_tenant_id e = ce_tenant_id c" "ne_app_id e = ''cyberops''" "ne_dataset e = ''cyberops.syslog.raw''"
      "ne_event_id e = ce_ingress_event_id c" "ne_occurred_at e = ce_occurred_at c" "ne_effective_time e = ce_occurred_at c"
      "ne_processing_time e = ce_ingested_at c" "ne_observation_time e = ne_observed_at e" "parse_time_of raw ''observed_at'' = Inr (ne_observed_at e)"
      "ne_payload e = preferred_payload raw"
    by (rule accepted_normalizes [OF c(1-3)])
  have ct: "parse_time_of raw ''occurred_at'' = Inr (ce_occurred_at c)" "parse_time_of raw ''processing_time'' = Inr (ce_ingested_at c)"
    using accepted_fields [OF c(1,2)] by blast+
  have times: "list_all common_year (norm_times e)" "zero_time \<notin> {ne_occurred_at e, ne_observation_time e, ne_effective_time e}"
    using t b(6-10) ct by (auto simp: normalizer_times_def norm_times_def)
  have p: "ne_payload e = Some p" using b(11) f(1) by simp
  have "marshalable (JObj p)"
    using f(1) marshalable_oget [OF c(4), of "''payload''"] marshalable_oget [OF c(4), of "''normalized_payload''"]
    by (auto simp: preferred_payload_def obj_of_Some split: option.splits)
  then have n: "norm_doc e \<noteq> NoBytes" using built_encodes [OF b(1) c(2,4) _ times(1)] by (simp add: p json_map_def)
  have fm: "firewall_message (norm_doc e) = Some (norm_wire e, fw)" by (rule firewall_message_of [OF n b(3,4) p f(2)])
  show ?thesis by (rule that [OF b(1) n fm times(2) b(2,5,6)])
qed

lemma accepted_message:
  fixes m :: consumed_message
  assumes c: "validate_connect (bm_value m) = Inr c" "decode_obj (bm_value m) = Some raw" "normalizable raw"
    and "obj_of (oget raw ''normalized_payload'') = None"
  obtains p where "preferred_payload raw = Some p" "string_value_of p ''message'' = ce_message c"
proof -
  have "string_value_of (the (obj_of (oget raw ''payload''))) ''message'' = ce_message c" by (rule accepted_normalizes [OF c]) blast
  moreover have "obj_of (oget raw ''payload'') \<noteq> None" using accepted_fields [OF c(1,2)] by blast
  ultimately show ?thesis using assms(4) by (intro that [of "the (obj_of (oget raw ''payload''))"]) (auto simp: preferred_payload_def)
qed



text \<open>An event with a second payload beside the one the intake reads.\<close>

definition with_second :: "obj \<Rightarrow> json \<Rightarrow> obj" where
  "with_second m v = m @ [(''normalized_payload'', v)]"

lemma oget_second: "k \<noteq> ''normalized_payload'' \<Longrightarrow> oget (with_second m v) k = oget m k"
  by (simp add: oget_def with_second_def map_add_def split: option.splits)

lemma text_second: "k \<noteq> ''normalized_payload'' \<Longrightarrow> string_value_of (with_second m v) k = string_value_of m k"
  by (simp add: string_value_of_def oget_second)

lemma time_second: "k \<noteq> ''normalized_payload'' \<Longrightarrow> parse_time_of (with_second m v) k = parse_time_of m k"
  by (simp add: parse_time_of_def text_second)

lemma parts_second: "envelope_ok (with_second m v) = envelope_ok m" "identity_ok (with_second m v) con = identity_ok m con"
    "sub_object (with_second m v) ''metadata'' = sub_object m ''metadata''"
    "string_value_of (with_second m v) ''source_adapter'' = string_value_of m ''source_adapter''"
    "first_match (\<lambda>k. string_value_of (with_second m v) k = []) required_keys = first_match (\<lambda>k. string_value_of m k = []) required_keys"
    "oget (with_second m v) ''payload'' = oget m ''payload''" "connect_event_of d (with_second m v) con p o1 t = connect_event_of d m con p o1 t"
    "same_time (with_second m v) ''effective_time'' t = same_time m ''effective_time'' t" "same_time (with_second m v) ''observation_time'' t = same_time m ''observation_time'' t"
    "parse_time_of (with_second m v) ''occurred_at'' = parse_time_of m ''occurred_at''"
    "parse_time_of (with_second m v) ''observed_at'' = parse_time_of m ''observed_at''"
    "parse_time_of (with_second m v) ''processing_time'' = parse_time_of m ''processing_time''"
  by (simp_all add: envelope_ok_def identity_ok_def sub_object_def oget_second text_second time_second same_time_def connect_event_of_def required_keys_def)

lemma raw_second: "connect_event_of (Doc (JObj (with_second m v))) m con p o1 t = (connect_event_of (Doc (JObj m)) m con p o1 t)\<lparr>ce_raw := Doc (JObj (with_second m v))\<rparr>"
  by (simp add: connect_event_of_def Let_def)

lemma validate_second:
  assumes "validate_connect (Doc (JObj m)) = Inr c"
  shows "validate_connect (Doc (JObj (with_second m v))) = Inr (c\<lparr>ce_raw := Doc (JObj (with_second m v))\<rparr>)"
  using assms unfolding validate_connect_def decode_obj_Doc option.case parts_second validate_payload_def raw_second
  by (simp split: option.splits if_splits) (auto simp: bind_res_Inr)
lemma second_normalizable:
  assumes "normalizable m"
  shows "normalizable (with_second m v)"
  using assms by (simp add: normalizable_def normalizer_times_def unpadded_def oget_second)

lemma second_preferred: "oget m ''normalized_payload'' = None \<Longrightarrow> preferred_payload (with_second m (JObj p)) = Some p"
  by (simp add: preferred_payload_def oget_def with_second_def obj_of_def map_add_def)

text \<open>
  C25. The intake looks at one payload and the normalizer at another. Put a
  \<open>normalized_payload\<close> of one's own beside the \<open>payload\<close> of an accepted event: the intake still
  accepts it, with the same identifiers, hash and message as its evidence, and what reaches the
  detector under that identifier is the message of the second payload.
\<close>

theorem second_payload_replaces_message:
  assumes c: "validate_connect (Doc (JObj raw)) = Inr c" "normalizable raw" "marshalable (JObj raw)" "oget raw ''normalized_payload'' = None"
    and p: "marshalable (JObj p)" "parse_filterlog (string_value_of p ''message'') = Some fw"
    and t: "\<forall>k \<in> set normalizer_times. \<exists>x. parse_time_of raw k = Inr x \<and> common_year x \<and> x \<noteq> zero_time"
    and m: "bm_value m = Doc (JObj (with_second raw (JObj p)))"
  shows "validate_connect (bm_value m) = Inr (c\<lparr>ce_raw := bm_value m\<rparr>) \<and> (\<exists>e. build_event m now = Inr e
    \<and> ne_event_id e = ce_ingress_event_id c \<and> ne_tenant_id e = ce_tenant_id c \<and> firewall_message (norm_doc e) = Some (norm_wire e, fw))"
proof -
  have v: "validate_connect (bm_value m) = Inr (c\<lparr>ce_raw := bm_value m\<rparr>)" unfolding m by (rule validate_second [OF c(1)])
  have d: "decode_obj (bm_value m) = Some (with_second raw (JObj p))" "marshalable (JObj (with_second raw (JObj p)))"
    using c(3) p(1) by (simp_all add: m with_second_def)
  have "\<forall>k \<in> set normalizer_times. \<exists>x. parse_time_of (with_second raw (JObj p)) k = Inr x \<and> common_year x \<and> x \<noteq> zero_time"
    using t by (simp add: normalizer_times_def time_second)
  from accepted_event_reaches_detector [OF v d(1) second_normalizable [OF c(2)] d(2) second_preferred [OF c(4)] p(2) this, of now]
  show ?thesis using v by simp metis
qed

text \<open>
  C26. Whatever the detector publishes as a signal while it processes an event the normalizer
  built, the signal persister takes: its bytes decode to the signal, the signal passes every
  check, and it yields no alert and one insight on exactly that event of its tenant.
\<close>

theorem detector_signals_persist:
  assumes e: "build_event m0 t0 = Inr e0" "norm_doc e0 \<noteq> NoBytes" "zero_time \<notin> {ne_occurred_at e0, ne_observation_time e0, ne_effective_time e0}"
    and dt: "keeps_log dt lg" "dt_signal_topic dt \<noteq> dt_state_topic dt" "\<And>w. common_year (dt_clock dt w) \<and> dt_clock dt w \<noteq> zero_time"
    and run: "detect dt (norm_doc e0) w st = (res, w', st')"
  shows "\<exists>new. lg w' = lg w @ new \<and> (\<forall>x \<in> set new. bm_topic x = dt_signal_topic dt \<longrightarrow>
    (\<exists>s r i. bm_value x = signal_doc s \<and> decode_signal_event (bm_value x) = Inr (signal_wire s) \<and> signal_record (signal_wire s) m = Inr r
      \<and> lifecycle_records r = ([], [i]) \<and> isr_insight_id i = ''insight:'' @ bm_key x \<and> isr_tenant_id i = ne_tenant_id e0
      \<and> isr_event_ids i = [ne_event_id e0] \<and> isr_observed_at i = ne_occurred_at e0))"
    (is "\<exists>new. _ \<and> (\<forall>x \<in> set new. ?ok x)")
proof -
  have ok: "\<exists>new. lg w2 = lg w @ new \<and> (\<forall>x \<in> set new. ?ok x)"
    if H: "firewall_message (norm_doc e0) = Some (e, fw)" "\<exists>new. lg w1 = lg w @ new \<and> (\<forall>x \<in> set new. ?ok x)"
      "publish_signal dt s w1 = (r, w2)" "detector_emits (dt_clock dt w1) e fw s" for e fw w1 s r w2
    using dt(1) H(3)
  proof (cases rule: publish_signal_log)
    case sent
    obtain new where n: "lg w1 = lg w @ new" "\<forall>x \<in> set new. ?ok x" using H(2) by blast
    have "\<exists>r i. decode_signal_event (signal_doc s) = Inr (signal_wire s) \<and> signal_record (signal_wire s) m = Inr r \<and> lifecycle_records r = ([], [i])
        \<and> isr_insight_id i = ''insight:'' @ sv_signal_id s \<and> isr_tenant_id i = ne_tenant_id e0 \<and> isr_event_ids i = [ne_event_id e0]
        \<and> isr_observed_at i = ne_occurred_at e0"
      using built_signal_accepted [OF e(1,2) H(1,4), of m] dt(3) [of w1] e(3) by (metis insert_iff)
    then have "?ok (signal_message dt s w1)" unfolding signal_message_def broker_message.select_convs by blast
    then have "lg w2 = lg w @ (new @ [signal_message dt s w1]) \<and> (\<forall>x \<in> set (new @ [signal_message dt s w1]). ?ok x)"
      using n sent(3) by simp
    then show ?thesis by blast
  next
    case failed
    then show ?thesis using H(2) by simp
  qed
  show ?thesis
  proof (rule detect_rule [where I = "\<lambda>w' st. \<exists>new. lg w' = lg w @ new \<and> (\<forall>x \<in> set new. ?ok x)", OF run])
    show "\<exists>new. lg w = lg w @ new \<and> (\<forall>x \<in> set new. ?ok x)" by simp
    fix e fw p w1 st1 r w2
    assume "firewall_message (norm_doc e0) = Some (e, fw)" "\<exists>new. lg w1 = lg w @ new \<and> (\<forall>x \<in> set new. ?ok x)"
      "publish_signal dt (iot_signal (dt_clock dt w1) st1 e fw p) w1 = (r, w2)"
    then show "\<exists>new. lg w2 = lg w @ new \<and> (\<forall>x \<in> set new. ?ok x)"
      by (rule ok) (auto simp: detector_emits_def)
  next
    fix e fw w1 st1 r w2
    assume "firewall_message (norm_doc e0) = Some (e, fw)" "\<exists>new. lg w1 = lg w @ new \<and> (\<forall>x \<in> set new. ?ok x)"
      "publish_signal dt (public_signal (dt_clock dt w1) e fw) w1 = (r, w2)"
    then show "\<exists>new. lg w2 = lg w @ new \<and> (\<forall>x \<in> set new. ?ok x)"
      by (rule ok) (auto simp: detector_emits_def)
  next
    fix e fw p key s w1 st1 r w2 st2
    assume "\<exists>new. lg w1 = lg w @ new \<and> (\<forall>x \<in> set new. ?ok x)" and p: "persist_state dt key s e w1 st1 = (r, w2, st2)"
    then obtain new where n: "lg w1 = lg w @ new" "\<forall>x \<in> set new. ?ok x" by blast
    show "\<exists>new. lg w2 = lg w @ new \<and> (\<forall>x \<in> set new. ?ok x)"
      using dt(1) p
    proof (cases rule: persist_state_log)
      case kept
      then show ?thesis
        using n dt(2) by (intro exI [of _ "new @ (if dt_state_topic dt = [] then [] else [state_message dt key s e w1])"]) (auto simp: state_message_def)
    next
      case failed
      then show ?thesis using n by auto
    qed
  qed
qed

text \<open>Commits and waits publish nothing.\<close>

definition quiet :: "'w persister \<Rightarrow> ('w \<Rightarrow> broker_message list) \<Rightarrow> bool" where
  "quiet pc lg \<longleftrightarrow> (\<forall>w m. lg (snd (pc_commit pc w m)) = lg w) \<and> (\<forall>w. lg (pc_wait pc w) = lg w)"

lemma quietD: "quiet pc lg \<Longrightarrow> lg (snd (pc_commit pc w m)) = lg w" "quiet pc lg \<Longrightarrow> lg (pc_wait pc w) = lg w"
  by (simp_all add: quiet_def)

section \<open>Samples\<close>

text \<open>A detector over a broker that takes everything; its world is the log.\<close>

definition sample_detector :: "string list option \<Rightarrow> broker_message list detector" where
  "sample_detector nets =
     \<lparr>dt_pub = (\<lambda>w x. (True, w @ [x])), dt_clock = (\<lambda>_. 1785200530000000000), dt_cidrs = map_option (\<lambda>cs w t. Inr cs) nets,
      dt_signal_topic = ''signals'', dt_state_topic = ''states''\<rparr>"

definition sample_group :: "broker_message list persister" where
  "sample_group =
     \<lparr>pc_pub = (\<lambda>w x. (True, w @ [x])), pc_commit = (\<lambda>w m. (True, w)), pc_wait = (\<lambda>w. w), pc_clock = (\<lambda>_. 0), pc_b64 = (\<lambda>_. []),
      pc_topic = [], pc_dlq = []\<rparr>"

definition delivered :: "broker_message \<Rightarrow> consumed_message" where
  "delivered x = broker_message.extend x \<lparr>cm_partition = 0, cm_offset = 0\<rparr>"

definition sample_line :: string where
  "sample_line = ''pass,tcp,x,8.8.8.8,10.0.0.1,40000,443''"

definition sample_firewall :: firewall_event where
  "sample_firewall =
     \<lparr>fw_action = ''pass'', fw_protocol = ''tcp'', fw_source_ip = ''8.8.8.8'', fw_destination_ip = ''10.0.0.1'', fw_destination_port = 443\<rparr>"

definition sample_event :: norm_event where
  "sample_event =
     \<lparr>ne_tenant_id = ''tenant-local'', ne_source_id = ''firewall-1'', ne_app_id = ''cyberops'', ne_domain = ''security'', ne_use_case = ''cyberops'',
      ne_source_domain = ''security'', ne_source_adapter = ''connect:opnsense'', ne_ingestion_mode = ''push_event'',
      ne_dataset = ''cyberops.syslog.raw'', ne_event_id = ''ing-1'', ne_event_type = ''cyberops.syslog.raw'', ne_schema_id = ''s'',
      ne_schema_version = ''1'', ne_observation_time = 1785200524000000000, ne_effective_time = 1785200523000000000,
      ne_processing_time = 1785200525000000000, ne_occurred_at = 1785200523000000000, ne_observed_at = 1785200524000000000,
      ne_payload = Some [(''message'', JStr sample_line)], ne_entities = Some [], ne_confidence = Fin 1, ne_metadata = Some [], ne_evidence = Some [],
      ne_correlation_id = ''ing-1'', ne_idempotency_key = ''ing-1'', ne_trace_id = [], ne_causation_id = [], ne_replay_job_id = []\<rparr>"

definition sample_message :: broker_message where
  "sample_message =
     \<lparr>bm_topic = ''normalized'', bm_key = ''ing-1'', bm_value = norm_doc sample_event, bm_headers = [], bm_correlation_id = [], bm_causation_id = [],
      bm_trace_id = [], bm_published_at = 0\<rparr>"

lemma sample_addresses: "parse_addr ''8.8.8.8'' = Some (V4 134744072)" "parse_addr ''10.0.0.1'' = Some (V4 167772161)"
  by code_simp+

lemma sample_public: "is_public_routable (fw_source_ip sample_firewall)"
  by (simp add: sample_firewall_def is_public_routable_def sample_addresses trim_visible visible_def code_of_def is_private_def is_loopback_def
      is_link_local_unicast_def is_link_local_multicast_def is_multicast_def is_unspecified_def unmap_def)

lemma sample_parsed: "parse_filterlog sample_line = Some sample_firewall"
proof -
  have l: "split_on (CHR '','') sample_line = [''pass'', ''tcp'', ''x'', ''8.8.8.8'', ''10.0.0.1'', ''40000'', ''443'']" by code_simp
  have w: "to_lower ''pass'' = ''pass''" "to_lower ''tcp'' = ''tcp''" "atoi ''443'' = Some 443" by code_simp+
  show ?thesis
    unfolding parse_filterlog_def l
    by (simp add: Let_def is_action_def is_protocol_def fold_token_def trim_visible visible_def code_of_def sample_addresses w sample_firewall_def)
qed

lemma sample_years: "common_year 1785200523000000000" "common_year 1785200524000000000" "common_year 1785200525000000000" "common_year 1785200530000000000"
    "1785200523000000000 \<noteq> zero_time" "1785200524000000000 \<noteq> zero_time" "1785200525000000000 \<noteq> zero_time" "1785200530000000000 \<noteq> zero_time"
  by code_simp+

lemma sample_encodes: "norm_doc sample_event \<noteq> NoBytes"
  by (simp add: norm_doc_def sample_event_def norm_times_def sample_years marshal_def norm_obj_def norm_fields_of_def omit_empty_def
      json_map_def json_objs_def json_time_def)

lemma sample_fires: "firewall_message (norm_doc sample_event) = Some (norm_wire sample_event, sample_firewall)"
proof -
  have "trim_space sample_line = sample_line" by (simp add: sample_line_def trim_visible visible_def code_of_def)
  then have p: "parse_filterlog (string_value_of [(''message'', JStr sample_line)] ''message'') = Some sample_firewall"
    by (simp add: string_value_of_def oget_def sample_parsed)
  have e: "ne_app_id sample_event = ''cyberops''" "ne_dataset sample_event = ''cyberops.syslog.raw''"
      "ne_payload sample_event = Some [(''message'', JStr sample_line)]"
    by (simp_all add: sample_event_def)
  show ?thesis by (rule firewall_message_of [OF sample_encodes e p])
qed

lemma sample_event_occurred: "ne_occurred_at (norm_wire sample_event) = 1785200523000000000"
  by (simp add: norm_wire_def sample_event_def)

lemma sample_log: "keeps_log (sample_detector nets) (\<lambda>w. w)" "quiet sample_group (\<lambda>w. w)"
    "dt_signal_topic (sample_detector nets) \<noteq> dt_state_topic (sample_detector nets)" "dt_state_topic (sample_detector nets) \<noteq> []"
  by (simp_all add: keeps_log_def quiet_def sample_detector_def sample_group_def)

lemma sample_topic: "bm_topic (delivered sample_message) \<noteq> dt_state_topic (sample_detector nets)" "bm_value (delivered sample_message) = norm_doc sample_event"
  by (simp_all add: delivered_def sample_message_def sample_detector_def broker_message.defs)


section \<open>The pipeline on the sample\<close>

lemma sample_normalizable: "normalizable (sample_raw msg)"
  by (simp add: normalizable_def normalizer_times_def unpadded_def sample_raw_def sample_text obj_of_def num_of_def)

lemma sample_times_set: "\<forall>k \<in> set normalizer_times. \<exists>x. parse_time_of (sample_raw msg) k = Inr x \<and> common_year x \<and> x \<noteq> zero_time"
proof -
  have "string_value_of (sample_raw msg) ''occurred_at'' = ''2026-07-28T01:02:03Z''"
      "string_value_of (sample_raw msg) ''effective_time'' = ''2026-07-28T01:02:03Z''"
      "string_value_of (sample_raw msg) ''observed_at'' = ''2026-07-28T01:02:04Z''"
      "string_value_of (sample_raw msg) ''observation_time'' = ''2026-07-28T01:02:04Z''"
      "string_value_of (sample_raw msg) ''processing_time'' = ''2026-07-28T01:02:05Z''"
    by (simp_all add: sample_text sample_raw_def sample_payload_def)
  then show ?thesis by (simp add: normalizer_times_def parse_time_of_def sample_times sample_years)
qed

lemma sample_trimmed: "trim_space sample_line = sample_line" "\<not> blank sample_line"
  by (simp_all add: sample_line_def trim_visible visible_def code_of_def)

lemma sample_accepted: "validate_connect (bm_value (sample_delivery sample_line 1)) = Inr (sample_event_of sample_line)"
    "decode_obj (bm_value (sample_delivery sample_line 1)) = Some (sample_raw sample_line)" "normalizable (sample_raw sample_line)"
    "marshalable (JObj (sample_raw sample_line))" "parse_filterlog (ce_message (sample_event_of sample_line)) = Some sample_firewall"
    "\<forall>k \<in> set normalizer_times. \<exists>x. parse_time_of (sample_raw sample_line) k = Inr x \<and> common_year x \<and> x \<noteq> zero_time"
    "obj_of (oget (sample_raw sample_line) ''normalized_payload'') = None"
proof -
  show "obj_of (oget (sample_raw sample_line) ''normalized_payload'') = None" by (simp add: sample_raw_def oget_def obj_of_def)
  have l: "trim_space sample_line = sample_line" "\<not> blank sample_line" by (simp_all add: sample_line_def trim_visible visible_def code_of_def)
  show "validate_connect (bm_value (sample_delivery sample_line 1)) = Inr (sample_event_of sample_line)"
    "decode_obj (bm_value (sample_delivery sample_line 1)) = Some (sample_raw sample_line)"
    using sample_validates [OF l(2)] by (simp_all add: sample_delivery_def)
  show "parse_filterlog (ce_message (sample_event_of sample_line)) = Some sample_firewall" by (simp add: sample_fields l sample_parsed)
  show "marshalable (JObj (sample_raw sample_line))" by code_simp
qed (rule sample_normalizable sample_times_set)+


theorem detector_signals_persist_witness:
  "\<exists>e new. build_event (sample_delivery sample_line 1) 0 = Inr e \<and> fst (snd (detect (sample_detector None) (norm_doc e) [] Map.empty)) = new
    \<and> (\<forall>x \<in> set new. bm_topic x = ''signals'' \<longrightarrow> (\<exists>s. bm_value x = signal_doc s \<and> decode_signal_event (bm_value x) = Inr (signal_wire s)))"
proof (rule accepted_message [OF sample_accepted(1-3,7)], rule accepted_event_reaches_detector [OF sample_accepted(1-4) _ _ sample_accepted(6), of _ _ 0])
  fix p
  assume "preferred_payload (sample_raw sample_line) = Some p" "string_value_of p ''message'' = ce_message (sample_event_of sample_line)"
  then show "preferred_payload (sample_raw sample_line) = Some p" "parse_filterlog (string_value_of p ''message'') = Some sample_firewall"
    using sample_accepted(5) by simp_all
next
  fix e
  assume e: "build_event (sample_delivery sample_line 1) 0 = Inr e" "norm_doc e \<noteq> NoBytes"
    "zero_time \<notin> {ne_occurred_at e, ne_observation_time e, ne_effective_time e}"
  obtain r w1 st1 where d: "detect (sample_detector None) (norm_doc e) [] Map.empty = (r, w1, st1)" by (metis prod.exhaust)
  have c: "common_year (dt_clock (sample_detector None) w) \<and> dt_clock (sample_detector None) w \<noteq> zero_time" for w
    by (simp add: sample_detector_def sample_years)
  have t: "dt_signal_topic (sample_detector None) = ''signals''" by (simp add: sample_detector_def)
  show ?thesis
    using detector_signals_persist [OF e sample_log(1,3) c d] e(1) d unfolding t by auto
qed

theorem second_payload_replaces_message_witness:
  "validate_connect (Doc (JObj (with_second (sample_raw ''blocked packet'') (JObj [(''message'', JStr sample_line)]))))
      = Inr (sample_event_of ''blocked packet'' \<lparr>ce_raw := Doc (JObj (with_second (sample_raw ''blocked packet'') (JObj [(''message'', JStr sample_line)])))\<rparr>)
    \<and> (\<exists>e. ne_event_id e = ''ing-1'' \<and> firewall_message (norm_doc e) = Some (norm_wire e, sample_firewall))"
proof -
  let ?raw = "sample_raw ''blocked packet''" and ?p = "[(''message'', JStr sample_line)]"
  let ?m = "sample_delivery ''blocked packet'' 1 \<lparr>bm_value := Doc (JObj (with_second ?raw (JObj ?p)))\<rparr>"
  have t: "\<forall>k \<in> set normalizer_times. \<exists>x. parse_time_of ?raw k = Inr x \<and> common_year x \<and> x \<noteq> zero_time" by (rule sample_times_set)
  have n: "normalizable ?raw" by (rule sample_normalizable)
  have e: "marshalable (JObj ?raw)" "oget ?raw ''normalized_payload'' = None" by (code_simp, simp add: sample_raw_def oget_def)
  have p: "marshalable (JObj ?p)" "parse_filterlog (string_value_of ?p ''message'') = Some sample_firewall"
    using sample_parsed sample_trimmed by (simp_all add: string_value_of_def oget_def)
  show ?thesis
    using second_payload_replaces_message [OF sample_validates [OF sample_not_blank] n e p t, of ?m 0] by (auto simp: sample_fields)
qed

end
