(* ===== verification/DetectorProps.thy ===== *)
theory DetectorProps imports PipelineProps begin

text \<open>
  The properties of the detector as a process: a device is signalled only after its learning
  period, a redelivered event says nothing new, the state topic holds all a detector knows, and
  a restart that does not read it forgets.
\<close>

section \<open>What the log says of the states\<close>

definition on_state_topic :: "'w detector \<Rightarrow> broker_message \<Rightarrow> bool" where
  "on_state_topic dt x \<longleftrightarrow> bm_topic x = dt_state_topic dt"

definition key_value :: "'x broker_message_scheme \<Rightarrow> string \<times> doc" where
  "key_value m = (bm_key m, bm_value m)"

definition recorded :: "'w detector \<Rightarrow> broker_message list \<Rightarrow> states \<Rightarrow> bool" where
  "recorded dt l st \<longleftrightarrow>
     (\<forall>x \<in> set l. on_state_topic dt x \<longrightarrow> decode_state (bm_value x) \<noteq> None \<and> (device_id (bm_key x) \<longrightarrow> decode_state (bm_value x) = st (bm_key x)))
     \<and> (\<forall>k. st k \<noteq> None \<longleftrightarrow> (\<exists>x \<in> set l. on_state_topic dt x \<and> bm_key x = k))"

lemma recorded_signal:
  assumes "keeps_log dt lg" "dt_signal_topic dt \<noteq> dt_state_topic dt" "recorded dt (lg w) st" "publish_signal dt s w = (r, w')"
  shows "recorded dt (lg w') st"
  using assms(1,4)
proof (cases rule: publish_signal_log)
  case sent
  have "\<not> on_state_topic dt (signal_message dt s w)" using assms(2) by (simp add: on_state_topic_def signal_message_def)
  then show ?thesis using assms(3) by (simp add: sent recorded_def)
next
  case failed
  then show ?thesis using assms(3) by simp
qed

lemma recorded_persist:
  assumes "keeps_log dt lg" "dt_state_topic dt \<noteq> []" "common_year (ne_occurred_at e)" "recorded dt (lg w) st" "learns e fw p st key s"
    and "persist_state dt key s e w st = (r, w', st')"
  shows "recorded dt (lg w') st'"
  using assms(1,6)
proof (cases rule: persist_state_log)
  case kept
  let ?x = "state_message dt key s e w"
  have x: "on_state_topic dt ?x" "bm_key ?x = key" "decode_state (bm_value ?x) = Some s"
    using assms(3,5) by (auto simp: on_state_topic_def state_message_def learns_def intro!: decode_state_doc)
  have l: "lg w' = lg w @ [?x]" using kept(3) assms(2) by simp
  have "device_id key \<Longrightarrow> st key = None" using assms(5) by (auto simp: learns_def)
  then have "device_id (bm_key y) \<longrightarrow> decode_state (bm_value y) = st' (bm_key y)" "decode_state (bm_value y) \<noteq> None"
    if "y \<in> set (lg w')" "on_state_topic dt y" for y
    using that assms(4) x by (auto simp: l kept(2) learn_def recorded_def)
  moreover have "st' k \<noteq> None \<longleftrightarrow> (\<exists>y \<in> set (lg w'). on_state_topic dt y \<and> bm_key y = k)" for k
    using assms(4) x(1,2) unfolding recorded_def l kept(2) by (auto simp: learn_def)
  ultimately show ?thesis unfolding recorded_def by blast
next
  case failed
  then show ?thesis using assms(4) by simp
qed

lemma recorded_run:
  assumes log: "keeps_log dt lg" "quiet pc lg" "dt_state_topic dt \<noteq> []" "dt_signal_topic dt \<noteq> dt_state_topic dt"
    and ms: "\<forall>m \<in> set ms. bm_topic m \<noteq> dt_state_topic dt \<and> (\<forall>e fw. firewall_message (bm_value m) = Some (e, fw) \<longrightarrow> common_year (ne_occurred_at e))"
    and run: "detector_run pc dt ms w st = (ok, w', st')" and start: "recorded dt (lg w) st"
  shows "recorded dt (lg w') st'"
proof (rule detector_run_rule [where I = "\<lambda>w st. recorded dt (lg w) st", OF run start])
  fix m w st r w' st'
  assume m: "m \<in> set ms" and d: "detect dt (bm_value m) w st = (r, w', st')" and i: "recorded dt (lg w) st"
  show "recorded dt (lg w') st'"
  proof (rule detect_rule [where I = "\<lambda>w st. recorded dt (lg w) st", OF d i])
    fix e fw p key s w st r w' st'
    assume "firewall_message (bm_value m) = Some (e, fw)" and i: "recorded dt (lg w) st" and l: "learns e fw p st key s"
      and p: "persist_state dt key s e w st = (r, w', st')"
    then have "common_year (ne_occurred_at e)" using ms m by blast
    then show "recorded dt (lg w') st'" by (rule recorded_persist [OF log(1,3) _ i l p])
  qed (erule recorded_signal [OF log(1,4)], assumption)+
qed (use ms log(2) in \<open>auto simp: quietD\<close>)

lemma run_restores:
  assumes "detector_run pc dt recs w st = (True, w', st')" "\<forall>m \<in> set recs. bm_topic m = dt_state_topic dt"
  shows "st' = fold restore_record (map key_value recs) st"
  using assms
proof (induction recs arbitrary: w st)
  case (Cons m recs)
  have m: "bm_topic m = dt_state_topic dt" using Cons.prems(2) by simp
  have "snd (restore (bm_key m) (bm_value m) st) = restore_record (key_value m) st" by (simp add: restore_record_def key_value_def)
  moreover obtain w1 where "detector_run pc dt recs w1 (snd (restore (bm_key m) (bm_value m) st)) = (True, w', st')"
    using Cons.prems(1) by (auto simp: detector_step_def m split: prod.splits sum.splits bool.splits)
  ultimately show ?case using Cons.IH [of w1] Cons.prems(2) by simp
qed simp

lemma restored_agree:
  assumes "recorded dt l st" "mset xs = mset (map key_value (filter (on_state_topic dt) l))"
  shows "agree (fold restore_record xs Map.empty) st"
proof -
  let ?ys = "map key_value (filter (on_state_topic dt) l)" and ?r = "fold restore_record xs Map.empty"
  have r: "?r = fold restore_record ?ys Map.empty" by (rule restoring.fold_mset [OF assms(2)])
  have d: "decode_state (bm_value x) \<noteq> None" if "x \<in> set l" "on_state_topic dt x" for x using assms(1) that unfolding recorded_def by blast
  have k: "st k \<noteq> None \<longleftrightarrow> (\<exists>x \<in> set l. on_state_topic dt x \<and> bm_key x = k)" for k using assms(1) unfolding recorded_def by blast
  have "?r k = None \<longleftrightarrow> \<not> (\<exists>x \<in> set l. on_state_topic dt x \<and> bm_key x = k)" for k
    unfolding r restored_known using d by (force simp: key_value_def)
  then have known: "(?r k = None) = (st k = None)" for k using k by blast
  have "?r k = st k" if "device_id k" for k
  proof (cases "?r k")
    case None
    then show ?thesis using known [of k] by simp
  next
    case (Some s)
    then obtain x where "x \<in> set l" "on_state_topic dt x" "bm_key x = k" "decode_state (bm_value x) = Some s"
      using restored_from [of ?ys Map.empty k s] by (auto simp: r key_value_def)
    then show ?thesis using assms(1) that Some by (auto simp: recorded_def)
  qed
  then show ?thesis using known by (simp add: agree_def)
qed

section \<open>The state topic\<close>

text \<open>
  C27. The state topic holds everything a detector knows: one that starts empty and reads back
  the records another one published, in whatever order, ends every further run with the same
  verdict and the same world, hence the same published messages, as that other one would.
\<close>

theorem restored_detector_continues:
  assumes "keeps_log dt lg" "quiet pc lg" "dt_state_topic dt \<noteq> []" "dt_signal_topic dt \<noteq> dt_state_topic dt"
    and "\<forall>m \<in> set ms. bm_topic m \<noteq> dt_state_topic dt \<and> (\<forall>e fw. firewall_message (bm_value m) = Some (e, fw) \<longrightarrow> common_year (ne_occurred_at e))"
    and run: "detector_run pc dt ms w Map.empty = (ok, w1, st1)" and start: "lg w = []"
    and recs: "\<forall>m \<in> set recs. bm_topic m = dt_state_topic dt" "mset (map key_value recs) = mset (map key_value (filter (on_state_topic dt) (lg w1)))"
    and restored: "detector_run pc dt recs w2 Map.empty = (True, w3, st3)"
  shows "fst (detector_run pc dt later w4 st3) = fst (detector_run pc dt later w4 st1)
    \<and> fst (snd (detector_run pc dt later w4 st3)) = fst (snd (detector_run pc dt later w4 st1))"
proof -
  have "recorded dt (lg w) Map.empty" by (simp add: start recorded_def)
  then have "recorded dt (lg w1) st1" by (rule recorded_run [OF assms(1-5) run])
  then have "agree st3 st1" unfolding run_restores [OF restored recs(1)] by (rule restored_agree [OF _ recs(2)])
  from detector_run_agree [OF this, of pc dt later w4] show ?thesis by (simp add: same_outcome_def)
qed

section \<open>Learning\<close>

text \<open>When a key was first seen, as far as the messages of a run and its first states tell.\<close>

definition seen_at :: "'w detector \<Rightarrow> consumed_message list \<Rightarrow> states \<Rightarrow> string \<Rightarrow> time \<Rightarrow> bool" where
  "seen_at dt ms st key t \<longleftrightarrow>
     (\<exists>s. st key = Some s \<and> xs_first_observed s = t)
     \<or> (\<exists>m \<in> set ms. bm_topic m = dt_state_topic dt \<and> bm_key m = key \<and> (\<exists>s. decode_state (bm_value m) = Some s \<and> xs_first_observed s = t))
     \<or> (\<exists>m \<in> set ms. bm_topic m \<noteq> dt_state_topic dt \<and>
          (\<exists>e fw p. firewall_message (bm_value m) = Some (e, fw) \<and> observed_pair dt e fw p \<and> key = device_key (ne_tenant_id e) (dp_device p) \<and> ne_occurred_at e = t))"

definition public_message :: "consumed_message list \<Rightarrow> broker_message \<Rightarrow> bool" where
  "public_message ms x \<longleftrightarrow>
     (\<exists>m \<in> set ms. \<exists>e fw now. firewall_message (bm_value m) = Some (e, fw) \<and> is_public_routable (fw_source_ip fw)
        \<and> bm_key x = sv_signal_id (public_signal now e fw) \<and> bm_value x = signal_doc (public_signal now e fw))"

definition device_message :: "'w detector \<Rightarrow> consumed_message list \<Rightarrow> states \<Rightarrow> broker_message \<Rightarrow> bool" where
  "device_message dt ms st x \<longleftrightarrow>
     (\<exists>m \<in> set ms. \<exists>e fw p su now t. firewall_message (bm_value m) = Some (e, fw) \<and> observed_pair dt e fw p
        \<and> bm_key x = sv_signal_id (iot_signal now su e fw p) \<and> bm_value x = signal_doc (iot_signal now su e fw p)
        \<and> seen_at dt ms st (device_key (ne_tenant_id e) (dp_device p)) t \<and> learning_period \<le> sub_dur (ne_occurred_at e) t)"

definition run_invariant :: "'w detector \<Rightarrow> ('w \<Rightarrow> broker_message list) \<Rightarrow> consumed_message list \<Rightarrow> states \<Rightarrow> broker_message list \<Rightarrow> 'w \<Rightarrow> states \<Rightarrow> bool" where
  "run_invariant dt lg ms st0 old w st \<longleftrightarrow>
     (\<forall>key s. device_id key \<longrightarrow> st key = Some s \<longrightarrow> seen_at dt ms st0 key (xs_first_observed s))
     \<and> (\<exists>new. lg w = old @ new \<and> (\<forall>x \<in> set new. bm_topic x = dt_signal_topic dt \<longrightarrow> public_message ms x \<or> device_message dt ms st0 x))"

lemma run_invariant_signal:
  assumes "keeps_log dt lg" "run_invariant dt lg ms st0 old w st" "publish_signal dt s w = (r, w')"
    and "public_message ms (signal_message dt s w) \<or> device_message dt ms st0 (signal_message dt s w)"
  shows "run_invariant dt lg ms st0 old w' st"
  using assms(1,3)
proof (cases rule: publish_signal_log)
  case sent
  obtain new where "lg w = old @ new" "\<forall>x \<in> set new. bm_topic x = dt_signal_topic dt \<longrightarrow> public_message ms x \<or> device_message dt ms st0 x"
    using assms(2) unfolding run_invariant_def by blast
  then have "lg w' = old @ (new @ [signal_message dt s w])"
      "\<forall>x \<in> set (new @ [signal_message dt s w]). bm_topic x = dt_signal_topic dt \<longrightarrow> public_message ms x \<or> device_message dt ms st0 x"
    using assms(4) by (auto simp: sent)
  then show ?thesis using assms(2) unfolding run_invariant_def by blast
next
  case failed
  then show ?thesis using assms(2) unfolding run_invariant_def by simp
qed

lemma run_invariant_persist:
  assumes "keeps_log dt lg" "dt_signal_topic dt \<noteq> dt_state_topic dt" "run_invariant dt lg ms st0 old w st" "learns e fw p st key s"
    and "persist_state dt key s e w st = (r, w', st')"
    and m: "m \<in> set ms" "bm_topic m \<noteq> dt_state_topic dt" "firewall_message (bm_value m) = Some (e, fw)" "observed_pair dt e fw p"
  shows "run_invariant dt lg ms st0 old w' st'"
  using assms(1,5)
proof (cases rule: persist_state_log)
  case kept
  obtain new where "lg w = old @ new" "\<forall>x \<in> set new. bm_topic x = dt_signal_topic dt \<longrightarrow> public_message ms x \<or> device_message dt ms st0 x"
    using assms(3) unfolding run_invariant_def by blast
  then have "\<exists>new. lg w' = old @ new \<and> (\<forall>x \<in> set new. bm_topic x = dt_signal_topic dt \<longrightarrow> public_message ms x \<or> device_message dt ms st0 x)"
    using kept(3) assms(2) by (intro exI [of _ "new @ (if dt_state_topic dt = [] then [] else [state_message dt key s e w])"]) (auto simp: state_message_def)
  moreover have "seen_at dt ms st0 k (xs_first_observed x)" if k: "device_id k" "st' k = Some x" for k x
  proof (cases "st k")
    case None
    then have "k = key" "x = s" using k(2) by (auto simp: kept(2) learn_def split: if_splits)
    then have "k = device_key (ne_tenant_id e) (dp_device p)" "xs_first_observed x = ne_occurred_at e" using assms(4) k(1) by (auto simp: learns_def)
    then show ?thesis using m unfolding seen_at_def by metis
  next
    case (Some y)
    then have "st k = Some x" using k(2) by (auto simp: kept(2) learn_def split: if_splits)
    then show ?thesis using assms(3) k(1) unfolding run_invariant_def by blast
  qed
  ultimately show ?thesis unfolding run_invariant_def by blast
next
  case failed
  then show ?thesis using assms(3) unfolding run_invariant_def by simp
qed

lemma run_invariant_step:
  assumes "keeps_log dt lg" "dt_signal_topic dt \<noteq> dt_state_topic dt" "run_invariant dt lg ms st0 old w st"
    and m: "m \<in> set ms" "bm_topic m \<noteq> dt_state_topic dt" and d: "detect dt (bm_value m) w st = (r, w', st')"
  shows "run_invariant dt lg ms st0 old w' st'"
proof (rule detect_rule [where I = "run_invariant dt lg ms st0 old", OF d assms(3)])
  fix e fw p w st r w'
  assume f: "firewall_message (bm_value m) = Some (e, fw)" "observed_pair dt e fw p" and i: "run_invariant dt lg ms st0 old w st"
    and v: "deviates e fw p st" and p: "publish_signal dt (iot_signal (dt_clock dt w) st e fw p) w = (r, w')"
  obtain s where s: "st (device_key (ne_tenant_id e) (dp_device p)) = Some s" "learning_period \<le> sub_dur (ne_occurred_at e) (xs_first_observed s)"
    using v by (auto simp: deviates_def is_mature_def split: option.splits)
  then have "seen_at dt ms st0 (device_key (ne_tenant_id e) (dp_device p)) (xs_first_observed s)"
    using i unfolding run_invariant_def by simp
  then have "device_message dt ms st0 (signal_message dt (iot_signal (dt_clock dt w) st e fw p) w)"
    using f m(1) s(2) unfolding device_message_def signal_message_def broker_message.select_convs by blast
  then show "run_invariant dt lg ms st0 old w' st" by (intro run_invariant_signal [OF assms(1) i p]) simp
next
  fix e fw w st r w'
  assume f: "firewall_message (bm_value m) = Some (e, fw)" "is_public_routable (fw_source_ip fw)" and i: "run_invariant dt lg ms st0 old w st"
    and p: "publish_signal dt (public_signal (dt_clock dt w) e fw) w = (r, w')"
  have "public_message ms (signal_message dt (public_signal (dt_clock dt w) e fw) w)"
    using f m(1) unfolding public_message_def signal_message_def broker_message.select_convs by blast
  then show "run_invariant dt lg ms st0 old w' st" by (intro run_invariant_signal [OF assms(1) i p]) simp
qed (rule run_invariant_persist [OF assms(1,2) _ _ _ m], assumption+)

lemma run_invariant_restore:
  assumes "run_invariant dt lg ms st0 old w st" "m \<in> set ms" "bm_topic m = dt_state_topic dt" "decode_state (bm_value m) = Some s"
  shows "run_invariant dt lg ms st0 old w (restore_state (bm_key m) s st)"
proof -
  have "seen_at dt ms st0 k (xs_first_observed x)" if "device_id k" "restore_state (bm_key m) s st k = Some x" for k x
  proof (cases "st k = Some x")
    case True
    then show ?thesis using assms(1) that(1) unfolding run_invariant_def by blast
  next
    case False
    then have "k = bm_key m" "x = s" using that(2) by (auto simp: restore_state_lookup split: if_splits option.splits)
    then show ?thesis using assms(2-4) unfolding seen_at_def by blast
  qed
  then show ?thesis using assms(1) unfolding run_invariant_def by blast
qed

lemma run_signals:
  assumes log: "keeps_log dt lg" "quiet pc lg" "dt_signal_topic dt \<noteq> dt_state_topic dt" and run: "detector_run pc dt ms w0 st = (ok, w1, st1)"
  shows "run_invariant dt lg ms st (lg w0) w1 st1"
proof (rule detector_run_rule [where I = "run_invariant dt lg ms st (lg w0)", OF run])
  show "run_invariant dt lg ms st (lg w0) w0 st" by (auto simp: run_invariant_def seen_at_def)
next
  fix m w st'
  assume "run_invariant dt lg ms st (lg w0) w st'"
  then show "run_invariant dt lg ms st (lg w0) (snd (pc_commit pc w m)) st'" "run_invariant dt lg ms st (lg w0) (pc_wait pc w) st'"
    by (simp_all add: run_invariant_def quietD [OF log(2)])
qed (rule run_invariant_restore run_invariant_step [OF log(1,3)], assumption+)+

text \<open>
  C28. A device is signalled only after it was learned: every signal a run publishes is either
  the public exposure or denial of an event delivered to it, or the new relationship of a device
  that the run first saw, in an event, in a state record or in the states it started with, at
  least the seven days of the learning period before.
\<close>

theorem device_signals_after_learning:
  assumes "keeps_log dt lg" "quiet pc lg" "dt_signal_topic dt \<noteq> dt_state_topic dt" "detector_run pc dt ms w st = (ok, w', st')"
  shows "\<exists>new. lg w' = lg w @ new \<and> (\<forall>x \<in> set new. bm_topic x = dt_signal_topic dt \<longrightarrow> public_message ms x \<or> device_message dt ms st x)"
  using run_signals [OF assms] unfolding run_invariant_def by blast


section \<open>Redelivery\<close>

definition pair_keys :: "norm_event \<Rightarrow> firewall_event \<Rightarrow> device_pair \<Rightarrow> string set" where
  "pair_keys e fw p = {device_key (ne_tenant_id e) (dp_device p), peer_key (ne_tenant_id e) p, path_key (ne_tenant_id e) p fw}"

definition knows :: "states \<Rightarrow> string set \<Rightarrow> bool" where
  "knows st ks \<longleftrightarrow> (\<forall>k \<in> ks. st k \<noteq> None)"

lemma knows_learn: "knows st ks \<Longrightarrow> knows (learn k s st) ks"
  by (auto simp: knows_def learn_def)

lemma persist_knows: "persist_state dt k s e w st = (r, w', st') \<Longrightarrow> knows st ks \<Longrightarrow> knows st' ks"
  by (erule persist_state_cases) (simp_all add: knows_learn)

lemma iot_pairs_knows: "iot_pairs dt e fw ps w st = (r, w', st') \<Longrightarrow> knows st ks \<Longrightarrow> knows st' ks"
  by (erule iot_pairs_rule [where I = "\<lambda>w st. knows st ks"]) (assumption | erule (1) persist_knows)+

lemma detect_knows: "detect dt d w st = (r, w', st') \<Longrightarrow> knows st ks \<Longrightarrow> knows st' ks"
  by (erule detect_rule [where I = "\<lambda>w st. knows st ks"]) (assumption | erule (1) persist_knows)+

lemma detector_run_knows: "detector_run pc dt ms w st = (ok, w', st') \<Longrightarrow> knows st ks \<Longrightarrow> knows st' ks"
  by (erule detector_run_rule [where I = "\<lambda>w st. knows st ks"])
    (assumption | erule (1) detect_knows | force simp: knows_def restore_state_lookup split: option.splits)+

lemma persist_known_key: "persist_state dt k s e w st = (Inr (), w', st') \<Longrightarrow> st' k \<noteq> None"
  by (erule persist_state_cases) (auto simp: learn_def)

lemma iot_pair_learns:
  assumes "iot_pair dt e fw p w st = (Inr (), w', st')"
  shows "knows st' (pair_keys e fw p)"
proof -
  let ?d = "device_key (ne_tenant_id e) (dp_device p)" and ?x = "path_key (ne_tenant_id e) p fw"
  let ?new = "\<lparr>xs_first_observed = ne_occurred_at e, xs_signal_emitted = False\<rparr>" and ?seen = "\<lparr>xs_first_observed = ne_occurred_at e, xs_signal_emitted = True\<rparr>"
  obtain r1 w1 st1 where 1: "(if st ?d = None then persist_state dt ?d ?new e w st else (Inr (), w, st)) = (r1, w1, st1)" by (metis prod.exhaust)
  obtain r2 w2 where 2: "(if is_mature st ?d (ne_occurred_at e) \<and> st ?x = None then publish_signal dt (iot_signal (dt_clock dt w1) st e fw p) w1
      else (Inr (), w1)) = (r2, w2)" by (metis prod.exhaust)
  obtain w3 st3 where p: "persist_state dt (peer_key (ne_tenant_id e) p) ?seen e w2 st1 = (Inr (), w3, st3)"
      "persist_state dt ?x ?seen e w3 st3 = (Inr (), w', st')" "r1 = Inr ()"
    using assms unfolding iot_pair_def Let_def 1 prod.case 2 by (auto split: sum.splits prod.splits)
  have "st1 ?d \<noteq> None" using 1 p(3) persist_known_key [of dt ?d ?new e w st w1 st1] by (auto split: if_splits)
  then have "knows st1 {?d}" by (simp add: knows_def)
  then have "knows st' {?d}" by (rule persist_knows [OF p(2) persist_knows [OF p(1)]])
  moreover have "knows st3 {peer_key (ne_tenant_id e) p}" using persist_known_key [OF p(1)] by (simp add: knows_def)
  then have "knows st' {peer_key (ne_tenant_id e) p}" by (rule persist_knows [OF p(2)])
  ultimately show ?thesis using persist_known_key [OF p(2)] by (simp add: knows_def pair_keys_def)
qed

lemma iot_pairs_learns: "iot_pairs dt e fw ps w st = (Inr (), w', st') \<Longrightarrow> p \<in> set ps \<Longrightarrow> knows st' (pair_keys e fw p)"
proof (induction ps arbitrary: w st)
  case (Cons q ps)
  obtain w1 st1 where 1: "iot_pair dt e fw q w st = (Inr (), w1, st1)" "iot_pairs dt e fw ps w1 st1 = (Inr (), w', st')"
    using Cons.prems(1) by (auto split: prod.splits sum.splits)
  show ?case
    using Cons.IH [OF 1(2)] Cons.prems(2) iot_pairs_knows [OF 1(2) iot_pair_learns [OF 1(1)]] by auto
qed simp

text \<open>What an event can still do once all its pairs are known: refresh records.\<close>

definition refreshes :: "'w detector \<Rightarrow> ('w \<Rightarrow> broker_message list) \<Rightarrow> states \<Rightarrow> broker_message list \<Rightarrow> 'w \<Rightarrow> states \<Rightarrow> bool" where
  "refreshes dt lg st0 old w st \<longleftrightarrow> st = st0 \<and> (\<exists>new. lg w = old @ new \<and> (\<forall>x \<in> set new. on_state_topic dt x))"

lemma refreshes_persist:
  assumes "keeps_log dt lg" "refreshes dt lg st0 old w st" "st0 k \<noteq> None" "persist_state dt k s e w st = (r, w', st')"
  shows "refreshes dt lg st0 old w' st'"
  using assms(1,4)
proof (cases rule: persist_state_log)
  case kept
  have st: "st = st0" using assms(2) by (simp add: refreshes_def)
  then have "st' = st0" using kept(2) assms(3) by (auto simp: learn_def)
  moreover obtain new where "lg w = old @ new" "\<forall>x \<in> set new. on_state_topic dt x" using assms(2) unfolding refreshes_def by blast
  then have "\<exists>new. lg w' = old @ new \<and> (\<forall>x \<in> set new. on_state_topic dt x)"
    using kept(3) by (intro exI [of _ "new @ (if dt_state_topic dt = [] then [] else [state_message dt k s e w])"])
      (auto simp: state_message_def on_state_topic_def)
  ultimately show ?thesis unfolding refreshes_def by blast
next
  case failed
  then show ?thesis using assms(2) by (simp add: refreshes_def)
qed

lemma iot_pairs_refresh:
  assumes "keeps_log dt lg" "iot_pairs dt e fw ps w st = (r, w', st')" "\<forall>p \<in> set ps. knows st (pair_keys e fw p)"
  shows "refreshes dt lg st (lg w) w' st'"
proof (rule iot_pairs_rule [where I = "refreshes dt lg st (lg w)", OF assms(2)])
  show "refreshes dt lg st (lg w) w st" by (simp add: refreshes_def)
  fix p key s w1 st1 r1 w2 st2
  assume p: "p \<in> set ps" and i: "refreshes dt lg st (lg w) w1 st1" and l: "learns e fw p st1 key s" and x: "persist_state dt key s e w1 st1 = (r1, w2, st2)"
  have "st key \<noteq> None" using assms(3) p l by (auto simp: knows_def pair_keys_def learns_def)
  then show "refreshes dt lg st (lg w) w2 st2" by (rule refreshes_persist [OF assms(1) i _ x])
next
  fix p w1 st1 r1 w2
  assume p: "p \<in> set ps" and i: "refreshes dt lg st (lg w) w1 st1" and v: "deviates e fw p st1"
  have "knows st1 (pair_keys e fw p)" using assms(3) p i by (simp add: refreshes_def)
  then show "refreshes dt lg st (lg w) w2 st1" using v by (auto simp: knows_def pair_keys_def deviates_def)
qed

lemma public_signal_id: "sv_signal_id (public_signal now e fw) = sv_signal_id (public_signal now' e fw)"
  by (simp add: public_signal_def detector_signal_def Let_def)

lemma detect_parts:
  assumes "firewall_message d = Some (e, fw)" "detect dt d w st = (r, w', st')"
  obtains r1 w1 st1 where "(case dt_cidrs dt of None \<Rightarrow> (Inr (), w, st) | Some cidrs \<Rightarrow> process_iot dt cidrs e fw w st) = (r1, w1, st1)"
    "r1 = Inr () \<and> is_public_routable (fw_source_ip fw) \<and> publish_signal dt (public_signal (dt_clock dt w1) e fw) w1 = (r, w') \<and> st' = st1
     \<or> (r1 \<noteq> Inr () \<or> \<not> is_public_routable (fw_source_ip fw)) \<and> r = r1 \<and> w' = w1 \<and> st' = st1"
proof -
  obtain r1 w1 st1 where 1: "(case dt_cidrs dt of None \<Rightarrow> (Inr (), w, st) | Some cidrs \<Rightarrow> process_iot dt cidrs e fw w st) = (r1, w1, st1)"
    by (metis prod.exhaust)
  show ?thesis
    by (rule that [OF 1]) (use assms(2) in \<open>auto simp: detect_def assms(1) 1 split: sum.splits if_splits prod.splits\<close>)
qed

text \<open>
  C30. Redelivery says nothing new. Once an event was processed without an error, processing it
  again, whatever was delivered in between, leaves the learned states as they are and publishes
  no signal identifier that the first time did not; here the networks of a tenant stay the same.
\<close>

theorem redelivered_event_signals_nothing_new:
  assumes log: "keeps_log dt lg" "dt_signal_topic dt \<noteq> dt_state_topic dt"
    and nets: "\<And>cidrs w w' t. dt_cidrs dt = Some cidrs \<Longrightarrow> cidrs w t = cidrs w' t"
    and once: "detect dt d w0 st0 = (Inr (), w1, st1)" and between: "detector_run pc dt ms w1 st1 = (ok, w2, st2)"
    and again: "detect dt d w3 st2 = (r, w4, st4)"
  shows "st4 = st2 \<and> (\<exists>new. lg w4 = lg w3 @ new \<and> (\<forall>x \<in> set new. bm_topic x = dt_signal_topic dt
    \<longrightarrow> (\<exists>y \<in> set (lg w1). bm_topic y = dt_signal_topic dt \<and> bm_key y = bm_key x)))"
proof (cases "firewall_message d")
  case None
  then show ?thesis using again by (simp add: detect_def)
next
  case (Some a)
  obtain e fw where d: "firewall_message d = Some (e, fw)" using Some by (metis prod.exhaust)
  obtain r1 wa sta where 1: "(case dt_cidrs dt of None \<Rightarrow> (Inr (), w0, st0) | Some cidrs \<Rightarrow> process_iot dt cidrs e fw w0 st0) = (r1, wa, sta)"
    and a1: "r1 = Inr ()" "st1 = sta" "is_public_routable (fw_source_ip fw) \<Longrightarrow> publish_signal dt (public_signal (dt_clock dt wa) e fw) wa = (Inr (), w1)"
    by (rule detect_parts [OF d once]) auto
  obtain r2 wb stb where 2: "(case dt_cidrs dt of None \<Rightarrow> (Inr (), w3, st2) | Some cidrs \<Rightarrow> process_iot dt cidrs e fw w3 st2) = (r2, wb, stb)"
    and a2: "st4 = stb" "w4 = wb \<or> is_public_routable (fw_source_ip fw) \<and> publish_signal dt (public_signal (dt_clock dt wb) e fw) wb = (r, w4)"
    by (rule detect_parts [OF d again]) auto
  have ref: "refreshes dt lg st2 (lg w3) wb stb"
  proof (cases "\<exists>cidrs cs ns. dt_cidrs dt = Some cidrs \<and> cidrs w3 (ne_tenant_id e) = Inr cs \<and> cs \<noteq> [] \<and> parse_networks cs = Some ns")
    case False
    then show ?thesis using 2 by (auto simp: process_iot_def refreshes_def split: option.splits sum.splits if_splits)
  next
    case True
    then obtain cidrs cs ns where c: "dt_cidrs dt = Some cidrs" "cidrs w3 (ne_tenant_id e) = Inr cs" "cs \<noteq> []" "parse_networks cs = Some ns" by blast
    have "cidrs w0 (ne_tenant_id e) = Inr cs" using nets [OF c(1), of w0 "ne_tenant_id e" w3] c(2) by simp
    then have "iot_pairs dt e fw (device_pairs ns fw) w0 st0 = (Inr (), wa, sta)" using 1 a1(1) c by (simp add: process_iot_def)
    then have "\<forall>p \<in> set (device_pairs ns fw). knows st1 (pair_keys e fw p)" unfolding a1(2) by (blast intro: iot_pairs_learns)
    then have k: "\<forall>p \<in> set (device_pairs ns fw). knows st2 (pair_keys e fw p)" using detector_run_knows [OF between] by blast
    have "iot_pairs dt e fw (device_pairs ns fw) w3 st2 = (r2, wb, stb)" using 2 c by (simp add: process_iot_def)
    then show ?thesis by (rule iot_pairs_refresh [OF log(1) _ k])
  qed
  then obtain new where n: "stb = st2" "lg wb = lg w3 @ new" "\<forall>x \<in> set new. on_state_topic dt x" unfolding refreshes_def by blast
  have quiet: "\<forall>x \<in> set new. bm_topic x \<noteq> dt_signal_topic dt" using n(3) log(2) by (auto simp: on_state_topic_def)
  show ?thesis
  proof (cases "w4 = wb \<or> lg w4 = lg wb")
    case True
    then show ?thesis using n quiet a2(1) by auto
  next
    case False
    then have p: "is_public_routable (fw_source_ip fw)" "publish_signal dt (public_signal (dt_clock dt wb) e fw) wb = (r, w4)" using a2(2) by auto
    let ?x = "signal_message dt (public_signal (dt_clock dt wb) e fw) wb" and ?y = "signal_message dt (public_signal (dt_clock dt wa) e fw) wa"
    have x: "lg w4 = lg wb @ [?x]" using log(1) p(2) by (rule publish_signal_log) (use False in auto)
    have "?y \<in> set (lg w1)" using log(1) a1(3) [OF p(1)] by (rule publish_signal_log) auto
    moreover have "bm_topic ?y = dt_signal_topic dt" "bm_key ?y = bm_key ?x"
      using public_signal_id by (simp_all add: signal_message_def)
    ultimately have "\<forall>z \<in> set (new @ [?x]). bm_topic z = dt_signal_topic dt \<longrightarrow> (\<exists>y \<in> set (lg w1). bm_topic y = dt_signal_topic dt \<and> bm_key y = bm_key z)"
      using quiet by auto
    then show ?thesis using x n a2(1) by (metis append.assoc)
  qed
qed

text \<open>A run of one event, and what it leaves on the state topic.\<close>

definition sample_run :: "bool \<times> broker_message list \<times> states" where
  "sample_run = detector_run sample_group (sample_detector (Some [''10.0.0.0/8''])) [delivered sample_message] [] Map.empty"

lemma sample_run_eq:
  "detector_run sample_group (sample_detector (Some [''10.0.0.0/8''])) [delivered sample_message] [] Map.empty
    = (fst sample_run, fst (snd sample_run), snd (snd sample_run))"
  by (simp only: sample_run_def prod.collapse)

theorem device_signals_after_learning_witness:
  "\<exists>new. fst (snd sample_run) = [] @ new \<and> (\<forall>x \<in> set new. bm_topic x = dt_signal_topic (sample_detector (Some [''10.0.0.0/8'']))
     \<longrightarrow> public_message [delivered sample_message] x \<or> device_message (sample_detector (Some [''10.0.0.0/8''])) [delivered sample_message] Map.empty x)"
  by (rule device_signals_after_learning [OF sample_log(1-3) sample_run_eq])


lemma sample_shown:
  assumes "detector_emits 1785200530000000000 (norm_wire sample_event) sample_firewall s"
  shows "signal_doc s \<noteq> NoBytes"
  using assms
proof (rule detector_emits_shown)
  show "1 \<le> fw_destination_port sample_firewall" "fw_destination_port sample_firewall \<le> 65535" by (simp_all add: sample_firewall_def)
  fix detector kind severity rec sid title summary
  assume s: "s = shown_signal 1785200530000000000 (norm_wire sample_event) sample_firewall detector kind severity rec sid title summary" and r: "flat_obj rec"
  show "signal_doc s \<noteq> NoBytes"
    unfolding s by (rule shown_signal_encodes [OF r]) (simp_all add: sample_firewall_def norm_wire_def sample_event_def sample_years)
qed

text \<open>With every message taken, every step of the sample detector succeeds.\<close>

lemma sample_publishes: "signal_doc s \<noteq> NoBytes \<Longrightarrow> publish_signal (sample_detector nets) s w = (Inr (), w @ [signal_message (sample_detector nets) s w])"
  by (simp add: publish_signal_def signal_message_def sample_detector_def)

lemma sample_persists:
  "persist_state (sample_detector nets) k s e w st = (Inr (), w @ [state_message (sample_detector nets) k s e w], learn k s st)"
  by (simp add: persist_state_def state_message_def sample_detector_def)

lemma sample_networks: "parse_networks [''10.0.0.0/8''] = Some [(V4 167772160, 8)]"
proof -
  have "parse_prefix ''10.0.0.0/8'' = Some (V4 167772160, 8)" by code_simp
  then show ?thesis by (simp add: trim_visible visible_def code_of_def masked_def)
qed

lemma sample_pairs: "device_pairs [(V4 167772160, 8)] sample_firewall = [\<lparr>dp_device = ''10.0.0.1'', dp_peer = ''8.8.8.8'', dp_direction = ''ingress''\<rparr>]"
  by (simp add: device_pairs_def sample_firewall_def inside_def sample_addresses prefix_contains_def addr_zone_def addr_bits_def addr_number_def)

lemma sample_detected:
  obtains w1 st1 where "detect (sample_detector (Some [''10.0.0.0/8''])) (norm_doc sample_event) [] Map.empty = (Inr (), w1, st1)"
proof -
  have "dt_cidrs (sample_detector (Some [''10.0.0.0/8''])) = Some (\<lambda>w t. Inr [''10.0.0.0/8''])" by (simp add: sample_detector_def)
  moreover obtain w1 st1 where "iot_pair (sample_detector (Some [''10.0.0.0/8''])) (norm_wire sample_event) sample_firewall
      \<lparr>dp_device = ''10.0.0.1'', dp_peer = ''8.8.8.8'', dp_direction = ''ingress''\<rparr> [] Map.empty = (Inr (), w1, st1)"
    by (simp add: iot_pair_def Let_def sample_persists is_mature_def)
  moreover have "signal_doc (public_signal 1785200530000000000 (norm_wire sample_event) sample_firewall) \<noteq> NoBytes"
    by (rule sample_shown) (simp add: detector_emits_def)
  moreover have "dt_clock (sample_detector nets) w = 1785200530000000000" for nets w by (simp add: sample_detector_def)
  ultimately show ?thesis
    by (intro that) (simp add: detect_def sample_fires process_iot_def sample_networks sample_pairs sample_public sample_publishes del: parse_networks.simps)
qed

theorem redelivered_event_signals_nothing_new_witness:
  "\<exists>w1 st1 w2 st2 r w4. detect (sample_detector (Some [''10.0.0.0/8''])) (norm_doc sample_event) [] Map.empty = (Inr (), w1, st1)
    \<and> detector_run sample_group (sample_detector (Some [''10.0.0.0/8''])) [delivered sample_message] w1 st1 = (True, w2, st2)
    \<and> detect (sample_detector (Some [''10.0.0.0/8''])) (norm_doc sample_event) w2 st2 = (r, w4, st2)"
proof (rule sample_detected)
  let ?dt = "sample_detector (Some [''10.0.0.0/8''])"
  fix w1 st1
  assume 1: "detect ?dt (norm_doc sample_event) [] Map.empty = (Inr (), w1, st1)"
  obtain ok w2 st2 where 2: "detector_run sample_group ?dt [delivered sample_message] w1 st1 = (ok, w2, st2)" by (metis prod.exhaust)
  obtain r w4 st4 where 3: "detect ?dt (norm_doc sample_event) w2 st2 = (r, w4, st4)" by (metis prod.exhaust)
  have nets: "cidrs w t = cidrs w' t" if "dt_cidrs ?dt = Some cidrs" for cidrs w w' t using that by (auto simp: sample_detector_def)
  have "st4 = st2 \<and> (\<exists>new. w4 = w2 @ new \<and> (\<forall>x \<in> set new. bm_topic x = dt_signal_topic ?dt
      \<longrightarrow> (\<exists>y \<in> set w1. bm_topic y = dt_signal_topic ?dt \<and> bm_key y = bm_key x)))"
    by (rule redelivered_event_signals_nothing_new [where dt = ?dt and lg = "\<lambda>w. w", OF sample_log(1,3) _ 1 2 3]) (rule nets)
  then have "st4 = st2" by blast
  moreover have "ok = True" using 2 sample_topic by (auto simp: detector_step_def sample_group_def split: sum.splits prod.splits)
  ultimately show ?thesis using 1 2 3 by blast
qed

definition sample_records :: "consumed_message list" where
  "sample_records = map delivered (filter (on_state_topic (sample_detector (Some [''10.0.0.0/8'']))) (fst (snd sample_run)))"

lemma restoring_succeeds:
  "\<forall>m \<in> set recs. bm_topic m = dt_state_topic dt \<and> decode_state (bm_value m) \<noteq> None
    \<Longrightarrow> detector_run sample_group dt recs w st = (True, w, fold restore_record (map key_value recs) st)"
  by (induction recs arbitrary: st)
    (auto simp: detector_step_def restore_def sample_group_def key_value_def restore_record_def)

theorem restored_detector_continues_witness:
  "fst (detector_run sample_group (sample_detector (Some [''10.0.0.0/8''])) [delivered sample_message] [] (fold restore_record (map key_value sample_records) Map.empty))
    = fst (detector_run sample_group (sample_detector (Some [''10.0.0.0/8''])) [delivered sample_message] [] (snd (snd sample_run)))"
proof -
  let ?dt = "sample_detector (Some [''10.0.0.0/8''])"
  have ms: "\<forall>m \<in> set [delivered sample_message]. bm_topic m \<noteq> dt_state_topic ?dt
      \<and> (\<forall>e fw. firewall_message (bm_value m) = Some (e, fw) \<longrightarrow> common_year (ne_occurred_at e))"
    by (auto simp: sample_topic sample_fires sample_event_occurred sample_years)
  have "recorded ?dt [] Map.empty" by (simp add: recorded_def)
  then have r: "recorded ?dt (fst (snd sample_run)) (snd (snd sample_run))"
    using recorded_run [OF sample_log(1,2,4,3) ms sample_run_eq] by simp
  have s: "bm_topic (delivered x) = bm_topic x" "bm_value (delivered x) = bm_value x" "key_value (delivered x) = key_value x" for x
    by (simp_all add: delivered_def broker_message.defs key_value_def)
  have recs: "\<forall>m \<in> set sample_records. bm_topic m = dt_state_topic ?dt \<and> decode_state (bm_value m) \<noteq> None"
    using r by (auto simp: sample_records_def recorded_def s on_state_topic_def)
  have k: "mset (map key_value sample_records) = mset (map key_value (filter (on_state_topic ?dt) (fst (snd sample_run))))"
    by (simp add: sample_records_def s comp_def)
  show ?thesis
    using restored_detector_continues [OF sample_log(1,2,4,3) ms sample_run_eq refl _ k restoring_succeeds [OF recs]] recs by blast
qed

end
