(* ===== verification/Opportunities.thy ===== *)
theory Opportunities imports Hypotheses Outcomes begin

text \<open>
  \<open>internal/marketops/opportunities/builder.go\<close>: triggered hypothesis evaluations grouped into
  research opportunities (\<open>Build\<close>), and opportunities from agreeing independent sources
  (\<open>BuildConvergence\<close>). The order in which Go ranges over the map of groups and the results
  of the unstable sorts are arguments. Session dates are UTC.
\<close>

section \<open>Data\<close>

record candidate =
  ca_evaluation :: hyp_evaluation
  ca_definition :: hypothesis_definition
  ca_direction :: string
  ca_horizon :: string
  ca_family :: string

record group_key =
  gk_tenant :: string
  gk_asset :: string
  gk_symbol :: string
  gk_session :: string
  gk_direction :: string
  gk_horizon :: string

record opportunity_result =
  or_opportunities :: "opportunity list"
  or_evaluations :: int
  or_triggered :: int
  or_suppressed :: int
  or_conflict_links :: int
  or_skipped :: "(string \<times> int) list"

text \<open>The range over the groups, the sort of a group's members and that of the result.\<close>

record build_orders =
  bo_groups :: "group_key list \<Rightarrow> group_key list"
  bo_members :: "candidate list \<Rightarrow> candidate list"
  bo_result :: "opportunity list \<Rightarrow> opportunity list"

section \<open>Candidates\<close>

definition definition_id :: "string \<Rightarrow> string \<Rightarrow> string \<Rightarrow> string" where
  "definition_id tenant key version = tenant @ [CHR 0x00] @ key @ [CHR 0x00] @ version"

text \<open>The map of definitions: of two with one identifier the later one counts.\<close>

definition definition_by_id :: "hypothesis_definition list \<Rightarrow> string \<Rightarrow> hypothesis_definition option" where
  "definition_by_id defs i =
     first_match (\<lambda>d. definition_id (hd_tenant_id d) (hd_hypothesis_key d) (hd_hypothesis_version d) = i) (rev defs)"

definition score_of :: "f64 option \<Rightarrow> f64" where
  "score_of v = (case v of None \<Rightarrow> Fin 0 | Some x \<Rightarrow> clamp01 x)"

definition opposite :: "string \<Rightarrow> string \<Rightarrow> bool" where
  "opposite a b \<longleftrightarrow> a = ''upside'' \<and> b = ''downside'' \<or> a = ''downside'' \<and> b = ''upside''"

text \<open>
  The payload decodes into a struct; a field of another type, or a payload that is no object,
  leaves the zero value.
\<close>

definition payload_text :: "doc \<Rightarrow> string \<Rightarrow> string" where
  "payload_text d name = trim_space (str_of (ofield (decoded d) name))"

definition payload_checks :: "doc \<Rightarrow> obj" where
  "payload_checks d = (case obj_of (ofield (decoded d) ''checks'') of None \<Rightarrow> [] | Some m \<Rightarrow> m)"

definition conditional_direction :: "string \<Rightarrow> obj \<Rightarrow> string" where
  "conditional_direction key checks =
     (if key = ''H006'' then
        (let mv = (case num_of (oget checks ''return_1d'') of None \<Rightarrow> Fin 0 | Some x \<Rightarrow> x) in
         if flt (Fin 0) mv then ''downside'' else if flt mv (Fin 0) then ''upside'' else ''conditional'')
      else if key = ''H007'' then
        (let ty = str_of (oget checks ''option_type'') in
         if ty = ''put'' then ''downside'' else if ty = ''call'' then ''upside'' else ''conditional'')
      else ''conditional'')"

definition builder_profile :: "hyp_evaluation \<Rightarrow> hypothesis_definition \<Rightarrow> string \<times> string \<times> string" where
  "builder_profile e d =
     (let d0 = payload_text (he_payload e) ''resolved_direction'';
          d1 = (if d0 = [] then trim_space (hd_direction d) else d0);
          direction = (if d1 = ''conditional'' then conditional_direction (he_hypothesis_key e) (payload_checks (he_payload e)) else d1);
          h0 = payload_text (he_payload e) ''horizon'';
          f0 = payload_text (he_payload e) ''hypothesis_family'';
          f1 = (if f0 = [] then trim_space (hd_domain d) else f0)
      in (direction, if h0 = [] then ''5_to_20_sessions'' else h0, if f1 = [] then he_hypothesis_key e else f1))"

definition classify :: "hypothesis_definition list \<Rightarrow> hyp_evaluation \<Rightarrow> candidate verdict" where
  "classify defs e =
     (if he_app_id e \<noteq> [] \<and> he_app_id e \<noteq> ''marketops'' then Skip ''wrong_app_id''
      else if he_invalidated e then Skip ''invalidated_evaluation''
      else if \<not> he_eligible e then Skip ''ineligible_evaluation''
      else if \<not> he_triggered e then Skip ''eligible_not_triggered''
      else
        (case definition_by_id defs (definition_id (he_tenant_id e) (he_hypothesis_key e) (he_hypothesis_version e)) of
           None \<Rightarrow> Skip ''missing_hypothesis_definition''
         | Some d \<Rightarrow>
           if hd_lifecycle_status d \<noteq> ''research'' then Skip ''non_research_hypothesis_definition''
           else if he_trigger_score e = None \<or> he_confidence_score e = None then Skip ''missing_required_score''
           else
             (let (direction, horizon, family) = builder_profile e d in
              if \<not> valid_direction direction then Skip ''unresolved_direction''
              else if blank horizon then Skip ''unresolved_horizon''
              else Take \<lparr>ca_evaluation = e, ca_definition = d, ca_direction = direction, ca_horizon = horizon, ca_family = family\<rparr>)))"

definition taken :: "'a verdict list \<Rightarrow> 'a list" where
  "taken vs = List.map_filter (\<lambda>v. case v of Take c \<Rightarrow> Some c | _ \<Rightarrow> None) vs"

fun skip_counts :: "'a verdict list \<Rightarrow> (string \<times> int) list \<Rightarrow> (string \<times> int) list" where
  "skip_counts [] sk = sk"
| "skip_counts (Skip r # vs) sk = skip_counts vs (bump r sk)"
| "skip_counts (_ # vs) sk = skip_counts vs sk"

definition invalidating :: "hyp_evaluation list \<Rightarrow> hyp_evaluation list" where
  "invalidating es = filter (\<lambda>e. (he_app_id e = [] \<or> he_app_id e = ''marketops'') \<and> he_invalidated e) es"

section \<open>Groups\<close>

definition group_of :: "candidate \<Rightarrow> group_key" where
  "group_of c =
     (let e = ca_evaluation c in
      \<lparr>gk_tenant = he_tenant_id e, gk_asset = he_asset_id e, gk_symbol = he_symbol e, gk_session = fmt_date (he_session_date e),
       gk_direction = ca_direction c, gk_horizon = ca_horizon c\<rparr>)"

definition greater :: "hyp_evaluation \<Rightarrow> hyp_evaluation \<Rightarrow> bool" where
  "greater a b \<longleftrightarrow>
     (let x = score_of (he_trigger_score a); y = score_of (he_trigger_score b) in
      flt y x \<or> (feq x y \<and> he_evaluation_id a < he_evaluation_id b))"

fun strongest_scan ::
  "candidate list \<Rightarrow> (string \<times> candidate) list \<Rightarrow> candidate list \<Rightarrow> (string \<times> candidate) list \<times> candidate list" where
  "strongest_scan [] best gone = (best, gone)"
| "strongest_scan (c # cs) best gone =
     (case map_of best (ca_family c) of
        None \<Rightarrow> strongest_scan cs (best @ [(ca_family c, c)]) gone
      | Some cur \<Rightarrow>
          if greater (ca_evaluation c) (ca_evaluation cur)
          then strongest_scan cs (AList.update (ca_family c) c best) (gone @ [cur])
          else strongest_scan cs best (gone @ [c]))"

definition strongest_per_family :: "(candidate list \<Rightarrow> candidate list) \<Rightarrow> candidate list \<Rightarrow> candidate list \<times> candidate list" where
  "strongest_per_family srt cs = (let (best, gone) = strongest_scan cs [] [] in (srt (map snd best), gone))"

definition conflicting_candidates :: "group_key \<Rightarrow> candidate list \<Rightarrow> candidate list" where
  "conflicting_candidates k cs =
     filter (\<lambda>c. he_tenant_id (ca_evaluation c) = gk_tenant k \<and> he_asset_id (ca_evaluation c) = gk_asset k
       \<and> fmt_date (he_session_date (ca_evaluation c)) = gk_session k \<and> ca_horizon c = gk_horizon k
       \<and> opposite (gk_direction k) (ca_direction c)) cs"

definition invalidating_evidence_ids :: "group_key \<Rightarrow> hyp_evaluation list \<Rightarrow> string list" where
  "invalidating_evidence_ids k es =
     unique (concat (map he_evidence_ids (filter (\<lambda>e. he_tenant_id e = gk_tenant k \<and> he_asset_id e = gk_asset k
       \<and> fmt_date (he_session_date e) = gk_session k) es)))"

definition candidate_evaluation_ids :: "candidate list \<Rightarrow> string list" where
  "candidate_evaluation_ids cs = unique (map (\<lambda>c. he_evaluation_id (ca_evaluation c)) cs)"

section \<open>Scores\<close>

definition count_f :: "'a list \<Rightarrow> f64" where
  "count_f xs = f_of_int (int (length xs))"

definition diversity_of :: "candidate list \<Rightarrow> f64" where
  "diversity_of ms = clamp01 (fdiv (count_f (unique (map (hd_domain \<circ> ca_definition) ms))) (Fin 3))"

definition corroboration_of :: "candidate list \<Rightarrow> f64" where
  "corroboration_of ms = clamp01 (fdiv (fsub (count_f ms) (Fin 1)) (Fin 2))"

definition conflict_of :: "candidate list \<Rightarrow> candidate list \<Rightarrow> f64" where
  "conflict_of ms conflicts = clamp01 (fdiv (count_f conflicts) (fmax (fadd (count_f ms) (count_f conflicts)) (Fin 1)))"

definition mean_score :: "(hyp_evaluation \<Rightarrow> f64 option) \<Rightarrow> candidate list \<Rightarrow> f64" where
  "mean_score f ms = fdiv (fsum (map (\<lambda>c. score_of (f (ca_evaluation c))) ms)) (count_f ms)"

definition max_score :: "candidate list \<Rightarrow> f64" where
  "max_score ms = foldl fmax (Fin 0) (map (\<lambda>c. score_of (he_trigger_score (ca_evaluation c))) ms)"

definition opportunity_score_of :: "candidate list \<Rightarrow> f64 \<Rightarrow> f64" where
  "opportunity_score_of ms conflict =
     clamp01 (fsub
       (fadd (fadd (fadd (fadd (fmul (rnd (35 / 100)) (max_score ms)) (fmul (rnd (2 / 10)) (mean_score he_quality_score ms)))
          (fmul (rnd (15 / 100)) (mean_score he_persistence_score ms))) (fmul (rnd (15 / 100)) (diversity_of ms)))
          (fmul (rnd (15 / 100)) (corroboration_of ms)))
       (fmul (Fin (1 / 4)) conflict))"

definition confidence_score_of :: "candidate list \<Rightarrow> f64 \<Rightarrow> f64" where
  "confidence_score_of ms conflict =
     clamp01 (fsub (fmul (mean_score he_confidence_score ms) (fadd (Fin (3 / 4)) (fmul (Fin (1 / 4)) (diversity_of ms))))
       (fmul (Fin (1 / 4)) conflict))"

definition lifecycle_of :: "candidate list \<Rightarrow> f64 \<Rightarrow> string" where
  "lifecycle_of ms conflict =
     (if 2 \<le> length ms \<and> 2 \<le> length (unique (map (hd_domain \<circ> ca_definition) ms)) \<and> flt conflict (Fin (1 / 2))
      then ''active'' else ''emerging'')"

section \<open>Records\<close>

definition opportunity_summary :: "string \<Rightarrow> string \<Rightarrow> string \<Rightarrow> string list \<Rightarrow> int \<Rightarrow> int \<Rightarrow> string" where
  "opportunity_summary symbol direction horizon keys domains conflicts =
     symbol @ '' '' @ direction @ '' '' @ horizon @ '' opportunity from '' @ join '', '' keys @ '' across '' @ itoa domains
     @ '' independent domain(s); ''
     @ (if 0 < conflicts then itoa conflicts @ '' opposing triggered hypothesis evaluation(s)'' else ''no opposing triggered hypothesis'') @ ''.''"

definition contribution_json :: "candidate \<Rightarrow> json" where
  "contribution_json c =
     (let e = ca_evaluation c in
      JObj [(''evaluation_id'', JStr (he_evaluation_id e)), (''hypothesis_key'', JStr (he_hypothesis_key e)),
        (''hypothesis_version'', JStr (he_hypothesis_version e)), (''domain'', JStr (hd_domain (ca_definition c))),
        (''trigger_score'', json_ptr (he_trigger_score e)), (''confidence_score'', json_ptr (he_confidence_score e)),
        (''quality_score'', json_ptr (he_quality_score e))])"

definition opportunity_payload :: "candidate list \<Rightarrow> candidate list \<Rightarrow> candidate list \<Rightarrow> doc" where
  "opportunity_payload ms suppressed conflicts =
     marshal (JObj [(''scoring_version'', JStr ''marketops.opportunity_score.v1''), (''contributions'', JArr (map contribution_json ms)),
       (''overlap_suppressed_evaluation_ids'', JArr (map JStr (candidate_evaluation_ids suppressed))),
       (''conflicting_evaluation_ids'', JArr (map JStr (candidate_evaluation_ids conflicts))),
       (''hypothesis_families'', JArr (map JStr (unique (map (hd_domain \<circ> ca_definition) ms)))), (''research_only'', JBool True)])"

definition build_record ::
  "string \<Rightarrow> group_key \<Rightarrow> candidate list \<Rightarrow> candidate list \<Rightarrow> candidate list \<Rightarrow> hyp_evaluation list \<Rightarrow> opportunity res" where
  "build_record run k ms suppressed conflicts dead =
     (case parse_date (gk_session k) of
        None \<Rightarrow> Inl (Err ''parse session'')
      | Some session \<Rightarrow>
        bind_res (new_identity ''opportunity'' [gk_tenant k, gk_asset k, gk_session k, gk_direction k, gk_horizon k, itoa 1]) (\<lambda>ident.
          let conflict = conflict_of ms conflicts in
          Inr \<lparr>op_opportunity_id = id_ID ident, op_tenant_id = gk_tenant k, op_app_id = ''marketops'', op_asset_id = gk_asset k,
            op_symbol = gk_symbol k, op_opened_session_date = session, op_last_evaluated_date = session, op_direction = gk_direction k,
            op_horizon = gk_horizon k, op_lifecycle_status = lifecycle_of ms conflict,
            op_opportunity_score = opportunity_score_of ms conflict, op_confidence_score = confidence_score_of ms conflict,
            op_domain_diversity_score = diversity_of ms, op_conflict_score = conflict,
            op_hypothesis_evaluation_ids = candidate_evaluation_ids ms, op_conflicting_evaluation_ids = candidate_evaluation_ids conflicts,
            op_signal_ids = [], op_supporting_evidence_ids = unique (concat (map (\<lambda>c. he_evidence_ids (ca_evaluation c)) ms)),
            op_invalidating_evidence_ids = invalidating_evidence_ids k dead,
            op_summary = opportunity_summary (gk_symbol k) (gk_direction k) (gk_horizon k)
              (sort (map (\<lambda>c. he_hypothesis_key (ca_evaluation c)) ms))
              (int (length (unique (map (hd_domain \<circ> ca_definition) ms)))) (int (length conflicts)),
            op_payload = opportunity_payload ms suppressed conflicts, op_version = 1, op_research_only = True, op_build_run_id = run,
            op_deterministic_key = id_key ident, op_created_at = zero_time, op_updated_at = zero_time\<rparr>))"

section \<open>Build\<close>

fun build_groups ::
  "build_orders \<Rightarrow> string \<Rightarrow> candidate list \<Rightarrow> hyp_evaluation list \<Rightarrow> group_key list \<Rightarrow> opportunity_result \<Rightarrow> opportunity_result res" where
  "build_groups o1 run cs dead [] r = Inr r"
| "build_groups o1 run cs dead (k # ks) r =
     (let (selected, suppressed) = strongest_per_family (bo_members o1) (filter (\<lambda>c. group_of c = k) cs);
          (conflicts, _) = strongest_per_family (bo_members o1) (conflicting_candidates k cs)
      in bind_res (build_record run k selected suppressed conflicts dead) (\<lambda>x.
           build_groups o1 run cs dead ks
             (r\<lparr>or_opportunities := or_opportunities r @ [x], or_suppressed := or_suppressed r + int (length suppressed),
                or_conflict_links := or_conflict_links r + int (length conflicts)\<rparr>)))"

definition build_opportunities ::
  "build_orders \<Rightarrow> string \<Rightarrow> hypothesis_definition list \<Rightarrow> hyp_evaluation list \<Rightarrow> opportunity_result res" where
  "build_opportunities o1 run defs es =
     (if blank run then Inl (Err ''opportunity build run id is required'')
      else
        (let vs = map (classify defs) es; cs = taken vs in
         bind_res (build_groups o1 (trim_space run) cs (invalidating es) (bo_groups o1 (remdups (map group_of cs)))
             \<lparr>or_opportunities = [], or_evaluations = int (length es), or_triggered = int (length cs), or_suppressed = 0,
              or_conflict_links = 0, or_skipped = skip_counts vs []\<rparr>)
           (\<lambda>r. Inr (r\<lparr>or_opportunities := bo_result o1 (or_opportunities r)\<rparr>))))"

section \<open>BuildConvergence\<close>

record contribution =
  cv_tenant :: string
  cv_asset :: string
  cv_symbol :: string
  cv_source :: string
  cv_direction :: string
  cv_session_date :: time
  cv_strength :: f64
  cv_evidence :: "string list"

text \<open>
  The ranges over the map of groups and over that of the mixed groups, the sort of the
  members of a mixed group by source, in which a source may stand on both sides, and the
  sort of the result by score.
\<close>

record convergence_orders =
  vo_groups :: "group_key list \<Rightarrow> group_key list"
  vo_mixed :: "group_key list \<Rightarrow> group_key list"
  vo_members :: "contribution list \<Rightarrow> contribution list"
  vo_result :: "opportunity list \<Rightarrow> opportunity list"

definition default_horizon :: string where
  "default_horizon = ''5_to_20_sessions''"

definition clean_contribution :: "contribution \<Rightarrow> contribution option" where
  "clean_contribution c0 =
     (let c = c0\<lparr>cv_symbol := to_upper (trim_space (cv_symbol c0)), cv_direction := trim_space (cv_direction c0),
              cv_source := trim_space (cv_source c0)\<rparr>
      in if cv_symbol c = [] \<or> cv_source c = [] \<or> cv_session_date c = zero_time \<or> \<not> valid_direction (cv_direction c) then None
         else Some (if cv_asset c = [] then c\<lparr>cv_asset := ''ticker:'' @ cv_symbol c\<rparr> else c))"

definition contribution_group :: "contribution \<Rightarrow> group_key" where
  "contribution_group c =
     \<lparr>gk_tenant = cv_tenant c, gk_asset = cv_asset c, gk_symbol = cv_symbol c, gk_session = fmt_date (cv_session_date c),
      gk_direction = cv_direction c, gk_horizon = default_horizon\<rparr>"

definition in_group :: "contribution list \<Rightarrow> group_key \<Rightarrow> contribution list" where
  "in_group cs k = filter (\<lambda>c. contribution_group c = k) cs"

text \<open>The strongest contribution of each source, the first one of equals.\<close>

fun by_source :: "contribution list \<Rightarrow> (string \<times> contribution) list \<Rightarrow> (string \<times> contribution) list" where
  "by_source [] m = m"
| "by_source (c # cs) m =
     (case map_of m (cv_source c) of
        None \<Rightarrow> by_source cs (m @ [(cv_source c, c)])
      | Some cur \<Rightarrow> by_source cs (if flt (cv_strength cur) (cv_strength c) then AList.update (cv_source c) c m else m))"

definition source_before_of :: "contribution \<Rightarrow> contribution \<Rightarrow> bool" where
  "source_before_of a b \<longleftrightarrow> cv_source a < cv_source b"

definition average_strength :: "contribution list \<Rightarrow> f64" where
  "average_strength ms = fdiv (fsum (map (\<lambda>c. clamp01 (cv_strength c)) ms)) (count_f ms)"

definition convergence_json :: "contribution \<Rightarrow> json" where
  "convergence_json c =
     JObj [(''source'', JStr (cv_source c)), (''direction'', JStr (cv_direction c)), (''strength'', JNum (clamp01 (cv_strength c))),
       (''evidence_ids'', JArr (map JStr (unique (cv_evidence c))))]"

definition convergence_payload :: "obj \<Rightarrow> contribution list \<Rightarrow> int \<Rightarrow> int \<Rightarrow> string \<Rightarrow> doc" where
  "convergence_payload extra ms agree conflict formula =
     marshal (JObj (extra @ [(''scoring_version'', JStr ''marketops.convergence_opportunity.v2''), (''contributions'', JArr (map convergence_json ms)),
       (''agreement_sources'', JInt agree), (''conflict_sources'', JInt conflict), (''score_formula'', JStr formula), (''research_only'', JBool True)]))"

definition conflict_sources :: "contribution list \<Rightarrow> group_key list \<Rightarrow> group_key \<Rightarrow> int" where
  "conflict_sources cs ks k =
     sum_list (map (\<lambda>g. int (length (remdups (map cv_source (in_group cs g)))))
       (filter (\<lambda>g. gk_tenant g = gk_tenant k \<and> gk_asset g = gk_asset k \<and> gk_session g = gk_session k
          \<and> opposite (gk_direction k) (gk_direction g)) ks))"

text \<open>The fields the two kinds of opportunities share.\<close>

definition convergence_record ::
  "string \<Rightarrow> group_key \<Rightarrow> contribution list \<Rightarrow> f64 \<Rightarrow> f64 \<Rightarrow> f64 \<Rightarrow> string \<Rightarrow> doc \<Rightarrow> opportunity res" where
  "convergence_record run k ms score confidence conflict summary payload =
     bind_res (new_identity ''opportunity'' [gk_tenant k, gk_asset k, gk_session k, gk_direction k, gk_horizon k, itoa 2]) (\<lambda>ident.
       Inr \<lparr>op_opportunity_id = id_ID ident, op_tenant_id = gk_tenant k, op_app_id = ''marketops'', op_asset_id = gk_asset k,
         op_symbol = gk_symbol k, op_opened_session_date = cv_session_date (ms ! 0), op_last_evaluated_date = cv_session_date (ms ! 0),
         op_direction = gk_direction k, op_horizon = gk_horizon k, op_lifecycle_status = ''active'', op_opportunity_score = score,
         op_confidence_score = confidence, op_domain_diversity_score = clamp01 (fdiv (count_f ms) (Fin 4)), op_conflict_score = conflict,
         op_hypothesis_evaluation_ids = [], op_conflicting_evaluation_ids = [], op_signal_ids = [],
         op_supporting_evidence_ids = unique (concat (map cv_evidence ms)), op_invalidating_evidence_ids = [], op_summary = summary,
         op_payload = payload, op_version = 2, op_research_only = True, op_build_run_id = run, op_deterministic_key = id_key ident,
         op_created_at = zero_time, op_updated_at = zero_time\<rparr>)"

definition converging_record :: "string \<Rightarrow> contribution list \<Rightarrow> group_key list \<Rightarrow> group_key \<Rightarrow> contribution list \<Rightarrow> opportunity res" where
  "converging_record run cs ks k ms =
     (let n = conflict_sources cs ks k; average = average_strength ms;
          conflict = clamp01 (fdiv (f_of_int n) (f_of_int (int (length ms) + n)));
          score = clamp01 (fsub (fadd (Fin (1 / 2)) (fmul (Fin (1 / 2)) average)) (fmul (Fin (1 / 4)) conflict))
      in convergence_record run k ms score (clamp01 (fmul average (fsub (Fin 1) conflict))) conflict
           (gk_symbol k @ '' '' @ gk_direction k @ '' convergence: '' @ itoa (int (length ms)) @ '' independent sources agree; ''
              @ itoa n @ '' opposing sources.'')
           (convergence_payload [] ms (int (length ms)) n ''0.50 agreement + 0.50 average_strength - 0.25 conflict_ratio''))"

fun converging ::
  "string \<Rightarrow> contribution list \<Rightarrow> group_key list \<Rightarrow> group_key list \<Rightarrow> opportunity list \<Rightarrow> (string \<times> int) list
   \<Rightarrow> (opportunity list \<times> (string \<times> int) list) res" where
  "converging run cs all [] ops sk = Inr (ops, sk)"
| "converging run cs all (k # ks) ops sk =
     (let sources = by_source (in_group cs k) [] in
      if length sources < 2 then converging run cs all ks ops (bump ''insufficient_independent_sources'' sk)
      else bind_res (converging_record run cs all k (sort_by source_before_of (map snd sources))) (\<lambda>x.
             converging run cs all ks (ops @ [x]) sk))"

definition mixed_key :: "group_key \<Rightarrow> group_key" where
  "mixed_key k = k\<lparr>gk_direction := ''non_directional''\<rparr>"

definition material :: "contribution \<Rightarrow> bool" where
  "material c \<longleftrightarrow> fle (rnd (2 / 10)) (clamp01 (cv_strength c))"

definition mixed_values :: "contribution list \<Rightarrow> group_key list \<Rightarrow> group_key \<Rightarrow> contribution list" where
  "mixed_values cs ks k =
     concat (map (\<lambda>g. filter material (in_group cs g))
       (filter (\<lambda>g. (gk_direction g = ''upside'' \<or> gk_direction g = ''downside'') \<and> mixed_key g = k) ks))"

definition mixed_keys :: "contribution list \<Rightarrow> group_key list \<Rightarrow> group_key list" where
  "mixed_keys cs ks =
     filter (\<lambda>k. mixed_values cs ks k \<noteq> [])
       (remdups (map mixed_key (filter (\<lambda>g. gk_direction g = ''upside'' \<or> gk_direction g = ''downside'') ks)))"

definition side :: "string \<Rightarrow> contribution list \<Rightarrow> contribution list" where
  "side direction vs = map snd (by_source (filter (\<lambda>c. cv_direction c = direction) vs) [])"

definition mixed_record :: "string \<Rightarrow> group_key \<Rightarrow> contribution list \<Rightarrow> opportunity res" where
  "mixed_record run k ms =
     (let average = average_strength ms in
      convergence_record run k ms average (Fin 0) (Fin 1)
        (gk_symbol k @ '' mixed-conviction review: '' @ itoa (int (length ms)) @ '' material sources disagree on direction.'')
        (convergence_payload [(''mixed_conviction'', JBool True)] ms 0 (int (length ms)) ''average material opposing source strength''))"

fun mixing ::
  "convergence_orders \<Rightarrow> string \<Rightarrow> contribution list \<Rightarrow> group_key list \<Rightarrow> group_key list \<Rightarrow> opportunity list \<Rightarrow> opportunity list res" where
  "mixing o1 run cs ks [] ops = Inr ops"
| "mixing o1 run cs ks (k # rest) ops =
     (let vs = mixed_values cs ks k; up = side ''upside'' vs; down = side ''downside'' vs in
      if up = [] \<or> down = [] then mixing o1 run cs ks rest ops
      else bind_res (mixed_record run k (vo_members o1 (up @ down))) (\<lambda>x. mixing o1 run cs ks rest (ops @ [x])))"

definition build_convergence :: "convergence_orders \<Rightarrow> string \<Rightarrow> contribution list \<Rightarrow> opportunity_result res" where
  "build_convergence o1 run inputs =
     (if blank run then Inl (Err ''opportunity build run id is required'')
      else
        (let cs = List.map_filter clean_contribution inputs;
             sk = (((\<lambda>m. bump ''invalid_convergence_contribution'' m) ^^ (length inputs - length cs)) []);
             ks = vo_groups o1 (remdups (map contribution_group cs))
         in bind_res (converging run cs ks ks [] sk) (\<lambda>(ops, sk').
              bind_res (mixing o1 run cs ks (vo_mixed o1 (mixed_keys cs ks)) ops) (\<lambda>all.
                Inr \<lparr>or_opportunities = vo_result o1 all, or_evaluations = 0, or_triggered = 0, or_suppressed = 0,
                  or_conflict_links = 0, or_skipped = sk'\<rparr>))))"

end
