(* ===== verification/OpportunityProps.thy ===== *)
theory OpportunityProps imports Opportunities HypothesisProps begin

text \<open>
  The properties of the opportunity builder: which evaluations an opportunity stands for and
  how they are counted, the range of its scores, the agreement of the builder with the
  evaluator that wrote the payloads it reads, and the identifiers of convergences.
\<close>

section \<open>The strongest of each family\<close>

lemma flt_trans: "flt x y \<Longrightarrow> flt y z \<Longrightarrow> flt x z"
  using fle_flt_trans flt_imp_fle by blast

lemma greater_irrefl [simp]: "\<not> greater e e"
  by (simp add: greater_def Let_def)

lemma float_order_mix:
  "flt y z \<Longrightarrow> flt z x \<Longrightarrow> flt y x" "flt y z \<Longrightarrow> feq x z \<Longrightarrow> flt y x" "feq z y \<Longrightarrow> flt z x \<Longrightarrow> flt y x" "feq z y \<Longrightarrow> feq x z \<Longrightarrow> feq x y"
  by (cases x; cases y; cases z; simp add: flt_def feq_def)+

lemma greater_trans: "greater a b \<Longrightarrow> greater b c \<Longrightarrow> greater a c"
  unfolding greater_def Let_def using float_order_mix flt_trans by (meson order_less_trans)

lemma greater_mono: "\<not> greater a b \<Longrightarrow> greater c b \<Longrightarrow> \<not> greater a c"
  unfolding greater_def Let_def using float_order_mix by (meson order_less_trans)

definition scan_ok :: "(string \<times> candidate) list \<Rightarrow> bool" where
  "scan_ok best \<longleftrightarrow> distinct (map fst best) \<and> (\<forall>f c. map_of best f = Some c \<longrightarrow> ca_family c = f)"

lemma map_of_append_new: "k \<notin> fst ` set m \<Longrightarrow> map_of (m @ [(k, v)]) = (map_of m)(k \<mapsto> v)"
  by (induction m) (auto simp: fun_eq_iff)

lemma scan_step:
  assumes "strongest_scan (c # cs) best gone = (best', gone')" "scan_ok best"
  obtains best1 gone1 m where "strongest_scan cs best1 gone1 = (best', gone')" "scan_ok best1"
    "length best1 + length gone1 = Suc (length best + length gone)" "fst ` set best1 = insert (ca_family c) (fst ` set best)"
    "\<And>f x. map_of best1 f = Some x \<Longrightarrow> x = c \<or> map_of best f = Some x"
    "map_of best1 (ca_family c) = Some m" "\<not> greater (ca_evaluation c) (ca_evaluation m)"
    "\<And>f x. map_of best f = Some x \<Longrightarrow> \<exists>y. map_of best1 f = Some y \<and> (y = x \<or> greater (ca_evaluation y) (ca_evaluation x))"
proof (cases "map_of best (ca_family c)")
  case None
  then have k: "ca_family c \<notin> fst ` set best" by (simp add: map_of_eq_None_iff)
  have m: "map_of (best @ [(ca_family c, c)]) = (map_of best)(ca_family c \<mapsto> c)" using k by (rule map_of_append_new)
  show ?thesis
    by (rule that [of "best @ [(ca_family c, c)]" gone c]) (use assms None k in \<open>auto simp: scan_ok_def m simp del: map_of_append split: if_splits\<close>)
next
  case (Some cur)
  then have k: "ca_family c \<in> fst ` set best" by (metis domI dom_map_of_conv_image_fst)
  show ?thesis
  proof (cases "greater (ca_evaluation c) (ca_evaluation cur)")
    case True
    let ?b = "AList.update (ca_family c) c best"
    have m: "map_of ?b = (map_of best)(ca_family c \<mapsto> c)" by (rule update_conv')
    have ks: "map fst ?b = map fst best" using k by (simp add: update_keys)
    have "length ?b = length best" "fst ` set ?b = fst ` set best" using ks by (metis length_map, metis list.set_map)
    moreover have "scan_ok ?b"
      using assms(2) ks unfolding scan_ok_def m by (metis fun_upd_apply option.inject)
    moreover have "\<exists>y. map_of ?b f = Some y \<and> (y = x \<or> greater (ca_evaluation y) (ca_evaluation x))" if "map_of best f = Some x" for f x
      using that Some True unfolding m by (cases "f = ca_family c") simp_all
    moreover have "x = c \<or> map_of best f = Some x" if "map_of ?b f = Some x" for f x
      using that unfolding m by (metis fun_upd_apply option.inject)
    moreover have "strongest_scan cs ?b (gone @ [cur]) = (best', gone')" using assms(1) Some True by simp
    moreover have "map_of ?b (ca_family c) = Some c" unfolding m by simp
    ultimately show ?thesis
      by (intro that [of ?b "gone @ [cur]" c]) (use k in auto)
  next
    case False
    then show ?thesis
      by (intro that [of best "gone @ [c]" cur]) (use assms Some k in auto)
  qed
qed

lemma scan_facts:
  assumes "strongest_scan cs best gone = (best', gone')" "scan_ok best"
  shows "scan_ok best' \<and> length best' + length gone' = length best + length gone + length cs
    \<and> fst ` set best' = fst ` set best \<union> ca_family ` set cs
    \<and> (\<forall>f x. map_of best' f = Some x \<longrightarrow> x \<in> set cs \<or> map_of best f = Some x)
    \<and> (\<forall>f x. map_of best f = Some x \<longrightarrow> (\<exists>z. map_of best' f = Some z \<and> (z = x \<or> greater (ca_evaluation z) (ca_evaluation x))))
    \<and> (\<forall>c \<in> set cs. \<exists>m. map_of best' (ca_family c) = Some m \<and> \<not> greater (ca_evaluation c) (ca_evaluation m))"
  using assms
proof (induction cs arbitrary: best gone)
  case Nil
  then show ?case by auto
next
  case (Cons c cs)
  obtain best1 gone1 m where s: "strongest_scan cs best1 gone1 = (best', gone')" "scan_ok best1"
    "length best1 + length gone1 = Suc (length best + length gone)" "fst ` set best1 = insert (ca_family c) (fst ` set best)"
    "\<And>f x. map_of best1 f = Some x \<Longrightarrow> x = c \<or> map_of best f = Some x"
    "map_of best1 (ca_family c) = Some m" "\<not> greater (ca_evaluation c) (ca_evaluation m)"
    "\<And>f x. map_of best f = Some x \<Longrightarrow> \<exists>y. map_of best1 f = Some y \<and> (y = x \<or> greater (ca_evaluation y) (ca_evaluation x))"
    by (rule scan_step [OF Cons.prems]) (rule that)
  note ih = Cons.IH [OF s(1,2)]
  have grow: "\<exists>z. map_of best' f = Some z \<and> (z = x \<or> greater (ca_evaluation z) (ca_evaluation x))" if "map_of best f = Some x" for f x
    using s(8) [OF that] ih greater_trans by metis
  have new: "\<exists>z. map_of best' (ca_family c) = Some z \<and> \<not> greater (ca_evaluation c) (ca_evaluation z)"
    using s(6,7) ih greater_mono by metis
  show ?case
  proof (intro conjI)
    show "length best' + length gone' = length best + length gone + length (c # cs)" using ih s(3) by simp
    show "fst ` set best' = fst ` set best \<union> ca_family ` set (c # cs)" using ih s(4) by auto
    show "\<forall>f x. map_of best' f = Some x \<longrightarrow> x \<in> set (c # cs) \<or> map_of best f = Some x" using ih s(5) by (metis list.set_intros)
  qed (use ih grow new in auto)
qed

lemma strongest_facts:
  assumes "strongest_per_family srt cs = (ms, gone)" and srt: "\<And>xs. mset (srt xs) = mset xs"
  shows "length ms + length gone = length cs" "set ms \<subseteq> set cs" "distinct (map ca_family ms)" "ca_family ` set ms = ca_family ` set cs"
    "\<forall>c \<in> set cs. \<exists>m \<in> set ms. ca_family m = ca_family c \<and> \<not> greater (ca_evaluation c) (ca_evaluation m)"
proof -
  obtain best where b: "strongest_scan cs [] [] = (best, gone)" "ms = srt (map snd best)"
    using assms(1) by (auto simp: strongest_per_family_def Let_def split: prod.splits)
  have nil: "scan_ok []" by (simp add: scan_ok_def)
  note f = scan_facts [OF b(1) nil]
  have ok: "distinct (map fst best)" "\<And>k c. map_of best k = Some c \<Longrightarrow> ca_family c = k" using f unfolding scan_ok_def by blast+
  have ms: "mset ms = mset (map snd best)" by (simp add: b(2) srt)
  have set_ms: "set ms = snd ` set best" using mset_eq_setD [OF ms] by simp
  have m: "map_of best k = Some x \<longleftrightarrow> (k, x) \<in> set best" for k x using ok(1) by (rule map_of_eq_Some_iff)
  have fam: "ca_family (snd p) = fst p" if "p \<in> set best" for p using ok(2) [of "fst p" "snd p"] that m by simp
  have fams: "map ca_family (map snd best) = map fst best" using fam by simp
  have "length ms = length best" using mset_eq_length [OF ms] by simp
  then show "length ms + length gone = length cs" using f by simp
  show "set ms \<subseteq> set cs"
  proof
    fix x assume "x \<in> set ms"
    then obtain k where "(k, x) \<in> set best" unfolding set_ms by force
    then have "map_of best k = Some x" using m by simp
    then show "x \<in> set cs" using f by (metis map_of.simps(1) option.distinct(1))
  qed
  have "mset (map ca_family ms) = mset (map fst best)" using ms fams by (metis mset_map)
  then show "distinct (map ca_family ms)" using ok(1) mset_eq_imp_distinct_iff by blast
  have "ca_family ` set ms = fst ` set best" unfolding set_ms image_image using fam by simp
  then show "ca_family ` set ms = ca_family ` set cs" using f by simp
  show "\<forall>c \<in> set cs. \<exists>m \<in> set ms. ca_family m = ca_family c \<and> \<not> greater (ca_evaluation c) (ca_evaluation m)"
  proof
    fix c assume "c \<in> set cs"
    then obtain x where x: "map_of best (ca_family c) = Some x" "\<not> greater (ca_evaluation c) (ca_evaluation x)"
      using f by blast
    have "ca_family x = ca_family c" using ok(2) x(1) .
    moreover have "x \<in> set ms" using x(1) m set_ms by force
    ultimately show "\<exists>m \<in> set ms. ca_family m = ca_family c \<and> \<not> greater (ca_evaluation c) (ca_evaluation m)" using x(2) by blast
  qed
qed

section \<open>The groups of a build\<close>

text \<open>What is left open by the language: every order and every sort is some permutation.\<close>

locale build_order =
  fixes o1 :: build_orders
  assumes groups_perm: "mset (bo_groups o1 ks) = mset ks"
    and members_perm: "mset (bo_members o1 cs) = mset cs"
    and result_perm: "mset (bo_result o1 xs) = mset xs"
begin

definition chosen :: "candidate list \<Rightarrow> candidate list" where
  "chosen cs = fst (strongest_per_family (bo_members o1) cs)"

definition left_out :: "candidate list \<Rightarrow> candidate list" where
  "left_out cs = snd (strongest_per_family (bo_members o1) cs)"

lemma chosen_facts:
  "length (chosen cs) + length (left_out cs) = length cs" "set (chosen cs) \<subseteq> set cs" "distinct (map ca_family (chosen cs))"
  "ca_family ` set (chosen cs) = ca_family ` set cs"
  "\<forall>c \<in> set cs. \<exists>m \<in> set (chosen cs). ca_family m = ca_family c \<and> \<not> greater (ca_evaluation c) (ca_evaluation m)"
  using strongest_facts [of "bo_members o1" cs "chosen cs" "left_out cs"] members_perm by (simp_all add: chosen_def left_out_def)

definition built :: "string \<Rightarrow> candidate list \<Rightarrow> hyp_evaluation list \<Rightarrow> group_key \<Rightarrow> opportunity \<Rightarrow> bool" where
  "built run cs dead k x \<longleftrightarrow>
     (let ms = filter (\<lambda>c. group_of c = k) cs in
      build_record run k (chosen ms) (left_out ms) (chosen (conflicting_candidates k cs)) dead = Inr x)"

lemma build_groups_facts:
  assumes "build_groups o1 run cs dead ks r = Inr r'"
  shows "\<exists>xs. or_opportunities r' = or_opportunities r @ xs \<and> list_all2 (built run cs dead) ks xs
    \<and> or_suppressed r' = or_suppressed r + sum_list (map (\<lambda>k. int (length (left_out (filter (\<lambda>c. group_of c = k) cs)))) ks)
    \<and> or_evaluations r' = or_evaluations r \<and> or_triggered r' = or_triggered r \<and> or_skipped r' = or_skipped r"
  using assms
proof (induction ks arbitrary: r)
  case Nil
  then show ?case by simp
next
  case (Cons k ks)
  obtain x where x: "built run cs dead k x" "build_groups o1 run cs dead ks
      (r\<lparr>or_opportunities := or_opportunities r @ [x], or_suppressed := or_suppressed r + int (length (left_out (filter (\<lambda>c. group_of c = k) cs))),
         or_conflict_links := or_conflict_links r + int (length (chosen (conflicting_candidates k cs)))\<rparr>) = Inr r'"
    using Cons.prems by (auto simp: Let_def case_prod_beta built_def chosen_def left_out_def)
  from Cons.IH [OF x(2)] obtain xs where "or_opportunities r' = or_opportunities r @ x # xs \<and> list_all2 (built run cs dead) ks xs
      \<and> or_suppressed r' = or_suppressed r + int (length (left_out (filter (\<lambda>c. group_of c = k) cs)))
          + sum_list (map (\<lambda>k. int (length (left_out (filter (\<lambda>c. group_of c = k) cs)))) ks)
      \<and> or_evaluations r' = or_evaluations r \<and> or_triggered r' = or_triggered r \<and> or_skipped r' = or_skipped r"
    by auto
  then show ?case using x(1) by (intro exI [of _ "x # xs"]) simp
qed

lemma build_facts:
  assumes "build_opportunities o1 run defs es = Inr r"
  defines "vs \<equiv> map (classify defs) es"
  defines "cs \<equiv> taken vs"
  shows "\<exists>ks xs. mset ks = mset (remdups (map group_of cs)) \<and> mset (or_opportunities r) = mset xs
    \<and> list_all2 (built (trim_space run) cs (invalidating es)) ks xs
    \<and> or_suppressed r = sum_list (map (\<lambda>k. int (length (left_out (filter (\<lambda>c. group_of c = k) cs)))) ks)
    \<and> or_evaluations r = int (length es) \<and> or_triggered r = int (length cs) \<and> or_skipped r = skip_counts vs []"
proof -
  obtain r1 where g: "build_groups o1 (trim_space run) cs (invalidating es) (bo_groups o1 (remdups (map group_of cs)))
       \<lparr>or_opportunities = [], or_evaluations = int (length es), or_triggered = int (length cs), or_suppressed = 0,
        or_conflict_links = 0, or_skipped = skip_counts vs []\<rparr> = Inr r1" and r: "r = r1\<lparr>or_opportunities := bo_result o1 (or_opportunities r1)\<rparr>"
    using assms(1) by (auto simp: build_opportunities_def vs_def cs_def Let_def split: if_splits)
  from build_groups_facts [OF g] show ?thesis unfolding r
    by (intro exI [of _ "bo_groups o1 (remdups (map group_of cs))"] exI [of _ "or_opportunities r1"])
      (auto simp: groups_perm result_perm)
qed

lemma built_member:
  assumes "build_opportunities o1 run defs es = Inr r" "x \<in> set (or_opportunities r)"
  shows "\<exists>k \<in> group_of ` set (taken (map (classify defs) es)). built (trim_space run) (taken (map (classify defs) es)) (invalidating es) k x"
proof -
  obtain ks xs where f: "mset ks = mset (remdups (map group_of (taken (map (classify defs) es))))" "mset (or_opportunities r) = mset xs"
      "list_all2 (built (trim_space run) (taken (map (classify defs) es)) (invalidating es)) ks xs"
    using build_facts [OF assms(1)] by blast
  have "x \<in> set xs" using assms(2) f(2) by (metis mset_eq_setD)
  then obtain k where "k \<in> set ks" "built (trim_space run) (taken (map (classify defs) es)) (invalidating es) k x"
    using f(3) by (metis in_set_conv_nth list_all2_conv_all_nth)
  moreover have "set ks = group_of ` set (taken (map (classify defs) es))" using f(1) by (metis list.set_map mset_eq_setD set_remdups)
  ultimately show ?thesis by blast
qed

end

text \<open>The orders of a run in which the map is ranged over as it was filled and ties stay in place.\<close>

definition plain_orders :: build_orders where
  "plain_orders =
     \<lparr>bo_groups = id, bo_members = sort_by (\<lambda>a b. he_evaluation_id (ca_evaluation a) < he_evaluation_id (ca_evaluation b)),
      bo_result = sort_by (\<lambda>a b. if feq (op_opportunity_score a) (op_opportunity_score b) then op_opportunity_id a < op_opportunity_id b
         else flt (op_opportunity_score b) (op_opportunity_score a))\<rparr>"

interpretation plain: build_order plain_orders
  by unfold_locales (simp_all add: plain_orders_def)

section \<open>Accounting\<close>

lemma update_total:
  fixes m :: "(string \<times> int) list"
  shows "distinct (map fst m) \<Longrightarrow>
    sum_list (map snd (AList.update k v m)) = sum_list (map snd m) + v - (case map_of m k of None \<Rightarrow> 0 | Some n \<Rightarrow> n)"
proof (induction m)
  case Nil
  then show ?case by simp
next
  case (Cons p m)
  obtain a b where p: "p = (a, b)" by fastforce
  have "k \<notin> fst ` set m \<Longrightarrow> map_of m k = None" by (simp add: map_of_eq_None_iff)
  then show ?case using Cons p by (auto split: option.splits)
qed

lemma bump_total: "distinct (map fst m) \<Longrightarrow> sum_list (map snd (bump k m)) = sum_list (map snd m) + 1"
  by (simp add: bump_def update_total split: option.split)

lemma taken_simps [simp]: "taken [] = []" "taken (Take c # vs) = c # taken vs" "taken (Skip r # vs) = taken vs" "taken (Foreign # vs) = taken vs"
  by (simp_all add: taken_def)

lemma skip_counts_total:
  "distinct (map fst sk) \<Longrightarrow> Foreign \<notin> set vs \<Longrightarrow> sum_list (map snd (skip_counts vs sk)) + int (length (taken vs)) = sum_list (map snd sk) + int (length vs)"
proof (induction vs sk rule: skip_counts.induct)
  case (2 r vs sk)
  have "distinct (map fst (bump r sk))" using 2(2) unfolding bump_def by (rule distinct_update)
  then show ?case using 2 bump_total [OF 2(2)] by simp
qed simp_all

lemma classify_not_foreign: "Foreign \<notin> set (map (classify defs) es)"
  by (auto simp: classify_def Let_def split: option.splits if_splits prod.splits)

lemma taken_set: "c \<in> set (taken vs) \<longleftrightarrow> Take c \<in> set vs"
  by (induction vs rule: list.induct) (auto simp: taken_def map_filter_def split: verdict.splits)

lemma group_sizes: "(\<Sum>k \<in> g ` set cs. length (filter (\<lambda>c. g c = k) cs)) = length cs"
proof -
  have "length (filter (\<lambda>c. g c = k) cs) = count_list (map g cs) k" for k
    by (induction cs) auto
  then show ?thesis using sum_count_set [of "map g cs" "g ` set cs"] by simp
qed

text \<open>
  C32. A build accounts for every evaluation: each one is a candidate or counted under one
  reason to skip it; there is one opportunity for each combination of tenant, asset, symbol,
  session, direction and horizon of the candidates; and of each combination every family
  keeps one evaluation while the others are counted as suppressed, whatever the order in
  which the map is ranged over and whatever the sorts do with equal elements.
\<close>

theorem build_accounts_for_evaluations:
  assumes "build_order o1" "build_opportunities o1 run defs es = Inr r"
  defines "cs \<equiv> taken (map (classify defs) es)"
  shows "or_evaluations r = int (length es) \<and> or_triggered r = int (length cs)
    \<and> or_triggered r + sum_list (map snd (or_skipped r)) = or_evaluations r
    \<and> length (or_opportunities r) = card (group_of ` set cs)
    \<and> or_suppressed r + (\<Sum>k \<in> group_of ` set cs. int (card (ca_family ` {c \<in> set cs. group_of c = k}))) = or_triggered r"
proof -
  obtain ks xs where f: "mset ks = mset (remdups (map group_of cs))" "mset (or_opportunities r) = mset xs"
      "list_all2 (build_order.built o1 (trim_space run) cs (invalidating es)) ks xs"
      "or_suppressed r = sum_list (map (\<lambda>k. int (length (build_order.left_out o1 (filter (\<lambda>c. group_of c = k) cs)))) ks)"
      "or_evaluations r = int (length es)" "or_triggered r = int (length cs)" "or_skipped r = skip_counts (map (classify defs) es) []"
    using build_order.build_facts [OF assms(1,2)] unfolding cs_def by blast
  have ks: "distinct ks" "set ks = group_of ` set cs"
    using f(1) by (metis distinct_remdups mset_eq_imp_distinct_iff, metis list.set_map mset_eq_setD set_remdups)
  have "length (or_opportunities r) = length ks" using f(2,3) by (metis list_all2_lengthD size_mset)
  then have n: "length (or_opportunities r) = card (group_of ` set cs)" using ks by (metis distinct_card)
  have fam: "int (length (build_order.left_out o1 ms)) + int (card (ca_family ` set ms)) = int (length ms)" for ms
  proof -
    have "card (ca_family ` set ms) = length (build_order.chosen o1 ms)"
      using build_order.chosen_facts(3,4) [OF assms(1), of ms] by (metis distinct_card length_map list.set_map)
    then show ?thesis using build_order.chosen_facts(1) [OF assms(1), of ms] by simp
  qed
  have "or_suppressed r + (\<Sum>k \<in> set ks. int (card (ca_family ` {c \<in> set cs. group_of c = k})))
      = (\<Sum>k \<in> set ks. int (length (build_order.left_out o1 (filter (\<lambda>c. group_of c = k) cs))) + int (card (ca_family ` set (filter (\<lambda>c. group_of c = k) cs))))"
    using ks(1) by (simp add: f(4) sum_list_distinct_conv_sum_set sum.distrib)
  also have "\<dots> = (\<Sum>k \<in> set ks. int (length (filter (\<lambda>c. group_of c = k) cs)))" by (simp only: fam)
  also have "\<dots> = int (length cs)" unfolding ks(2) using group_sizes [of group_of cs] by (simp flip: of_nat_sum)
  finally have "or_suppressed r + (\<Sum>k \<in> group_of ` set cs. int (card (ca_family ` {c \<in> set cs. group_of c = k}))) = int (length cs)"
    unfolding ks(2) .
  moreover have "or_triggered r + sum_list (map snd (or_skipped r)) = or_evaluations r"
    using skip_counts_total [of "[]" "map (classify defs) es", OF _ classify_not_foreign] f(5-7) by (simp add: cs_def)
  ultimately show ?thesis using f(5,6) n by simp
qed

text \<open>
  C33. An opportunity is research only and stands for one group: its evaluations are
  triggered, eligible and not invalidated candidates of that group under a research
  definition, one for each family that occurs there and none weaker than another of its
  family; the evaluations it lists as conflicting are candidates of the same tenant, asset,
  session and horizon in the opposite direction.
\<close>

theorem opportunity_takes_strongest:
  assumes "build_order o1" "build_opportunities o1 run defs es = Inr r" "x \<in> set (or_opportunities r)"
  defines "cs \<equiv> taken (map (classify defs) es)"
  shows "\<exists>k ms ds. k \<in> group_of ` set cs \<and> op_research_only x \<and> op_tenant_id x = gk_tenant k \<and> op_asset_id x = gk_asset k
      \<and> op_direction x = gk_direction k \<and> op_horizon x = gk_horizon k
      \<and> op_hypothesis_evaluation_ids x = candidate_evaluation_ids ms \<and> op_conflicting_evaluation_ids x = candidate_evaluation_ids ds
      \<and> ms \<noteq> [] \<and> distinct (map ca_family ms)
      \<and> (\<forall>c \<in> set ms. c \<in> set cs \<and> group_of c = k \<and> he_triggered (ca_evaluation c) \<and> he_eligible (ca_evaluation c)
           \<and> \<not> he_invalidated (ca_evaluation c) \<and> hd_lifecycle_status (ca_definition c) = ''research'')
      \<and> (\<forall>c \<in> set cs. group_of c = k \<longrightarrow> (\<exists>m \<in> set ms. ca_family m = ca_family c \<and> \<not> greater (ca_evaluation c) (ca_evaluation m)))
      \<and> (\<forall>c \<in> set ds. c \<in> set cs \<and> he_tenant_id (ca_evaluation c) = gk_tenant k \<and> he_asset_id (ca_evaluation c) = gk_asset k
           \<and> ca_horizon c = gk_horizon k \<and> opposite (gk_direction k) (ca_direction c))"
proof -
  obtain k where k: "k \<in> group_of ` set cs" and b: "build_order.built o1 (trim_space run) cs (invalidating es) k x"
    using build_order.built_member [OF assms(1-3)] unfolding cs_def by blast
  let ?g = "filter (\<lambda>c. group_of c = k) cs" and ?q = "conflicting_candidates k cs"
  have rec: "build_record (trim_space run) k (build_order.chosen o1 ?g) (build_order.left_out o1 ?g) (build_order.chosen o1 ?q) (invalidating es) = Inr x"
    using b unfolding build_order.built_def [OF assms(1)] Let_def .
  note cg = build_order.chosen_facts [OF assms(1), of ?g] and cq = build_order.chosen_facts(2) [OF assms(1), of ?q]
  have fields: "op_research_only x" "op_tenant_id x = gk_tenant k" "op_asset_id x = gk_asset k" "op_direction x = gk_direction k"
      "op_horizon x = gk_horizon k" "op_hypothesis_evaluation_ids x = candidate_evaluation_ids (build_order.chosen o1 ?g)"
      "op_conflicting_evaluation_ids x = candidate_evaluation_ids (build_order.chosen o1 ?q)"
    using rec by (auto simp: build_record_def Let_def split: option.splits)
  have ne: "build_order.chosen o1 ?g \<noteq> []" using cg(4) k by auto
  have cand: "he_triggered (ca_evaluation c) \<and> he_eligible (ca_evaluation c) \<and> \<not> he_invalidated (ca_evaluation c)
      \<and> hd_lifecycle_status (ca_definition c) = ''research''" if "c \<in> set cs" for c
    using that unfolding cs_def taken_set by (auto simp: classify_def Let_def split: option.splits if_splits prod.splits)
  show ?thesis
    using k fields ne cg(2,3,5) cq cand
    by (intro exI [of _ k] exI [of _ "build_order.chosen o1 ?g"] exI [of _ "build_order.chosen o1 ?q"])
      (auto simp: conflicting_candidates_def)
qed

section \<open>Scores\<close>

lemma clamp01_between: "v \<noteq> NaN \<Longrightarrow> between 0 1 (clamp01 v)"
  using clamp_to_between [of v 0 1] by (simp add: clamp_to_def clamp01_def)

lemma score_of_between: "v \<noteq> Some NaN \<Longrightarrow> between 0 1 (score_of v)"
  by (cases v) (auto simp: score_of_def clamp01_between)

lemma between_nan: "between a b v \<Longrightarrow> v \<noteq> NaN"
  by auto

lemma fsum_unit_between:
  assumes "\<forall>v \<in> set vs. between 0 1 v" "length vs \<le> 2 ^ 53"
  shows "between 0 (of_nat (length vs)) (fsum vs)"
  using assms
proof (induction vs rule: rev_induct)
  case Nil
  then show ?case by (simp add: fsum_def)
next
  case (snoc v vs)
  have "rep (of_nat (length vs) + 1)" using snoc.prems(2) rep_int [of "int (length vs) + 1"] by simp
  then show ?case using fadd_between [of 0 "of_nat (length vs)" "fsum vs" 0 1 v] snoc by (simp add: fsum_def add.commute)
qed

lemma count_f_small: "length xs \<le> 2 ^ 53 \<Longrightarrow> count_f xs = Fin (of_nat (length xs))"
  unfolding count_f_def by (subst f_of_int_small) (simp_all flip: of_nat_le_iff)

lemma mean_between:
  assumes "ms \<noteq> []" "length ms \<le> 2 ^ 53" "\<forall>c \<in> set ms. f (ca_evaluation c) \<noteq> Some NaN"
  shows "between 0 1 (mean_score f ms)"
proof -
  let ?vs = "map (\<lambda>c. score_of (f (ca_evaluation c))) ms"
  have "between 0 (of_nat (length ms)) (fsum ?vs)" using fsum_unit_between [of ?vs] assms score_of_between by auto
  then show ?thesis unfolding mean_score_def count_f_small [OF assms(2)] by (rule fdiv_between) (use assms(1) in auto)
qed

lemma fmax_between: "between 0 1 x \<Longrightarrow> between 0 1 y \<Longrightarrow> between 0 1 (fmax x y)"
  using fmax_cases [of x y] by (cases x; cases y) (auto simp: fmax_def between_iff)

lemma max_score_between:
  assumes "\<forall>c \<in> set ms. he_trigger_score (ca_evaluation c) \<noteq> Some NaN"
  shows "between 0 1 (max_score ms)"
proof -
  have "between 0 1 (foldl fmax v vs)" if "between 0 1 v" "\<forall>w \<in> set vs. between 0 1 w" for v vs
    using that by (induction vs arbitrary: v) (simp_all add: fmax_between)
  then show ?thesis unfolding max_score_def using assms score_of_between by auto
qed

lemma fdiv_pos_not_nan: "x \<noteq> NaN \<Longrightarrow> 0 < q \<Longrightarrow> fdiv x (Fin q) \<noteq> NaN"
  by (cases x) (auto simp: fdiv_def is_zero_def Let_def szero_def sinf_def)

lemma fadd_fin_not_nan: "is_fin x \<Longrightarrow> is_fin y \<Longrightarrow> fadd x y \<noteq> NaN"
  by (cases x; cases y) (auto simp: fadd_def)

lemma fsub_fin_not_nan: "is_fin x \<Longrightarrow> is_fin y \<Longrightarrow> fsub x y \<noteq> NaN"
  by (simp add: fsub_def fadd_fin_not_nan)

lemma const_between: "0 \<le> q \<Longrightarrow> q \<le> 1 \<Longrightarrow> between 0 1 (rnd q)"
  by (rule rnd_between) simp_all

lemma unit_product: "between 0 1 x \<Longrightarrow> between 0 1 y \<Longrightarrow> between 0 1 (fmul x y)"
  using fmul_between [of 1 x 1 y] by simp

text \<open>The four parts of a score, for groups of a realistic size.\<close>

lemma length_unique: "length (unique vs) \<le> length vs"
proof -
  have "length (keep_new seen vs) \<le> length vs" for seen by (induction vs arbitrary: seen) (auto simp: le_SucI)
  then show ?thesis by (simp add: unique_def)
qed

lemma diversity_between:
  assumes "length ms \<le> 2 ^ 52"
  shows "between 0 1 (diversity_of ms)"
proof -
  have "length (unique (map (hd_domain \<circ> ca_definition) ms)) \<le> 2 ^ 53"
    using length_unique [of "map (hd_domain \<circ> ca_definition) ms"] assms by simp
  then show ?thesis unfolding diversity_of_def by (intro clamp01_between fdiv_pos_not_nan) (simp_all add: count_f_small)
qed

lemma corroboration_between: "length ms \<le> 2 ^ 52 \<Longrightarrow> between 0 1 (corroboration_of ms)"
  unfolding corroboration_of_def by (intro clamp01_between fdiv_pos_not_nan fsub_fin_not_nan) (simp_all add: count_f_small)

lemma conflict_between:
  assumes "length ms \<le> 2 ^ 52" "length ds \<le> 2 ^ 52"
  shows "between 0 1 (conflict_of ms ds)"
proof -
  have "rep (of_nat (length ms) + of_nat (length ds))" using assms rep_int [of "int (length ms) + int (length ds)"] by simp
  then have "fadd (count_f ms) (count_f ds) = Fin (of_nat (length ms) + of_nat (length ds))"
    using assms by (simp add: count_f_small fadd_def rnd_rep)
  then have "\<exists>q. fmax (fadd (count_f ms) (count_f ds)) (Fin 1) = Fin q \<and> 0 < q"
    by (auto simp: fmax_def flt_def is_zero_def)
  then obtain q where "fmax (fadd (count_f ms) (count_f ds)) (Fin 1) = Fin q" "0 < q" by blast
  moreover have "count_f ds \<noteq> NaN" using assms(2) by (simp add: count_f_small)
  ultimately show ?thesis unfolding conflict_of_def using fdiv_pos_not_nan clamp01_between by simp
qed

lemma rep_small: "\<bar>k\<bar> \<le> 8 \<Longrightarrow> rep (of_int k)"
  by (rule rep_int) simp

lemma opportunity_score_between:
  assumes "ms \<noteq> []" "length ms \<le> 2 ^ 52" "between 0 1 conflict"
    and "\<forall>c \<in> set ms. he_trigger_score (ca_evaluation c) \<noteq> Some NaN \<and> he_quality_score (ca_evaluation c) \<noteq> Some NaN
      \<and> he_persistence_score (ca_evaluation c) \<noteq> Some NaN"
  shows "between 0 1 (opportunity_score_of ms conflict)"
proof -
  have n: "length ms \<le> 2 ^ 53" using assms(2) by simp
  let ?a = "fmul (rnd (35 / 100)) (max_score ms)" and ?b = "fmul (rnd (2 / 10)) (mean_score he_quality_score ms)"
    and ?c = "fmul (rnd (15 / 100)) (mean_score he_persistence_score ms)" and ?d = "fmul (rnd (15 / 100)) (diversity_of ms)"
    and ?e = "fmul (rnd (15 / 100)) (corroboration_of ms)" and ?f = "fmul (Fin (1 / 4)) conflict"
  have u: "between 0 1 ?a" "between 0 1 ?b" "between 0 1 ?c" "between 0 1 ?d" "between 0 1 ?e" "between 0 1 ?f"
    using assms(4) max_score_between mean_between [OF assms(1) n] diversity_between [OF assms(2)] corroboration_between [OF assms(2)] assms(3)
    by (auto intro!: unit_product const_between)
  have r: "rep 2" "rep 3" "rep 4" "rep 5" using rep_small [of 2] rep_small [of 3] rep_small [of 4] rep_small [of 5] by simp_all
  have "between 0 2 (fadd ?a ?b)" using fadd_between [OF u(1,2)] r by simp
  then have "between 0 3 (fadd (fadd ?a ?b) ?c)" using fadd_between [OF _ u(3)] r by fastforce
  then have "between 0 4 (fadd (fadd (fadd ?a ?b) ?c) ?d)" using fadd_between [OF _ u(4)] r by fastforce
  then have "between 0 5 (fadd (fadd (fadd (fadd ?a ?b) ?c) ?d) ?e)" using fadd_between [OF _ u(5)] r by fastforce
  then show ?thesis unfolding opportunity_score_of_def using u(6) by (intro clamp01_between fsub_fin_not_nan) (auto simp: between_iff)
qed

lemma confidence_score_between:
  assumes "ms \<noteq> []" "length ms \<le> 2 ^ 52" "between 0 1 conflict"
    and "\<forall>c \<in> set ms. he_confidence_score (ca_evaluation c) \<noteq> Some NaN"
  shows "between 0 1 (confidence_score_of ms conflict)"
proof -
  have n: "length ms \<le> 2 ^ 53" using assms(2) by simp
  have r: "rep 2" using rep_small [of 2] by simp
  have "between 0 1 (fmul (Fin (1 / 4)) (diversity_of ms))" "between 0 1 (fmul (Fin (1 / 4)) conflict)"
    using diversity_between [OF assms(2)] assms(3) by (auto intro!: unit_product)
  moreover have "between 0 1 (Fin (3 / 4))" by simp
  ultimately have "between 0 2 (fadd (Fin (3 / 4)) (fmul (Fin (1 / 4)) (diversity_of ms)))" "is_fin (fmul (Fin (1 / 4)) conflict)"
    using fadd_between [of 0 1 "Fin (3 / 4)" 0 1] r by (auto simp: between_iff)
  moreover have "between 0 1 (mean_score he_confidence_score ms)" using mean_between [OF assms(1) n] assms(4) by blast
  ultimately have "between 0 2 (fmul (mean_score he_confidence_score ms) (fadd (Fin (3 / 4)) (fmul (Fin (1 / 4)) (diversity_of ms))))"
    using fmul_between [of 1 _ 2] r by fastforce
  then show ?thesis unfolding confidence_score_of_def using \<open>is_fin (fmul (Fin (1 / 4)) conflict)\<close>
    by (intro clamp01_between fsub_fin_not_nan) (auto simp: between_iff)
qed

lemma length_taken: "length (taken vs) \<le> length vs"
proof (induction vs)
  case (Cons v vs)
  then show ?case by (cases v) simp_all
qed simp

text \<open>
  C34. Every score of an opportunity (its score, confidence, domain diversity and conflict)
  lies between zero and one in exact double arithmetic, every rounding included, provided no
  score of the evaluations is a NaN and there are at most \<open>2 ^ 52\<close> of them.
\<close>

theorem opportunity_scores_in_range:
  assumes "build_order o1" "build_opportunities o1 run defs es = Inr r" "x \<in> set (or_opportunities r)" "length es \<le> 2 ^ 52"
    and "\<forall>e \<in> set es. he_trigger_score e \<noteq> Some NaN \<and> he_confidence_score e \<noteq> Some NaN \<and> he_quality_score e \<noteq> Some NaN
      \<and> he_persistence_score e \<noteq> Some NaN"
  shows "between 0 1 (op_opportunity_score x) \<and> between 0 1 (op_confidence_score x)
    \<and> between 0 1 (op_domain_diversity_score x) \<and> between 0 1 (op_conflict_score x)"
proof -
  define cs where "cs = taken (map (classify defs) es)"
  obtain k where k: "k \<in> group_of ` set cs" "build_order.built o1 (trim_space run) cs (invalidating es) k x"
    using build_order.built_member [OF assms(1-3)] unfolding cs_def by blast
  let ?ms = "build_order.chosen o1 (filter (\<lambda>c. group_of c = k) cs)" and ?ds = "build_order.chosen o1 (conflicting_candidates k cs)"
  have x: "op_opportunity_score x = opportunity_score_of ?ms (conflict_of ?ms ?ds)" "op_confidence_score x = confidence_score_of ?ms (conflict_of ?ms ?ds)"
      "op_domain_diversity_score x = diversity_of ?ms" "op_conflict_score x = conflict_of ?ms ?ds"
    using k(2) unfolding build_order.built_def [OF assms(1)] by (auto simp: build_record_def Let_def split: option.splits)
  note cg = build_order.chosen_facts [OF assms(1), of "filter (\<lambda>c. group_of c = k) cs"]
    and cq = build_order.chosen_facts [OF assms(1), of "conflicting_candidates k cs"]
  have "length cs \<le> 2 ^ 52" using length_taken [of "map (classify defs) es"] assms(4) by (simp add: cs_def)
  moreover have "length (filter (\<lambda>c. group_of c = k) cs) \<le> length cs" "length (conflicting_candidates k cs) \<le> length cs"
    by (simp_all add: conflicting_candidates_def)
  ultimately have n: "length ?ms \<le> 2 ^ 52" "length ?ds \<le> 2 ^ 52" using cg(1) cq(1) by linarith+
  have ne: "?ms \<noteq> []" using cg(4) k(1) by auto
  have ev: "ca_evaluation c \<in> set es" if "c \<in> set cs" for c
    using that unfolding cs_def taken_set by (auto simp: classify_def Let_def split: option.splits if_splits prod.splits)
  then have fin: "he_trigger_score (ca_evaluation c) \<noteq> Some NaN \<and> he_confidence_score (ca_evaluation c) \<noteq> Some NaN
      \<and> he_quality_score (ca_evaluation c) \<noteq> Some NaN \<and> he_persistence_score (ca_evaluation c) \<noteq> Some NaN" if "c \<in> set ?ms" for c
    using that cg(2) assms(5) by auto
  note conflict = conflict_between [OF n]
  show ?thesis unfolding x
    using opportunity_score_between [OF ne n(1) conflict] confidence_score_between [OF ne n(1) conflict] diversity_between [OF n(1)] conflict fin by blast
qed

section \<open>The evaluator and the builder\<close>

text \<open>The three texts of the payload the builder reads, as the evaluator wrote them.\<close>

lemma payload_texts:
  assumes "evaluation_payload d st r \<noteq> NoBytes" "opportunity_profile d (hs_checks r) = (direction, horizon, family)"
  shows "payload_text (evaluation_payload d st r) ''resolved_direction'' = trim_space direction"
    "payload_text (evaluation_payload d st r) ''horizon'' = trim_space horizon"
    "payload_text (evaluation_payload d st r) ''hypothesis_family'' = trim_space family"
  using assms
  by (simp_all add: evaluation_payload_def marshal_def payload_text_def decoded_def ofield_code lower_char_def code_of_def str_of_def split: if_splits)

lemma plain_texts [simp]:
  "trim_space ''upside'' = ''upside''" "trim_space ''downside'' = ''downside''" "trim_space ''non_directional'' = ''non_directional''"
  "trim_space ''5_to_20_sessions'' = ''5_to_20_sessions''" "trim_space ''momentum_exhaustion'' = ''momentum_exhaustion''"
  "trim_space ''volatility_surface'' = ''volatility_surface''" "trim_space ''divergence'' = ''divergence''"
  "trim_space ''option_positioning'' = ''option_positioning''"
  by (rule trim_visible; simp add: visible_def code_of_def)+

text \<open>A trigger of a conditional hypothesis has resolved its direction.\<close>

lemma h006_direction:
  assumes "hs_triggered (evaluate_h006 i)" "hd_hypothesis_key d = ''H006''"
  shows "fst (opportunity_profile d (hs_checks (evaluate_h006 i))) \<in> {''upside'', ''downside''}"
proof -
  obtain mv where "oget (hs_checks (evaluate_h006 i)) ''return_1d'' = Some (JNum mv)" "flt (Fin 0) mv \<or> flt mv (Fin 0)"
    using assms(1) verdict_ok_dispatch [of "''H006''" i]
    by (auto simp: dispatch_def verdict_ok_def evaluate_h006_def h006_score_def Let_def case_prod_beta oget_def fgt_def split: if_splits)
  then show ?thesis using assms(2) by (auto simp: opportunity_profile_def Let_def num_of_def)
qed

lemma match_option_type: "dimensions_match raw (Some (Dims ty dte)) \<Longrightarrow> dimension_string raw ''option_type'' = ty"
  by (auto simp: dimensions_match_def prints_as_def dimension_string_def str_of_def split: option.splits json.splits)

lemma h007_direction:
  assumes "hs_triggered (evaluate_h007 i)" "hd_hypothesis_key d = ''H007''"
  shows "fst (opportunity_profile d (hs_checks (evaluate_h007 i))) \<in> {''upside'', ''downside''}"
proof -
  obtain r oi where t: "oi = fst (require_any_option_feature i ''oi_change_1d'' option_types r)" "fge (fvalue oi) (Fin 100)"
    and c: "oget (hs_checks (evaluate_h007 i)) ''option_type'' = Some (JStr (case oi of None \<Rightarrow> [] | Some ob \<Rightarrow> dimension_string (fo_dimensions ob) ''option_type''))"
    using assms(1) verdict_ok_dispatch [of "''H007''" i]
    by (auto simp: dispatch_def verdict_ok_def evaluate_h007_def h007_score_def Let_def case_prod_beta oget_def split: if_splits)
  obtain ob where ob: "oi = Some ob" using t(2) by (cases oi) (auto simp: fvalue_def fge_def fle_def flt_def feq_def)
  obtain ty where "ty \<in> set option_types" "find_feature i ''oi_change_1d'' (Some (Dims ty 30)) = Some ob"
    using require_any_feature_value t(1) ob by metis
  then have "ty \<in> {''put'', ''call''} \<and> dimensions_match (fo_dimensions ob) (Some (Dims ty 30))"
    using first_match_Some [of _ "in_observations i" ob] unfolding find_feature_def option_types_def by fastforce
  then have "dimension_string (fo_dimensions ob) ''option_type'' \<in> {''put'', ''call''}" using match_option_type by metis
  then show ?thesis using assms(2) c ob by (auto simp: opportunity_profile_def Let_def)
qed

lemma definition_selectors:
  "hd_tenant_id (research_definition t key ti dm dr fs ts th oc) = t" "hd_hypothesis_version (research_definition t key ti dm dr fs ts th oc) = ''v1''"
  "hd_lifecycle_status (research_definition t key ti dm dr fs ts th oc) = ''research''" "hd_hypothesis_key (research_definition t key ti dm dr fs ts th oc) = key"
  "hd_direction (research_definition t key ti dm dr fs ts th oc) = dr" "hd_domain (research_definition t key ti dm dr fs ts th oc) = dm"
  by (simp_all add: research_definition_def)

lemma first_match_unique:
  assumes "x \<in> set xs" "P x" "\<And>y. y \<in> set xs \<Longrightarrow> P y \<Longrightarrow> y = x"
  shows "first_match P xs = Some x"
proof (cases "first_match P xs")
  case None
  then show ?thesis using assms(1,2) unfolding first_match_None by blast
next
  case (Some y)
  then show ?thesis using first_match_Some [OF Some] assms(3) by simp
qed

lemma research_definitions_all:
  "list_all (\<lambda>d. hd_tenant_id d = t \<and> hd_hypothesis_version d = ''v1'' \<and> hd_lifecycle_status d = ''research''
    \<and> (hd_hypothesis_key d, hd_direction d) \<in> {(''H001'', ''downside''), (''H004'', ''non_directional''), (''H006'', ''conditional''), (''H007'', ''conditional'')}
    \<and> trim_space (hd_domain d) = hd_domain d \<and> hd_domain d \<noteq> []) (research_definitions t)"
  "map hd_hypothesis_key (research_definitions t) = [''H001'', ''H004'', ''H006'', ''H007'']"
  unfolding research_definitions_def list.pred_inject list.map definition_selectors by simp_all

lemma research_definition_facts:
  assumes "d \<in> set (research_definitions t)"
  shows "hd_tenant_id d = t" "hd_hypothesis_version d = ''v1''" "hd_lifecycle_status d = ''research''"
    "(hd_hypothesis_key d, hd_direction d) \<in> {(''H001'', ''downside''), (''H004'', ''non_directional''), (''H006'', ''conditional''), (''H007'', ''conditional'')}"
    "trim_space (hd_domain d) = hd_domain d \<and> hd_domain d \<noteq> []"
    "definition_by_id (research_definitions t) (definition_id t (hd_hypothesis_key d) ''v1'') = Some d"
proof -
  have all: "hd_tenant_id x = t \<and> hd_hypothesis_version x = ''v1'' \<and> hd_lifecycle_status x = ''research''
    \<and> (hd_hypothesis_key x, hd_direction x) \<in> {(''H001'', ''downside''), (''H004'', ''non_directional''), (''H006'', ''conditional''), (''H007'', ''conditional'')}
    \<and> trim_space (hd_domain x) = hd_domain x \<and> hd_domain x \<noteq> []" if "x \<in> set (research_definitions t)" for x
    using research_definitions_all(1) [of t] that unfolding list_all_iff by blast
  then show "hd_tenant_id d = t" "hd_hypothesis_version d = ''v1''" "hd_lifecycle_status d = ''research''"
    "(hd_hypothesis_key d, hd_direction d) \<in> {(''H001'', ''downside''), (''H004'', ''non_directional''), (''H006'', ''conditional''), (''H007'', ''conditional'')}"
    "trim_space (hd_domain d) = hd_domain d \<and> hd_domain d \<noteq> []" using assms by blast+
  have "distinct (map hd_hypothesis_key (research_definitions t))" unfolding research_definitions_all(2) by simp
  then have "x = d" if "x \<in> set (research_definitions t)" "hd_hypothesis_key x = hd_hypothesis_key d" for x
    using assms that by (metis distinct_map inj_onD)
  then show "definition_by_id (research_definitions t) (definition_id t (hd_hypothesis_key d) ''v1'') = Some d"
    unfolding definition_by_id_def using assms all by (intro first_match_unique) (auto simp: definition_id_def)
qed

lemma trigger_direction:
  assumes "d \<in> set (research_definitions t)" "dispatch (hd_hypothesis_key d) i = Inr r" "hs_triggered r"
  shows "fst (opportunity_profile d (hs_checks r)) \<in> {''upside'', ''downside'', ''non_directional''}
    \<and> (hd_direction d \<noteq> ''conditional'' \<longrightarrow> fst (opportunity_profile d (hs_checks r)) = hd_direction d)"
  using research_definition_facts(4) [OF assms(1)] assms(2,3) h006_direction [of i d] h007_direction [of i d]
  by (auto simp: dispatch_def opportunity_profile_def)

lemma classify_evaluated:
  assumes "d \<in> set (research_definitions t)" "hyp_evaluate run d i = Inr e" "he_triggered e" "he_payload e \<noteq> NoBytes"
  shows "\<exists>direction. classify (research_definitions t) e =
      Take \<lparr>ca_evaluation = e, ca_definition = d, ca_direction = direction, ca_horizon = ''5_to_20_sessions'', ca_family = hd_domain d\<rparr>
    \<and> direction \<in> {''upside'', ''downside'', ''non_directional''} \<and> (hd_direction d \<noteq> ''conditional'' \<longrightarrow> direction = hd_direction d)"
proof -
  obtain r ident where r: "dispatch (hd_hypothesis_key d) i = Inr r" "e = evaluation_record run d i ident r"
    using hyp_evaluate_Inr [OF assms(2)] by blast
  note d = research_definition_facts [OF assms(1)]
  have v: "hs_triggered r" "hs_eligible r" "\<not> hs_invalidated r"
    using assms(3) verdict_ok_dispatch [OF r(1)] unfolding r(2) by (auto simp: verdict_ok_def)
  have tenant: "ms_tenant_id (in_state i) = t" using assms(2) d(1) by (auto simp: hyp_evaluate_def Let_def split: if_splits)
  have e: "he_app_id e = ''marketops''" "he_tenant_id e = t" "he_hypothesis_key e = hd_hypothesis_key d" "he_hypothesis_version e = ''v1''"
      "he_trigger_score e \<noteq> None" "he_confidence_score e \<noteq> None" "he_payload e = evaluation_payload d (in_state i) r"
      "he_triggered e" "he_eligible e" "\<not> he_invalidated e"
    using v tenant d(2) unfolding r(2) by (simp_all add: evaluation_record_def Let_def)
  obtain direction where p: "opportunity_profile d (hs_checks r) = (direction, ''5_to_20_sessions'', hd_domain d)"
    by (simp add: opportunity_profile_def Let_def)
  have dir: "direction \<in> {''upside'', ''downside'', ''non_directional''}" "hd_direction d \<noteq> ''conditional'' \<longrightarrow> direction = hd_direction d"
    using trigger_direction [OF assms(1) r(1) v(1)] p by simp_all
  note texts = payload_texts [OF assms(4) [unfolded e(7)] p]
  have "trim_space direction = direction" "direction \<noteq> []" "direction \<noteq> ''conditional''" "valid_direction direction"
    using dir(1) by (auto simp: valid_direction_def)
  then have "builder_profile e d = (direction, ''5_to_20_sessions'', hd_domain d)"
    using texts d(5) by (simp add: builder_profile_def Let_def e(7))
  then have "classify (research_definitions t) e =
      Take \<lparr>ca_evaluation = e, ca_definition = d, ca_direction = direction, ca_horizon = ''5_to_20_sessions'', ca_family = hd_domain d\<rparr>"
    using e d(3,6) \<open>valid_direction direction\<close> by (simp add: classify_def)
  then show ?thesis using dir by blast
qed



section \<open>A concrete build\<close>

definition sample_trigger :: hyp_evaluation where
  "sample_trigger = \<lparr>he_evaluation_id = ''e1'', he_tenant_id = ''t'', he_app_id = ''marketops'', he_hypothesis_key = ''H001'',
    he_hypothesis_version = ''v1'', he_market_state_id = ''m1'', he_asset_id = ''a1'', he_symbol = ''AAPL'', he_session_date = 0,
    he_as_of_time = 0, he_eligible = True, he_triggered = True, he_trigger_score = Some (Fin (1 / 2)), he_confidence_score = Some (Fin (1 / 2)),
    he_magnitude_score = None, he_rarity_score = None, he_persistence_score = Some (Fin 1), he_corroboration_score = None,
    he_quality_score = Some (Fin 1), he_invalidated = False, he_evidence_ids = [''v1''], he_reason_codes = [], he_payload = NoBytes,
    he_run_id = ''run'', he_deterministic_key = [], he_created_at = 0\<rparr>"

definition sample_candidate :: candidate where
  "sample_candidate = \<lparr>ca_evaluation = sample_trigger, ca_definition = sample_entry 0, ca_direction = ''downside'',
     ca_horizon = ''5_to_20_sessions'', ca_family = hd_domain (sample_entry 0)\<rparr>"

lemma sample_classified: "classify (research_definitions ''t'') sample_trigger = Take sample_candidate"
proof -
  have d: "sample_entry 0 \<in> set (research_definitions ''t'')" by (simp add: sample_entry_in)
  have "hd_direction (sample_entry 0) = ''downside''" using research_definition_facts(4) [OF d] by simp
  then have "builder_profile sample_trigger (sample_entry 0) = (''downside'', ''5_to_20_sessions'', hd_domain (sample_entry 0))"
    using research_definition_facts(5) [OF d]
    by (simp add: builder_profile_def sample_trigger_def payload_text_def decoded_def decode_obj_def ofield_def Let_def)
  then show ?thesis
    using research_definition_facts(3,6) [OF d]
    by (simp add: classify_def sample_candidate_def) (simp add: sample_trigger_def valid_direction_def)
qed

lemma sample_build: "\<exists>r x. build_opportunities plain_orders ''run'' (research_definitions ''t'') [sample_trigger] = Inr r \<and> x \<in> set (or_opportunities r)"
proof -
  have b: "\<not> blank ''run''" "\<not> blank ''t''" "\<not> blank ''a1''" "\<not> blank ''downside''" "\<not> blank (itoa 1)" "\<not> blank (fmt_date 0)"
    by code_simp+
  have s: "parse_date (fmt_date 0) = Some 0" by code_simp
  have "is_ok (new_identity ''opportunity'' [''t'', ''a1'', fmt_date 0, ''downside'', ''5_to_20_sessions'', itoa 1])"
    by (rule new_identity_ok) (use b in \<open>auto simp: identity_prefix_def\<close>)
  then obtain ident where "new_identity ''opportunity'' [''t'', ''a1'', fmt_date 0, ''downside'', ''5_to_20_sessions'', itoa 1] = Inr ident"
    by (cases "new_identity ''opportunity'' [''t'', ''a1'', fmt_date 0, ''downside'', ''5_to_20_sessions'', itoa 1]") auto
  moreover have "group_of sample_candidate = \<lparr>gk_tenant = ''t'', gk_asset = ''a1'', gk_symbol = ''AAPL'', gk_session = fmt_date 0,
      gk_direction = ''downside'', gk_horizon = ''5_to_20_sessions''\<rparr>"
    by (simp add: group_of_def sample_candidate_def sample_trigger_def Let_def)
  ultimately have "\<exists>x. build_record run (group_of sample_candidate) ms gone ds dead = Inr x" for run ms gone ds dead
    using s by (simp add: build_record_def Let_def)
  then obtain f where "build_record run (group_of sample_candidate) ms gone ds dead = Inr (f run ms gone ds dead)" for run ms gone ds dead by metis
  moreover have "set (bo_result plain_orders xs) = set xs" "bo_groups plain_orders ks = ks" for xs ks by (simp_all add: plain_orders_def)
  ultimately show ?thesis using b(1)
    by (simp add: build_opportunities_def sample_classified Let_def case_prod_beta)
qed

theorem build_accounts_for_evaluations_witness:
  "\<exists>r. build_opportunities plain_orders ''run'' (research_definitions ''t'') [sample_trigger] = Inr r \<and> or_evaluations r = 1
    \<and> or_triggered r + sum_list (map snd (or_skipped r)) = 1"
  using sample_build build_accounts_for_evaluations [OF plain.build_order_axioms] by fastforce

theorem opportunity_takes_strongest_witness:
  "\<exists>r x. build_opportunities plain_orders ''run'' (research_definitions ''t'') [sample_trigger] = Inr r \<and> x \<in> set (or_opportunities r)
    \<and> op_research_only x"
  using sample_build opportunity_takes_strongest [OF plain.build_order_axioms] by metis

theorem opportunity_scores_in_range_witness:
  "\<exists>r x. build_opportunities plain_orders ''run'' (research_definitions ''t'') [sample_trigger] = Inr r \<and> x \<in> set (or_opportunities r)
    \<and> between 0 1 (op_opportunity_score x)"
proof -
  obtain r x where b: "build_opportunities plain_orders ''run'' (research_definitions ''t'') [sample_trigger] = Inr r" "x \<in> set (or_opportunities r)"
    using sample_build by blast
  have "between 0 1 (op_opportunity_score x) \<and> between 0 1 (op_confidence_score x)
    \<and> between 0 1 (op_domain_diversity_score x) \<and> between 0 1 (op_conflict_score x)"
    by (rule opportunity_scores_in_range [OF plain.build_order_axioms b]) (simp_all add: sample_trigger_def)
  then show ?thesis using b by blast
qed

section \<open>Convergences\<close>

definition sample_contribution :: "string \<Rightarrow> string \<Rightarrow> contribution" where
  "sample_contribution source direction =
     \<lparr>cv_tenant = ''t'', cv_asset = ''a1'', cv_symbol = ''AAPL'', cv_source = source, cv_direction = direction, cv_session_date = day_ns,
      cv_strength = Fin 1, cv_evidence = []\<rparr>"

definition sample_contributions :: "contribution list" where
  "sample_contributions = [sample_contribution ''s1'' ''non_directional'', sample_contribution ''s2'' ''non_directional'',
     sample_contribution ''s3'' ''upside'', sample_contribution ''s4'' ''downside'']"

definition plain_convergence :: convergence_orders where
  "plain_convergence = \<lparr>vo_groups = id, vo_mixed = id, vo_members = sort_by source_before_of,
     vo_result = sort_by (\<lambda>a b. flt (op_opportunity_score b) (op_opportunity_score a))\<rparr>"

lemma sample_clean: "List.map_filter clean_contribution sample_contributions = sample_contributions"
proof -
  have t: "trim_space ''AAPL'' = ''AAPL''" "trim_space ''s1'' = ''s1''" "trim_space ''s2'' = ''s2''" "trim_space ''s3'' = ''s3''" "trim_space ''s4'' = ''s4''"
    by (rule trim_visible; simp add: visible_def code_of_def)+
  have u: "to_upper ''AAPL'' = ''AAPL''" by code_simp
  show ?thesis
    by (simp add: sample_contributions_def sample_contribution_def clean_contribution_def t u valid_direction_def day_ns_def zero_time_def)
qed

definition sample_key_of :: "string \<Rightarrow> group_key" where
  "sample_key_of direction = \<lparr>gk_tenant = ''t'', gk_asset = ''a1'', gk_symbol = ''AAPL'', gk_session = fmt_date day_ns, gk_direction = direction,
     gk_horizon = default_horizon\<rparr>"

lemma sample_keys_of:
  "contribution_group (sample_contribution s d) = sample_key_of d" "sample_key_of d = sample_key_of d' \<longleftrightarrow> d = d'"
  "gk_direction (sample_key_of d) = d" "mixed_key (sample_key_of d) = sample_key_of ''non_directional''"
  by (auto simp: contribution_group_def sample_contribution_def sample_key_of_def mixed_key_def)

lemma sample_groups:
  "remdups (map contribution_group sample_contributions) = [sample_key_of ''non_directional'', sample_key_of ''upside'', sample_key_of ''downside'']"
  "in_group sample_contributions (sample_key_of ''non_directional'') = [sample_contribution ''s1'' ''non_directional'', sample_contribution ''s2'' ''non_directional'']"
  "in_group sample_contributions (sample_key_of ''upside'') = [sample_contribution ''s3'' ''upside'']"
  "in_group sample_contributions (sample_key_of ''downside'') = [sample_contribution ''s4'' ''downside'']"
  by (simp_all add: sample_contributions_def in_group_def sample_keys_of)

lemma sample_material: "material (sample_contribution s d)"
  using rnd_between [of 0 1 "2 / 10"] by (simp add: material_def sample_contribution_def clamp01_def between_def)

lemma sample_mixed:
  "mixed_values sample_contributions [sample_key_of ''non_directional'', sample_key_of ''upside'', sample_key_of ''downside''] (sample_key_of ''non_directional'')
     = [sample_contribution ''s3'' ''upside'', sample_contribution ''s4'' ''downside'']"
  "mixed_keys sample_contributions [sample_key_of ''non_directional'', sample_key_of ''upside'', sample_key_of ''downside''] = [sample_key_of ''non_directional'']"
  by (simp_all add: mixed_values_def mixed_keys_def sample_groups sample_keys_of sample_material)

lemma sample_sides:
  "side ''upside'' [sample_contribution ''s3'' ''upside'', sample_contribution ''s4'' ''downside''] = [sample_contribution ''s3'' ''upside'']"
  "side ''downside'' [sample_contribution ''s3'' ''upside'', sample_contribution ''s4'' ''downside''] = [sample_contribution ''s4'' ''downside'']"
  by (simp_all add: side_def sample_contribution_def)

lemma convergence_sources:
  "length (by_source [sample_contribution ''s1'' ''non_directional'', sample_contribution ''s2'' ''non_directional''] []) = 2"
  "length (by_source [sample_contribution s d] []) = 1"
  by (simp_all add: sample_contribution_def)


end
