(* ===== verification/CyberPolicy.thy ===== *)
theory CyberPolicy imports Signals begin

text \<open>
  The policy lifecycle of CyberOps signals: \<open>internal/storage/postgres/cyberops_lifecycle.go\<close> over
  explicit tables with the constraints of migrations 6, 7 and 62, and the ledger upserts of
  \<open>repository.go\<close> it calls. It is the optional operation of the repository that the signal
  persister tries first.
\<close>

section \<open>Tables\<close>

record lifecycle_policy =
  lp_tenant_id :: string
  lp_policy_id :: string
  lp_version :: string
  lp_mode :: string
  lp_selector :: doc
  lp_hash :: string
  lp_updated_at :: time

record approved_service =
  as_tenant_id :: string
  as_destination_ip :: string
  as_protocol :: string
  as_destination_port :: int
  as_approved_by :: string
  as_reason :: string
  as_created_at :: time

record lifecycle_episode =
  le_episode_id :: string
  le_tenant_id :: string
  le_policy_id :: string
  le_fingerprint :: string
  le_disposition :: string
  le_first_observed_at :: time
  le_last_observed_at :: time
  le_observation_count :: int
  le_signal_ids :: "string list"
  le_insight_id :: string
  le_alert_id :: string

record lifecycle_decision =
  ld_decision_id :: string
  ld_tenant_id :: string
  ld_signal_id :: string
  ld_policy_id :: string
  ld_policy_version :: string
  ld_mode :: string
  ld_disposition :: string
  ld_reason :: string
  ld_fingerprint :: string
  ld_episode_id :: string
  ld_insight_id :: string
  ld_alert_id :: string
  ld_created_at :: time

record policy_audit =
  pa_tenant_id :: string
  pa_mutation :: string
  pa_destination_ip :: string
  pa_protocol :: string
  pa_destination_port :: int
  pa_actor :: string
  pa_before :: doc
  pa_after :: doc

record policy_db =
  pd_signals :: "signal_ledger list"
  pd_alerts :: "alert_record list"
  pd_insights :: "insight_record list"
  pd_policies :: "lifecycle_policy list"
  pd_services :: "approved_service list"
  pd_episodes :: "lifecycle_episode list"
  pd_decisions :: "lifecycle_decision list"
  pd_audit :: "policy_audit list"

text \<open>
  What PostgreSQL decides: the canonical text of an \<open>inet\<close>, the collation of text, the text of a
  \<open>jsonb\<close> value that is no string or whole number; and how \<open>fmt\<close> prints and scans such values.
\<close>

record pg_env =
  pe_inet :: "string \<Rightarrow> string option"
  pe_lt :: "string \<Rightarrow> string \<Rightarrow> bool"
  pe_text :: "json \<Rightarrow> string"
  pe_print :: "json \<Rightarrow> string"
  pe_scan :: "string \<Rightarrow> int option"

section \<open>Ledgers\<close>

definition record_text :: "string \<Rightarrow> string \<Rightarrow> string" where
  "record_text dflt v = (if blank v then dflt else trim_space v)"

definition json_or :: "json \<Rightarrow> doc \<Rightarrow> doc" where
  "json_or j d = (if d = NoBytes then Doc j else d)"

definition nullable_json :: "doc \<Rightarrow> doc" where
  "nullable_json d = (if d = Doc JNull then NoBytes else d)"

definition stored_signal :: "time \<Rightarrow> signal_ledger \<Rightarrow> signal_ledger" where
  "stored_signal now r =
     r\<lparr>sl_app_id := record_text ''console'' (sl_app_id r), sl_domain := record_text ''custom'' (sl_domain r),
       sl_use_case := record_text ''general'' (sl_use_case r), sl_entities := json_or (JArr []) (sl_entities r),
       sl_supporting_metrics := json_or (JObj []) (sl_supporting_metrics r), sl_graph_targets := json_or (JArr []) (sl_graph_targets r),
       sl_semantic_evidence := json_or (JArr []) (sl_semantic_evidence r), sl_evidence := json_or (JArr []) (sl_evidence r),
       sl_recommendation := json_or (JObj []) (sl_recommendation r), sl_trace_id := trim_space (sl_trace_id r),
       sl_causation_id := trim_space (sl_causation_id r), sl_replay_job_id := trim_space (sl_replay_job_id r),
       sl_event := json_or (JObj []) (sl_event r), sl_created_at := now, sl_updated_at := now\<rparr>"

definition unit_interval :: "f64 \<Rightarrow> bool" where
  "unit_interval c \<longleftrightarrow> fle (Fin 0) c \<and> fle c (Fin 1)"

definition signal_row_ok :: "signal_ledger \<Rightarrow> bool" where
  "signal_row_ok r \<longleftrightarrow>
     list_all pg_text ([sl_signal_id r, sl_tenant_id r, sl_source_id r, sl_app_id r, sl_domain r, sl_use_case r, sl_source_domain r,
       sl_source_adapter r, sl_ingestion_mode r, sl_dataset r, sl_signal_type r, sl_detector_id r, sl_detector_version r, sl_model_version r,
       sl_correlation_id r, sl_trace_id r, sl_causation_id r, sl_replay_job_id r, sl_broker_topic r] @ sl_event_ids r @ sl_artifact_ids r)
     \<and> list_all pg_json [sl_entities r, sl_supporting_metrics r, sl_graph_targets r, sl_semantic_evidence r, sl_evidence r, sl_recommendation r, sl_event r]
     \<and> sl_severity r \<in> set severities \<and> unit_interval (sl_confidence r)"

definition broker_position :: "signal_ledger \<Rightarrow> string \<times> int \<times> int" where
  "broker_position r = (sl_broker_topic r, sl_broker_partition r, sl_broker_offset r)"

definition upsert_signal :: "time \<Rightarrow> signal_ledger \<Rightarrow> policy_db \<Rightarrow> policy_db res" where
  "upsert_signal now r db =
     (let row = stored_signal now r in
      if \<not> signal_row_ok row \<or> (\<exists>x \<in> set (pd_signals db). sl_signal_id x \<noteq> sl_signal_id r \<and> broker_position x = broker_position r) then
        Inl (Err ''upsert signal ledger'')
      else if \<exists>x \<in> set (pd_signals db). sl_signal_id x = sl_signal_id r then
        Inr (db\<lparr>pd_signals := map (\<lambda>x. if sl_signal_id x = sl_signal_id r then row\<lparr>sl_created_at := sl_created_at x\<rparr> else x) (pd_signals db)\<rparr>)
      else Inr (db\<lparr>pd_signals := pd_signals db @ [row]\<rparr>))"

definition has_signal :: "policy_db \<Rightarrow> string \<Rightarrow> bool" where
  "has_signal db s \<longleftrightarrow> s \<in> sl_signal_id ` set (pd_signals db)"

definition stored_insight :: "insight_record \<Rightarrow> insight_record" where
  "stored_insight i =
     i\<lparr>isr_app_id := record_text ''console'' (isr_app_id i), isr_domain := record_text ''custom'' (isr_domain i),
       isr_use_case := record_text ''general'' (isr_use_case i), isr_entities := json_or (JArr []) (isr_entities i),
       isr_supporting_metrics := json_or (JObj []) (isr_supporting_metrics i),
       isr_semantic_evidence := json_or (JArr []) (isr_semantic_evidence i), isr_recommendation := nullable_json (isr_recommendation i),
       isr_metadata := json_or (JObj []) (isr_metadata i)\<rparr>"

definition insight_row_ok :: "policy_db \<Rightarrow> insight_record \<Rightarrow> bool" where
  "insight_row_ok db i \<longleftrightarrow>
     list_all pg_text ([isr_insight_id i, isr_tenant_id i, isr_source_id i, isr_app_id i, isr_domain i, isr_use_case i, isr_source_domain i,
       isr_source_adapter i, isr_dataset i, isr_signal_id i, isr_detector_id i, isr_insight_type i, isr_title i, isr_summary i, isr_correlation_id i]
       @ isr_event_ids i)
     \<and> list_all pg_json [isr_entities i, isr_supporting_metrics i, isr_semantic_evidence i, isr_metadata i]
     \<and> (isr_recommendation i = NoBytes \<or> pg_json (isr_recommendation i)) \<and> has_signal db (isr_signal_id i)
     \<and> isr_status i \<in> {''active'', ''reviewed'', ''dismissed'', ''archived''} \<and> isr_severity i \<in> set severities \<and> unit_interval (isr_confidence i)"

text \<open>An update keeps the status an operator gave, and the later time.\<close>

definition upsert_insight :: "insight_record \<Rightarrow> policy_db \<Rightarrow> policy_db res" where
  "upsert_insight i db =
     (let row = stored_insight i in
      if \<not> insight_row_ok db row then Inl (Err ''upsert insight ledger'')
      else if \<exists>x \<in> set (pd_insights db). isr_insight_id x = isr_insight_id i then
        Inr (db\<lparr>pd_insights := map (\<lambda>x. if isr_insight_id x = isr_insight_id i
           then row\<lparr>isr_status := isr_status x, isr_observed_at := max (isr_observed_at x) (isr_observed_at i)\<rparr> else x) (pd_insights db)\<rparr>)
      else Inr (db\<lparr>pd_insights := pd_insights db @ [row]\<rparr>))"

definition stored_alert :: "alert_record \<Rightarrow> alert_record" where
  "stored_alert a =
     a\<lparr>alr_app_id := record_text ''console'' (alr_app_id a), alr_domain := record_text ''custom'' (alr_domain a),
       alr_use_case := record_text ''general'' (alr_use_case a), alr_entities := json_or (JArr []) (alr_entities a),
       alr_evidence := json_or (JArr []) (alr_evidence a), alr_recommendation := nullable_json (alr_recommendation a),
       alr_metadata := json_or (JObj []) (alr_metadata a)\<rparr>"

definition alert_row_ok :: "policy_db \<Rightarrow> alert_record \<Rightarrow> bool" where
  "alert_row_ok db a \<longleftrightarrow>
     list_all pg_text ([alr_alert_id a, alr_tenant_id a, alr_source_id a, alr_app_id a, alr_domain a, alr_use_case a, alr_source_domain a,
       alr_source_adapter a, alr_dataset a, alr_signal_id a, alr_detector_id a, alr_alert_type a, alr_title a, alr_summary a, alr_correlation_id a]
       @ alr_event_ids a)
     \<and> list_all pg_json [alr_entities a, alr_evidence a, alr_metadata a]
     \<and> (alr_recommendation a = NoBytes \<or> pg_json (alr_recommendation a)) \<and> has_signal db (alr_signal_id a)
     \<and> alr_status a \<in> {''open'', ''acknowledged'', ''resolved'', ''suppressed''} \<and> alr_severity a \<in> set severities \<and> unit_interval (alr_confidence a)"

definition upsert_alert :: "alert_record \<Rightarrow> policy_db \<Rightarrow> policy_db res" where
  "upsert_alert a db =
     (let row = stored_alert a in
      if \<not> alert_row_ok db row then Inl (Err ''upsert alert ledger'')
      else if \<exists>x \<in> set (pd_alerts db). alr_alert_id x = alr_alert_id a then
        Inr (db\<lparr>pd_alerts := map (\<lambda>x. if alr_alert_id x = alr_alert_id a
           then row\<lparr>alr_status := alr_status x, alr_first_observed_at := min (alr_first_observed_at x) (alr_first_observed_at a),
             alr_last_observed_at := max (alr_last_observed_at x) (alr_last_observed_at a)\<rparr> else x) (pd_alerts db)\<rparr>)
      else Inr (db\<lparr>pd_alerts := pd_alerts db @ [row]\<rparr>))"

section \<open>Evidence\<close>

record cyber_evidence =
  ev_source :: string
  ev_destination :: string
  ev_protocol :: string
  ev_port :: int

definition whole_text :: "f64 \<Rightarrow> string option" where
  "whole_text x = (if \<bar>f_to_int x\<bar> \<le> 2 ^ 53 \<and> feq x (f_of_int (f_to_int x)) then Some (itoa (f_to_int x)) else None)"

text \<open>\<open>fmt.Sprint\<close> of a decoded value; a missing key prints as nil.\<close>

definition go_print :: "pg_env \<Rightarrow> json option \<Rightarrow> string" where
  "go_print env j =
     (case j of
        None \<Rightarrow> ''<nil>'' | Some JNull \<Rightarrow> ''<nil>'' | Some (JStr s) \<Rightarrow> s | Some (JBool b) \<Rightarrow> (if b then ''true'' else ''false'')
      | Some (JNum x) \<Rightarrow> (case whole_text x of Some s \<Rightarrow> s | None \<Rightarrow> pe_print env (JNum x))
      | Some v \<Rightarrow> pe_print env v)"

text \<open>Unmarshalling into a slice of maps, with the error ignored: an element that is no object stays a nil map.\<close>

definition maps_of :: "doc \<Rightarrow> obj list" where
  "maps_of d = (case d of Doc (JArr xs) \<Rightarrow> map (\<lambda>x. case obj_of (Some x) of None \<Rightarrow> [] | Some m \<Rightarrow> m) xs | _ \<Rightarrow> [])"

definition last_with_role :: "pg_env \<Rightarrow> string \<Rightarrow> obj list \<Rightarrow> string" where
  "last_with_role env role ms =
     (case filter (\<lambda>m. oget m ''role'' = Some (JStr role)) ms of [] \<Rightarrow> [] | m # ms1 \<Rightarrow> go_print env (oget (last (m # ms1)) ''value''))"

definition evidence_port :: "pg_env \<Rightarrow> json option \<Rightarrow> int" where
  "evidence_port env j =
     (case j of
        Some (JNum x) \<Rightarrow> f_to_int x | Some (JInt i) \<Rightarrow> i
      | Some (JStr s) \<Rightarrow> (case pe_scan env s of Some i \<Rightarrow> i | None \<Rightarrow> 0)
      | _ \<Rightarrow> 0)"

definition evidence_of :: "pg_env \<Rightarrow> signal_ledger \<Rightarrow> cyber_evidence" where
  "evidence_of env r =
     (let es = maps_of (sl_entities r); ss = maps_of (sl_semantic_evidence r) in
      \<lparr>ev_source = last_with_role env ''source'' es, ev_destination = last_with_role env ''destination'' es,
       ev_protocol = (case ss of [] \<Rightarrow> [] | m # _ \<Rightarrow> to_lower (go_print env (oget m ''protocol''))),
       ev_port = (case ss of [] \<Rightarrow> 0 | m # _ \<Rightarrow> evidence_port env (oget m ''destination_port''))\<rparr>)"

definition lifecycle_id :: "string \<Rightarrow> string list \<Rightarrow> string" where
  "lifecycle_id pre parts = pre @ ''_'' @ bar_digest 16 parts"

section \<open>Queries\<close>

definition approved :: "pg_env \<Rightarrow> string \<Rightarrow> cyber_evidence \<Rightarrow> policy_db \<Rightarrow> bool res" where
  "approved env tenant e db =
     (case pe_inet env (ev_destination e) of
        None \<Rightarrow> Inl (Err ''invalid inet'')
      | Some ip \<Rightarrow>
        if \<not> pg_int (Some (ev_port e)) then Inl (Err ''integer out of range'')
        else Inr (\<exists>s \<in> set (pd_services db). as_tenant_id s = tenant \<and> as_destination_ip s = ip \<and> as_protocol s = ev_protocol e
               \<and> as_destination_port s = ev_port e))"

text \<open>\<open>d->n->>k\<close>: the text of a field of an element, \<open>None\<close> for NULL.\<close>

definition json_text :: "pg_env \<Rightarrow> doc \<Rightarrow> nat \<Rightarrow> string \<Rightarrow> string option" where
  "json_text env d n k =
     (case d of
        Doc (JArr xs) \<Rightarrow>
          (if n < length xs then
             (case obj_of (Some (xs ! n)) of
                None \<Rightarrow> None
              | Some m \<Rightarrow>
                (case oget m k of
                   None \<Rightarrow> None | Some JNull \<Rightarrow> None | Some (JStr s) \<Rightarrow> Some s
                 | Some (JNum x) \<Rightarrow> Some (case whole_text x of Some s \<Rightarrow> s | None \<Rightarrow> pe_text env (JNum x))
                 | Some v \<Rightarrow> Some (pe_text env v)))
           else None)
      | _ \<Rightarrow> None)"

definition port_window :: int where
  "port_window = 5 * 60 * 1000000000"

definition denied_in_window :: "pg_env \<Rightarrow> string \<Rightarrow> cyber_evidence \<Rightarrow> time \<Rightarrow> signal_ledger \<Rightarrow> bool" where
  "denied_in_window env tenant e at1 x \<longleftrightarrow>
     sl_tenant_id x = tenant \<and> sl_signal_type x = ''cyberops.firewall.external_deny'' \<and> at1 - port_window \<le> sl_signal_time x \<and> sl_signal_time x \<le> at1
     \<and> json_text env (sl_entities x) 0 ''value'' = Some (ev_source e) \<and> json_text env (sl_entities x) 1 ''value'' = Some (ev_destination e)
     \<and> json_text env (sl_semantic_evidence x) 0 ''protocol'' = Some (ev_protocol e)"

definition denied_port_count :: "pg_env \<Rightarrow> string \<Rightarrow> cyber_evidence \<Rightarrow> time \<Rightarrow> policy_db \<Rightarrow> nat" where
  "denied_port_count env tenant e at1 db =
     length (remdups (List.map_filter (\<lambda>x. if denied_in_window env tenant e at1 x then json_text env (sl_semantic_evidence x) 0 ''destination_port'' else None)
       (pd_signals db)))"

section \<open>Policies\<close>

definition policy_match :: "string \<Rightarrow> lifecycle_policy \<Rightarrow> bool" where
  "policy_match tenant p \<longleftrightarrow> lp_tenant_id p = tenant \<and> lp_mode p \<noteq> ''disabled''"

definition enabled_policies :: "pg_env \<Rightarrow> string \<Rightarrow> policy_db \<Rightarrow> lifecycle_policy list" where
  "enabled_policies env tenant db = sort_by (\<lambda>p q. pe_lt env (lp_policy_id p) (lp_policy_id q)) (filter (policy_match tenant) (pd_policies db))"

record verdict =
  vd_disposition :: string
  vd_reason :: string
  vd_fingerprint :: "string list"

definition service_fingerprint :: "signal_ledger \<Rightarrow> cyber_evidence \<Rightarrow> string list" where
  "service_fingerprint r e = [sl_tenant_id r, ev_source e, ev_destination e, ev_protocol e, itoa (ev_port e)]"

definition scan_fingerprint :: "signal_ledger \<Rightarrow> cyber_evidence \<Rightarrow> string list" where
  "scan_fingerprint r e =
     [sl_tenant_id r, ev_source e, ev_destination e, ev_protocol e, fmt_rfc3339 (sl_signal_time r - sl_signal_time r mod port_window)]"

text \<open>What a policy says of a signal: \<open>None\<close> when it does not apply.\<close>

definition policy_verdict :: "pg_env \<Rightarrow> signal_ledger \<Rightarrow> lifecycle_policy \<Rightarrow> cyber_evidence \<Rightarrow> policy_db \<Rightarrow> verdict option res" where
  "policy_verdict env r p e db =
     (if lp_policy_id p = ''external-deny'' then
        (if sl_signal_type r \<noteq> ''cyberops.firewall.external_deny'' then Inr None
         else Inr (Some \<lparr>vd_disposition = ''record_only'', vd_reason = ''external firewall deny is evidence-only under lifecycle v1'',
           vd_fingerprint = service_fingerprint r e\<rparr>))
      else if lp_policy_id p = ''public-service-exposure'' then
        (if sl_signal_type r \<noteq> ''cyberops.firewall.new_public_service_exposure'' then Inr None
         else
           (case approved env (sl_tenant_id r) e db of
              Inl err \<Rightarrow> Inl err
            | Inr True \<Rightarrow> Inr (Some \<lparr>vd_disposition = ''record_only'', vd_reason = ''approved public service; retained as evidence only'',
                vd_fingerprint = service_fingerprint r e\<rparr>)
            | Inr False \<Rightarrow> Inr (Some \<lparr>vd_disposition = ''create_or_update_insight'', vd_reason = ''unapproved public service exposure requires review'',
                vd_fingerprint = service_fingerprint r e\<rparr>)))
      else if lp_policy_id p = ''port-scan'' then
        (if sl_signal_type r \<noteq> ''cyberops.firewall.external_deny'' then Inr None
         else
           (let n = denied_port_count env (sl_tenant_id r) e (sl_signal_time r) db in
            if n < 10 then Inr None
            else Inr (Some \<lparr>vd_disposition = ''create_or_update_alert'',
              vd_reason = itoa (int n) @ '' distinct denied destination ports from public source in five minutes'', vd_fingerprint = scan_fingerprint r e\<rparr>)))
      else Inr None)"

definition policy_metadata :: "lifecycle_policy \<Rightarrow> verdict \<Rightarrow> doc" where
  "policy_metadata p v =
     marshal (JObj [(''lifecycle_policy_version'', JStr (lp_version p)), (''lifecycle_policy_id'', JStr (lp_policy_id p)),
       (''lifecycle_policy_hash'', JStr (lp_hash p)), (''lifecycle_fingerprint'', JStr (join ''|'' (vd_fingerprint v))),
       (''lifecycle_reason'', JStr (vd_reason v))])"

definition cyber_insight :: "signal_ledger \<Rightarrow> string \<Rightarrow> lifecycle_policy \<Rightarrow> verdict \<Rightarrow> insight_record" where
  "cyber_insight r iid p v =
     \<lparr>isr_insight_id = iid, isr_tenant_id = sl_tenant_id r, isr_source_id = sl_source_id r, isr_app_id = sl_app_id r, isr_domain = sl_domain r,
      isr_use_case = sl_use_case r, isr_source_domain = sl_source_domain r, isr_source_adapter = sl_source_adapter r, isr_dataset = sl_dataset r,
      isr_signal_id = sl_signal_id r, isr_detector_id = sl_detector_id r, isr_insight_type = sl_signal_type r, isr_status = ''active'',
      isr_title = ''Unapproved public service exposure'', isr_summary = vd_reason v, isr_confidence = sl_confidence r, isr_severity = ''low'',
      isr_event_ids = sl_event_ids r, isr_entities = sl_entities r, isr_supporting_metrics = sl_supporting_metrics r,
      isr_semantic_evidence = sl_semantic_evidence r, isr_recommendation = sl_recommendation r, isr_correlation_id = sl_correlation_id r,
      isr_observed_at = sl_signal_time r, isr_metadata = policy_metadata p v\<rparr>"

definition cyber_alert :: "signal_ledger \<Rightarrow> string \<Rightarrow> lifecycle_policy \<Rightarrow> verdict \<Rightarrow> alert_record" where
  "cyber_alert r aid p v =
     \<lparr>alr_alert_id = aid, alr_tenant_id = sl_tenant_id r, alr_source_id = sl_source_id r, alr_app_id = sl_app_id r, alr_domain = sl_domain r,
      alr_use_case = sl_use_case r, alr_source_domain = sl_source_domain r, alr_source_adapter = sl_source_adapter r, alr_dataset = sl_dataset r,
      alr_signal_id = sl_signal_id r, alr_detector_id = sl_detector_id r, alr_alert_type = ''cyberops.network.port_scan'', alr_severity = ''high'',
      alr_status = ''open'', alr_title = ''Potential external port scan'', alr_summary = vd_reason v, alr_confidence = sl_confidence r,
      alr_event_ids = sl_event_ids r, alr_entities = sl_entities r, alr_evidence = sl_evidence r, alr_recommendation = sl_recommendation r,
      alr_correlation_id = sl_correlation_id r, alr_first_observed_at = sl_signal_time r, alr_last_observed_at = sl_signal_time r,
      alr_metadata = policy_metadata p v\<rparr>"

section \<open>Episodes and decisions\<close>

text \<open>The distinct signals of both, the last hundred in the order of the collation.\<close>

definition merge_signal_ids :: "pg_env \<Rightarrow> string list \<Rightarrow> string list \<Rightarrow> string list" where
  "merge_signal_ids env xs ys = take 100 (sort_by (\<lambda>a b. pe_lt env b a) (remdups (xs @ ys)))"

definition same_episode :: "lifecycle_episode \<Rightarrow> lifecycle_episode \<Rightarrow> bool" where
  "same_episode x y \<longleftrightarrow> le_tenant_id x = le_tenant_id y \<and> le_policy_id x = le_policy_id y \<and> le_fingerprint x = le_fingerprint y"

definition merge_episode :: "pg_env \<Rightarrow> lifecycle_episode \<Rightarrow> lifecycle_episode \<Rightarrow> lifecycle_episode" where
  "merge_episode env row x =
     x\<lparr>le_last_observed_at := max (le_last_observed_at x) (le_last_observed_at row), le_observation_count := le_observation_count x + 1,
       le_signal_ids := merge_signal_ids env (le_signal_ids x) (le_signal_ids row),
       le_insight_id := (if le_insight_id row \<noteq> [] then le_insight_id row else le_insight_id x),
       le_alert_id := (if le_alert_id row \<noteq> [] then le_alert_id row else le_alert_id x)\<rparr>"

definition upsert_episode :: "pg_env \<Rightarrow> lifecycle_episode \<Rightarrow> policy_db \<Rightarrow> policy_db res" where
  "upsert_episode env row db =
     (if \<exists>x \<in> set (pd_episodes db). same_episode row x then
        (if \<exists>x \<in> set (pd_episodes db). same_episode row x \<and> \<not> pg_int (Some (le_observation_count x + 1)) then Inl (Err ''integer out of range'')
         else Inr (db\<lparr>pd_episodes := map (\<lambda>x. if same_episode row x then merge_episode env row x else x) (pd_episodes db)\<rparr>))
      else if \<exists>x \<in> set (pd_episodes db). le_episode_id x = le_episode_id row then Inl (Err ''duplicate episode_id'')
      else Inr (db\<lparr>pd_episodes := pd_episodes db @ [row]\<rparr>))"

definition same_decision :: "lifecycle_decision \<Rightarrow> lifecycle_decision \<Rightarrow> bool" where
  "same_decision x y \<longleftrightarrow> ld_tenant_id x = ld_tenant_id y \<and> ld_signal_id x = ld_signal_id y \<and> ld_policy_id x = ld_policy_id y"

definition insert_decision :: "lifecycle_decision \<Rightarrow> policy_db \<Rightarrow> policy_db res" where
  "insert_decision row db =
     (if \<exists>x \<in> set (pd_decisions db). same_decision row x then Inr db
      else if \<exists>x \<in> set (pd_decisions db). ld_decision_id x = ld_decision_id row then Inl (Err ''duplicate decision_id'')
      else Inr (db\<lparr>pd_decisions := pd_decisions db @ [row]\<rparr>))"

text \<open>The work items an enforced verdict asks for: the identifiers and the tables with them.\<close>

definition work_items :: "signal_ledger \<Rightarrow> lifecycle_policy \<Rightarrow> verdict \<Rightarrow> policy_db \<Rightarrow> (string \<times> string \<times> policy_db) res" where
  "work_items r p v db =
     (if lp_mode p = ''enforced'' \<and> vd_disposition v = ''create_or_update_insight'' then
        (let iid = lifecycle_id ''insight'' (lp_version p # vd_fingerprint v) in
         bind_res (upsert_insight (cyber_insight r iid p v) db) (\<lambda>db1. Inr (iid, [], db1)))
      else if lp_mode p = ''enforced'' \<and> vd_disposition v = ''create_or_update_alert'' then
        (let aid = lifecycle_id ''alert'' (lp_version p # vd_fingerprint v) in
         bind_res (upsert_alert (cyber_alert r aid p v) db) (\<lambda>db1. Inr ([], aid, db1)))
      else Inr ([], [], db))"

definition episode_of :: "signal_ledger \<Rightarrow> lifecycle_policy \<Rightarrow> verdict \<Rightarrow> string \<Rightarrow> string \<Rightarrow> lifecycle_episode" where
  "episode_of r p v iid aid =
     \<lparr>le_episode_id = lifecycle_id ''cybep'' (lp_policy_id p # vd_fingerprint v), le_tenant_id = sl_tenant_id r, le_policy_id = lp_policy_id p,
      le_fingerprint = join ''|'' (vd_fingerprint v), le_disposition = vd_disposition v, le_first_observed_at = sl_signal_time r,
      le_last_observed_at = sl_signal_time r, le_observation_count = 1, le_signal_ids = [sl_signal_id r], le_insight_id = iid, le_alert_id = aid\<rparr>"

definition decision_of :: "time \<Rightarrow> signal_ledger \<Rightarrow> lifecycle_policy \<Rightarrow> verdict \<Rightarrow> string \<Rightarrow> string \<Rightarrow> lifecycle_decision" where
  "decision_of now r p v iid aid =
     \<lparr>ld_decision_id = lifecycle_id ''cybdec'' [lp_policy_id p, sl_signal_id r], ld_tenant_id = sl_tenant_id r, ld_signal_id = sl_signal_id r,
      ld_policy_id = lp_policy_id p, ld_policy_version = lp_version p, ld_mode = lp_mode p, ld_disposition = vd_disposition v, ld_reason = vd_reason v,
      ld_fingerprint = join ''|'' (vd_fingerprint v), ld_episode_id = lifecycle_id ''cybep'' (lp_policy_id p # vd_fingerprint v),
      ld_insight_id = iid, ld_alert_id = aid, ld_created_at = now\<rparr>"

definition apply_policy :: "pg_env \<Rightarrow> time \<Rightarrow> signal_ledger \<Rightarrow> cyber_evidence \<Rightarrow> lifecycle_policy \<Rightarrow> policy_db \<Rightarrow> policy_db res" where
  "apply_policy env now r e p db =
     bind_res (policy_verdict env r p e db) (\<lambda>verdict.
       case verdict of
         None \<Rightarrow> Inr db
       | Some v \<Rightarrow>
         bind_res (work_items r p v db) (\<lambda>(iid, aid, db1).
         bind_res (upsert_episode env (episode_of r p v iid aid) db1) (\<lambda>db2.
           insert_decision (decision_of now r p v iid aid) db2)))"

fun apply_policies :: "pg_env \<Rightarrow> time \<Rightarrow> signal_ledger \<Rightarrow> cyber_evidence \<Rightarrow> lifecycle_policy list \<Rightarrow> policy_db \<Rightarrow> policy_db res" where
  "apply_policies env now r e [] db = Inr db"
| "apply_policies env now r e (p # ps) db = bind_res (apply_policy env now r e p db) (apply_policies env now r e ps)"

text \<open>One transaction: an error leaves the tables as they were. \<open>False\<close> leaves the signal to the generic lifecycle.\<close>

definition persist_policy_lifecycle :: "pg_env \<Rightarrow> time \<Rightarrow> signal_ledger \<Rightarrow> policy_db \<Rightarrow> bool res \<times> policy_db" where
  "persist_policy_lifecycle env now r db =
     (if sl_app_id r \<noteq> ''cyberops'' then (Inr False, db)
      else if \<not> pg_text (sl_tenant_id r) then (Inl (Err ''load cyberops lifecycle policies''), db)
      else
        (let ps = enabled_policies env (sl_tenant_id r) db in
         if ps = [] then (Inr False, db)
         else
           (case bind_res (upsert_signal now r db) (apply_policies env now r (evidence_of env r) ps) of
              Inl err \<Rightarrow> (Inl err, db)
            | Inr db1 \<Rightarrow> (Inr True, db1))))"

section \<open>Approved services\<close>

definition same_service :: "string \<Rightarrow> string \<Rightarrow> string \<Rightarrow> int \<Rightarrow> approved_service \<Rightarrow> bool" where
  "same_service tenant ip protocol port s \<longleftrightarrow>
     as_tenant_id s = tenant \<and> as_destination_ip s = ip \<and> as_protocol s = protocol \<and> as_destination_port s = port"

definition service_doc :: "string \<Rightarrow> string \<Rightarrow> int \<Rightarrow> string \<Rightarrow> doc" where
  "service_doc ip protocol port reason =
     marshal (JObj [(''destination_ip'', JStr ip), (''protocol'', JStr protocol), (''destination_port'', JInt port), (''reason'', JStr reason)])"

definition service_row_doc :: "approved_service \<Rightarrow> doc" where
  "service_row_doc s = service_doc (as_destination_ip s) (as_protocol s) (as_destination_port s) (as_reason s)"

definition upsert_approved_service :: "pg_env \<Rightarrow> time \<Rightarrow> approved_service \<Rightarrow> string \<Rightarrow> policy_db \<Rightarrow> bool \<times> policy_db" where
  "upsert_approved_service env now s actor db =
     (case pe_inet env (as_destination_ip s) of
        None \<Rightarrow> (False, db)
      | Some ip \<Rightarrow>
        if as_protocol s \<notin> {''tcp'', ''udp''} \<or> as_destination_port s < 1 \<or> 65535 < as_destination_port s
           \<or> \<not> list_all pg_text [as_tenant_id s, as_destination_ip s, as_approved_by s, as_reason s, actor] then (False, db)
        else
          (let same = same_service (as_tenant_id s) ip (as_protocol s) (as_destination_port s); old = first_match same (pd_services db);
               audit = \<lparr>pa_tenant_id = as_tenant_id s, pa_mutation = ''approve_service'', pa_destination_ip = ip, pa_protocol = as_protocol s,
                 pa_destination_port = as_destination_port s, pa_actor = actor,
                 pa_before = (case old of None \<Rightarrow> Doc (JObj []) | Some x \<Rightarrow> service_row_doc x),
                 pa_after = service_doc (as_destination_ip s) (as_protocol s) (as_destination_port s) (as_reason s)\<rparr>
           in (True, db\<lparr>pd_services := (case old of
                   None \<Rightarrow> pd_services db @ [s\<lparr>as_destination_ip := ip, as_created_at := now\<rparr>]
                 | Some _ \<Rightarrow> map (\<lambda>x. if same x then x\<lparr>as_approved_by := as_approved_by s, as_reason := as_reason s\<rparr> else x) (pd_services db)),
                 pd_audit := pd_audit db @ [audit]\<rparr>)))"

text \<open>\<open>None\<close> stands for \<open>storage.ErrNotFound\<close>.\<close>

definition delete_approved_service :: "pg_env \<Rightarrow> string \<Rightarrow> string \<Rightarrow> string \<Rightarrow> int \<Rightarrow> string \<Rightarrow> policy_db \<Rightarrow> bool option \<times> policy_db" where
  "delete_approved_service env tenant ip0 protocol port actor db =
     (case pe_inet env ip0 of
        None \<Rightarrow> (Some False, db)
      | Some ip \<Rightarrow>
        if \<not> list_all pg_text [tenant, protocol, actor] \<or> \<not> pg_int (Some port) then (Some False, db)
        else
          (case first_match (same_service tenant ip protocol port) (pd_services db) of
             None \<Rightarrow> (None, db)
           | Some x \<Rightarrow>
             (Some True, db\<lparr>pd_services := filter (\<lambda>s. \<not> same_service tenant ip protocol port s) (pd_services db),
                pd_audit := pd_audit db @ [\<lparr>pa_tenant_id = tenant, pa_mutation = ''remove_service'', pa_destination_ip = ip, pa_protocol = protocol,
                  pa_destination_port = port, pa_actor = actor, pa_before = service_row_doc x, pa_after = Doc (JObj [])\<rparr>]\<rparr>)))"

section \<open>Lists\<close>

definition clamp_limit :: "int \<Rightarrow> nat" where
  "clamp_limit n = (if n \<le> 0 then 50 else if 5000 < n then 5000 else nat n)"

definition list_policies :: "pg_env \<Rightarrow> string \<Rightarrow> policy_db \<Rightarrow> lifecycle_policy list" where
  "list_policies env tenant db =
     sort_by (\<lambda>p q. pe_lt env (lp_policy_id p) (lp_policy_id q)) (filter (\<lambda>p. lp_tenant_id p = trim_space tenant) (pd_policies db))"

text \<open>\<open>ip_lt\<close> orders the canonical texts of addresses as \<open>inet\<close> does.\<close>

definition list_services :: "pg_env \<Rightarrow> (string \<Rightarrow> string \<Rightarrow> bool) \<Rightarrow> string \<Rightarrow> policy_db \<Rightarrow> approved_service list" where
  "list_services env ip_lt tenant db =
     sort_by (\<lambda>x y. ip_lt (as_destination_ip x) (as_destination_ip y)
         \<or> as_destination_ip x = as_destination_ip y \<and> (pe_lt env (as_protocol x) (as_protocol y)
           \<or> as_protocol x = as_protocol y \<and> as_destination_port x < as_destination_port y))
       (filter (\<lambda>x. as_tenant_id x = trim_space tenant) (pd_services db))"

definition list_episodes :: "(lifecycle_episode list \<Rightarrow> lifecycle_episode list) \<Rightarrow> string \<Rightarrow> int \<Rightarrow> policy_db \<Rightarrow> lifecycle_episode list" where
  "list_episodes heap tenant n db =
     take (clamp_limit n) (sort_by (\<lambda>x y. le_last_observed_at y < le_last_observed_at x) (heap (filter (\<lambda>x. le_tenant_id x = tenant) (pd_episodes db))))"

definition list_decisions :: "(lifecycle_decision list \<Rightarrow> lifecycle_decision list) \<Rightarrow> string \<Rightarrow> int \<Rightarrow> policy_db \<Rightarrow> lifecycle_decision list" where
  "list_decisions heap tenant n db =
     take (clamp_limit n) (sort_by (\<lambda>x y. ld_created_at y < ld_created_at x) (heap (filter (\<lambda>x. ld_tenant_id x = tenant) (pd_decisions db))))"

text \<open>The repository as the signal persister sees it: the generic operation is any other writer of the tables.\<close>

definition policy_store ::
  "pg_env \<Rightarrow> (policy_db \<Rightarrow> time) \<Rightarrow> (policy_db \<Rightarrow> signal_ledger \<Rightarrow> alert_record list \<Rightarrow> insight_record list \<Rightarrow> bool \<times> policy_db) \<Rightarrow> policy_db signal_store" where
  "policy_store env clock generic =
     \<lparr>ss_persist = generic,
      ss_policy = Some (\<lambda>db r alerts insights. case persist_policy_lifecycle env (clock db) r db of
        (Inl err, db1) \<Rightarrow> (None, db1) | (Inr handled, db1) \<Rightarrow> (Some handled, db1))\<rparr>"

end
