(* ===== verification/PolicyTables.thy ===== *)
theory PolicyTables imports CyberPolicy begin

text \<open>
  The tables of the policy lifecycle: what one upsert and one policy change, what holds of the
  tables in every reachable state, which work items are new and what a second delivery of a
  signal does.
\<close>

section \<open>What one policy changes\<close>

lemma join_bar: "ps \<noteq> [] \<Longrightarrow> join ''|'' (a # ps) = a @ ''|'' @ join ''|'' ps"
  by (cases ps) simp_all

definition same_base :: "policy_db \<Rightarrow> policy_db \<Rightarrow> bool" where
  "same_base db db' \<longleftrightarrow> pd_signals db' = pd_signals db \<and> pd_policies db' = pd_policies db \<and> pd_services db' = pd_services db \<and> pd_audit db' = pd_audit db"

lemma same_base_refl [simp]: "same_base db db"
  by (simp add: same_base_def)

lemma same_base_trans: "same_base a b \<Longrightarrow> same_base b c \<Longrightarrow> same_base a c"
  by (simp add: same_base_def)

text \<open>What an accepted ledger row leaves: the identifiers, the statuses operators gave, and whose signal a row is of.\<close>

definition insight_marks :: "policy_db \<Rightarrow> (string \<times> string) list" where
  "insight_marks db = map (\<lambda>x. (isr_insight_id x, isr_status x)) (pd_insights db)"

definition alert_marks :: "policy_db \<Rightarrow> (string \<times> string) list" where
  "alert_marks db = map (\<lambda>x. (alr_alert_id x, alr_status x)) (pd_alerts db)"

lemma insight_ids: "map fst (insight_marks db) = map isr_insight_id (pd_insights db)" "fst ` set (insight_marks db) = isr_insight_id ` set (pd_insights db)"
  by (simp_all add: insight_marks_def comp_def image_image)

lemma alert_ids: "map fst (alert_marks db) = map alr_alert_id (pd_alerts db)" "fst ` set (alert_marks db) = alr_alert_id ` set (pd_alerts db)"
  by (simp_all add: alert_marks_def comp_def image_image)

lemma stored_insight_keys [simp]:
  "isr_insight_id (stored_insight i) = isr_insight_id i" "isr_signal_id (stored_insight i) = isr_signal_id i" "isr_status (stored_insight i) = isr_status i"
  by (simp_all add: stored_insight_def)

lemma stored_alert_keys [simp]:
  "alr_alert_id (stored_alert a) = alr_alert_id a" "alr_signal_id (stored_alert a) = alr_signal_id a" "alr_status (stored_alert a) = alr_status a"
  by (simp_all add: stored_alert_def)

lemma upsert_insight_cases:
  assumes "upsert_insight i db = Inr db'"
  obtains (updated) "isr_insight_id i \<in> isr_insight_id ` set (pd_insights db)" "has_signal db (isr_signal_id i)"
      "db' = db\<lparr>pd_insights := map (\<lambda>x. if isr_insight_id x = isr_insight_id i then (stored_insight i)\<lparr>isr_status := isr_status x,
         isr_observed_at := max (isr_observed_at x) (isr_observed_at i)\<rparr> else x) (pd_insights db)\<rparr>"
    | (inserted) "isr_insight_id i \<notin> isr_insight_id ` set (pd_insights db)" "has_signal db (isr_signal_id i)"
      "db' = db\<lparr>pd_insights := pd_insights db @ [stored_insight i]\<rparr>"
proof -
  have e: "(\<exists>x \<in> set (pd_insights db). isr_insight_id x = isr_insight_id i) \<longleftrightarrow> isr_insight_id i \<in> isr_insight_id ` set (pd_insights db)"
    by (metis image_iff)
  have "has_signal db (isr_signal_id i)"
    using assms by (simp add: upsert_insight_def Let_def insight_row_ok_def split: if_splits)
  with that assms show thesis
    unfolding upsert_insight_def Let_def e by (simp split: if_splits)
qed

lemma upsert_alert_cases:
  assumes "upsert_alert a db = Inr db'"
  obtains (updated) "alr_alert_id a \<in> alr_alert_id ` set (pd_alerts db)" "has_signal db (alr_signal_id a)"
      "db' = db\<lparr>pd_alerts := map (\<lambda>x. if alr_alert_id x = alr_alert_id a then (stored_alert a)\<lparr>alr_status := alr_status x,
         alr_first_observed_at := min (alr_first_observed_at x) (alr_first_observed_at a),
         alr_last_observed_at := max (alr_last_observed_at x) (alr_last_observed_at a)\<rparr> else x) (pd_alerts db)\<rparr>"
    | (inserted) "alr_alert_id a \<notin> alr_alert_id ` set (pd_alerts db)" "has_signal db (alr_signal_id a)"
      "db' = db\<lparr>pd_alerts := pd_alerts db @ [stored_alert a]\<rparr>"
proof -
  have e: "(\<exists>x \<in> set (pd_alerts db). alr_alert_id x = alr_alert_id a) \<longleftrightarrow> alr_alert_id a \<in> alr_alert_id ` set (pd_alerts db)"
    by (metis image_iff)
  have "has_signal db (alr_signal_id a)"
    using assms by (simp add: upsert_alert_def Let_def alert_row_ok_def split: if_splits)
  with that assms show thesis
    unfolding upsert_alert_def Let_def e by (simp split: if_splits)
qed

lemma upsert_insight_frame:
  "upsert_insight i db = Inr db' \<Longrightarrow> same_base db db' \<and> pd_alerts db' = pd_alerts db \<and> pd_episodes db' = pd_episodes db \<and> pd_decisions db' = pd_decisions db"
  by (elim upsert_insight_cases) (simp_all add: same_base_def)

lemma upsert_alert_frame:
  "upsert_alert a db = Inr db' \<Longrightarrow> same_base db db' \<and> pd_insights db' = pd_insights db \<and> pd_episodes db' = pd_episodes db \<and> pd_decisions db' = pd_decisions db"
  by (elim upsert_alert_cases) (simp_all add: same_base_def)

lemma upsert_insight_marks:
  "upsert_insight i db = Inr db' \<Longrightarrow>
     insight_marks db' = insight_marks db @ (if isr_insight_id i \<in> isr_insight_id ` set (pd_insights db) then [] else [(isr_insight_id i, isr_status i)])"
  by (elim upsert_insight_cases) (simp_all add: insight_marks_def)

lemma upsert_alert_marks:
  "upsert_alert a db = Inr db' \<Longrightarrow>
     alert_marks db' = alert_marks db @ (if alr_alert_id a \<in> alr_alert_id ` set (pd_alerts db) then [] else [(alr_alert_id a, alr_status a)])"
  by (elim upsert_alert_cases) (simp_all add: alert_marks_def)

lemma upsert_insight_signals:
  "upsert_insight i db = Inr db' \<Longrightarrow> \<forall>x \<in> set (pd_insights db). has_signal db (isr_signal_id x)
     \<Longrightarrow> \<forall>x \<in> set (pd_insights db'). has_signal db (isr_signal_id x)"
  by (elim upsert_insight_cases) auto

lemma upsert_alert_signals:
  "upsert_alert a db = Inr db' \<Longrightarrow> \<forall>x \<in> set (pd_alerts db). has_signal db (alr_signal_id x)
     \<Longrightarrow> \<forall>x \<in> set (pd_alerts db'). has_signal db (alr_signal_id x)"
  by (elim upsert_alert_cases) auto

definition episode_key :: "lifecycle_episode \<Rightarrow> string \<times> string \<times> string" where
  "episode_key x = (le_tenant_id x, le_policy_id x, le_fingerprint x)"

definition decision_key :: "lifecycle_decision \<Rightarrow> string \<times> string \<times> string" where
  "decision_key d = (ld_tenant_id d, ld_signal_id d, ld_policy_id d)"

lemma same_episode_key: "same_episode x y \<longleftrightarrow> episode_key x = episode_key y"
  by (auto simp: same_episode_def episode_key_def)

lemma same_decision_key: "same_decision x y \<longleftrightarrow> decision_key x = decision_key y"
  by (auto simp: same_decision_def decision_key_def)

lemma merge_episode_key [simp]: "episode_key (merge_episode env row x) = episode_key x" "le_episode_id (merge_episode env row x) = le_episode_id x"
  by (simp_all add: merge_episode_def episode_key_def)

lemma upsert_episode_Inr:
  assumes "upsert_episode env row db = Inr db'"
  obtains "same_base db db'" "pd_alerts db' = pd_alerts db" "pd_insights db' = pd_insights db" "pd_decisions db' = pd_decisions db"
    "pd_episodes db' = (if episode_key row \<in> episode_key ` set (pd_episodes db)
       then map (\<lambda>x. if episode_key row = episode_key x then merge_episode env row x else x) (pd_episodes db) else pd_episodes db @ [row])"
    "episode_key row \<notin> episode_key ` set (pd_episodes db) \<Longrightarrow> le_episode_id row \<notin> le_episode_id ` set (pd_episodes db)"
proof -
  have e: "(\<exists>x \<in> set (pd_episodes db). same_episode row x) \<longleftrightarrow> episode_key row \<in> episode_key ` set (pd_episodes db)"
    by (auto simp: same_episode_key image_iff)
  have i: "(\<exists>x \<in> set (pd_episodes db). le_episode_id x = le_episode_id row) \<longleftrightarrow> le_episode_id row \<in> le_episode_id ` set (pd_episodes db)"
    by (metis image_iff)
  show ?thesis
  proof (cases "episode_key row \<in> episode_key ` set (pd_episodes db)")
    case True
    then have "db' = db\<lparr>pd_episodes := map (\<lambda>x. if episode_key row = episode_key x then merge_episode env row x else x) (pd_episodes db)\<rparr>"
      using assms unfolding upsert_episode_def e i by (simp add: same_episode_key split: if_splits)
    with True show ?thesis by (intro that) (simp_all add: same_base_def)
  next
    case False
    then have "db' = db\<lparr>pd_episodes := pd_episodes db @ [row]\<rparr>" "le_episode_id row \<notin> le_episode_id ` set (pd_episodes db)"
      using assms unfolding upsert_episode_def e i by (simp_all split: if_splits)
    with False show ?thesis by (intro that) (simp_all add: same_base_def)
  qed
qed

lemma insert_decision_Inr:
  assumes "insert_decision row db = Inr db'"
  obtains "same_base db db'" "pd_alerts db' = pd_alerts db" "pd_insights db' = pd_insights db" "pd_episodes db' = pd_episodes db"
    "pd_decisions db' = (if decision_key row \<in> decision_key ` set (pd_decisions db) then pd_decisions db else pd_decisions db @ [row])"
    "decision_key row \<notin> decision_key ` set (pd_decisions db) \<Longrightarrow> ld_decision_id row \<notin> ld_decision_id ` set (pd_decisions db)"
proof -
  have e: "(\<exists>x \<in> set (pd_decisions db). same_decision row x) \<longleftrightarrow> decision_key row \<in> decision_key ` set (pd_decisions db)"
    by (auto simp: same_decision_key image_iff)
  have i: "(\<exists>x \<in> set (pd_decisions db). ld_decision_id x = ld_decision_id row) \<longleftrightarrow> ld_decision_id row \<in> ld_decision_id ` set (pd_decisions db)"
    by (metis image_iff)
  show ?thesis
  proof (cases "decision_key row \<in> decision_key ` set (pd_decisions db)")
    case True
    then have "db' = db" using assms unfolding insert_decision_def e i by simp
    with True show ?thesis by (intro that) (simp_all add: same_base_def)
  next
    case False
    then have "db' = db\<lparr>pd_decisions := pd_decisions db @ [row]\<rparr>" "ld_decision_id row \<notin> ld_decision_id ` set (pd_decisions db)"
      using assms unfolding insert_decision_def e i by (simp_all split: if_splits)
    with False show ?thesis by (intro that) (simp_all add: same_base_def)
  qed
qed

lemma work_items_Inr:
  assumes "work_items r p v db = Inr (iid, aid, db')"
  obtains (insight) "lp_mode p = ''enforced''" "vd_disposition v = ''create_or_update_insight''" "aid = []"
      "iid = lifecycle_id ''insight'' (lp_version p # vd_fingerprint v)" "upsert_insight (cyber_insight r iid p v) db = Inr db'"
    | (alert) "lp_mode p = ''enforced''" "vd_disposition v = ''create_or_update_alert''" "iid = []"
      "aid = lifecycle_id ''alert'' (lp_version p # vd_fingerprint v)" "upsert_alert (cyber_alert r aid p v) db = Inr db'"
    | (none) "\<not> (lp_mode p = ''enforced'' \<and> vd_disposition v \<in> {''create_or_update_insight'', ''create_or_update_alert''})" "iid = []" "aid = []" "db' = db"
  using assms unfolding work_items_def Let_def by (auto split: if_splits)

lemma apply_policy_Inr:
  assumes "apply_policy env now r e p db = Inr db'"
  obtains (skipped) "policy_verdict env r p e db = Inr None" "db' = db"
    | (applied) v iid aid db1 db2 where "policy_verdict env r p e db = Inr (Some v)" "work_items r p v db = Inr (iid, aid, db1)"
      "upsert_episode env (episode_of r p v iid aid) db1 = Inr db2" "insert_decision (decision_of now r p v iid aid) db2 = Inr db'"
proof -
  obtain x where x: "policy_verdict env r p e db = Inr x" using assms by (cases "policy_verdict env r p e db") (simp_all add: apply_policy_def)
  show thesis
  proof (cases x)
    case None
    then have "db' = db" using assms x by (simp add: apply_policy_def)
    with x None show thesis by (intro skipped) simp_all
  next
    case (Some v)
    then obtain w db2 where w: "work_items r p v db = Inr w"
        "upsert_episode env (episode_of r p v (fst w) (fst (snd w))) (snd (snd w)) = Inr db2"
        "insert_decision (decision_of now r p v (fst w) (fst (snd w))) db2 = Inr db'"
      using assms x by (auto simp: apply_policy_def)
    show thesis
      by (rule applied [of v "fst w" "fst (snd w)" "snd (snd w)" db2]) (use x Some w in simp_all)
  qed
qed

lemma work_items_base:
  assumes "work_items r p v db = Inr (iid, aid, db')"
  shows "same_base db db' \<and> pd_episodes db' = pd_episodes db \<and> pd_decisions db' = pd_decisions db"
  using assms
proof (cases rule: work_items_Inr)
  case insight
  then show ?thesis using upsert_insight_frame by blast
next
  case alert
  then show ?thesis using upsert_alert_frame by blast
qed simp

lemma apply_policy_base:
  assumes "apply_policy env now r e p db = Inr db'"
  shows "same_base db db'"
  using assms
proof (cases rule: apply_policy_Inr)
  case (applied v iid aid db1 db2)
  have "same_base db1 db2" using applied(3) by (rule upsert_episode_Inr)
  moreover have "same_base db2 db'" using applied(4) by (rule insert_decision_Inr)
  ultimately show ?thesis using work_items_base [OF applied(2)] same_base_trans by blast
qed simp

lemma apply_policies_base: "apply_policies env now r e ps db = Inr db' \<Longrightarrow> same_base db db'"
proof (induction ps arbitrary: db)
  case (Cons p ps)
  then obtain db1 where "apply_policy env now r e p db = Inr db1" "apply_policies env now r e ps db1 = Inr db'" by auto
  then show ?case using apply_policy_base Cons.IH same_base_trans by blast
qed simp

lemma verdict_base:
  assumes "same_base db db'"
  shows "policy_verdict env r p e db' = policy_verdict env r p e db"
proof -
  have "approved env (sl_tenant_id r) e db' = approved env (sl_tenant_id r) e db"
    "denied_port_count env (sl_tenant_id r) e (sl_signal_time r) db' = denied_port_count env (sl_tenant_id r) e (sl_signal_time r) db"
    using assms by (simp_all add: same_base_def approved_def denied_port_count_def split: option.splits)
  then show ?thesis by (simp add: policy_verdict_def)
qed

section \<open>The tables\<close>

definition episode_refs :: "policy_db \<Rightarrow> (string \<times> string \<times> string \<times> string) set" where
  "episode_refs db = set (map (\<lambda>x. (le_episode_id x, episode_key x)) (pd_episodes db))"

definition episode_ok :: "policy_db \<Rightarrow> lifecycle_episode \<Rightarrow> bool" where
  "episode_ok db x \<longleftrightarrow>
     le_signal_ids x \<noteq> [] \<and> distinct (le_signal_ids x) \<and> length (le_signal_ids x) \<le> 100 \<and> int (length (le_signal_ids x)) \<le> le_observation_count x
     \<and> le_first_observed_at x \<le> le_last_observed_at x \<and> (\<forall>s \<in> set (le_signal_ids x). has_signal db s)
     \<and> (le_insight_id x \<noteq> [] \<longrightarrow> le_insight_id x \<in> isr_insight_id ` set (pd_insights db))
     \<and> (le_alert_id x \<noteq> [] \<longrightarrow> le_alert_id x \<in> alr_alert_id ` set (pd_alerts db))
     \<and> le_episode_id x = lifecycle_id ''cybep'' [le_policy_id x, le_fingerprint x]"

definition decision_ok :: "policy_db \<Rightarrow> lifecycle_decision \<Rightarrow> bool" where
  "decision_ok db d \<longleftrightarrow>
     has_signal db (ld_signal_id d) \<and> (ld_episode_id d, ld_tenant_id d, ld_policy_id d, ld_fingerprint d) \<in> episode_refs db
     \<and> (ld_insight_id d \<noteq> [] \<longrightarrow> ld_mode d = ''enforced'' \<and> ld_disposition d = ''create_or_update_insight'' \<and> ld_insight_id d \<in> isr_insight_id ` set (pd_insights db))
     \<and> (ld_alert_id d \<noteq> [] \<longrightarrow> ld_mode d = ''enforced'' \<and> ld_disposition d = ''create_or_update_alert'' \<and> ld_alert_id d \<in> alr_alert_id ` set (pd_alerts db))"

definition tables_ok :: "policy_db \<Rightarrow> bool" where
  "tables_ok db \<longleftrightarrow>
     distinct (map sl_signal_id (pd_signals db)) \<and> distinct (map isr_insight_id (pd_insights db)) \<and> distinct (map alr_alert_id (pd_alerts db))
     \<and> distinct (map le_episode_id (pd_episodes db)) \<and> distinct (map episode_key (pd_episodes db))
     \<and> distinct (map ld_decision_id (pd_decisions db)) \<and> distinct (map decision_key (pd_decisions db))
     \<and> (\<forall>i \<in> set (pd_insights db). has_signal db (isr_signal_id i)) \<and> (\<forall>a \<in> set (pd_alerts db). has_signal db (alr_signal_id a))
     \<and> (\<forall>x \<in> set (pd_episodes db). episode_ok db x) \<and> (\<forall>d \<in> set (pd_decisions db). decision_ok db d)"

text \<open>Nothing a row refers to goes away.\<close>

definition grows :: "policy_db \<Rightarrow> policy_db \<Rightarrow> bool" where
  "grows db db' \<longleftrightarrow>
     sl_signal_id ` set (pd_signals db) \<subseteq> sl_signal_id ` set (pd_signals db') \<and> isr_insight_id ` set (pd_insights db) \<subseteq> isr_insight_id ` set (pd_insights db')
     \<and> alr_alert_id ` set (pd_alerts db) \<subseteq> alr_alert_id ` set (pd_alerts db') \<and> episode_refs db \<subseteq> episode_refs db'"

lemma grows_refl [simp]: "grows db db"
  by (simp add: grows_def)

lemma grows_trans: "grows a b \<Longrightarrow> grows b c \<Longrightarrow> grows a c"
  unfolding grows_def by (meson order_trans)

lemma has_signal_grows: "grows db db' \<Longrightarrow> has_signal db s \<Longrightarrow> has_signal db' s"
  unfolding grows_def has_signal_def by (meson subsetD)

lemma episode_ok_grows: "grows db db' \<Longrightarrow> episode_ok db x \<Longrightarrow> episode_ok db' x"
  unfolding episode_ok_def grows_def has_signal_def by (meson subsetD)

lemma decision_ok_grows: "grows db db' \<Longrightarrow> decision_ok db d \<Longrightarrow> decision_ok db' d"
  unfolding decision_ok_def grows_def has_signal_def by (meson subsetD)

text \<open>What each upsert adds.\<close>

lemma upsert_insight_grows: "upsert_insight i db = Inr db' \<Longrightarrow> grows db db' \<and> isr_insight_id i \<in> isr_insight_id ` set (pd_insights db')"
proof -
  assume u: "upsert_insight i db = Inr db'"
  have "isr_insight_id ` set (pd_insights db') = fst ` set (insight_marks db')" "isr_insight_id ` set (pd_insights db) = fst ` set (insight_marks db)"
    by (simp_all add: insight_ids)
  moreover have "pd_signals db' = pd_signals db" "pd_alerts db' = pd_alerts db" "episode_refs db' = episode_refs db"
    using upsert_insight_frame [OF u] by (simp_all add: same_base_def episode_refs_def)
  ultimately show ?thesis unfolding grows_def using upsert_insight_marks [OF u] by (simp add: image_Un)
qed

lemma upsert_alert_grows: "upsert_alert a db = Inr db' \<Longrightarrow> grows db db' \<and> alr_alert_id a \<in> alr_alert_id ` set (pd_alerts db')"
proof -
  assume u: "upsert_alert a db = Inr db'"
  have "alr_alert_id ` set (pd_alerts db') = fst ` set (alert_marks db')" "alr_alert_id ` set (pd_alerts db) = fst ` set (alert_marks db)"
    by (simp_all add: alert_ids)
  moreover have "pd_signals db' = pd_signals db" "pd_insights db' = pd_insights db" "episode_refs db' = episode_refs db"
    using upsert_alert_frame [OF u] by (simp_all add: same_base_def episode_refs_def)
  ultimately show ?thesis unfolding grows_def using upsert_alert_marks [OF u] by (simp add: image_Un)
qed

lemma tables_ok_insight:
  assumes "tables_ok db" "upsert_insight i db = Inr db'"
  shows "tables_ok db'"
proof -
  have f: "pd_signals db' = pd_signals db" "pd_alerts db' = pd_alerts db" "pd_episodes db' = pd_episodes db" "pd_decisions db' = pd_decisions db"
    using upsert_insight_frame [OF assms(2)] by (simp_all add: same_base_def)
  have "distinct (map fst (insight_marks db'))"
    using upsert_insight_marks [OF assms(2)] assms(1) by (simp add: tables_ok_def insight_ids)
  moreover have "\<forall>x \<in> set (pd_insights db'). has_signal db' (isr_signal_id x)"
    using upsert_insight_signals [OF assms(2)] assms(1) by (simp add: tables_ok_def has_signal_def f(1))
  moreover have "grows db db'" using upsert_insight_grows [OF assms(2)] ..
  ultimately show ?thesis
    using assms(1) episode_ok_grows decision_ok_grows by (auto simp: tables_ok_def insight_ids has_signal_def f)
qed

lemma tables_ok_alert:
  assumes "tables_ok db" "upsert_alert a db = Inr db'"
  shows "tables_ok db'"
proof -
  have f: "pd_signals db' = pd_signals db" "pd_insights db' = pd_insights db" "pd_episodes db' = pd_episodes db" "pd_decisions db' = pd_decisions db"
    using upsert_alert_frame [OF assms(2)] by (simp_all add: same_base_def)
  have "distinct (map fst (alert_marks db'))"
    using upsert_alert_marks [OF assms(2)] assms(1) by (simp add: tables_ok_def alert_ids)
  moreover have "\<forall>x \<in> set (pd_alerts db'). has_signal db' (alr_signal_id x)"
    using upsert_alert_signals [OF assms(2)] assms(1) by (simp add: tables_ok_def has_signal_def f(1))
  moreover have "grows db db'" using upsert_alert_grows [OF assms(2)] ..
  ultimately show ?thesis
    using assms(1) episode_ok_grows decision_ok_grows by (auto simp: tables_ok_def alert_ids has_signal_def f)
qed

lemma merge_ids:
  "distinct (merge_signal_ids env xs ys)" "length (merge_signal_ids env xs ys) \<le> 100" "length (merge_signal_ids env xs ys) \<le> length xs + length ys"
  "set (merge_signal_ids env xs ys) \<subseteq> set xs \<union> set ys" "xs \<noteq> [] \<Longrightarrow> merge_signal_ids env xs ys \<noteq> []"
proof -
  let ?s = "sort_by (\<lambda>a b. pe_lt env b a) (remdups (xs @ ys))"
  have "distinct ?s" using mset_eq_imp_distinct_iff [of ?s "remdups (xs @ ys)"] by simp
  then show "distinct (merge_signal_ids env xs ys)" by (simp add: merge_signal_ids_def)
  have "length ?s \<le> length xs + length ys" using length_remdups_leq [of "xs @ ys"] by simp
  then show "length (merge_signal_ids env xs ys) \<le> length xs + length ys" unfolding merge_signal_ids_def length_take by linarith
  show "length (merge_signal_ids env xs ys) \<le> 100" by (simp add: merge_signal_ids_def)
  show "set (merge_signal_ids env xs ys) \<subseteq> set xs \<union> set ys"
    using set_take_subset [of 100 ?s] by (simp add: merge_signal_ids_def)
  assume "xs \<noteq> []"
  then have "?s \<noteq> []" by (metis length_0_conv length_sort_by remdups_eq_nil_iff append_is_Nil_conv)
  then show "merge_signal_ids env xs ys \<noteq> []" by (simp add: merge_signal_ids_def)
qed

lemma merge_episode_ok:
  assumes x: "episode_ok db x" and row: "episode_ok db row" "length (le_signal_ids row) = 1"
  shows "episode_ok db (merge_episode env row x)"
proof -
  have "int (length (merge_signal_ids env (le_signal_ids x) (le_signal_ids row))) \<le> le_observation_count x + 1"
    using merge_ids(3) [of env "le_signal_ids x" "le_signal_ids row"] x row(2) unfolding episode_ok_def by linarith
  moreover have "\<forall>s \<in> set (merge_signal_ids env (le_signal_ids x) (le_signal_ids row)). has_signal db s"
    using merge_ids(4) [of env "le_signal_ids x" "le_signal_ids row"] x row(1) unfolding episode_ok_def by blast
  moreover have "merge_signal_ids env (le_signal_ids x) (le_signal_ids row) \<noteq> []"
    using x by (intro merge_ids(5)) (simp add: episode_ok_def)
  ultimately show ?thesis
    using x row(1) merge_ids(1,2) [of env "le_signal_ids x" "le_signal_ids row"] unfolding episode_ok_def merge_episode_def by (simp add: le_max_iff_disj)
qed

lemma upsert_episode_keys:
  assumes "upsert_episode env row db = Inr db'"
  shows "map (\<lambda>x. (le_episode_id x, episode_key x)) (pd_episodes db')
    = map (\<lambda>x. (le_episode_id x, episode_key x)) (pd_episodes db)
      @ (if episode_key row \<in> episode_key ` set (pd_episodes db) then [] else [(le_episode_id row, episode_key row)])"
  by (rule upsert_episode_Inr [OF assms]) (simp add: comp_def if_distrib [of episode_key] if_distrib [of le_episode_id] cong: if_cong)

lemma upsert_episode_grows:
  assumes u: "upsert_episode env row db = Inr db'" and ok: "\<forall>x \<in> set (pd_episodes db). episode_ok db x" "episode_ok db row"
  shows "grows db db'" "(le_episode_id row, episode_key row) \<in> episode_refs db'"
proof -
  have b: "same_base db db' \<and> pd_alerts db' = pd_alerts db \<and> pd_insights db' = pd_insights db"
    by (rule upsert_episode_Inr [OF u]) simp
  show "grows db db'" using b upsert_episode_keys [OF u] by (simp add: grows_def same_base_def episode_refs_def)
  show "(le_episode_id row, episode_key row) \<in> episode_refs db'"
  proof (cases "episode_key row \<in> episode_key ` set (pd_episodes db)")
    case True
    then obtain x where x: "x \<in> set (pd_episodes db)" "episode_key x = episode_key row" by (metis imageE)
    then have "le_episode_id x = le_episode_id row" using ok by (simp add: episode_ok_def episode_key_def)
    then have "(le_episode_id row, episode_key row) \<in> set (map (\<lambda>x. (le_episode_id x, episode_key x)) (pd_episodes db))"
      unfolding set_map by (intro image_eqI [OF _ x(1)]) (simp add: x(2))
    then show ?thesis unfolding episode_refs_def upsert_episode_keys [OF u] by simp
  next
    case False
    then show ?thesis unfolding episode_refs_def upsert_episode_keys [OF u] by simp
  qed
qed

lemma tables_ok_episode:
  assumes ok: "tables_ok db" and u: "upsert_episode env row db = Inr db'" and row: "episode_ok db row" "length (le_signal_ids row) = 1"
  shows "tables_ok db'"
proof -
  have old: "\<forall>x \<in> set (pd_episodes db). episode_ok db x" using ok by (simp add: tables_ok_def)
  have g: "grows db db'" by (rule upsert_episode_grows [OF u old row(1)])
  have ids: "map le_episode_id (pd_episodes db') = map fst (map (\<lambda>x. (le_episode_id x, episode_key x)) (pd_episodes db'))"
    "map episode_key (pd_episodes db') = map snd (map (\<lambda>x. (le_episode_id x, episode_key x)) (pd_episodes db'))" by (simp_all add: comp_def)
  show ?thesis
  proof (rule upsert_episode_Inr [OF u])
    assume b: "same_base db db'" "pd_alerts db' = pd_alerts db" "pd_insights db' = pd_insights db" "pd_decisions db' = pd_decisions db"
      and e: "pd_episodes db' = (if episode_key row \<in> episode_key ` set (pd_episodes db)
         then map (\<lambda>x. if episode_key row = episode_key x then merge_episode env row x else x) (pd_episodes db) else pd_episodes db @ [row])"
      and new: "episode_key row \<notin> episode_key ` set (pd_episodes db) \<Longrightarrow> le_episode_id row \<notin> le_episode_id ` set (pd_episodes db)"
    have "distinct (map le_episode_id (pd_episodes db'))" "distinct (map episode_key (pd_episodes db'))"
      unfolding ids upsert_episode_keys [OF u] using ok new by (simp_all add: tables_ok_def comp_def)
    moreover have "\<forall>x \<in> set (pd_episodes db'). episode_ok db x"
      using old row merge_episode_ok unfolding e by auto
    ultimately show ?thesis
      using ok b episode_ok_grows [OF g] decision_ok_grows [OF g] by (simp add: tables_ok_def same_base_def has_signal_def)
  qed
qed

lemma tables_ok_decision:
  assumes ok: "tables_ok db" and u: "insert_decision row db = Inr db'" and row: "decision_ok db row"
  shows "tables_ok db' \<and> grows db db'"
proof (rule insert_decision_Inr [OF u])
  assume b: "same_base db db'" "pd_alerts db' = pd_alerts db" "pd_insights db' = pd_insights db" "pd_episodes db' = pd_episodes db"
    and d: "pd_decisions db' = (if decision_key row \<in> decision_key ` set (pd_decisions db) then pd_decisions db else pd_decisions db @ [row])"
    and new: "decision_key row \<notin> decision_key ` set (pd_decisions db) \<Longrightarrow> ld_decision_id row \<notin> ld_decision_id ` set (pd_decisions db)"
  have g: "grows db db'" using b by (simp add: grows_def same_base_def episode_refs_def)
  then show ?thesis
    using ok b d new row episode_ok_grows [OF g] decision_ok_grows [OF g] by (auto simp: tables_ok_def same_base_def has_signal_def)
qed

lemma join_two: "ps \<noteq> [] \<Longrightarrow> join ''|'' (a # ps) = join ''|'' [a, join ''|'' ps]"
  by (cases ps) simp_all

lemma verdict_fingerprint: "policy_verdict env r p e db = Inr (Some v) \<Longrightarrow> vd_fingerprint v \<noteq> []"
  by (auto simp: policy_verdict_def Let_def service_fingerprint_def scan_fingerprint_def split: if_splits sum.splits bool.splits)

lemma episode_id: "ps \<noteq> [] \<Longrightarrow> lifecycle_id pre (a # ps) = lifecycle_id pre [a, join ''|'' ps]"
  using join_two [of ps a] by (simp add: lifecycle_id_def bar_digest_def)

lemma work_items_ok:
  assumes ok: "tables_ok db" and w: "work_items r p v db = Inr (iid, aid, db')"
  shows "tables_ok db' \<and> grows db db' \<and> (iid \<noteq> [] \<longrightarrow> iid \<in> isr_insight_id ` set (pd_insights db') \<and> lp_mode p = ''enforced'' \<and> vd_disposition v = ''create_or_update_insight'')
    \<and> (aid \<noteq> [] \<longrightarrow> aid \<in> alr_alert_id ` set (pd_alerts db') \<and> lp_mode p = ''enforced'' \<and> vd_disposition v = ''create_or_update_alert'')"
  using w
proof (cases rule: work_items_Inr)
  case insight
  then show ?thesis using tables_ok_insight [OF ok insight(5)] upsert_insight_grows [OF insight(5)] by (simp add: cyber_insight_def)
next
  case alert
  then show ?thesis using tables_ok_alert [OF ok alert(5)] upsert_alert_grows [OF alert(5)] by (simp add: cyber_alert_def)
next
  case none
  then show ?thesis using ok by simp
qed

lemma apply_policy_ok:
  assumes ok: "tables_ok db" and s: "has_signal db (sl_signal_id r)" and a: "apply_policy env now r e p db = Inr db'"
  shows "tables_ok db' \<and> grows db db'"
  using a
proof (cases rule: apply_policy_Inr)
  case skipped
  then show ?thesis using ok by simp
next
  case (applied v iid aid db1 db2)
  note w = work_items_ok [OF ok applied(2)]
  have s1: "has_signal db1 (sl_signal_id r)" using w s has_signal_grows by blast
  have row: "episode_ok db1 (episode_of r p v iid aid)"
    using w s1 episode_id [OF verdict_fingerprint [OF applied(1)]] by (simp add: episode_ok_def episode_of_def)
  have old: "\<forall>x \<in> set (pd_episodes db1). episode_ok db1 x" using w by (simp add: tables_ok_def)
  have 2: "tables_ok db2" using w row by (intro tables_ok_episode [OF _ applied(3)]) (simp_all add: episode_of_def)
  note g = upsert_episode_grows [OF applied(3) old row]
  have "decision_ok db2 (decision_of now r p v iid aid)"
    using g w s1 has_signal_grows [OF g(1) s1] unfolding decision_ok_def grows_def
    by (auto simp: decision_of_def episode_of_def episode_key_def)
  from tables_ok_decision [OF 2 applied(4) this] show ?thesis using g(1) w grows_trans by blast
qed

lemma apply_policies_ok:
  "tables_ok db \<Longrightarrow> has_signal db (sl_signal_id r) \<Longrightarrow> apply_policies env now r e ps db = Inr db' \<Longrightarrow> tables_ok db' \<and> grows db db'"
proof (induction ps arbitrary: db)
  case (Cons p ps)
  then obtain db1 where 1: "apply_policy env now r e p db = Inr db1" "apply_policies env now r e ps db1 = Inr db'" by auto
  note a = apply_policy_ok [OF Cons.prems(1,2) 1(1)]
  have "has_signal db1 (sl_signal_id r)" using a Cons.prems(2) has_signal_grows by blast
  then show ?case using Cons.IH [OF _ _ 1(2)] a grows_trans by blast
qed simp

section \<open>One signal\<close>

lemma upsert_signal_cases:
  assumes "upsert_signal now r db = Inr db'"
  obtains (updated) "has_signal db (sl_signal_id r)"
      "db' = db\<lparr>pd_signals := map (\<lambda>x. if sl_signal_id x = sl_signal_id r then (stored_signal now r)\<lparr>sl_created_at := sl_created_at x\<rparr> else x) (pd_signals db)\<rparr>"
    | (inserted) "\<not> has_signal db (sl_signal_id r)" "db' = db\<lparr>pd_signals := pd_signals db @ [stored_signal now r]\<rparr>"
proof -
  have e: "(\<exists>x \<in> set (pd_signals db). sl_signal_id x = sl_signal_id r) \<longleftrightarrow> has_signal db (sl_signal_id r)"
    unfolding has_signal_def by (metis image_iff)
  show thesis
    using assms that unfolding upsert_signal_def Let_def e by (simp split: if_splits)
qed

lemma stored_signal_id [simp]: "sl_signal_id (stored_signal now r) = sl_signal_id r"
  by (simp add: stored_signal_def)

definition same_ledgers :: "policy_db \<Rightarrow> policy_db \<Rightarrow> bool" where
  "same_ledgers db db' \<longleftrightarrow> pd_alerts db' = pd_alerts db \<and> pd_insights db' = pd_insights db \<and> pd_episodes db' = pd_episodes db \<and> pd_decisions db' = pd_decisions db"

lemma upsert_signal_ids:
  assumes "upsert_signal now r db = Inr db'"
  shows "map sl_signal_id (pd_signals db') = map sl_signal_id (pd_signals db) @ (if has_signal db (sl_signal_id r) then [] else [sl_signal_id r])"
  using assms by (cases rule: upsert_signal_cases) (simp_all add: comp_def if_distrib [of sl_signal_id] cong: if_cong)

lemma upsert_signal_frame:
  "upsert_signal now r db = Inr db' \<Longrightarrow> same_ledgers db db' \<and> pd_policies db' = pd_policies db \<and> pd_services db' = pd_services db \<and> pd_audit db' = pd_audit db"
  by (elim upsert_signal_cases) (simp_all add: same_ledgers_def)

lemma same_ledgers_ok:
  assumes "tables_ok db" "same_ledgers db db'" "distinct (map sl_signal_id (pd_signals db'))" "sl_signal_id ` set (pd_signals db) \<subseteq> sl_signal_id ` set (pd_signals db')"
  shows "tables_ok db' \<and> grows db db'"
proof -
  have g: "grows db db'" using assms by (simp add: grows_def same_ledgers_def episode_refs_def)
  then show ?thesis
    using assms episode_ok_grows [OF g] decision_ok_grows [OF g] has_signal_grows [OF g] by (simp add: tables_ok_def same_ledgers_def)
qed

lemma upsert_signal_ok:
  assumes ok: "tables_ok db" and u: "upsert_signal now r db = Inr db'"
  shows "tables_ok db' \<and> grows db db' \<and> has_signal db' (sl_signal_id r)"
proof -
  have i: "sl_signal_id ` set (pd_signals db') = set (map sl_signal_id (pd_signals db) @ (if has_signal db (sl_signal_id r) then [] else [sl_signal_id r]))"
    unfolding upsert_signal_ids [OF u, symmetric] by simp
  have "distinct (map sl_signal_id (pd_signals db'))"
    unfolding upsert_signal_ids [OF u] using ok by (simp add: tables_ok_def has_signal_def)
  moreover have "sl_signal_id ` set (pd_signals db) \<subseteq> sl_signal_id ` set (pd_signals db')" by (simp add: i)
  moreover have "has_signal db' (sl_signal_id r)" unfolding has_signal_def i by (simp add: has_signal_def)
  ultimately show ?thesis using same_ledgers_ok [OF ok] upsert_signal_frame [OF u] by blast
qed

text \<open>A transaction leaves the tables as they were, or applies every enabled policy after the signal.\<close>

lemma persist_cases:
  assumes "persist_policy_lifecycle env now r db = (x, db')"
  obtains (unchanged) "db' = db" "x \<noteq> Inr True"
    | (applied) db1 where "x = Inr True" "sl_app_id r = ''cyberops''" "enabled_policies env (sl_tenant_id r) db \<noteq> []" "upsert_signal now r db = Inr db1"
      "apply_policies env now r (evidence_of env r) (enabled_policies env (sl_tenant_id r) db) db1 = Inr db'"
proof (cases "sl_app_id r = ''cyberops'' \<and> pg_text (sl_tenant_id r) \<and> enabled_policies env (sl_tenant_id r) db \<noteq> []")
  case False
  then show thesis using assms unchanged by (auto simp: persist_policy_lifecycle_def Let_def split: if_splits)
next
  case True
  let ?t = "bind_res (upsert_signal now r db) (apply_policies env now r (evidence_of env r) (enabled_policies env (sl_tenant_id r) db))"
  have p: "(case ?t of Inl err \<Rightarrow> (Inl err, db) | Inr db1 \<Rightarrow> (Inr True, db1)) = (x, db')"
    using assms True by (simp add: persist_policy_lifecycle_def Let_def)
  show thesis
  proof (cases ?t)
    case (Inl err)
    with p show thesis by (intro unchanged) auto
  next
    case (Inr db2)
    then obtain db1 where "upsert_signal now r db = Inr db1"
        "apply_policies env now r (evidence_of env r) (enabled_policies env (sl_tenant_id r) db) db1 = Inr db2" by auto
    moreover have "x = Inr True" "db' = db2" using p Inr by auto
    ultimately show thesis using True applied by blast
  qed
qed

lemma persist_ok:
  assumes "tables_ok db" "persist_policy_lifecycle env now r db = (x, db')"
  shows "tables_ok db'"
  using assms(2)
proof (cases rule: persist_cases)
  case unchanged
  then show ?thesis using assms(1) by simp
next
  case (applied db1)
  have 1: "tables_ok db1" "has_signal db1 (sl_signal_id r)" using upsert_signal_ok [OF assms(1) applied(4)] by simp_all
  show ?thesis using apply_policies_ok [OF 1 applied(5)] ..
qed

section \<open>What is new\<close>

text \<open>The work item of one policy: an insight for an unapproved exposure, an alert for a scan.\<close>

definition exposes :: "pg_env \<Rightarrow> signal_ledger \<Rightarrow> cyber_evidence \<Rightarrow> policy_db \<Rightarrow> lifecycle_policy \<Rightarrow> string \<times> string \<Rightarrow> bool" where
  "exposes env r e db p m \<longleftrightarrow>
     lp_mode p = ''enforced'' \<and> lp_policy_id p = ''public-service-exposure'' \<and> sl_signal_type r = ''cyberops.firewall.new_public_service_exposure''
     \<and> approved env (sl_tenant_id r) e db = Inr False \<and> m = (lifecycle_id ''insight'' (lp_version p # service_fingerprint r e), ''active'')"

definition scans :: "pg_env \<Rightarrow> signal_ledger \<Rightarrow> cyber_evidence \<Rightarrow> policy_db \<Rightarrow> lifecycle_policy \<Rightarrow> string \<times> string \<Rightarrow> bool" where
  "scans env r e db p m \<longleftrightarrow>
     lp_mode p = ''enforced'' \<and> lp_policy_id p = ''port-scan'' \<and> sl_signal_type r = ''cyberops.firewall.external_deny''
     \<and> 10 \<le> denied_port_count env (sl_tenant_id r) e (sl_signal_time r) db \<and> m = (lifecycle_id ''alert'' (lp_version p # scan_fingerprint r e), ''open'')"

lemma approved_base: "same_base db db' \<Longrightarrow> approved env t e db' = approved env t e db"
  by (simp add: same_base_def approved_def split: option.splits)

lemma denied_base: "same_base db db' \<Longrightarrow> denied_port_count env t e at1 db' = denied_port_count env t e at1 db"
  by (simp add: same_base_def denied_port_count_def)

lemma exposes_base: "same_base db db' \<Longrightarrow> exposes env r e db' = exposes env r e db"
  by (intro ext) (simp add: exposes_def approved_base)

lemma scans_base: "same_base db db' \<Longrightarrow> scans env r e db' = scans env r e db"
  by (intro ext) (simp add: scans_def denied_base)

definition extends :: "(string \<times> string) set \<Rightarrow> (string \<times> string) set \<Rightarrow> policy_db \<Rightarrow> policy_db \<Rightarrow> bool" where
  "extends I A db db' \<longleftrightarrow>
     (\<exists>ms. insight_marks db' = insight_marks db @ ms \<and> set ms \<subseteq> I) \<and> (\<exists>ms. alert_marks db' = alert_marks db @ ms \<and> set ms \<subseteq> A)
     \<and> (\<exists>ds. pd_decisions db' = pd_decisions db @ ds)"

lemma extends_refl [simp]: "extends I A db db"
  by (simp add: extends_def)

lemma extends_trans:
  assumes "extends I A a b" "extends I A b c"
  shows "extends I A a c"
proof -
  obtain i1 i2 where "insight_marks b = insight_marks a @ i1" "set i1 \<subseteq> I" "insight_marks c = insight_marks b @ i2" "set i2 \<subseteq> I"
    using assms unfolding extends_def by blast
  then have "insight_marks c = insight_marks a @ (i1 @ i2)" "set (i1 @ i2) \<subseteq> I" by simp_all
  moreover obtain a1 a2 where "alert_marks b = alert_marks a @ a1" "set a1 \<subseteq> A" "alert_marks c = alert_marks b @ a2" "set a2 \<subseteq> A"
    using assms unfolding extends_def by blast
  then have "alert_marks c = alert_marks a @ (a1 @ a2)" "set (a1 @ a2) \<subseteq> A" by simp_all
  moreover obtain d1 d2 where "pd_decisions b = pd_decisions a @ d1" "pd_decisions c = pd_decisions b @ d2"
    using assms unfolding extends_def by blast
  then have "pd_decisions c = pd_decisions a @ (d1 @ d2)" by simp
  ultimately show ?thesis unfolding extends_def by blast
qed

lemma extends_mono: "extends I A a b \<Longrightarrow> I \<subseteq> J \<Longrightarrow> A \<subseteq> B \<Longrightarrow> extends J B a b"
  unfolding extends_def by (meson order_trans)

lemma verdict_insight:
  "policy_verdict env r p e db = Inr (Some v) \<Longrightarrow> vd_disposition v = ''create_or_update_insight'' \<Longrightarrow> lp_mode p = ''enforced''
     \<Longrightarrow> exposes env r e db p (lifecycle_id ''insight'' (lp_version p # vd_fingerprint v), ''active'')"
  by (auto simp: policy_verdict_def Let_def exposes_def split: if_splits sum.splits bool.splits)

lemma verdict_alert:
  "policy_verdict env r p e db = Inr (Some v) \<Longrightarrow> vd_disposition v = ''create_or_update_alert'' \<Longrightarrow> lp_mode p = ''enforced''
     \<Longrightarrow> scans env r e db p (lifecycle_id ''alert'' (lp_version p # vd_fingerprint v), ''open'')"
  by (auto simp: policy_verdict_def Let_def scans_def split: if_splits sum.splits bool.splits)

lemma work_items_extends:
  assumes v: "policy_verdict env r p e db = Inr (Some v)" and w: "work_items r p v db = Inr (iid, aid, db')"
  shows "extends (Collect (exposes env r e db p)) (Collect (scans env r e db p)) db db'"
  using w
proof (cases rule: work_items_Inr)
  case insight
  then show ?thesis
    using verdict_insight [OF v insight(2,1)] upsert_insight_marks [OF insight(5)] upsert_insight_frame [OF insight(5)]
    by (auto simp: extends_def cyber_insight_def alert_marks_def)
next
  case alert
  then show ?thesis
    using verdict_alert [OF v alert(2,1)] upsert_alert_marks [OF alert(5)] upsert_alert_frame [OF alert(5)]
    by (auto simp: extends_def cyber_alert_def insight_marks_def)
qed simp

lemma apply_policy_extends:
  assumes "apply_policy env now r e p db = Inr db'"
  shows "extends (Collect (exposes env r e db p)) (Collect (scans env r e db p)) db db'"
  using assms
proof (cases rule: apply_policy_Inr)
  case (applied v iid aid db1 db2)
  have "extends {} {} db1 db2"
    by (rule upsert_episode_Inr [OF applied(3)]) (simp add: extends_def insight_marks_def alert_marks_def)
  moreover have "extends {} {} db2 db'"
    by (rule insert_decision_Inr [OF applied(4)]) (simp add: extends_def insight_marks_def alert_marks_def)
  ultimately have "extends {} {} db1 db'" by (rule extends_trans)
  then have "extends (Collect (exposes env r e db p)) (Collect (scans env r e db p)) db1 db'" by (rule extends_mono) simp_all
  then show ?thesis by (rule extends_trans [OF work_items_extends [OF applied(1,2)]])
qed simp

lemma apply_policies_extends:
  "apply_policies env now r e ps db = Inr db'
     \<Longrightarrow> extends {m. \<exists>p \<in> set ps. exposes env r e db p m} {m. \<exists>p \<in> set ps. scans env r e db p m} db db'"
proof (induction ps arbitrary: db)
  case (Cons p ps)
  then obtain db1 where 1: "apply_policy env now r e p db = Inr db1" "apply_policies env now r e ps db1 = Inr db'" by auto
  note b = apply_policy_base [OF 1(1)]
  have "extends {m. \<exists>p \<in> set (p # ps). exposes env r e db p m} {m. \<exists>p \<in> set (p # ps). scans env r e db p m} db db1"
    by (rule extends_mono [OF apply_policy_extends [OF 1(1)]]) auto
  moreover have "extends {m. \<exists>p \<in> set (p # ps). exposes env r e db p m} {m. \<exists>p \<in> set (p # ps). scans env r e db p m} db1 db'"
    by (rule extends_mono [OF Cons.IH [OF 1(2)]]) (auto simp: exposes_base [OF b] scans_base [OF b])
  ultimately show ?case by (rule extends_trans)
qed simp

section \<open>The same signal again\<close>

definition observations :: "policy_db \<Rightarrow> int" where
  "observations db = sum_list (map le_observation_count (pd_episodes db))"

lemma count_merged:
  "distinct (map episode_key xs) \<Longrightarrow>
     sum_list (map (\<lambda>x. le_observation_count (if k = episode_key x then merge_episode env row x else x)) xs)
       = sum_list (map le_observation_count xs) + (if k \<in> episode_key ` set xs then 1 else 0)"
proof (induction xs)
  case (Cons x xs)
  then show ?case by (auto simp: merge_episode_def)
qed simp

lemma upsert_episode_observations:
  assumes "upsert_episode env row db = Inr db'" "distinct (map episode_key (pd_episodes db))" "le_observation_count row = 1"
  shows "observations db' = observations db + 1"
  by (rule upsert_episode_Inr [OF assms(1)]) (simp add: observations_def assms(2,3) comp_def count_merged)

lemma apply_policy_observations:
  assumes ok: "tables_ok db" and a: "apply_policy env now r e p db = Inr db'"
  shows "observations db' = observations db + (if policy_verdict env r p e db = Inr None then 0 else 1)"
  using a
proof (cases rule: apply_policy_Inr)
  case (applied v iid aid db1 db2)
  have 1: "pd_episodes db1 = pd_episodes db" using work_items_base [OF applied(2)] by blast
  then have "observations db2 = observations db1 + 1"
    using ok by (intro upsert_episode_observations [OF applied(3)]) (simp_all add: tables_ok_def episode_of_def)
  moreover have "observations db' = observations db2" by (rule insert_decision_Inr [OF applied(4)]) (simp add: observations_def)
  ultimately show ?thesis using 1 applied(1) by (simp add: observations_def)
qed simp

definition verdicts :: "pg_env \<Rightarrow> signal_ledger \<Rightarrow> lifecycle_policy list \<Rightarrow> policy_db \<Rightarrow> lifecycle_policy list" where
  "verdicts env r ps db = filter (\<lambda>p. policy_verdict env r p (evidence_of env r) db \<noteq> Inr None) ps"

lemma apply_policies_observations:
  "tables_ok db \<Longrightarrow> has_signal db (sl_signal_id r) \<Longrightarrow> apply_policies env now r (evidence_of env r) ps db = Inr db'
     \<Longrightarrow> observations db' = observations db + int (length (verdicts env r ps db))"
proof (induction ps arbitrary: db)
  case Nil
  then show ?case by (simp add: verdicts_def)
next
  case (Cons p ps)
  then obtain db1 where 1: "apply_policy env now r (evidence_of env r) p db = Inr db1" "apply_policies env now r (evidence_of env r) ps db1 = Inr db'" by auto
  note a = apply_policy_ok [OF Cons.prems(1,2) 1(1)]
  have "has_signal db1 (sl_signal_id r)" using a Cons.prems(2) has_signal_grows by blast
  then have "observations db' = observations db1 + int (length (verdicts env r ps db1))" using Cons.IH [OF _ _ 1(2)] a by blast
  then show ?case
    using apply_policy_observations [OF Cons.prems(1) 1(1)] verdict_base [OF apply_policy_base [OF 1(1)]] by (simp add: verdicts_def)
qed

text \<open>A policy is settled for a signal once its decision and its work item are stored.\<close>

definition settled :: "signal_ledger \<Rightarrow> lifecycle_policy \<Rightarrow> verdict \<Rightarrow> policy_db \<Rightarrow> bool" where
  "settled r p v db \<longleftrightarrow>
     (sl_tenant_id r, sl_signal_id r, lp_policy_id p) \<in> decision_key ` set (pd_decisions db)
     \<and> (lp_mode p = ''enforced'' \<and> vd_disposition v = ''create_or_update_insight''
         \<longrightarrow> lifecycle_id ''insight'' (lp_version p # vd_fingerprint v) \<in> isr_insight_id ` set (pd_insights db))
     \<and> (lp_mode p = ''enforced'' \<and> vd_disposition v = ''create_or_update_alert''
         \<longrightarrow> lifecycle_id ''alert'' (lp_version p # vd_fingerprint v) \<in> alr_alert_id ` set (pd_alerts db))"

lemma settled_extends:
  assumes "extends I A db db'" "settled r p v db"
  shows "settled r p v db'"
proof -
  obtain ms1 ms2 ds where "insight_marks db' = insight_marks db @ ms1" "alert_marks db' = alert_marks db @ ms2" "pd_decisions db' = pd_decisions db @ ds"
    using assms(1) unfolding extends_def by blast
  then show ?thesis
    using assms(2) unfolding settled_def insight_ids(2) [symmetric] alert_ids(2) [symmetric] by (simp add: image_Un)
qed

lemma apply_policy_settles:
  assumes a: "apply_policy env now r e p db = Inr db'" and v: "policy_verdict env r p e db = Inr (Some v)"
  shows "settled r p v db'"
  using a
proof (cases rule: apply_policy_Inr)
  case (applied w iid aid db1 db2)
  then have w: "w = v" using v by simp
  have k: "decision_key (decision_of now r p v iid aid) = (sl_tenant_id r, sl_signal_id r, lp_policy_id p)" by (simp add: decision_of_def decision_key_def)
  have d: "(sl_tenant_id r, sl_signal_id r, lp_policy_id p) \<in> decision_key ` set (pd_decisions db') \<and> pd_insights db' = pd_insights db2 \<and> pd_alerts db' = pd_alerts db2"
    by (rule insert_decision_Inr [OF applied(4)]) (simp add: w k)
  have e: "pd_insights db2 = pd_insights db1" "pd_alerts db2 = pd_alerts db1" by (rule upsert_episode_Inr [OF applied(3)], simp)+
  from applied(2) show ?thesis unfolding w
  proof (cases rule: work_items_Inr)
    case insight
    then show ?thesis using d e upsert_insight_grows [OF insight(5)] by (simp add: settled_def cyber_insight_def)
  next
    case alert
    then show ?thesis using d e upsert_alert_grows [OF alert(5)] by (simp add: settled_def cyber_alert_def)
  next
    case none
    then show ?thesis using d by (auto simp: settled_def)
  qed
qed (simp add: v)

definition same_marks :: "policy_db \<Rightarrow> policy_db \<Rightarrow> bool" where
  "same_marks db db' \<longleftrightarrow> insight_marks db' = insight_marks db \<and> alert_marks db' = alert_marks db \<and> pd_decisions db' = pd_decisions db"

lemma settled_marks: "same_marks db db' \<Longrightarrow> settled r p v db \<Longrightarrow> settled r p v db'"
  by (rule settled_extends [where I = "{}" and A = "{}"]) (simp_all add: extends_def same_marks_def)

lemma apply_policy_again:
  assumes a: "apply_policy env now r e p db = Inr db'" and s: "\<And>v. policy_verdict env r p e db = Inr (Some v) \<Longrightarrow> settled r p v db"
  shows "same_marks db db'"
  using a
proof (cases rule: apply_policy_Inr)
  case skipped
  then show ?thesis by (simp add: same_marks_def)
next
  case (applied v iid aid db1 db2)
  note s = s [OF applied(1)]
  have e: "pd_insights db2 = pd_insights db1" "pd_alerts db2 = pd_alerts db1" "pd_decisions db2 = pd_decisions db1"
    by (rule upsert_episode_Inr [OF applied(3)], simp)+
  have k: "decision_key (decision_of now r p v iid aid) = (sl_tenant_id r, sl_signal_id r, lp_policy_id p)" by (simp add: decision_of_def decision_key_def)
  have "pd_decisions db1 = pd_decisions db" using work_items_base [OF applied(2)] by blast
  then have "pd_insights db' = pd_insights db2 \<and> pd_alerts db' = pd_alerts db2 \<and> pd_decisions db' = pd_decisions db2"
    using s e by - (rule insert_decision_Inr [OF applied(4)], simp add: k settled_def)
  moreover have "same_marks db db1"
    using applied(2)
  proof (cases rule: work_items_Inr)
    case insight
    then show ?thesis
      using s upsert_insight_marks [OF insight(5)] upsert_insight_frame [OF insight(5)] by (simp add: same_marks_def settled_def cyber_insight_def alert_marks_def)
  next
    case alert
    then show ?thesis
      using s upsert_alert_marks [OF alert(5)] upsert_alert_frame [OF alert(5)] by (simp add: same_marks_def settled_def cyber_alert_def insight_marks_def)
  qed (simp add: same_marks_def)
  ultimately show ?thesis using e by (simp add: same_marks_def insight_marks_def alert_marks_def)
qed

lemma apply_policies_settle:
  "apply_policies env now r e ps db = Inr db' \<Longrightarrow> p \<in> set ps \<Longrightarrow> policy_verdict env r p e db = Inr (Some v) \<Longrightarrow> settled r p v db'"
proof (induction ps arbitrary: db)
  case (Cons q ps)
  then obtain db1 where 1: "apply_policy env now r e q db = Inr db1" "apply_policies env now r e ps db1 = Inr db'" by auto
  note v = verdict_base [OF apply_policy_base [OF 1(1)]]
  show ?case
  proof (cases "p = q")
    case True
    have "settled r q v db1" using Cons.prems(3) True by (intro apply_policy_settles [OF 1(1)]) simp
    then show ?thesis unfolding True by (rule settled_extends [OF apply_policies_extends [OF 1(2)]])
  next
    case False
    then show ?thesis using Cons v by (intro Cons.IH [OF 1(2)]) simp_all
  qed
qed simp

lemma apply_policies_again:
  "apply_policies env now r e ps db = Inr db' \<Longrightarrow> (\<And>p v. p \<in> set ps \<Longrightarrow> policy_verdict env r p e db = Inr (Some v) \<Longrightarrow> settled r p v db)
     \<Longrightarrow> same_marks db db'"
proof (induction ps arbitrary: db)
  case Nil
  then show ?case by (simp add: same_marks_def)
next
  case (Cons q ps)
  then obtain db1 where 1: "apply_policy env now r e q db = Inr db1" "apply_policies env now r e ps db1 = Inr db'" by auto
  have q: "same_marks db db1" by (rule apply_policy_again [OF 1(1)]) (rule Cons.prems(2), simp_all)
  have "same_marks db1 db'"
    by (rule Cons.IH [OF 1(2)], rule settled_marks [OF q], rule Cons.prems(2)) (simp_all add: verdict_base [OF apply_policy_base [OF 1(1)]])
  then show ?case using q by (simp add: same_marks_def)
qed

text \<open>A second upsert of a signal changes nothing the verdicts read.\<close>

definition signal_body :: "signal_ledger \<Rightarrow> signal_ledger" where
  "signal_body x = x\<lparr>sl_created_at := 0, sl_updated_at := 0\<rparr>"

lemma stored_body: "signal_body ((stored_signal now r)\<lparr>sl_created_at := c\<rparr>) = signal_body (stored_signal 0 r)" "signal_body (stored_signal now r) = signal_body (stored_signal 0 r)"
  by (simp_all add: signal_body_def stored_signal_def)

lemma upsert_signal_body:
  "upsert_signal now r db = Inr db' \<Longrightarrow> x \<in> set (pd_signals db') \<Longrightarrow> sl_signal_id x = sl_signal_id r \<Longrightarrow> signal_body x = signal_body (stored_signal 0 r)"
proof (elim upsert_signal_cases)
  assume "x \<in> set (pd_signals db')" "sl_signal_id x = sl_signal_id r" "\<not> has_signal db (sl_signal_id r)" "db' = db\<lparr>pd_signals := pd_signals db @ [stored_signal now r]\<rparr>"
  then show ?thesis using stored_body(2) [of now r] by (auto simp: has_signal_def) (metis image_eqI)
next
  assume x: "x \<in> set (pd_signals db')" "sl_signal_id x = sl_signal_id r"
    and "db' = db\<lparr>pd_signals := map (\<lambda>x. if sl_signal_id x = sl_signal_id r then (stored_signal now r)\<lparr>sl_created_at := sl_created_at x\<rparr> else x) (pd_signals db)\<rparr>"
  then have "x \<in> (\<lambda>x. if sl_signal_id x = sl_signal_id r then (stored_signal now r)\<lparr>sl_created_at := sl_created_at x\<rparr> else x) ` set (pd_signals db)"
    by (simp del: if_image_distrib)
  then obtain y where "x = (if sl_signal_id y = sl_signal_id r then (stored_signal now r)\<lparr>sl_created_at := sl_created_at y\<rparr> else y)" by (elim imageE)
  then show ?thesis using x(2) stored_body(1) [where now = now and r = r] by (simp split: if_splits)
qed

lemma upsert_signal_again:
  assumes body: "\<forall>x \<in> set (pd_signals db). sl_signal_id x = sl_signal_id r \<longrightarrow> signal_body x = signal_body (stored_signal 0 r)"
    and h: "has_signal db (sl_signal_id r)" and u: "upsert_signal now r db = Inr db'"
  shows "map signal_body (pd_signals db') = map signal_body (pd_signals db)"
  using u
proof (cases rule: upsert_signal_cases)
  case updated
  have "signal_body (if sl_signal_id x = sl_signal_id r then (stored_signal now r)\<lparr>sl_created_at := sl_created_at x\<rparr> else x) = signal_body x"
    if "x \<in> set (pd_signals db)" for x using body that stored_body(1) [where now = now and r = r] by simp
  then show ?thesis unfolding updated(2) by simp
qed (use h in simp)

lemma map_filter_map: "List.map_filter f (map g xs) = List.map_filter (f \<circ> g) xs"
  by (induction xs) (simp_all split: option.split)

lemma denied_body: "denied_port_count env t e at1 db = length (remdups (List.map_filter (\<lambda>x. if denied_in_window env t e at1 x
    then json_text env (sl_semantic_evidence x) 0 ''destination_port'' else None) (map signal_body (pd_signals db))))"
proof -
  have "(\<lambda>x. if denied_in_window env t e at1 x then json_text env (sl_semantic_evidence x) 0 ''destination_port'' else None) \<circ> signal_body
    = (\<lambda>x. if denied_in_window env t e at1 x then json_text env (sl_semantic_evidence x) 0 ''destination_port'' else None)"
    by (rule ext) (simp add: signal_body_def denied_in_window_def)
  then show ?thesis by (simp only: denied_port_count_def map_filter_map)
qed

lemma verdict_body:
  assumes "map signal_body (pd_signals db') = map signal_body (pd_signals db)" "pd_services db' = pd_services db"
  shows "policy_verdict env r p e db' = policy_verdict env r p e db"
proof -
  have "approved env (sl_tenant_id r) e db' = approved env (sl_tenant_id r) e db" using assms(2) by (simp add: approved_def split: option.splits)
  then show ?thesis by (simp add: policy_verdict_def denied_body assms(1))
qed

lemma redelivered:
  assumes ok: "tables_ok db" and 1: "persist_policy_lifecycle env now r db = (Inr True, db1)" and 2: "persist_policy_lifecycle env now2 r db1 = (Inr True, db2)"
  shows "same_marks db1 db2"
    "observations db1 - observations db = int (length (verdicts env r (enabled_policies env (sl_tenant_id r) db) db1))"
    "observations db2 - observations db1 = int (length (verdicts env r (enabled_policies env (sl_tenant_id r) db) db1))"
proof -
  let ?e = "evidence_of env r" and ?ps = "enabled_policies env (sl_tenant_id r) db"
  obtain da where a: "upsert_signal now r db = Inr da" "apply_policies env now r ?e ?ps da = Inr db1" using 1 by (elim persist_cases) auto
  obtain dc where c: "upsert_signal now2 r db1 = Inr dc" "apply_policies env now2 r ?e (enabled_policies env (sl_tenant_id r) db1) dc = Inr db2"
    using 2 by (elim persist_cases) auto
  have b: "same_base da db1" by (rule apply_policies_base [OF a(2)])
  then have ps: "enabled_policies env (sl_tenant_id r) db1 = ?ps" using upsert_signal_frame [OF a(1)] by (simp add: enabled_policies_def same_base_def)
  note oka = upsert_signal_ok [OF ok a(1)]
  have ok1: "tables_ok db1" using apply_policies_ok [OF _ _ a(2)] oka by blast
  note okc = upsert_signal_ok [OF ok1 c(1)]
  have "has_signal db1 (sl_signal_id r)" using oka b by (simp add: has_signal_def same_base_def)
  moreover have "\<forall>x \<in> set (pd_signals db1). sl_signal_id x = sl_signal_id r \<longrightarrow> signal_body x = signal_body (stored_signal 0 r)"
    using upsert_signal_body [OF a(1)] b by (simp add: same_base_def)
  ultimately have "map signal_body (pd_signals dc) = map signal_body (pd_signals db1)" using upsert_signal_again [OF _ _ c(1)] by blast
  then have vc: "policy_verdict env r p ?e dc = policy_verdict env r p ?e db1" for p using upsert_signal_frame [OF c(1)] by (intro verdict_body) simp_all
  have va: "policy_verdict env r p ?e db1 = policy_verdict env r p ?e da" for p by (rule verdict_base [OF b])
  have f: "insight_marks dc = insight_marks db1" "alert_marks dc = alert_marks db1" "pd_decisions dc = pd_decisions db1" "observations dc = observations db1"
    "observations da = observations db"
    using upsert_signal_frame [OF c(1)] upsert_signal_frame [OF a(1)] by (simp_all add: same_ledgers_def insight_marks_def alert_marks_def observations_def)
  have "same_marks dc db2"
  proof (rule apply_policies_again [OF c(2)])
    fix p v
    assume "p \<in> set (enabled_policies env (sl_tenant_id r) db1)" "policy_verdict env r p ?e dc = Inr (Some v)"
    then have "settled r p v db1" by (intro apply_policies_settle [OF a(2)]) (simp_all add: ps vc va)
    then show "settled r p v dc" by (rule settled_marks [rotated]) (simp add: same_marks_def f)
  qed
  then show "same_marks db1 db2" by (simp add: same_marks_def f)
  show "observations db1 - observations db = int (length (verdicts env r ?ps db1))"
    using apply_policies_observations [OF _ _ a(2)] oka by (simp add: f verdicts_def va)
  show "observations db2 - observations db1 = int (length (verdicts env r ?ps db1))"
    using apply_policies_observations [OF _ _ c(2)] okc by (simp add: f ps verdicts_def vc)
qed

section \<open>Reachable tables\<close>

text \<open>
  The signal persister delivers signals, operators approve and remove services, and the policies
  are rewritten by hand (the migration installs them in shadow mode).
\<close>

inductive policy_step :: "policy_db \<Rightarrow> policy_db \<Rightarrow> bool" where
  delivers: "persist_policy_lifecycle env now r db = (x, db') \<Longrightarrow> policy_step db db'"
| approves: "upsert_approved_service env now s actor db = (ok, db') \<Longrightarrow> policy_step db db'"
| removes: "delete_approved_service env tenant ip protocol port actor db = (ok, db') \<Longrightarrow> policy_step db db'"
| configures: "policy_step db (db\<lparr>pd_policies := ps\<rparr>)"

definition no_work :: "policy_db \<Rightarrow> bool" where
  "no_work db \<longleftrightarrow> pd_signals db = [] \<and> pd_alerts db = [] \<and> pd_insights db = [] \<and> pd_episodes db = [] \<and> pd_decisions db = []"

lemma services_frame:
  "upsert_approved_service env now s actor db = (ok, db') \<Longrightarrow> same_ledgers db db' \<and> pd_signals db' = pd_signals db"
  "delete_approved_service env tenant ip protocol port actor db = (found, db') \<Longrightarrow> same_ledgers db db' \<and> pd_signals db' = pd_signals db"
  by (auto simp: upsert_approved_service_def delete_approved_service_def same_ledgers_def Let_def split: option.splits if_splits)

lemma same_ledgers_extends: "same_ledgers db db' \<Longrightarrow> extends I A db db'"
  by (simp add: same_ledgers_def extends_def insight_marks_def alert_marks_def)

lemma same_ledgers_step:
  assumes "tables_ok db" "same_ledgers db db' \<and> pd_signals db' = pd_signals db"
  shows "tables_ok db' \<and> extends UNIV UNIV db db'"
proof -
  have "distinct (map sl_signal_id (pd_signals db'))" "sl_signal_id ` set (pd_signals db) \<subseteq> sl_signal_id ` set (pd_signals db')"
    using assms by (simp_all add: tables_ok_def)
  then show ?thesis using same_ledgers_ok [OF assms(1)] assms(2) same_ledgers_extends by blast
qed

lemma persist_extends:
  assumes "persist_policy_lifecycle env now r db = (x, db')"
  shows "extends UNIV UNIV db db'"
  using assms
proof (cases rule: persist_cases)
  case (applied db1)
  have "extends UNIV UNIV db1 db'" by (rule extends_mono [OF apply_policies_extends [OF applied(5)]]) simp_all
  moreover have "extends UNIV UNIV db db1" using upsert_signal_frame [OF applied(4)] by (intro same_ledgers_extends) blast
  ultimately show ?thesis using extends_trans by blast
qed simp

lemma policy_step_ok:
  assumes "tables_ok db" "policy_step db db'"
  shows "tables_ok db' \<and> extends UNIV UNIV db db'"
  using assms(2)
proof cases
  case delivers
  then show ?thesis using persist_ok [OF assms(1)] persist_extends by blast
next
  case approves
  then show ?thesis by (intro same_ledgers_step [OF assms(1)] services_frame(1))
next
  case removes
  then show ?thesis by (intro same_ledgers_step [OF assms(1)] services_frame(2))
next
  case (configures ps)
  then show ?thesis by (intro same_ledgers_step [OF assms(1)]) (simp add: same_ledgers_def)
qed

interpretation policies: transition_system policy_step tables_ok
  by unfold_locales (use policy_step_ok in blast)

lemma no_work_ok: "no_work db \<Longrightarrow> tables_ok db"
  by (simp add: no_work_def tables_ok_def)

lemma policies_extend:
  assumes "policy_step\<^sup>*\<^sup>* db db'" "tables_ok db"
  shows "extends UNIV UNIV db db'"
proof (rule policies.reach_stable [where P = "extends UNIV UNIV db", OF _ assms])
  show "extends UNIV UNIV db db" by (rule extends_refl)
qed (use policy_step_ok extends_trans in blast)

end
