(* ===== verification/PolicyProps.thy ===== *)
theory PolicyProps imports PolicyTables PipelineProps begin

text \<open>
  The properties of the policy lifecycle: what holds of its tables in every reachable state,
  which signals become work for an operator, the alert that denied ports of the firewall
  detector raise, and where it departs from its specification (\<open>docs/use_cases/cyberops\<close>).
\<close>

section \<open>The evidence of a detected signal\<close>

lemma signal_record_parts:
  "signal_record s m = Inr r \<Longrightarrow> sl_entities r = marshal (json_objs (sv_entities s)) \<and> sl_semantic_evidence r = marshal (json_objs (sv_semantic_evidence s))
     \<and> sl_signal_type r = sv_signal_type s \<and> sl_tenant_id r = sv_tenant_id s \<and> sl_signal_time r = sv_timestamp s \<and> sl_signal_id r = sv_signal_id s
     \<and> sl_app_id r = am_app_id (app_normalize (sv_app_id s) (sv_domain s) (sv_use_case s) (sv_source_domain s))"
  by (auto simp: signal_record_def Let_def split: if_splits)

lemma f_to_int_small: "\<bar>i\<bar> \<le> 2 ^ 53 \<Longrightarrow> f_to_int (Fin (of_int i)) = i"
  by (auto simp: f_to_int_def)

lemma whole_text_int: "\<bar>i\<bar> \<le> 2 ^ 53 \<Longrightarrow> whole_text (Fin (of_int i)) = Some (itoa i)"
  by (simp add: whole_text_def f_to_int_small f_of_int_small feq_def)

lemma protocol_lower: "p \<in> {''tcp'', ''udp''} \<Longrightarrow> to_lower p = p"
proof -
  have "to_lower ''tcp'' = ''tcp''" "to_lower ''udp'' = ''udp''" by code_simp+
  then show "p \<in> {''tcp'', ''udp''} \<Longrightarrow> to_lower p = p" by auto
qed

definition flow_entities :: "firewall_event \<Rightarrow> doc" where
  "flow_entities fw = Doc (JArr [JObj (ip_entity (fw_source_ip fw) ''source''), JObj (ip_entity (fw_destination_ip fw) ''destination'')])"

definition flow_evidence :: "firewall_event \<Rightarrow> doc" where
  "flow_evidence fw = Doc (JArr [JObj [(''parser'', JStr ''opnsense.filterlog.v1''), (''action'', JStr (fw_action fw)), (''protocol'', JStr (fw_protocol fw)),
     (''destination_port'', JNum (Fin (of_int (fw_destination_port fw))))]])"

lemma detected_flow:
  assumes "signal_record (signal_wire (public_signal now e fw)) m = Inr r" "1 \<le> fw_destination_port fw" "fw_destination_port fw \<le> 65535"
  shows "sl_entities r = flow_entities fw" "sl_semantic_evidence r = flow_evidence fw" "sl_tenant_id r = ne_tenant_id e" "sl_signal_time r = ne_occurred_at e"
    "sl_signal_type r = (if allowed_action fw then ''cyberops.firewall.new_public_service_exposure'' else ''cyberops.firewall.external_deny'')"
    "sl_app_id r = ''cyberops''"
proof -
  let ?s = "signal_wire (public_signal now e fw)"
  have port: "\<bar>fw_destination_port fw\<bar> \<le> 2 ^ 53" using assms(2,3) by simp
  note r = signal_record_parts [OF assms(1)]
  show "sl_entities r = flow_entities fw"
    using r by (simp add: public_signal_def detector_signal_def Let_def signal_wire_def json_objs_def json_map_def marshal_def ip_entity_def wire_map_def flow_entities_def)
  show "sl_semantic_evidence r = flow_evidence fw"
    using r port by (simp add: public_signal_def detector_signal_def Let_def signal_wire_def json_objs_def json_map_def marshal_def wire_map_def flow_evidence_def f_of_int_small)
  show "sl_tenant_id r = ne_tenant_id e" "sl_signal_time r = ne_occurred_at e"
    "sl_signal_type r = (if allowed_action fw then ''cyberops.firewall.new_public_service_exposure'' else ''cyberops.firewall.external_deny'')"
    using r by (simp_all add: public_signal_def detector_signal_def Let_def signal_wire_def)
  have "app_normalize (sv_app_id ?s) (sv_domain ?s) (sv_use_case ?s) (sv_source_domain ?s) = app_normalize ''cyberops'' ''security'' ''cyberops'' ''security''"
    by (simp add: public_signal_def detector_signal_def Let_def signal_wire_def)
  moreover have "trim_space ''cyberops'' = ''cyberops''" by (rule trim_visible) (simp_all add: visible_def code_of_def)
  ultimately show "sl_app_id r = ''cyberops''" using r by (simp add: app_normalize_def)
qed

definition evidence_of_flow :: "firewall_event \<Rightarrow> cyber_evidence" where
  "evidence_of_flow fw = \<lparr>ev_source = fw_source_ip fw, ev_destination = fw_destination_ip fw, ev_protocol = fw_protocol fw, ev_port = fw_destination_port fw\<rparr>"

lemma flow_read:
  assumes "sl_entities r = flow_entities fw" "sl_semantic_evidence r = flow_evidence fw" "fw_protocol fw \<in> {''tcp'', ''udp''}"
    "1 \<le> fw_destination_port fw" "fw_destination_port fw \<le> 65535"
  shows "evidence_of env r = evidence_of_flow fw" "json_text env (sl_entities r) 0 ''value'' = Some (fw_source_ip fw)"
    "json_text env (sl_entities r) 1 ''value'' = Some (fw_destination_ip fw)" "json_text env (sl_semantic_evidence r) 0 ''protocol'' = Some (fw_protocol fw)"
    "json_text env (sl_semantic_evidence r) 0 ''destination_port'' = Some (itoa (fw_destination_port fw))"
proof -
  have port: "\<bar>fw_destination_port fw\<bar> \<le> 2 ^ 53" using assms(4,5) by simp
  have e: "maps_of (flow_entities fw) = [ip_entity (fw_source_ip fw) ''source'', ip_entity (fw_destination_ip fw) ''destination'']"
    by (simp add: maps_of_def flow_entities_def obj_of_def)
  show "evidence_of env r = evidence_of_flow fw"
    unfolding evidence_of_def Let_def assms(1,2) e
    by (simp add: protocol_lower [OF assms(3)] last_with_role_def ip_entity_def oget_def go_print_def evidence_of_flow_def
        maps_of_def flow_evidence_def obj_of_def evidence_port_def f_to_int_small [OF port])
  show "json_text env (sl_entities r) 0 ''value'' = Some (fw_source_ip fw)" "json_text env (sl_entities r) 1 ''value'' = Some (fw_destination_ip fw)"
    by (simp_all add: assms(1) json_text_def flow_entities_def obj_of_def ip_entity_def oget_def)
  show "json_text env (sl_semantic_evidence r) 0 ''protocol'' = Some (fw_protocol fw)"
    "json_text env (sl_semantic_evidence r) 0 ''destination_port'' = Some (itoa (fw_destination_port fw))"
    by (simp_all add: assms(2) json_text_def flow_evidence_def obj_of_def oget_def whole_text_int [OF port])
qed

section \<open>Denied ports\<close>

text \<open>A stored denial of the flow of \<open>fw\<close> to a port, in the five minutes up to \<open>t\<close>.\<close>

definition same_flow :: "firewall_event \<Rightarrow> firewall_event \<Rightarrow> bool" where
  "same_flow fw fw' \<longleftrightarrow> fw_source_ip fw' = fw_source_ip fw \<and> fw_destination_ip fw' = fw_destination_ip fw \<and> fw_protocol fw' = fw_protocol fw"

definition denial_of :: "string \<Rightarrow> firewall_event \<Rightarrow> time \<Rightarrow> int \<Rightarrow> signal_ledger \<Rightarrow> bool" where
  "denial_of tenant fw t port x \<longleftrightarrow>
     sl_tenant_id x = tenant \<and> sl_signal_type x = ''cyberops.firewall.external_deny'' \<and> t - port_window \<le> sl_signal_time x \<and> sl_signal_time x \<le> t
     \<and> (\<exists>fw'. same_flow fw fw' \<and> fw_destination_port fw' = port \<and> sl_entities x = flow_entities fw' \<and> sl_semantic_evidence x = flow_evidence fw')"

lemma detected_denial:
  assumes "signal_record (signal_wire (public_signal now e fw)) m = Inr r" "parse_filterlog line = Some fw" "\<not> allowed_action fw"
    "same_flow fw0 fw" "t - port_window \<le> ne_occurred_at e" "ne_occurred_at e \<le> t"
  shows "denial_of (ne_tenant_id e) fw0 t (fw_destination_port fw) (stored_signal at1 r)"
proof -
  note f = detected_flow [OF assms(1) parse_filterlog_Some(3,4) [OF assms(2)]]
  have "stored_signal at1 r = (stored_signal at1 r)\<lparr>sl_tenant_id := sl_tenant_id r, sl_signal_type := sl_signal_type r, sl_signal_time := sl_signal_time r,
      sl_entities := flow_entities fw, sl_semantic_evidence := flow_evidence fw\<rparr>"
    by (simp add: stored_signal_def f json_or_def flow_entities_def flow_evidence_def)
  then show ?thesis using assms(3-6) f by (auto simp: denial_of_def stored_signal_def json_or_def flow_entities_def flow_evidence_def)
qed

lemma itoa_apart: "inj_on itoa {k. 0 \<le> k}"
  by (rule inj_onI) (simp add: itoa_def int_digits_inj)

lemma denied_count_ge:
  assumes "fw_protocol fw \<in> {''tcp'', ''udp''}" "\<forall>port \<in> ports. 1 \<le> port \<and> port \<le> 65535 \<and> (\<exists>x \<in> set (pd_signals db). denial_of tenant fw t port x)"
  shows "card ports \<le> denied_port_count env tenant (evidence_of_flow fw) t db"
proof -
  define f where "f = (\<lambda>x. if denied_in_window env tenant (evidence_of_flow fw) t x then json_text env (sl_semantic_evidence x) 0 ''destination_port'' else None)"
  have "itoa port \<in> set (List.map_filter f (pd_signals db))" if port: "port \<in> ports" for port
  proof -
    obtain x fw' where x: "x \<in> set (pd_signals db)" "denial_of tenant fw t port x" and g: "same_flow fw fw'" "fw_destination_port fw' = port"
        "sl_entities x = flow_entities fw'" "sl_semantic_evidence x = flow_evidence fw'"
      using assms(2) port unfolding denial_of_def by blast
    have p: "fw_protocol fw' \<in> {''tcp'', ''udp''}" "1 \<le> fw_destination_port fw'" "fw_destination_port fw' \<le> 65535"
      using g assms port by (simp_all add: same_flow_def)
    note r = flow_read [OF g(3,4) p, of env]
    have "denied_in_window env tenant (evidence_of_flow fw) t x"
      using x(2) g(1) by (simp add: denied_in_window_def denial_of_def r r(3) [unfolded One_nat_def] evidence_of_flow_def same_flow_def)
    then have "f x = Some (itoa port)" using r(5) g(2) by (simp add: f_def)
    then show ?thesis using x(1) in_map_filter [of _ f] by blast
  qed
  then have "itoa ` ports \<subseteq> set (List.map_filter f (pd_signals db))" by blast
  then have "card (itoa ` ports) \<le> card (set (List.map_filter f (pd_signals db)))" by (rule card_mono [rotated]) simp
  moreover have "card (itoa ` ports) = card ports" using assms(2) by (intro card_image inj_on_subset [OF itoa_apart]) force
  ultimately show ?thesis by (simp add: denied_port_count_def length_remdups_card_conv f_def)
qed

lemma scan_verdict:
  assumes "lp_policy_id p = ''port-scan''" "sl_signal_type r = ''cyberops.firewall.external_deny''"
    "10 \<le> denied_port_count env (sl_tenant_id r) e (sl_signal_time r) db"
  obtains v where "policy_verdict env r p e db = Inr (Some v)" "vd_disposition v = ''create_or_update_alert''" "vd_fingerprint v = scan_fingerprint r e"
proof -
  let ?n = "denied_port_count env (sl_tenant_id r) e (sl_signal_time r) db"
  show thesis
    by (rule that [of "\<lparr>vd_disposition = ''create_or_update_alert'', vd_reason = itoa (int ?n) @ '' distinct denied destination ports from public source in five minutes'',
        vd_fingerprint = scan_fingerprint r e\<rparr>"]) (use assms in \<open>simp_all add: policy_verdict_def Let_def\<close>)
qed

section \<open>Properties\<close>


text \<open>
  C37. Work for an operator is warranted. A new insight comes from an enforced exposure policy of
  the tenant and a service nobody approved, a new alert from an enforced scan policy and at least
  ten denied ports; a policy in shadow mode, or of another tenant, makes neither.
\<close>

theorem policy_work_is_warranted:
  assumes "persist_policy_lifecycle env now r db = (x, db')"
  shows "\<exists>ms ns. insight_marks db' = insight_marks db @ ms \<and> alert_marks db' = alert_marks db @ ns
    \<and> (\<forall>m \<in> set ms. \<exists>p \<in> set (pd_policies db). lp_tenant_id p = sl_tenant_id r \<and> lp_mode p = ''enforced'' \<and> lp_policy_id p = ''public-service-exposure''
         \<and> approved env (sl_tenant_id r) (evidence_of env r) db = Inr False
         \<and> m = (lifecycle_id ''insight'' (lp_version p # service_fingerprint r (evidence_of env r)), ''active''))
    \<and> (\<forall>m \<in> set ns. \<exists>p \<in> set (pd_policies db). lp_tenant_id p = sl_tenant_id r \<and> lp_mode p = ''enforced'' \<and> lp_policy_id p = ''port-scan''
         \<and> 10 \<le> denied_port_count env (sl_tenant_id r) (evidence_of env r) (sl_signal_time r) db'
         \<and> m = (lifecycle_id ''alert'' (lp_version p # scan_fingerprint r (evidence_of env r)), ''open''))"
  using assms
proof (cases rule: persist_cases)
  case unchanged
  then show ?thesis by (intro exI [of _ "[]"]) simp
next
  case (applied db1)
  let ?e = "evidence_of env r" and ?ps = "enabled_policies env (sl_tenant_id r) db"
  note f = upsert_signal_frame [OF applied(4)]
  have 1: "insight_marks db1 = insight_marks db" "alert_marks db1 = alert_marks db" "approved env t ?e db1 = approved env t ?e db" for t
    using f by (simp_all add: same_ledgers_def insight_marks_def alert_marks_def approved_def split: option.splits)
  have 2: "denied_port_count env t ?e u db1 = denied_port_count env t ?e u db'" for t u
    using denied_base [OF apply_policies_base [OF applied(5)]] by simp
  obtain ms ns where m: "insight_marks db' = insight_marks db @ ms" "set ms \<subseteq> {m. \<exists>p \<in> set ?ps. exposes env r ?e db1 p m}"
      and n: "alert_marks db' = alert_marks db @ ns" "set ns \<subseteq> {m. \<exists>p \<in> set ?ps. scans env r ?e db1 p m}"
    using apply_policies_extends [OF applied(5)] unfolding extends_def 1 by blast
  have ps: "set ?ps = {p \<in> set (pd_policies db). lp_tenant_id p = sl_tenant_id r \<and> lp_mode p \<noteq> ''disabled''}"
    by (auto simp: enabled_policies_def policy_match_def)
  show ?thesis
    using m n unfolding ps exposes_def scans_def 1 2 by (intro exI [of _ ms] exI [of _ ns]) blast
qed

text \<open>
  C38. Ten denied ports raise an alert. A firewall line the detector turned into a denial is
  persisted under an enforced scan policy, and the ledger then holds denials of the same source,
  destination and protocol to at least ten ports in the last five minutes, this one included:
  the alert of that flow and five-minute bucket is in the ledger, and the decision is recorded.
\<close>

theorem port_scan_raises_alert:
  assumes r: "signal_record (signal_wire (public_signal t e fw)) m = Inr r" "parse_filterlog line = Some fw" "\<not> allowed_action fw"
    and policy: "p \<in> set (pd_policies db)" "lp_tenant_id p = ne_tenant_id e" "lp_mode p = ''enforced''" "lp_policy_id p = ''port-scan''"
    and persist: "persist_policy_lifecycle env now r db = (Inr True, db')"
    and ports: "10 \<le> card ports"
      "\<forall>port \<in> ports. 1 \<le> port \<and> port \<le> 65535 \<and> (\<exists>x \<in> set (pd_signals db'). denial_of (ne_tenant_id e) fw (ne_occurred_at e) port x)"
  shows "lifecycle_id ''alert'' [lp_version p, ne_tenant_id e, fw_source_ip fw, fw_destination_ip fw, fw_protocol fw,
        fmt_rfc3339 (ne_occurred_at e - ne_occurred_at e mod port_window)] \<in> alr_alert_id ` set (pd_alerts db')
    \<and> (\<exists>d \<in> set (pd_decisions db'). ld_tenant_id d = ne_tenant_id e \<and> ld_signal_id d = sl_signal_id r \<and> ld_policy_id d = ''port-scan'')"
  using persist
proof (cases rule: persist_cases)
  case (applied db1)
  note fw = parse_filterlog_Some [OF r(2)]
  note f = detected_flow [OF r(1) fw(3,4)]
  have e: "evidence_of env r = evidence_of_flow fw" by (rule flow_read [OF f(1,2) fw(2-4)])
  have p: "p \<in> set (enabled_policies env (sl_tenant_id r) db)" using policy f by (simp add: enabled_policies_def policy_match_def)
  have b: "same_base db1 db'" by (rule apply_policies_base [OF applied(5)])
  have "10 \<le> denied_port_count env (sl_tenant_id r) (evidence_of env r) (sl_signal_time r) db1"
    using denied_count_ge [OF fw(2) ports(2), of env] ports(1) f denied_base [OF b] by (simp add: e)
  then obtain v where v: "policy_verdict env r p (evidence_of env r) db1 = Inr (Some v)" "vd_disposition v = ''create_or_update_alert''"
      "vd_fingerprint v = scan_fingerprint r (evidence_of env r)"
    by (rule scan_verdict [rotated 2]) (use policy r(3) f in simp_all)
  have "settled r p v db'" by (rule apply_policies_settle [OF applied(5) p v(1)])
  then show ?thesis
    using policy v(2,3) f by (auto simp: settled_def scan_fingerprint_def e evidence_of_flow_def decision_key_def)
qed simp

text \<open>
  C39. A second delivery is not neutral. It leaves the decisions and the identifiers and statuses
  of insights and alerts as they were, yet every policy with a verdict counts one more
  observation of its episode, as many as the first delivery did: the observation count of an
  episode is no count of signals.
\<close>

theorem redelivery_counts_again:
  assumes "no_work db0" "policy_step\<^sup>*\<^sup>* db0 db"
    and "persist_policy_lifecycle env now r db = (Inr True, db1)" "persist_policy_lifecycle env later r db1 = (Inr True, db2)"
  shows "pd_decisions db2 = pd_decisions db1 \<and> insight_marks db2 = insight_marks db1 \<and> alert_marks db2 = alert_marks db1
    \<and> observations db2 - observations db1 = observations db1 - observations db
    \<and> observations db2 - observations db1
        = int (length (filter (\<lambda>p. policy_verdict env r p (evidence_of env r) db1 \<noteq> Inr None) (enabled_policies env (sl_tenant_id r) db)))"
  using redelivered [OF policies.reach_inv [OF assms(2) no_work_ok [OF assms(1)]] assms(3,4)] by (simp add: same_marks_def verdicts_def)

text \<open>
  C40. A signal no policy is written for vanishes from the work lists. Once a tenant has an
  enabled policy of any kind, a CyberOps signal of another type, such as those of the device
  baseline, is reported as handled with nothing stored but the signal: no decision, no episode,
  and none of the alerts and insights of the generic lifecycle.
\<close>

theorem unmatched_signal_only_stored:
  assumes "sl_app_id r = ''cyberops''" "pg_text (sl_tenant_id r)" "enabled_policies env (sl_tenant_id r) db \<noteq> []"
    and "sl_signal_type r \<notin> {''cyberops.firewall.external_deny'', ''cyberops.firewall.new_public_service_exposure''}"
    and "upsert_signal now r db = Inr db1" "clock db = now"
    and "decode_signal_event (bm_value m) = Inr s" "signal_record s m = Inr r"
  shows "signal_process (policy_store env clock generic) m db = (Inr r, db1)
    \<and> pd_alerts db1 = pd_alerts db \<and> pd_insights db1 = pd_insights db \<and> pd_episodes db1 = pd_episodes db \<and> pd_decisions db1 = pd_decisions db"
proof -
  have v: "policy_verdict env r p e d = Inr None" for p e d using assms(4) by (simp add: policy_verdict_def)
  then have "apply_policies env now r e ps d = Inr d" for e ps d by (induction ps) (simp_all add: apply_policy_def)
  then have "persist_policy_lifecycle env now r db = (Inr True, db1)" using assms(1-3,5) by (simp add: persist_policy_lifecycle_def Let_def)
  moreover have "pd_alerts db1 = pd_alerts db \<and> pd_insights db1 = pd_insights db \<and> pd_episodes db1 = pd_episodes db \<and> pd_decisions db1 = pd_decisions db"
    using upsert_signal_frame [OF assms(5)] by (simp add: same_ledgers_def)
  ultimately show ?thesis using assms(6-8) by (simp add: signal_process_def policy_store_def split: prod.split)
qed

section \<open>Samples\<close>

definition sample_env :: pg_env where
  "sample_env = \<lparr>pe_inet = Some, pe_lt = (\<lambda>a b. False), pe_text = (\<lambda>j. []), pe_print = (\<lambda>j. []), pe_scan = (\<lambda>s. None)\<rparr>"

definition blocked_line :: string where
  "blocked_line = ''block,tcp,x,8.8.8.8,10.0.0.1,40000,443''"

definition blocked :: firewall_event where
  "blocked = sample_firewall\<lparr>fw_action := ''block''\<rparr>"

definition sample_carrier :: consumed_message where
  "sample_carrier = delivered (sample_message\<lparr>bm_value := Doc (JObj [])\<rparr>)"

lemma blocked_fields [simp]: "fw_action blocked = ''block''" "fw_protocol blocked = ''tcp''" "fw_source_ip blocked = ''8.8.8.8''"
    "fw_destination_ip blocked = ''10.0.0.1''" "fw_destination_port blocked = 443" "\<not> allowed_action blocked"
  by (simp_all add: blocked_def sample_firewall_def allowed_action_def)

lemma blocked_parsed: "parse_filterlog blocked_line = Some blocked"
proof -
  have l: "split_on (CHR '','') blocked_line = [''block'', ''tcp'', ''x'', ''8.8.8.8'', ''10.0.0.1'', ''40000'', ''443'']" by code_simp
  have w: "to_lower ''block'' = ''block''" "to_lower ''tcp'' = ''tcp''" "atoi ''443'' = Some 443" by code_simp+
  show ?thesis
    unfolding parse_filterlog_def l
    by (simp add: Let_def is_action_def is_protocol_def fold_token_def trim_visible visible_def code_of_def sample_addresses w blocked_def sample_firewall_def)
qed

lemma bar_digest_text: "pg_text (bar_digest n ps)"
  using nul_notin_hex by (auto simp: pg_text_def bar_digest_def dest: in_set_takeD)

definition blocked_record :: signal_ledger where
  "blocked_record = (case signal_record (signal_wire (public_signal 1785200530000000000 sample_event blocked)) sample_carrier of Inr r \<Rightarrow> r)"

lemma blocked_recorded: "signal_record (signal_wire (public_signal 1785200530000000000 sample_event blocked)) sample_carrier = Inr blocked_record"
proof -
  have "detector_emits 1785200530000000000 sample_event blocked (public_signal 1785200530000000000 sample_event blocked)" by (simp add: detector_emits_def)
  then obtain r where "signal_record (signal_wire (public_signal 1785200530000000000 sample_event blocked)) sample_carrier = Inr r"
    using emitted_signal_accepted [of _ sample_event blocked _ sample_carrier] sample_years
    by (auto simp: sample_event_def signal_source_ok_def has_empty_def ingestion_modes_def trim_visible visible_def code_of_def)
  then show ?thesis by (simp add: blocked_record_def)
qed

lemma blocked_texts: "to_upper ''tcp'' = ''TCP''" "itoa 443 = ''443''"
  by code_simp+

lemma signal_record_eq:
  "signal_record e m = Inr r \<Longrightarrow> r = \<lparr>sl_signal_id = sv_signal_id e, sl_tenant_id = sv_tenant_id e, sl_source_id = sv_source_id e, sl_app_id = am_app_id (app_normalize (sv_app_id e) (sv_domain e) (sv_use_case e) (sv_source_domain e)),
           sl_domain = am_domain (app_normalize (sv_app_id e) (sv_domain e) (sv_use_case e) (sv_source_domain e)), sl_use_case = am_use_case (app_normalize (sv_app_id e) (sv_domain e) (sv_use_case e) (sv_source_domain e)), sl_source_domain = sv_source_domain e, sl_source_adapter = sv_source_adapter e,
           sl_ingestion_mode = sv_ingestion_mode e, sl_dataset = sv_dataset e, sl_event_ids = nil_list (sv_event_ids e),
           sl_artifact_ids = nil_list (sv_artifact_ids e), sl_signal_type = sv_signal_type e, sl_detector_id = sv_detector_id e,
           sl_detector_version = sv_detector_version e, sl_model_version = sv_model_version e, sl_signal_time = sv_timestamp e,
           sl_observation_time = sv_observation_time e, sl_effective_time = sv_effective_time e, sl_processing_time = sv_processing_time e,
           sl_window_start = sv_window_start e, sl_window_end = sv_window_end e, sl_confidence = sv_confidence e, sl_severity = sv_severity e,
           sl_entities = marshal (json_objs (sv_entities e)), sl_supporting_metrics = marshal (json_map (with_presentation (sv_supporting_metrics e) (sv_insight_title e) (sv_insight_summary e))), sl_graph_targets = marshal (json_objs (sv_graph_targets e)), sl_semantic_evidence = marshal (json_objs (sv_semantic_evidence e)), sl_evidence = marshal (json_objs (sv_evidence e)),
           sl_recommendation = sv_recommendation e, sl_correlation_id = sv_correlation_id e, sl_trace_id = sv_trace_id e,
           sl_causation_id = sv_causation_id e, sl_replay_job_id = sv_replay_job_id e, sl_broker_topic = bm_topic m,
           sl_broker_partition = cm_partition m, sl_broker_offset = cm_offset m, sl_event = bm_value m, sl_created_at = zero_time,
           sl_updated_at = zero_time\<rparr>"
  by (simp add: signal_record_def Let_def split: if_splits)

lemma blocked_app: "app_normalize ''cyberops'' ''security'' ''cyberops'' ''security'' = \<lparr>am_app_id = ''cyberops'', am_domain = ''security'', am_use_case = ''cyberops''\<rparr>"
  by (simp add: app_normalize_def trim_visible visible_def code_of_def)

lemmas blocked_unfold = public_signal_def detector_signal_def Let_def sample_event_def signal_wire_def nil_list_def sample_carrier_def delivered_def
  sample_message_def broker_message.defs blocked_app blocked_texts with_presentation_def trim_visible visible_def code_of_def json_objs_def json_map_def
  marshal_def wire_map_def ip_entity_def raw_json_def f_of_int_small oput_def

lemma blocked_row:
  "blocked_record = \<lparr>sl_signal_id = stable_id [''cyberops.firewall.external_deny.v1'', ''cyberops.firewall.external_deny'', ''tenant-local'', ''ing-1''],
     sl_tenant_id = ''tenant-local'', sl_source_id = ''firewall-1'', sl_app_id = ''cyberops'', sl_domain = ''security'', sl_use_case = ''cyberops'',
     sl_source_domain = ''security'', sl_source_adapter = ''connect:opnsense'', sl_ingestion_mode = ''push_event'', sl_dataset = ''cyberops.syslog.raw'',
     sl_event_ids = [''ing-1''], sl_artifact_ids = [], sl_signal_type = ''cyberops.firewall.external_deny'',
     sl_detector_id = ''cyberops.firewall.external_deny.v1'', sl_detector_version = ''1.0.0'', sl_model_version = ''deterministic-v1'',
     sl_signal_time = 1785200523000000000, sl_observation_time = 1785200524000000000, sl_effective_time = 1785200523000000000,
     sl_processing_time = 1785200530000000000, sl_window_start = 1785200523000000000, sl_window_end = 1785200523000000000, sl_confidence = rnd (9 / 10),
     sl_severity = ''info'', sl_entities = flow_entities blocked,
     sl_supporting_metrics = Doc (JObj [(''signalops_presentation'', JObj [(''title'', JStr ''New public service exposure: TCP/443''),
         (''summary'', JStr ''First observed allowed connection from public source 8.8.8.8 to 10.0.0.1:443 over TCP.'')]),
       (''action'', JStr ''retain_external_deny_evidence''), (''destination_ip'', JStr ''10.0.0.1''), (''protocol'', JStr ''tcp''),
       (''destination_port'', JNum (Fin 443))]),
     sl_graph_targets = Doc (JArr []), sl_semantic_evidence = flow_evidence blocked,
     sl_evidence = Doc (JArr [JObj [(''type'', JStr ''normalized_event''), (''ref'', JStr ''ing-1'')]]),
     sl_recommendation = Doc (JObj [(''action'', JStr ''retain_external_deny_evidence''), (''destination_ip'', JStr ''10.0.0.1''), (''protocol'', JStr ''tcp''),
       (''destination_port'', JNum (Fin 443))]),
     sl_correlation_id = ''ing-1'', sl_trace_id = [], sl_causation_id = ''ing-1'', sl_replay_job_id = [], sl_broker_topic = ''normalized'',
     sl_broker_partition = 0, sl_broker_offset = 0, sl_event = Doc (JObj []), sl_created_at = zero_time, sl_updated_at = zero_time\<rparr>"
  by (subst signal_record_eq [OF blocked_recorded]) (simp add: blocked_unfold flow_entities_def flow_evidence_def)

lemma blocked_confidence: "unit_interval (rnd (9 / 10))"
  using rnd_between [of 0 1 "9 / 10"] by (simp add: unit_interval_def between_def)

lemma blocked_storable: "signal_row_ok (stored_signal now blocked_record)"
  using bar_digest_text
  by (simp add: signal_row_ok_def stored_signal_def blocked_row record_text_def json_or_def trim_visible visible_def code_of_def flow_entities_def flow_evidence_def
      ip_entity_def pg_json_def severities_def blocked_confidence stable_id_def pg_text_def)

definition nearby :: "int \<Rightarrow> signal_ledger" where
  "nearby k = blocked_record\<lparr>sl_signal_id := ''s'' @ itoa k, sl_semantic_evidence := flow_evidence (blocked\<lparr>fw_destination_port := k\<rparr>), sl_broker_offset := k\<rparr>"

definition scan_policy :: lifecycle_policy where
  "scan_policy = \<lparr>lp_tenant_id = ''tenant-local'', lp_policy_id = ''port-scan'', lp_version = ''cyberops-lifecycle-v1'', lp_mode = ''enforced'',
     lp_selector = Doc (JObj []), lp_hash = ''09b8e9223c51d61f'', lp_updated_at = 0\<rparr>"

definition scan_tables :: policy_db where
  "scan_tables = \<lparr>pd_signals = map nearby [1..9], pd_alerts = [], pd_insights = [], pd_policies = [scan_policy], pd_services = [], pd_episodes = [],
     pd_decisions = [], pd_audit = []\<rparr>"

lemma scan_signal: "upsert_signal now blocked_record scan_tables = Inr (scan_tables\<lparr>pd_signals := map nearby [1..9] @ [stored_signal now blocked_record]\<rparr>)"
proof -
  have "sl_signal_id x \<noteq> sl_signal_id blocked_record \<and> broker_position x \<noteq> broker_position blocked_record" if "x \<in> set (pd_signals scan_tables)" for x
    using that by (auto simp: scan_tables_def nearby_def broker_position_def blocked_row stable_id_def)
  then show ?thesis using blocked_storable [of now] by (auto simp: upsert_signal_def Let_def scan_tables_def)
qed

abbreviation "scanned \<equiv> scan_tables\<lparr>pd_signals := map nearby [1..9] @ [stored_signal 0 blocked_record]\<rparr>"

lemma nearby_denial: "denial_of ''tenant-local'' blocked 1785200523000000000 k (nearby k)"
  by (auto simp: denial_of_def nearby_def blocked_row port_window_def same_flow_def flow_entities_def intro!: exI [of _ "blocked\<lparr>fw_destination_port := k\<rparr>"])

lemma blocked_denial: "denial_of ''tenant-local'' blocked 1785200523000000000 443 (stored_signal now blocked_record)"
  using detected_denial [OF blocked_recorded blocked_parsed _ _ _ order_refl, of blocked now]
  by (simp add: same_flow_def port_window_def sample_event_def)

lemma scan_ports: "\<forall>port \<in> insert 443 {1..9}. 1 \<le> port \<and> port \<le> 65535 \<and> (\<exists>x \<in> set (pd_signals scanned). denial_of ''tenant-local'' blocked 1785200523000000000 port x)"
  using nearby_denial blocked_denial by auto

lemma scan_evidence: "evidence_of env blocked_record = evidence_of_flow blocked"
  by (rule flow_read) (simp_all add: blocked_row)

lemma scan_count: "denied_port_count env ''tenant-local'' (evidence_of_flow blocked) 1785200523000000000 scanned = 10"
proof (rule antisym)
  have "card (insert 443 {1..9::int}) = 10" by simp
  then show "10 \<le> denied_port_count env ''tenant-local'' (evidence_of_flow blocked) 1785200523000000000 scanned"
    using denied_count_ge [OF _ scan_ports, of env] by simp
  have "length (List.map_filter f xs) \<le> length xs" for f :: "signal_ledger \<Rightarrow> string option" and xs
    by (induction xs) (auto simp: List.map_filter_simps split: option.split)
  then have f: "length (remdups (List.map_filter f xs)) \<le> length xs" for f :: "signal_ledger \<Rightarrow> string option" and xs
    using length_remdups_leq le_trans by blast
  have "length (pd_signals scanned) = 10" by simp
  then show "denied_port_count env ''tenant-local'' (evidence_of_flow blocked) 1785200523000000000 scanned \<le> 10"
    unfolding denied_port_count_def by (rule ord_le_eq_trans [OF f])
qed

definition scan_found :: verdict where
  "scan_found = \<lparr>vd_disposition = ''create_or_update_alert'', vd_reason = ''10 distinct denied destination ports from public source in five minutes'',
     vd_fingerprint = [''tenant-local'', ''8.8.8.8'', ''10.0.0.1'', ''tcp'', ''2026-07-28T01:00:00Z'']\<rparr>"

lemma scan_decided: "policy_verdict env blocked_record scan_policy (evidence_of_flow blocked) scanned = Inr (Some scan_found)"
proof -
  have "fmt_rfc3339 (1785200523000000000 - 1785200523000000000 mod port_window) = ''2026-07-28T01:00:00Z''" "itoa 10 = ''10''" by code_simp+
  then show ?thesis
    using scan_count [of env] by (simp add: policy_verdict_def Let_def scan_policy_def blocked_row scan_fingerprint_def evidence_of_flow_def scan_found_def)
qed

abbreviation "scan_alert \<equiv> cyber_alert blocked_record (lifecycle_id ''alert'' (lp_version scan_policy # vd_fingerprint scan_found)) scan_policy scan_found"

lemma scan_alert_ok: "alert_row_ok scanned (stored_alert scan_alert)"
  using bar_digest_text
  by (simp add: alert_row_ok_def stored_alert_def cyber_alert_def blocked_row record_text_def json_or_def nullable_json_def trim_visible visible_def code_of_def
      flow_entities_def ip_entity_def pg_json_def severities_def blocked_confidence lifecycle_id_def pg_text_def scan_found_def scan_policy_def
      policy_metadata_def marshal_def has_signal_def stable_id_def)

lemma scan_policies: "enabled_policies env ''tenant-local'' scan_tables = [scan_policy]"
  by (simp add: enabled_policies_def scan_tables_def policy_match_def scan_policy_def)

lemma scan_persisted:
  obtains db' where "persist_policy_lifecycle env 0 blocked_record scan_tables = (Inr True, db')" "pd_signals db' = pd_signals scanned"
proof -
  let ?db2 = "scanned\<lparr>pd_alerts := [stored_alert scan_alert]\<rparr>"
  let ?e = "episode_of blocked_record scan_policy scan_found [] (alr_alert_id scan_alert)"
  let ?d = "decision_of 0 blocked_record scan_policy scan_found [] (alr_alert_id scan_alert)"
  have e: "pd_alerts scan_tables = []" "pd_episodes scan_tables = []" "pd_decisions scan_tables = []" by (simp_all add: scan_tables_def)
  have "upsert_alert scan_alert scanned = Inr ?db2" using scan_alert_ok by (simp add: upsert_alert_def Let_def e)
  then have w: "work_items blocked_record scan_policy scan_found scanned = Inr ([], alr_alert_id scan_alert, ?db2)"
    by (simp add: work_items_def Let_def cyber_alert_def) (simp add: scan_policy_def scan_found_def)
  have "apply_policy env 0 blocked_record (evidence_of_flow blocked) scan_policy scanned
      = Inr (?db2\<lparr>pd_episodes := [?e], pd_decisions := [?d]\<rparr>)"
    unfolding apply_policy_def scan_decided bind_res_simps option.case w prod.case
    by (simp add: upsert_episode_def insert_decision_def e)
  then have "persist_policy_lifecycle env 0 blocked_record scan_tables = (Inr True, ?db2\<lparr>pd_episodes := [?e], pd_decisions := [?d]\<rparr>)"
    using scan_policies by (simp add: persist_policy_lifecycle_def Let_def blocked_row pg_text_def)
      (simp add: blocked_row [symmetric] scan_signal scan_evidence)
  then show thesis by (rule that) simp
qed

definition deny_policy :: lifecycle_policy where
  "deny_policy = scan_policy\<lparr>lp_policy_id := ''external-deny'', lp_mode := ''shadow''\<rparr>"

definition deny_tables :: policy_db where
  "deny_tables = scan_tables\<lparr>pd_signals := [], pd_policies := [deny_policy]\<rparr>"

lemma deny_no_work: "no_work deny_tables"
  by (simp add: no_work_def deny_tables_def scan_tables_def)

lemma deny_policies: "pd_policies db = [deny_policy] \<Longrightarrow> enabled_policies env ''tenant-local'' db = [deny_policy]"
  by (simp add: enabled_policies_def policy_match_def deny_policy_def scan_policy_def)

lemma deny_decided: obtains v where "\<And>env db. policy_verdict env blocked_record deny_policy (evidence_of_flow blocked) db = Inr (Some v)" "vd_disposition v = ''record_only''"
  by (rule that [of "\<lparr>vd_disposition = ''record_only'', vd_reason = ''external firewall deny is evidence-only under lifecycle v1'',
      vd_fingerprint = service_fingerprint blocked_record (evidence_of_flow blocked)\<rparr>"]) (simp_all add: policy_verdict_def deny_policy_def blocked_row)

lemma deny_work: "vd_disposition v = ''record_only'' \<Longrightarrow> work_items blocked_record deny_policy v db = Inr ([], [], db)"
  by (simp add: work_items_def)

lemma deny_persists:
  assumes "pd_policies db = [deny_policy]" "upsert_signal now blocked_record db = Inr db1" "pd_policies db1 = [deny_policy]"
    "apply_policy env now blocked_record (evidence_of_flow blocked) deny_policy db1 = Inr db2"
  shows "persist_policy_lifecycle env now blocked_record db = (Inr True, db2)"
proof -
  have b: "sl_app_id blocked_record = ''cyberops''" "sl_tenant_id blocked_record = ''tenant-local''" by (simp_all add: blocked_row)
  show ?thesis using assms(2,4) by (simp add: persist_policy_lifecycle_def Let_def b pg_text_def deny_policies [OF assms(1)] scan_evidence)
qed

lemma deny_delivered_twice:
  obtains db1 db2 where "persist_policy_lifecycle env 0 blocked_record deny_tables = (Inr True, db1)"
    "persist_policy_lifecycle env 1 blocked_record db1 = (Inr True, db2)" "pd_policies db1 = [deny_policy]"
proof (rule deny_decided)
  fix v
  assume v: "\<And>env db. policy_verdict env blocked_record deny_policy (evidence_of_flow blocked) db = Inr (Some v)" "vd_disposition v = ''record_only''"
  let ?e = "episode_of blocked_record deny_policy v [] []" and ?d = "decision_of 0 blocked_record deny_policy v [] []"
  let ?a = "deny_tables\<lparr>pd_signals := [stored_signal 0 blocked_record]\<rparr>"
  let ?b = "?a\<lparr>pd_episodes := [?e], pd_decisions := [?d]\<rparr>"
  let ?c = "?b\<lparr>pd_signals := [(stored_signal 1 blocked_record)\<lparr>sl_created_at := sl_created_at (stored_signal 0 blocked_record)\<rparr>]\<rparr>"
  have e: "pd_signals deny_tables = []" "pd_policies deny_tables = [deny_policy]" "pd_episodes deny_tables = []" "pd_decisions deny_tables = []"
    by (simp_all add: deny_tables_def scan_tables_def)
  have u1: "upsert_signal 0 blocked_record deny_tables = Inr ?a" using blocked_storable by (simp add: upsert_signal_def Let_def e)
  have a1: "apply_policy env 0 blocked_record (evidence_of_flow blocked) deny_policy ?a = Inr ?b"
    unfolding apply_policy_def v(1) bind_res_simps option.case deny_work [OF v(2)] prod.case by (simp add: upsert_episode_def insert_decision_def e)
  have u2: "upsert_signal 1 blocked_record ?b = Inr ?c" using blocked_storable by (simp add: upsert_signal_def Let_def e)
  have i: "pg_int (Some (le_observation_count ?e + 1))" "same_episode ?e ?e" "same_decision d ?d" if "d = decision_of 1 blocked_record deny_policy v [] []" for d
    by (simp_all add: episode_of_def pg_int_def same_episode_def same_decision_def that decision_of_def)
  have a2: "apply_policy env 1 blocked_record (evidence_of_flow blocked) deny_policy ?c = Inr (?c\<lparr>pd_episodes := [merge_episode env ?e ?e]\<rparr>)"
    unfolding apply_policy_def v(1) bind_res_simps option.case deny_work [OF v(2)] prod.case by (simp add: upsert_episode_def insert_decision_def e i)
  show thesis
    by (rule that [OF deny_persists [OF e(2) u1 _ a1] deny_persists [OF _ u2 _ a2]]) (simp_all add: e)
qed

definition peer_signal :: signal_event where
  "peer_signal = (public_signal 1785200530000000000 sample_event blocked)\<lparr>sv_signal_id := ''sig-1'', sv_signal_type := ''cyberops.iot.new_peer''\<rparr>"

definition peer_message :: consumed_message where
  "peer_message = delivered (sample_message\<lparr>bm_value := signal_doc peer_signal\<rparr>)"

lemma sample_stamps:
  "fmt_rfc3339nano 1785200523000000000 = ''2026-07-28T01:02:03Z''" "fmt_rfc3339nano 1785200524000000000 = ''2026-07-28T01:02:04Z''"
  "fmt_rfc3339nano 1785200530000000000 = ''2026-07-28T01:02:10Z''"
  by code_simp+

lemma peer_storable: "pg_json (signal_doc peer_signal)"
  using sample_years
  by (simp add: signal_doc_def signal_times_def peer_signal_def blocked_unfold raw_json_def signal_obj_def signal_fields_of_def struct_obj_def List.map_filter_simps
      omit_empty_def json_strs_def json_time_def sample_stamps pg_json_def confidence_9_10)

lemma peer_decodes: "decode_signal_event (bm_value peer_message) = Inr (signal_wire peer_signal)"
proof -
  have "signal_doc peer_signal \<noteq> NoBytes" using peer_storable by (auto simp: pg_json_def)
  then have "decode_signal (bm_value peer_message) = Some (signal_wire peer_signal)"
    by (simp add: peer_message_def delivered_def broker_message.defs decode_signal_doc)
  moreover have "check_signal (signal_wire peer_signal) = None"
    using sample_years confidence_9_10
    by (simp add: check_signal_def peer_signal_def required_signal_texts_def has_empty_def blocked_unfold severities_def signal_times_def
        source_domains_def ingestion_modes_def)
  ultimately show ?thesis by (simp add: decode_signal_event_def)
qed

lemma peer_recorded:
  obtains r where "signal_record (signal_wire peer_signal) peer_message = Inr r" "signal_row_ok (stored_signal now r)" "sl_app_id r = ''cyberops''"
    "sl_tenant_id r = ''tenant-local''" "sl_signal_type r = ''cyberops.iot.new_peer''"
proof -
  have "NoBytes \<notin> {marshal (json_objs (sv_entities (signal_wire peer_signal))),
      marshal (json_map (with_presentation (sv_supporting_metrics (signal_wire peer_signal)) (sv_insight_title (signal_wire peer_signal)) (sv_insight_summary (signal_wire peer_signal)))),
      marshal (json_objs (sv_graph_targets (signal_wire peer_signal))), marshal (json_objs (sv_semantic_evidence (signal_wire peer_signal))),
      marshal (json_objs (sv_evidence (signal_wire peer_signal)))}"
    by (simp add: peer_signal_def blocked_unfold)
  then obtain r where r: "signal_record (signal_wire peer_signal) peer_message = Inr r" by (simp add: signal_record_def Let_def)
  have v: "bm_value peer_message = signal_doc peer_signal" "bm_topic peer_message = ''normalized''" "cm_partition peer_message = 0" "cm_offset peer_message = 0"
    by (simp_all add: peer_message_def delivered_def broker_message.defs sample_message_def)
  have q: "r = blocked_record\<lparr>sl_signal_id := ''sig-1'', sl_signal_type := ''cyberops.iot.new_peer'', sl_event := signal_doc peer_signal\<rparr>"
    by (simp only: signal_record_eq [OF r] signal_record_eq [OF blocked_recorded] v) (simp add: peer_signal_def signal_wire_def sample_carrier_def delivered_def
      broker_message.defs sample_message_def)
  have d: "json_or (JObj []) (signal_doc peer_signal) = signal_doc peer_signal" using peer_storable by (auto simp: json_or_def pg_json_def)
  have "signal_row_ok (stored_signal now r)"
    using peer_storable
    by (simp add: q signal_row_ok_def stored_signal_def blocked_row record_text_def d)
      (simp add: json_or_def trim_visible visible_def code_of_def flow_entities_def flow_evidence_def ip_entity_def pg_json_def severities_def blocked_confidence pg_text_def)
  then show thesis
    by (rule that [OF r]) (simp_all add: q blocked_row)
qed

section \<open>Witnesses\<close>


theorem policy_work_is_warranted_witness:
  "\<exists>db' ns. persist_policy_lifecycle sample_env 0 blocked_record scan_tables = (Inr True, db') \<and> alert_marks db' = alert_marks scan_tables @ ns
    \<and> (\<forall>m \<in> set ns. \<exists>p \<in> set (pd_policies scan_tables). lp_policy_id p = ''port-scan'' \<and> lp_mode p = ''enforced'')"
proof (rule scan_persisted [of sample_env])
  fix db'
  assume d: "persist_policy_lifecycle sample_env 0 blocked_record scan_tables = (Inr True, db')"
  obtain ns where "alert_marks db' = alert_marks scan_tables @ ns"
      "\<forall>m \<in> set ns. \<exists>p \<in> set (pd_policies scan_tables). lp_policy_id p = ''port-scan'' \<and> lp_mode p = ''enforced''"
    using policy_work_is_warranted [OF d] by (elim exE conjE) (rule that, assumption, fast)
  then show ?thesis using d by (intro exI conjI)
qed

theorem port_scan_raises_alert_witness:
  "\<exists>db'. persist_policy_lifecycle sample_env 0 blocked_record scan_tables = (Inr True, db')
    \<and> lifecycle_id ''alert'' [''cyberops-lifecycle-v1'', ''tenant-local'', ''8.8.8.8'', ''10.0.0.1'', ''tcp'',
        fmt_rfc3339 (1785200523000000000 - 1785200523000000000 mod port_window)] \<in> alr_alert_id ` set (pd_alerts db')"
proof (rule scan_persisted [of sample_env])
  fix db'
  assume d: "persist_policy_lifecycle sample_env 0 blocked_record scan_tables = (Inr True, db')" "pd_signals db' = pd_signals scanned"
  have p: "scan_policy \<in> set (pd_policies scan_tables)" "lp_tenant_id scan_policy = ne_tenant_id sample_event" "lp_mode scan_policy = ''enforced''"
      "lp_policy_id scan_policy = ''port-scan''" by (simp_all add: scan_tables_def scan_policy_def sample_event_def)
  have e: "ne_tenant_id sample_event = ''tenant-local''" "ne_occurred_at sample_event = 1785200523000000000" "lp_version scan_policy = ''cyberops-lifecycle-v1''"
    by (simp_all add: sample_event_def scan_policy_def)
  have n: "10 \<le> card (insert 443 {1..9::int})" by simp
  have x: "\<forall>port \<in> insert 443 {1..9}. 1 \<le> port \<and> port \<le> 65535
      \<and> (\<exists>x \<in> set (pd_signals db'). denial_of (ne_tenant_id sample_event) blocked (ne_occurred_at sample_event) port x)"
    using scan_ports unfolding e d(2) .
  show ?thesis
    using port_scan_raises_alert [OF blocked_recorded blocked_parsed blocked_fields(6) p d(1) n x] d(1) unfolding e blocked_fields by blast
qed

theorem redelivery_counts_again_witness:
  "\<exists>db1 db2. persist_policy_lifecycle sample_env 0 blocked_record deny_tables = (Inr True, db1)
    \<and> persist_policy_lifecycle sample_env 1 blocked_record db1 = (Inr True, db2) \<and> pd_decisions db2 = pd_decisions db1
    \<and> observations db1 = 1 \<and> observations db2 = 2"
proof (rule deny_delivered_twice [of sample_env], rule deny_decided)
  fix db1 db2 v
  assume d: "persist_policy_lifecycle sample_env 0 blocked_record deny_tables = (Inr True, db1)" "persist_policy_lifecycle sample_env 1 blocked_record db1 = (Inr True, db2)"
    and v: "\<And>env db. policy_verdict env blocked_record deny_policy (evidence_of_flow blocked) db = Inr (Some v)"
  have "sl_tenant_id blocked_record = ''tenant-local''" "pd_policies deny_tables = [deny_policy]" "observations deny_tables = 0"
    by (simp_all add: blocked_row deny_tables_def observations_def scan_tables_def)
  then show ?thesis
    using redelivery_counts_again [OF deny_no_work rtranclp.rtrancl_refl d] d by (simp add: deny_policies scan_evidence v)
qed

theorem unmatched_signal_only_stored_witness:
  "\<exists>r db1. signal_process (policy_store sample_env (\<lambda>db. 0) (\<lambda>db r alerts insights. (True, db))) peer_message deny_tables = (Inr r, db1)
    \<and> pd_insights db1 = [] \<and> pd_decisions db1 = []"
proof (rule peer_recorded [of 0])
  fix r
  assume r: "signal_record (signal_wire peer_signal) peer_message = Inr r" "signal_row_ok (stored_signal 0 r)" "sl_app_id r = ''cyberops''"
    "sl_tenant_id r = ''tenant-local''" "sl_signal_type r = ''cyberops.iot.new_peer''"
  have u: "upsert_signal 0 r deny_tables = Inr (deny_tables\<lparr>pd_signals := [stored_signal 0 r]\<rparr>)"
    using r(2) by (simp add: upsert_signal_def Let_def deny_tables_def)
  have t: "pg_text (sl_tenant_id r)" "enabled_policies sample_env (sl_tenant_id r) deny_tables \<noteq> []"
      "sl_signal_type r \<notin> {''cyberops.firewall.external_deny'', ''cyberops.firewall.new_public_service_exposure''}"
    unfolding r(4,5) by (simp_all add: pg_text_def deny_policies deny_tables_def)
  have "pd_insights deny_tables = []" "pd_decisions deny_tables = []" by (simp_all add: deny_tables_def scan_tables_def)
  then have "signal_process (policy_store sample_env (\<lambda>db. 0) (\<lambda>db r alerts insights. (True, db))) peer_message deny_tables
        = (Inr r, deny_tables\<lparr>pd_signals := [stored_signal 0 r]\<rparr>)
      \<and> pd_insights (deny_tables\<lparr>pd_signals := [stored_signal 0 r]\<rparr>) = [] \<and> pd_decisions (deny_tables\<lparr>pd_signals := [stored_signal 0 r]\<rparr>) = []"
    using unmatched_signal_only_stored [where clock = "\<lambda>db. 0" and generic = "\<lambda>db r alerts insights. (True, db)", OF r(3) t u refl peer_decodes r(1)] by simp
  then show ?thesis by (intro exI)
qed

end
