(* ===== verification/Spec2Isabelle.thy ===== *)
theory Spec2Isabelle imports SafProps CalibrationProps HypothesisProps Eeom DetectorProps OpportunityProps PolicyProps begin

text \<open>
  SignalOps: a verification library of the decision logic of its Go services.

  \<^bold>\<open>The program.\<close> SignalOps consumes market and security events, evaluates algorithms and
  research hypotheses on them, follows what became of their signals, and serves the results.
  Pure packages under \<open>internal/marketops\<close> and \<open>internal/cyberops\<close> compute; repositories under
  \<open>internal/storage/postgres\<close> keep the state in PostgreSQL; the commands under \<open>cmd\<close> tie both
  to a Kafka broker. The library models the pure packages completely where it models them,
  the repository operations over explicit tables with their constraints, and the loops of
  the commands with the broker and the clock as parameters.

  \<^bold>\<open>Foundations.\<close>
  \<open>Prelude\<close>: results (\<open>go_error + 'a\<close> for Go's value and error pair), early-return scans,
  insertion sort, 64-bit wrap-around, decimal text, and the locale \<open>transition_system\<close>.
  \<open>GoText\<close>: \<open>strings.TrimSpace\<close>, case mapping, joining, splitting, \<open>strconv.Atoi\<close> on bytes.
  \<open>GoFloat\<close>, \<open>GoFloatBounds\<close>: \<open>float64\<close> as exact binary64 over the rationals (rounding to
  nearest even, signed infinities, NaN) and monotonicity of rounding.
  \<open>GoTime\<close>: \<open>time.Time\<close> as nanoseconds in UTC, calendar dates, RFC 3339 printing and parsing.
  \<open>GoJson\<close>: \<open>encoding/json\<close> at the level of decoded values. \<open>Sha256\<close>: the hash, executable,
  with hexadecimal encoding and the framings that make identifiers. \<open>StorageRecords\<close>: the
  structs of \<open>internal/storage\<close> that several components share. \<open>GoStruct\<close>: structs on the wire
  (nil slices and maps, omitted fields, printed times that parse back). \<open>NetAddr\<close>: \<open>net/netip\<close>.

  \<^bold>\<open>Signal Assurance\<close> (\<open>internal/marketops/signalassurance\<close>,
  \<open>internal/storage/postgres/signal_assurance*.go\<close>, the \<open>marketops-signal-assurance-*\<close> commands).
  \<open>SafRecords\<close> and \<open>SafRules\<close>: events, contracts, registration (\<open>eligibility.go\<close>).
  \<open>SafEvaluation\<close>: the lifecycle decision and the excursions (\<open>evaluation.go\<close>,
  \<open>projection.go\<close>). \<open>SafStore\<close>: the repository over tables of contracts, assertions,
  evaluations, events, the inbox and the ledger, and the contract resolver. \<open>SafWorker\<close>: the
  worker, the registrar and the outbox. \<open>SafMaterialize\<close>: the materialization adapter.
  \<open>SafLifecycle\<close>: the repository writes as a step relation and its invariant (an assertion is
  fresh or settled, and what settled it is recorded), by interpretation of
  \<open>transition_system\<close>. \<open>SafProps\<close>: C1 to C11.

  \<^bold>\<open>Outcomes and hypotheses.\<close> \<open>Identity\<close>: \<open>internal/marketops/state/identity.go\<close>, with the
  locale \<open>framed_digest\<close> (injective framings identify up to a collision of the digest),
  interpreted on both framings the code uses. \<open>Outcomes\<close> and \<open>OutcomeProps\<close> (C12 to C14):
  \<open>internal/marketops/outcomes/materializer.go\<close>. \<open>Eeom\<close> (C15): the pre-earnings score of
  \<open>internal/marketops/eeom/model.go\<close>. \<open>Calibration\<close> and \<open>CalibrationProps\<close> (C16 to C18):
  \<open>internal/marketops/hypothesisbacktest/calibration.go\<close>, with the locale \<open>sample_order\<close> for
  the unstable sort. \<open>Hypotheses\<close> and \<open>HypothesisProps\<close> (C19 to C20): the research registry
  and evaluator of \<open>internal/marketops/hypotheses\<close>. \<open>Opportunities\<close> and
  \<open>OpportunityProps\<close> (C31 to C35): \<open>internal/marketops/opportunities/builder.go\<close>, which reads what
  the evaluator wrote, with the locale \<open>build_order\<close> for its map ranges and sorts.

  \<^bold>\<open>CyberOps Connect.\<close> \<open>CyberConnect\<close>: the validator and the repository
  (\<open>internal/cyberops/connect\<close>, \<open>internal/storage/postgres/cyberops_connect.go\<close>).
  \<open>CyberIntake\<close>: the processor, the persister loop and the tables as a transition system.
  \<open>CyberProps\<close> (C21 to C23): what an accepted event is, the invariant of the tables,
  idempotence of redelivery, and messages that are skipped.

  \<^bold>\<open>CyberOps pipeline.\<close> What the intake accepts goes on through three more processes.
  \<open>Normalization\<close>: \<open>internal/normalization/processor.go\<close>, \<open>internal/appmeta\<close> and the loops of
  \<open>cmd/normalizer\<close> and \<open>cmd/cyberops-normalizer\<close>. \<open>CyberDetect\<close>:
  \<open>internal/cyberops/detection\<close> (the log parser, the detector and the states it learns of devices,
  peers and paths) and \<open>cmd/cyberops-detector\<close>. \<open>Signals\<close>: \<open>internal/signals/processor.go\<close> and
  \<open>cmd/signal-persister\<close>. \<open>CyberPipeline\<close> fits the stages together: what one encodes the next
  one decodes, accepted events normalize, emitted signals pass the checks. \<open>DetectorLog\<close> has one
  rule for each operation of the detector that threads any predicate on the published messages
  and the learned states, the locale \<open>commuting_updates\<close> (interpreted on the restoring of state
  records) and a bisimulation of states. \<open>PipelineProps\<close> (C24 to C26): from the firewall to the
  insight, and a second payload that takes the place of the validated one. \<open>DetectorProps\<close>
  (C27 to C30): the state topic rebuilds the detector, signals only after the learning period,
  a restart that forgets, and redelivery.

  \<^bold>\<open>CyberOps policies.\<close> \<open>CyberPolicy\<close>: \<open>internal/storage/postgres/cyberops_lifecycle.go\<close>, the
  operation the signal persister tries before the generic one, with the ledger upserts of
  \<open>repository.go\<close> and the constraints of the migrations. \<open>PolicyTables\<close>: what each upsert and
  policy changes, and the tables as a transition system (by interpretation) with an invariant and
  append-only parts. \<open>PolicyProps\<close> (C36 to C40): consistency, warranted work items, the alert
  that ten denials of the detector raise, a second delivery, and signals no policy is for.

  \<^bold>\<open>Parameters.\<close> The iteration order of a Go map is an argument \<open>ord\<close>, an unstable sort an
  argument \<open>srt\<close>, the order of rows the database may choose an argument \<open>heap\<close>, text
  collation \<open>tlt\<close> (in \<open>CyberPolicy\<close> a record \<open>pg_env\<close> with the reading of \<open>inet\<close>), full-text search \<open>fts\<close>, base64 \<open>b64\<close>; the broker, the group offsets and
  the clock are a world that the loops thread. What is assumed of them stands in the
  theorems: a permutation, a sorted permutation, the offset that a commit sets.

  \<^bold>\<open>Bounds.\<close> No model uses fuel. Loops whose counters can leave 64 bits (the walk-forward
  folds) wrap them with \<open>wrap64\<close> and return the panic as an error; every other loop is
  structural, or has a measure (working days, trimming). Floating-point results are exact
  doubles, without fused operations.

  \<^bold>\<open>Not modelled.\<close> Connection failures and cancellation; the text of JSON (white space,
  escapes, invalid UTF-8); the microsecond precision of \<open>timestamptz\<close>; logging and
  configuration; the HTTP interface, the adapters of data providers, the remaining SQL, the
  state and algorithm pipelines and the web frontend. The manifest lists each with its reason.
\<close>

end
